(* ===== verification/Prelude.thy ===== *)
theory Prelude
  imports Main "HOL-Library.Word"
begin

text \<open>
  Shared material of the development: bytes and C strings, results with an error value,
  loops with an early exit, and a byte image that is read and written at offsets with the
  bounds checked. Every other theory imports this one.

  The theorem collections: \<open>ebind_simps\<close> unfolds a sequence of fallible steps that is known
  to succeed; \<open>img_len\<close> holds the facts that writes to an image keep its length.
\<close>

unbundle bit_operations_syntax

named_theorems ebind_simps "what a successful sequence of fallible steps says of each step"
named_theorems img_len "operations that keep the length of an image"

type_synonym byte = "8 word"
type_synonym bstring = "byte list"

section \<open>Results with an error value\<close>

definition ebind :: "'e + 'a \<Rightarrow> ('a \<Rightarrow> 'e + 'b) \<Rightarrow> 'e + 'b" where
  "ebind m f = (case m of Inl e \<Rightarrow> Inl e | Inr x \<Rightarrow> f x)"

lemma ebind_Inl [simp]: "ebind (Inl e) f = Inl e"
  by (simp add: ebind_def)

lemma ebind_Inr [simp]: "ebind (Inr x) f = f x"
  by (simp add: ebind_def)

lemma ebind_eq_Inr [ebind_simps]: "ebind m f = Inr y \<longleftrightarrow> (\<exists>x. m = Inr x \<and> f x = Inr y)"
  by (cases m) auto

lemma ebind_eq_Inl: "ebind m f = Inl e \<longleftrightarrow> m = Inl e \<or> (\<exists>x. m = Inr x \<and> f x = Inl e)"
  by (cases m) auto

lemma ebind_cong [fundef_cong]:
  "m = m' \<Longrightarrow> (\<And>x. m' = Inr x \<Longrightarrow> f x = g x) \<Longrightarrow> ebind m f = ebind m' g"
  by (cases m') auto

lemma ebind_assoc: "ebind (ebind m f) g = ebind m (\<lambda>x. ebind (f x) g)"
  by (cases m) auto

lemma ebindE:
  assumes "ebind m f = Inr y"
  obtains x where "m = Inr x" and "f x = Inr y"
  using assms by (auto simp: ebind_eq_Inr)

text \<open>A check that ends the program with the error \<open>e\<close> when it fails.\<close>

definition check :: "bool \<Rightarrow> 'e \<Rightarrow> 'e + unit" where
  "check b e = (if b then Inr () else Inl e)"

lemma check_Inr [simp, ebind_simps]: "check b e = Inr u \<longleftrightarrow> b"
  by (simp add: check_def)

lemma check_True [simp]: "check True e = Inr ()" and check_False [simp]: "check False e = Inl e"
  by (simp_all add: check_def)

section \<open>Loops with an early exit\<close>

text \<open>The body of a \<open>for\<close> loop over the indices or elements \<open>xs\<close>, threading the state.\<close>

fun efold :: "('s \<Rightarrow> 'x \<Rightarrow> 'e + 's) \<Rightarrow> 's \<Rightarrow> 'x list \<Rightarrow> 'e + 's" where
  "efold f s [] = Inr s"
| "efold f s (x # xs) = ebind (f s x) (\<lambda>s'. efold f s' xs)"

lemma efold_append: "efold f s (xs @ ys) = ebind (efold f s xs) (\<lambda>s'. efold f s' ys)"
  by (induction xs arbitrary: s) (auto simp: ebind_assoc)

lemma efold_cong [fundef_cong]:
  "s = s' \<Longrightarrow> xs = ys \<Longrightarrow> (\<And>s x. x \<in> set ys \<Longrightarrow> f s x = g s x) \<Longrightarrow> efold f s xs = efold g s' ys"
proof (induction ys arbitrary: s s' xs)
  case Nil
  then show ?case by simp
next
  case (Cons y ys)
  have "efold f t ys = efold g t ys" for t
    by (rule Cons.IH) (simp_all add: Cons.prems(3))
  with Cons.prems show ?case by simp
qed

text \<open>The invariant rule: what the body keeps, the loop keeps.\<close>

lemma efold_inv:
  assumes "efold f s xs = Inr s'" and "P s"
    and "\<And>s x s'. x \<in> set xs \<Longrightarrow> P s \<Longrightarrow> f s x = Inr s' \<Longrightarrow> P s'"
  shows "P s'"
  using assms
proof (induction xs arbitrary: s)
  case Nil
  then show ?case by simp
next
  case (Cons x xs)
  from Cons.prems(1) obtain t where t: "f s x = Inr t" "efold f t xs = Inr s'"
    by (auto simp: ebind_simps)
  have "P t" using Cons.prems(2,3) t(1) by auto
  with t(2) show ?case
    by (rule Cons.IH) (use Cons.prems(3) in auto)
qed

text \<open>A quantity that no step changes is the same after the loop.\<close>

lemma efold_same:
  assumes "efold f s xs = Inr s'"
    and "\<And>s x s'. x \<in> set xs \<Longrightarrow> f s x = Inr s' \<Longrightarrow> g s' = g s"
  shows "g s' = g s"
  by (rule efold_inv [OF assms(1), where P = "\<lambda>t. g t = g s"]) (auto simp: assms(2))

text \<open>Progress: a loop whose body succeeds under an invariant ends with a result.\<close>

lemma efold_total:
  assumes "P s"
    and "\<And>s x. x \<in> set xs \<Longrightarrow> P s \<Longrightarrow> \<exists>s'. f s x = Inr s' \<and> P s'"
  shows "\<exists>s'. efold f s xs = Inr s' \<and> P s'"
  using assms
proof (induction xs arbitrary: s)
  case Nil
  then show ?case by simp
next
  case (Cons x xs)
  then obtain t where t: "f s x = Inr t" "P t"
    by (meson list.set_intros(1))
  have "\<exists>s'. efold f t xs = Inr s' \<and> P s'"
    using t(2) Cons.prems(2) by (intro Cons.IH) auto
  with t show ?case by simp
qed

fun emap :: "('x \<Rightarrow> 'e + 'y) \<Rightarrow> 'x list \<Rightarrow> 'e + 'y list" where
  "emap f [] = Inr []"
| "emap f (x # xs) = ebind (f x) (\<lambda>y. ebind (emap f xs) (\<lambda>ys. Inr (y # ys)))"

lemma emap_Inr_iff: "emap f xs = Inr ys \<longleftrightarrow> list_all2 (\<lambda>x y. f x = Inr y) xs ys"
  by (induction xs arbitrary: ys) (auto simp: ebind_simps list_all2_Cons1)

lemma emap_length: "emap f xs = Inr ys \<Longrightarrow> length ys = length xs"
  by (simp add: emap_Inr_iff list_all2_lengthD)

lemma emap_nth: "emap f xs = Inr ys \<Longrightarrow> i < length xs \<Longrightarrow> f (xs ! i) = Inr (ys ! i)"
  by (simp add: emap_Inr_iff list_all2_conv_all_nth)

lemma emap_cong [fundef_cong]:
  "xs = ys \<Longrightarrow> (\<And>x. x \<in> set ys \<Longrightarrow> f x = g x) \<Longrightarrow> emap f xs = emap g ys"
  by (induction ys arbitrary: xs) auto

lemma emap_total: "(\<And>x. x \<in> set xs \<Longrightarrow> f x = Inr (g x)) \<Longrightarrow> emap f xs = Inr (map g xs)"
  by (induction xs) auto

section \<open>Byte strings\<close>

text \<open>A string literal of the source as bytes.\<close>

definition str :: "string \<Rightarrow> bstring" where
  "str s = map of_char s"

lemma str_simps [simp]: "str [] = []" "str (c # s) = of_char c # str s"
  by (simp_all add: str_def)

lemma length_str [simp]: "length (str s) = length s"
  by (simp add: str_def)

lemma of_char_byte_inject [simp]: "(of_char c :: byte) = of_char d \<longleftrightarrow> c = d"
proof
  assume *: "(of_char c :: byte) = of_char d"
  have "unat (of_char x :: byte) = of_char x" for x
  proof -
    have "(of_char x :: byte) = of_nat (of_char x)" by (simp only: of_nat_of_char)
    then have "unat (of_char x :: byte) = of_char x mod 256"
      by (simp only: unat_of_nat) (simp add: take_bit_eq_mod)
    then show ?thesis by simp
  qed
  with * have "(of_char c :: nat) = of_char d" by metis
  then show "c = d" by simp
qed simp

lemma str_inject [simp]: "str s = str t \<longleftrightarrow> s = t"
proof (induction s arbitrary: t)
  case Nil
  then show ?case by (cases t) simp_all
next
  case (Cons c s)
  then show ?case by (cases t) simp_all
qed

text \<open>The C string at the start of a byte sequence: \<open>None\<close> when no NUL follows.\<close>

fun cstr :: "bstring \<Rightarrow> bstring option" where
  "cstr [] = None"
| "cstr (b # bs) = (if b = 0 then Some [] else map_option ((#) b) (cstr bs))"

lemma cstr_append: "0 \<notin> set s \<Longrightarrow> cstr (s @ 0 # rest) = Some s"
  by (induction s) auto

lemma cstr_Some_iff: "cstr bs = Some s \<longleftrightarrow> 0 \<notin> set s \<and> (\<exists>rest. bs = s @ 0 # rest)"
proof
  show "0 \<notin> set s \<and> (\<exists>rest. bs = s @ 0 # rest) \<Longrightarrow> cstr bs = Some s"
    using cstr_append by blast
  show "cstr bs = Some s \<Longrightarrow> 0 \<notin> set s \<and> (\<exists>rest. bs = s @ 0 # rest)"
    by (induction bs arbitrary: s) (auto split: if_splits)
qed

lemma cstr_prefix: "cstr bs = Some n \<Longrightarrow> cstr (bs @ rest) = Some n"
  by (auto simp: cstr_Some_iff)

lemma cstr_None_iff: "cstr bs = None \<longleftrightarrow> 0 \<notin> set bs"
  by (induction bs) auto

lemma cstr_takeWhile: "0 \<in> set bs \<Longrightarrow> cstr bs = Some (takeWhile (\<lambda>b. b \<noteq> 0) bs)"
  by (induction bs) auto

lemma cstr_no_nul: "cstr bs = Some s \<Longrightarrow> 0 \<notin> set s"
  by (simp add: cstr_Some_iff)

lemma cstr_length: "cstr bs = Some s \<Longrightarrow> length s < length bs"
  by (auto simp: cstr_Some_iff)

section \<open>The byte image\<close>

text \<open>
  \<open>chunk off n c\<close> is the \<open>n\<close> bytes at \<open>off\<close>; \<open>overwrite off bs c\<close> is \<open>c\<close> with the bytes
  at \<open>off\<close> replaced by \<open>bs\<close>. The checked accesses give the error \<open>e\<close> outside the image.
\<close>

definition chunk :: "nat \<Rightarrow> nat \<Rightarrow> 'b list \<Rightarrow> 'b list" where
  "chunk off n c = take n (drop off c)"

definition overwrite :: "nat \<Rightarrow> 'b list \<Rightarrow> 'b list \<Rightarrow> 'b list" where
  "overwrite off bs c = take off c @ bs @ drop (off + length bs) c"

lemma length_chunk [simp]: "off + n \<le> length c \<Longrightarrow> length (chunk off n c) = n"
  by (simp add: chunk_def)

lemma length_overwrite [simp]: "off + length bs \<le> length c \<Longrightarrow> length (overwrite off bs c) = length c"
  by (simp add: overwrite_def)

lemma chunk_overwrite_same [simp]:
  "off + length bs \<le> length c \<Longrightarrow> chunk off (length bs) (overwrite off bs c) = bs"
  by (simp add: chunk_def overwrite_def)

lemma chunk_overwrite_before:
  "off' + n \<le> off \<Longrightarrow> off + length bs \<le> length c \<Longrightarrow> chunk off' n (overwrite off bs c) = chunk off' n c"
  by (simp add: chunk_def overwrite_def take_drop min_def)

lemma chunk_overwrite_after:
  "off + length bs \<le> off' \<Longrightarrow> off + length bs \<le> length c \<Longrightarrow>
   chunk off' n (overwrite off bs c) = chunk off' n c"
  by (simp add: chunk_def overwrite_def)

lemma chunk_overwrite_disjoint:
  "off' + n \<le> off \<or> off + length bs \<le> off' \<Longrightarrow> off + length bs \<le> length c \<Longrightarrow>
   chunk off' n (overwrite off bs c) = chunk off' n c"
  using chunk_overwrite_before chunk_overwrite_after by blast

lemma nth_overwrite:
  "off + length bs \<le> length c \<Longrightarrow> i < length c \<Longrightarrow>
   overwrite off bs c ! i = (if off \<le> i \<and> i < off + length bs then bs ! (i - off) else c ! i)"
  by (auto simp: overwrite_def nth_append)

lemma nth_chunk: "off + n \<le> length c \<Longrightarrow> i < n \<Longrightarrow> chunk off n c ! i = c ! (off + i)"
  by (simp add: chunk_def)

lemma chunk_chunk: "a + m \<le> n \<Longrightarrow> chunk a m (chunk off n c) = chunk (off + a) m c"
  by (simp add: chunk_def drop_take min_def add.commute)

lemma chunk_split: "k \<le> n \<Longrightarrow> chunk off n c = chunk off k c @ chunk (off + k) (n - k) c"
  using take_add [of k "n - k" "drop off c"] by (simp add: chunk_def add.commute)

lemma chunk_nth_cong: "chunk i 1 b = chunk i 1 b' \<Longrightarrow> i < length b \<Longrightarrow> i < length b' \<Longrightarrow> b ! i = b' ! i"
  by (simp add: chunk_def take_Suc_conv_app_nth)

lemma overwrite_id: "off + n \<le> length c \<Longrightarrow> overwrite off (chunk off n c) c = c"
  by (simp add: overwrite_def chunk_def add.commute flip: drop_drop)

lemma chunk_0_eq_take [simp]: "chunk 0 n c = take n c"
  by (simp add: chunk_def)

definition mem_read :: "'e \<Rightarrow> 'b list \<Rightarrow> nat \<Rightarrow> nat \<Rightarrow> 'e + 'b list" where
  "mem_read e c off n = (if off + n \<le> length c then Inr (chunk off n c) else Inl e)"

definition mem_write :: "'e \<Rightarrow> 'b list \<Rightarrow> nat \<Rightarrow> 'b list \<Rightarrow> 'e + 'b list" where
  "mem_write e c off bs = (if off + length bs \<le> length c then Inr (overwrite off bs c) else Inl e)"

lemma mem_read_Inr [ebind_simps]:
  "mem_read e c off n = Inr bs \<longleftrightarrow> off + n \<le> length c \<and> bs = chunk off n c"
  by (auto simp: mem_read_def)

lemma mem_write_Inr [ebind_simps]:
  "mem_write e c off bs = Inr c' \<longleftrightarrow> off + length bs \<le> length c \<and> c' = overwrite off bs c"
  by (auto simp: mem_write_def)

lemma mem_write_length [img_len]: "mem_write e c off bs = Inr c' \<Longrightarrow> length c' = length c"
  by (auto simp: mem_write_Inr)

section \<open>The interface of a byte store\<close>

text \<open>
  What the clients of an image rely on: a read of what was written gives it back, a write
  leaves disjoint ranges alone, and no write changes the size. \<open>within\<close> bounds the writes of a
  program to a range; outside it every read is unchanged.
\<close>

locale byte_store =
  fixes rd :: "'m \<Rightarrow> nat \<Rightarrow> nat \<Rightarrow> 'e + 'b list"
    and wr :: "'m \<Rightarrow> nat \<Rightarrow> 'b list \<Rightarrow> 'e + 'm"
    and sz :: "'m \<Rightarrow> nat"
  assumes rd_total: "off + n \<le> sz m \<Longrightarrow> \<exists>bs. rd m off n = Inr bs \<and> length bs = n"
    and wr_total: "off + length bs \<le> sz m \<Longrightarrow> \<exists>m'. wr m off bs = Inr m'"
    and rd_wr_same: "wr m off bs = Inr m' \<Longrightarrow> rd m' off (length bs) = Inr bs"
    and rd_wr_disjoint: "wr m off bs = Inr m' \<Longrightarrow> off' + n \<le> off \<or> off + length bs \<le> off' \<Longrightarrow>
          rd m' off' n = rd m off' n"
    and wr_size: "wr m off bs = Inr m' \<Longrightarrow> sz m' = sz m"
begin

text \<open>A table written entry by entry at offsets \<open>pos\<close>: the frame and the contents.\<close>

lemma table_size:
  "efold (\<lambda>m x. wr m (pos x) (enc x)) m xs = Inr m' \<Longrightarrow> sz m' = sz m"
  by (rule efold_same [where g = sz]) (auto dest: wr_size)

lemma table_frame:
  assumes "efold (\<lambda>m x. wr m (pos x) (enc x)) m xs = Inr m'"
    and "\<And>x. x \<in> set xs \<Longrightarrow> off + n \<le> pos x \<or> pos x + length (enc x) \<le> off"
  shows "rd m' off n = rd m off n"
  by (rule efold_same [OF assms(1), where g = "\<lambda>m. rd m off n"])
     (use assms(2) rd_wr_disjoint in blast)

lemma table_entry:
  assumes "efold (\<lambda>m x. wr m (pos x) (enc x)) m xs = Inr m'" and "x \<in> set xs" and "distinct xs"
    and "\<And>y. y \<in> set xs \<Longrightarrow> y \<noteq> x \<Longrightarrow> pos x + length (enc x) \<le> pos y \<or> pos y + length (enc y) \<le> pos x"
  shows "rd m' (pos x) (length (enc x)) = Inr (enc x)"
proof -
  from assms(2) obtain ys zs where xs: "xs = ys @ x # zs"
    by (auto simp: in_set_conv_decomp)
  from assms(1) obtain m1 m2 where m: "wr m1 (pos x) (enc x) = Inr m2"
    "efold (\<lambda>m x. wr m (pos x) (enc x)) m2 zs = Inr m'"
    by (auto simp: xs efold_append ebind_simps)
  have "rd m' (pos x) (length (enc x)) = rd m2 (pos x) (length (enc x))"
    by (rule table_frame [OF m(2)]) (use assms(3,4) xs in auto)
  with rd_wr_same [OF m(1)] show ?thesis by simp
qed

lemma table_total:
  assumes "\<And>x. x \<in> set xs \<Longrightarrow> pos x + length (enc x) \<le> sz m"
  shows "\<exists>m'. efold (\<lambda>m x. wr m (pos x) (enc x)) m xs = Inr m' \<and> sz m' = sz m"
proof (rule efold_total [where P = "\<lambda>m'. sz m' = sz m"])
  fix s x
  assume "x \<in> set xs" and s: "sz s = sz m"
  then have "pos x + length (enc x) \<le> sz s" using assms by simp
  then obtain s' where s': "wr s (pos x) (enc x) = Inr s'" using wr_total by blast
  with wr_size [OF s'] s show "\<exists>s'. wr s (pos x) (enc x) = Inr s' \<and> sz s' = sz m" by auto
qed simp

end

lemma mem_read_write_disjoint:
  assumes "mem_write e c off bs = Inr c'" and "off' + n \<le> off \<or> off + length bs \<le> off'"
  shows "mem_read e c' off' n = mem_read e c off' n"
  using assms by (auto simp: mem_write_Inr mem_read_def chunk_overwrite_disjoint)

lemma mem_read_write_same:
  "mem_write e c off bs = Inr c' \<Longrightarrow> mem_read e c' off (length bs) = Inr bs"
  by (auto simp: mem_write_Inr mem_read_def)

interpretation img: byte_store "mem_read e" "mem_write e" length
proof (rule byte_store.intro)
  fix m m' :: "'b list" and bs :: "'b list" and off off' n :: nat
  show "off + n \<le> length m \<Longrightarrow> \<exists>bs. mem_read e m off n = Inr bs \<and> length bs = n"
    by (simp add: mem_read_def)
  show "off + length bs \<le> length m \<Longrightarrow> \<exists>m'. mem_write e m off bs = Inr m'"
    by (simp add: mem_write_def)
  show "mem_write e m off bs = Inr m' \<Longrightarrow> mem_read e m' off (length bs) = Inr bs"
    by (rule mem_read_write_same)
  show "mem_write e m off bs = Inr m' \<Longrightarrow> off' + n \<le> off \<or> off + length bs \<le> off' \<Longrightarrow>
    mem_read e m' off' n = mem_read e m off' n"
    by (rule mem_read_write_disjoint)
  show "mem_write e m off bs = Inr m' \<Longrightarrow> length m' = length m"
    by (rule mem_write_length)
qed

end
