(* ===== verification/Octal.thy ===== *)
theory Octal
  imports Prelude
begin

text \<open>
  Octal numbers as the C library prints and reads them: \<open>fmt_o p n\<close> is what the conversion
  \<open>%.<p>o\<close> prints, \<open>snprintf\<close> stores a formatted string in a field of a block (with its
  NUL, cut to the field), \<open>strtol8\<close> and \<open>strtoul8\<close> are \<open>strtol(s, 0, 8)\<close> and
  \<open>strtoul(s, 0, 8)\<close> on an LP64 host. The lemmas give the round trip between the two.
\<close>

section \<open>Printing\<close>

function oct_digits :: "nat \<Rightarrow> bstring" where
  "oct_digits n = (if n = 0 then [] else oct_digits (n div 8) @ [of_nat (48 + n mod 8)])"
  by pat_completeness auto
termination
  by (relation "measure id") auto

declare oct_digits.simps [simp del]

lemma oct_digits_0 [simp]: "oct_digits 0 = []"
  by (simp add: oct_digits.simps)

lemma oct_digits_pos: "0 < n \<Longrightarrow> oct_digits n = oct_digits (n div 8) @ [of_nat (48 + n mod 8)]"
  by (subst oct_digits.simps) simp

definition fmt_o :: "nat \<Rightarrow> nat \<Rightarrow> bstring" where
  "fmt_o p n = (let d = oct_digits n in replicate (p - length d) 48 @ d)"

text \<open>\<open>snprintf(b + off, n, ...)\<close> of the string \<open>s\<close>, and \<open>strcpy(b + off, s)\<close>.\<close>

definition snprintf :: "bstring \<Rightarrow> nat \<Rightarrow> nat \<Rightarrow> bstring \<Rightarrow> bstring" where
  "snprintf b off n s = overwrite off (take (n - 1) s @ [0]) b"

definition strcpy :: "bstring \<Rightarrow> nat \<Rightarrow> bstring \<Rightarrow> bstring" where
  "strcpy b off s = overwrite off (s @ [0]) b"

section \<open>Reading\<close>

definition is_octal :: "byte \<Rightarrow> bool" where
  "is_octal c \<longleftrightarrow> 48 \<le> c \<and> c \<le> 55"

definition is_space :: "byte \<Rightarrow> bool" where
  "is_space c \<longleftrightarrow> c = 32 \<or> 9 \<le> c \<and> c \<le> 13"

fun oct_val :: "nat \<Rightarrow> bstring \<Rightarrow> nat" where
  "oct_val acc [] = acc"
| "oct_val acc (c # cs) = (if is_octal c then oct_val (8 * acc + unat (c - 48)) cs else acc)"

text \<open>Sign and magnitude: leading white space, an optional sign, octal digits.\<close>

definition strto8 :: "bstring \<Rightarrow> bool \<times> nat" where
  "strto8 bs = (case dropWhile is_space bs of
      [] \<Rightarrow> (False, 0)
    | c # cs \<Rightarrow> if c = 45 then (True, oct_val 0 cs)
                else if c = 43 then (False, oct_val 0 cs)
                else (False, oct_val 0 (c # cs)))"

definition strtol8 :: "bstring \<Rightarrow> int" where
  "strtol8 bs = (case strto8 bs of (neg, n) \<Rightarrow>
     if neg then max (- (2 ^ 63)) (- int n) else min (2 ^ 63 - 1) (int n))"

definition strtoul8 :: "bstring \<Rightarrow> 64 word" where
  "strtoul8 bs = (case strto8 bs of (neg, n) \<Rightarrow>
     if 2 ^ 64 \<le> n then - 1 else if neg then - of_nat n else of_nat n)"

text \<open>The conversion of a \<open>long\<close> to \<open>int\<close>.\<close>

definition to_int32 :: "int \<Rightarrow> int" where
  "to_int32 x = signed_take_bit 31 x"

lemma to_int32_small: "0 \<le> x \<Longrightarrow> x < 2 ^ 31 \<Longrightarrow> to_int32 x = x"
  by (simp add: to_int32_def signed_take_bit_int_eq_self)

section \<open>The round trip\<close>

lemma unat_octal_digit: "unat (of_nat (48 + n mod 8) :: byte) = 48 + n mod 8"
proof -
  have "n mod 8 < 8" by simp
  then have "48 + n mod 8 < 2 ^ LENGTH(8)" by simp
  then show ?thesis by (simp only: unat_of_nat mod_less)
qed

lemma is_octal_digit [simp]: "is_octal (of_nat (48 + n mod 8))"
  using unat_octal_digit [of n] by (simp add: is_octal_def word_le_nat_alt)

lemma octal_digit_value [simp]: "unat (of_nat (48 + n mod 8) - 48 :: byte) = n mod 8"
proof -
  have "(48 :: byte) \<le> of_nat (48 + n mod 8)"
    using unat_octal_digit [of n] by (simp only: word_le_nat_alt) simp
  then have "unat (of_nat (48 + n mod 8) - 48 :: byte) = unat (of_nat (48 + n mod 8) :: byte) - 48"
    by (simp add: unat_sub del: of_nat_add)
  then show ?thesis by (simp only: unat_octal_digit)
qed

lemma oct_digits_octal: "c \<in> set (oct_digits n) \<Longrightarrow> is_octal c"
proof (induction n rule: oct_digits.induct)
  case (1 n)
  show ?case
  proof (cases "n = 0")
    case False
    with 1 show ?thesis by (auto simp: oct_digits_pos simp del: of_nat_add)
  qed (use 1 in simp)
qed

lemma length_oct_digits: "n < 8 ^ p \<Longrightarrow> length (oct_digits n) \<le> p"
proof (induction n arbitrary: p rule: oct_digits.induct)
  case (1 n)
  show ?case
  proof (cases "n = 0")
    case False
    then obtain q where q: "p = Suc q" using "1.prems" by (cases p) auto
    then have "n div 8 < 8 ^ q" using "1.prems" by auto
    with 1 False have "length (oct_digits (n div 8)) \<le> q" by simp
    with q False show ?thesis by (simp add: oct_digits_pos)
  qed simp
qed

lemma length_oct_digits_ge: "8 ^ p \<le> n \<Longrightarrow> p < length (oct_digits n)"
proof (induction n arbitrary: p rule: oct_digits.induct)
  case (1 n)
  then have n: "n \<noteq> 0" by (metis le_zero_eq power_not_zero zero_neq_numeral)
  show ?case
  proof (cases p)
    case 0
    with n show ?thesis by (simp add: oct_digits_pos)
  next
    case (Suc q)
    then have "8 ^ q \<le> n div 8" using "1.prems" by auto
    with 1 n Suc show ?thesis by (simp add: oct_digits_pos)
  qed
qed

lemma oct_val_append_octal:
  "\<forall>c \<in> set ds. is_octal c \<Longrightarrow> oct_val acc (ds @ rest) = oct_val (oct_val acc ds) rest"
  by (induction ds arbitrary: acc) auto

lemma oct_val_zeros [simp]: "oct_val 0 (replicate k 48 @ rest) = oct_val 0 rest"
  by (induction k) (auto simp: is_octal_def)

lemma oct_val_oct_digits: "oct_val 0 (oct_digits n) = n"
proof (induction n rule: oct_digits.induct)
  case (1 n)
  show ?case
  proof (cases "n = 0")
    case False
    with 1 have IH: "oct_val 0 (oct_digits (n div 8)) = n div 8" by simp
    have "oct_val 0 (oct_digits n) = oct_val (oct_val 0 (oct_digits (n div 8))) [of_nat (48 + n mod 8)]"
      using False oct_digits_octal by (simp add: oct_digits_pos oct_val_append_octal del: of_nat_add)
    also have "\<dots> = 8 * (n div 8) + n mod 8" by (simp only: IH oct_val.simps is_octal_digit octal_digit_value) simp
    finally show ?thesis by simp
  qed simp
qed

lemma oct_val_stop: "\<not> is_octal c \<Longrightarrow> oct_val acc (c # rest) = acc"
  by simp

lemma oct_val_fmt_o: "\<not> is_octal c \<Longrightarrow> oct_val 0 (fmt_o p n @ c # rest) = n"
  using oct_digits_octal
  by (simp add: fmt_o_def Let_def oct_val_append_octal oct_val_oct_digits)

lemma fmt_o_octal: "c \<in> set (fmt_o p n) \<Longrightarrow> is_octal c"
  using oct_digits_octal by (auto simp: fmt_o_def Let_def is_octal_def)

lemma length_fmt_o: "n < 8 ^ p \<Longrightarrow> length (fmt_o p n) = p"
  using length_oct_digits [of n p] by (simp add: fmt_o_def Let_def)

lemma length_fmt_o_ge: "p \<le> length (fmt_o p n)"
  by (simp add: fmt_o_def Let_def)

lemma length_fmt_o_long: "8 ^ p \<le> n \<Longrightarrow> p < length (fmt_o p n)"
  using length_oct_digits_ge [of p n] by (simp add: fmt_o_def Let_def)

lemma is_octal_not_special: "is_octal c \<Longrightarrow> \<not> is_space c \<and> c \<noteq> 45 \<and> c \<noteq> 43 \<and> c \<noteq> 0"
  by (auto simp: is_octal_def is_space_def word_le_nat_alt)

lemma strto8_octal: "is_octal c \<Longrightarrow> strto8 (c # cs) = (False, oct_val 0 (c # cs))"
  using is_octal_not_special [of c] by (simp add: strto8_def)

text \<open>A printed number is read back, whatever follows its terminator.\<close>

lemma strto8_fmt_o:
  assumes "0 < p" and "\<not> is_octal c"
  shows "strto8 (fmt_o p n @ c # rest) = (False, n)"
proof -
  have "fmt_o p n \<noteq> []" using length_fmt_o_ge [of p n] assms(1) by auto
  then obtain d ds where ds: "fmt_o p n = d # ds" by (meson neq_Nil_conv)
  then have "is_octal d" using fmt_o_octal [of d p n] by simp
  with ds oct_val_fmt_o [OF assms(2), of p n rest] show ?thesis
    by (simp add: strto8_octal del: oct_val.simps)
qed

lemma strto8_zeros: "strto8 (replicate (Suc k) 48 @ rest) = (False, oct_val 0 rest)"
proof -
  have "strto8 (replicate (Suc k) 48 @ rest) = (False, oct_val 0 (replicate (Suc k) 48 @ rest))"
    by (simp add: strto8_octal is_octal_def)
  then show ?thesis by (simp only: oct_val_zeros)
qed

lemma strtol8_fmt_o:
  "0 < p \<Longrightarrow> \<not> is_octal c \<Longrightarrow> n < 2 ^ 63 \<Longrightarrow> strtol8 (fmt_o p n @ c # rest) = int n"
  by (simp add: strtol8_def strto8_fmt_o)

lemma strtoul8_fmt_o:
  "0 < p \<Longrightarrow> \<not> is_octal c \<Longrightarrow> n < 2 ^ 64 \<Longrightarrow> strtoul8 (fmt_o p n @ c # rest) = of_nat n"
  by (simp add: strtoul8_def strto8_fmt_o)

lemma not_octal_0 [simp]: "\<not> is_octal 0"
  by (simp add: is_octal_def)

section \<open>The interface of a numeric field\<close>

text \<open>
  A format for numbers in a fixed field: what a client of such a field relies on is that
  a number within the field's range is read back from any block that starts with it.
\<close>

locale numeric_field =
  fixes fmt :: "nat \<Rightarrow> bstring" and parse :: "bstring \<Rightarrow> 'v" and val :: "nat \<Rightarrow> 'v"
    and width :: nat and bound :: nat
  assumes fmt_width: "n < bound \<Longrightarrow> length (fmt n) = width"
    and parse_fmt: "n < bound \<Longrightarrow> parse (fmt n @ 0 # rest) = val n"
begin

text \<open>Reading the field at an offset of a block.\<close>

lemma parse_at:
  assumes "n < bound" and "chunk off (Suc width) b = fmt n @ [0]"
  shows "parse (drop off b) = val n"
proof -
  have "drop off b = fmt n @ 0 # drop (Suc width) (drop off b)"
    using append_take_drop_id [of "Suc width" "drop off b"] assms(2) by (simp add: chunk_def)
  then show ?thesis using parse_fmt [OF assms(1)] by metis
qed

text \<open>A field that was printed into a block and not touched since.\<close>

lemma parse_printed:
  assumes "n < bound" and "o' + Suc width \<le> length b"
    and "chunk o' (Suc width) b' = chunk o' (Suc width) (snprintf b o' (Suc width) (fmt n))"
  shows "parse (drop o' b') = val n"
proof (rule parse_at [OF assms(1)])
  show "chunk o' (Suc width) b' = fmt n @ [0]"
    using chunk_overwrite_same [of o' "fmt n @ [0]" b] assms by (simp add: snprintf_def fmt_width)
qed

end

interpretation size_field: numeric_field "fmt_o 11" strtol8 int 11 "8 ^ 11"
  by unfold_locales (simp_all add: length_fmt_o strtol8_fmt_o)

interpretation mode_field: numeric_field "fmt_o 7" strtoul8 of_nat 7 "8 ^ 7"
  by unfold_locales (simp_all add: length_fmt_o strtoul8_fmt_o)

end
