(* ===== verification/SltarHeader.thy ===== *)
theory SltarHeader
  imports Octal
begin

text \<open>
  The archive header of \<open>bitcoin-core/sltar.c\<close>: the device number macros, the field offsets
  (\<open>enum Header\<close>), the type flags (\<open>enum Type\<close>), the checksum, and the header block that
  \<open>c_file\<close> fills in. A block is the 512 bytes of \<open>char b[END]\<close>.
\<close>

section \<open>Device numbers\<close>

definition gnu_dev_major :: "64 word \<Rightarrow> 32 word" where
  "gnu_dev_major dev =
     ucast ((drop_bit 1 (drop_bit 31 dev) AND 0xfffff000) OR (drop_bit 8 dev AND 0x00000fff))"

definition gnu_dev_minor :: "64 word \<Rightarrow> 32 word" where
  "gnu_dev_minor dev = ucast ((drop_bit 12 dev AND 0xffffff00) OR (dev AND 0x000000ff))"

definition gnu_dev_makedev :: "32 word \<Rightarrow> 32 word \<Rightarrow> 64 word" where
  "gnu_dev_makedev major minor =
     push_bit 32 (ucast major AND 0xfffff000) OR push_bit 8 (ucast major AND 0x00000fff)
     OR push_bit 12 (ucast minor AND 0xffffff00) OR (ucast minor AND 0x000000ff)"

section \<open>Field offsets and type flags\<close>

datatype Header = H_NAME | H_MODE | H_UID | H_GID | H_SIZE | H_MTIME | H_CHK | H_TYPE | H_LINK
  | H_MAGIC | H_VERS | H_UNAME | H_GNAME | H_MAJ | H_MIN | H_END

fun off :: "Header \<Rightarrow> nat" where
  "off H_NAME = 0" | "off H_MODE = 100" | "off H_UID = 108" | "off H_GID = 116"
| "off H_SIZE = 124" | "off H_MTIME = 136" | "off H_CHK = 148" | "off H_TYPE = 156"
| "off H_LINK = 157" | "off H_MAGIC = 257" | "off H_VERS = 263" | "off H_UNAME = 265"
| "off H_GNAME = 297" | "off H_MAJ = 329" | "off H_MIN = 337" | "off H_END = 512"

datatype Type = REG | HARDLINK | SYMLINK | CHARDEV | BLOCKDEV | DIRECTORY | FIFO

fun typeflag :: "Type \<Rightarrow> byte" where
  "typeflag REG = 48" | "typeflag HARDLINK = 49" | "typeflag SYMLINK = 50"
| "typeflag CHARDEV = 51" | "typeflag BLOCKDEV = 52" | "typeflag DIRECTORY = 53"
| "typeflag FIFO = 54"

section \<open>The checksum\<close>

text \<open>
  \<open>char\<close> is signed on the host, so a byte above 127 is added as a negative \<open>int\<close>; the
  checksum field itself counts as blanks.
\<close>

definition chk_term :: "bstring \<Rightarrow> nat \<Rightarrow> 32 word" where
  "chk_term b i = (if off H_CHK \<le> i \<and> i < off H_CHK + 8 then 32 else scast (b ! i))"

definition chk_sum :: "bstring \<Rightarrow> 32 word" where
  "chk_sum b = foldl (\<lambda>sum i. sum + chk_term b i) 0 [0 ..< off H_END]"

text \<open>The eight bytes that \<open>chksum(b, chk)\<close> stores at \<open>chk\<close>.\<close>

definition chksum :: "bstring \<Rightarrow> bstring" where
  "chksum b = take 7 (fmt_o 7 (unat (chk_sum b))) @ [0]"

section \<open>The attributes of a file and the header made of them\<close>

record stat =
  st_mode :: "32 word"
  st_uid :: "32 word"
  st_gid :: "32 word"
  st_mtime :: "64 word"
  st_size :: "64 word"
  st_dev :: "64 word"

definition S_IFMT :: "32 word \<Rightarrow> nat" where
  "S_IFMT mode = unat (mode AND 0xf000)"

definition S_ISREG :: "32 word \<Rightarrow> bool" where "S_ISREG mode \<longleftrightarrow> S_IFMT mode = 0x8000"
definition S_ISDIR :: "32 word \<Rightarrow> bool" where "S_ISDIR mode \<longleftrightarrow> S_IFMT mode = 0x4000"
definition S_ISLNK :: "32 word \<Rightarrow> bool" where "S_ISLNK mode \<longleftrightarrow> S_IFMT mode = 0xa000"
definition S_ISCHR :: "32 word \<Rightarrow> bool" where "S_ISCHR mode \<longleftrightarrow> S_IFMT mode = 0x2000"
definition S_ISBLK :: "32 word \<Rightarrow> bool" where "S_ISBLK mode \<longleftrightarrow> S_IFMT mode = 0x6000"
definition S_ISFIFO :: "32 word \<Rightarrow> bool" where "S_ISFIFO mode \<longleftrightarrow> S_IFMT mode = 0x1000"

text \<open>
  What \<open>c_file\<close> asks of the system: the user and group databases, the contents of a file it
  opens, the target of a link (\<open>None\<close> where the call fails), the attributes of a path, and
  the entries \<open>ftw\<close> reports for a directory with the value it returns.
\<close>

record system =
  getpwuid :: "32 word \<Rightarrow> bstring option"
  getgrgid :: "32 word \<Rightarrow> bstring option"
  open_read :: "bstring \<Rightarrow> bstring option"
  readlink :: "bstring \<Rightarrow> bstring option"
  lstat :: "bstring \<Rightarrow> stat option"
  ftw_entries :: "bstring \<Rightarrow> (bstring \<times> stat) list"
  ftw_result :: "bstring \<Rightarrow> int"

text \<open>The fields every header has, in the order the code stores them.\<close>

definition header_base :: "bstring \<Rightarrow> stat \<Rightarrow> bstring \<Rightarrow> bstring \<Rightarrow> bstring" where
  "header_base path st pw gr =
     (let b = replicate (off H_END) 0;
          b = overwrite (off H_SIZE) (replicate 12 48) b;
          b = strcpy b (off H_MAGIC) (str ''ustar'');
          b = strcpy b (off H_VERS) (str ''00'');
          b = snprintf b (off H_NAME) 100 path;
          b = snprintf b (off H_MODE) 8 (fmt_o 7 (unat (st_mode st AND 0x1ff)));
          b = snprintf b (off H_UID) 8 (fmt_o 7 (unat (st_uid st)));
          b = snprintf b (off H_GID) 8 (fmt_o 7 (unat (st_gid st)));
          b = snprintf b (off H_MTIME) 12 (fmt_o 11 (unat (ucast (st_mtime st) :: 32 word)));
          b = snprintf b (off H_UNAME) 32 pw
      in snprintf b (off H_GNAME) 32 gr)"

definition dev_fields :: "bstring \<Rightarrow> stat \<Rightarrow> bstring" where
  "dev_fields b st =
     snprintf (snprintf b (off H_MAJ) 8 (fmt_o 7 (unat (gnu_dev_major (st_dev st)))))
       (off H_MIN) 8 (fmt_o 7 (unat (gnu_dev_minor (st_dev st))))"

text \<open>The fields that depend on the kind of file; the flag at \<open>H_TYPE\<close> stays NUL for a socket.\<close>

definition header_typed :: "system \<Rightarrow> bstring \<Rightarrow> stat \<Rightarrow> bstring \<Rightarrow> bstring" where
  "header_typed sy path st b =
     (let mode = st_mode st; flag = (\<lambda>t. b[off H_TYPE := typeflag t]) in
      if S_ISREG mode then
        snprintf (flag REG) (off H_SIZE) 12 (fmt_o 11 (unat (ucast (st_size st) :: 32 word)))
      else if S_ISDIR mode then flag DIRECTORY
      else if S_ISLNK mode then
        (case readlink sy path of None \<Rightarrow> flag SYMLINK
         | Some target \<Rightarrow> overwrite (off H_LINK) (take 99 target) (flag SYMLINK))
      else if S_ISCHR mode then dev_fields (flag CHARDEV) st
      else if S_ISBLK mode then dev_fields (flag BLOCKDEV) st
      else if S_ISFIFO mode then flag FIFO
      else b)"

definition header_block :: "system \<Rightarrow> bstring \<Rightarrow> stat \<Rightarrow> bstring \<Rightarrow> bstring \<Rightarrow> bstring" where
  "header_block sy path st pw gr =
     (let b = header_typed sy path st (header_base path st pw gr)
      in overwrite (off H_CHK) (chksum b) b)"

end
