(* ===== verification/Sltar.thy ===== *)
theory Sltar
  imports SltarHeader
begin

text \<open>
  The operations of \<open>bitcoin-core/sltar.c\<close>: creating an archive (\<open>c_file\<close>, \<open>c_op\<close> for
  \<open>c\<close>), reading one (\<open>tar\<close>) to extract (\<open>x_op\<close> for \<open>x\<close>) or to list (\<open>t_op\<close> for \<open>t\<close>), and the
  dispatch of \<open>main\<close> (\<open>sltar_main\<close>). Standard input is
  the list of bytes still to be read; what the program asks of the system is the list of its
  calls in order, and a function \<open>sys\<close> says for each call, given the calls before it,
  whether it fails.
\<close>

section \<open>Creating an archive\<close>

datatype crash = NullDeref

text \<open>The copy loop: blocks of 512 bytes, the last one filled up with NULs.\<close>

function file_blocks :: "bstring \<Rightarrow> bstring" where
  "file_blocks d =
     (let b = take (off H_END) d; l = length b in
      if 0 < l then (if l < off H_END then b @ replicate (off H_END - l) 0 else b)
                    @ file_blocks (drop (off H_END) d)
      else [])"
  by pat_completeness auto
termination
  by (relation "measure length") auto

declare file_blocks.simps [simp del]

definition c_file :: "system \<Rightarrow> bstring \<Rightarrow> stat \<Rightarrow> crash + bstring" where
  "c_file sy path st =
     (case getpwuid sy (st_uid st) of None \<Rightarrow> Inl NullDeref | Some pw \<Rightarrow>
      case getgrgid sy (st_gid st) of None \<Rightarrow> Inl NullDeref | Some gr \<Rightarrow>
      let b = header_block sy path st pw gr;
          f = (if S_ISREG (st_mode st) then open_read sy path else None)
      in Inr (case f of None \<Rightarrow> b | Some d \<Rightarrow> b @ file_blocks d))"

text \<open>
  \<open>c_op\<close> gives its return value and the standard output so far. \<open>ftw\<close> calls \<open>c_file\<close> for every
  entry it reports; \<open>c_file\<close> returns 0, so the walk goes on to its end.
\<close>

definition c_op :: "system \<Rightarrow> bstring \<Rightarrow> bstring \<Rightarrow> crash + int \<times> bstring" where
  "c_op sy p out =
     (case lstat sy p of
        None \<Rightarrow> Inr (1, out)
      | Some st \<Rightarrow>
          if S_ISDIR (st_mode st) then
            ebind (efold (\<lambda>out (q, st). ebind (c_file sy q st) (\<lambda>bs. Inr (out @ bs))) out (ftw_entries sy p))
              (\<lambda>out. Inr (ftw_result sy p, out))
          else ebind (c_file sy p st) (\<lambda>bs. Inr (0, out @ bs)))"

section \<open>Reading an archive\<close>

datatype syscall =
    Unlink bstring | FopenW bstring | Chmod bstring "32 word" | HardLink bstring bstring
  | SymLink bstring bstring | Mkdir bstring "32 word" | Mknod bstring "32 word" "64 word"
  | Chown bstring "32 word" "32 word" | Perror bstring | ChksumFailed bstring
  | Fwrite bstring | Fclose | Puts bstring

type_synonym sys = "syscall list \<Rightarrow> syscall \<Rightarrow> bool"

definition call :: "sys \<Rightarrow> syscall list \<Rightarrow> syscall \<Rightarrow> bool \<times> syscall list" where
  "call sys evs k = (sys evs k, evs @ [k])"

text \<open>
  \<open>fread(b, 512, 1, stdin)\<close>: a whole block, or, at the end of the input, what is left of it
  over the start of the old block.
\<close>

definition fread_block :: "bstring \<Rightarrow> bstring \<Rightarrow> bool \<times> bstring \<times> bstring" where
  "fread_block b inp =
     (if off H_END \<le> length inp then (True, take (off H_END) inp, drop (off H_END) inp)
      else (False, inp @ drop (length inp) b, []))"

text \<open>The C string in a field of at most \<open>n\<close> bytes that the code copies out with a NUL after it.\<close>

definition field_str :: "bstring \<Rightarrow> nat \<Rightarrow> nat \<Rightarrow> bstring" where
  "field_str b o' n = takeWhile (\<lambda>c. c \<noteq> 0) (chunk o' n b)"

definition mode_of :: "bstring \<Rightarrow> 32 word" where
  "mode_of b = ucast (strtoul8 (drop (off H_MODE) b))"

text \<open>
  The \<open>switch\<close> of \<open>x_op\<close>: whether the creation failed, whether a file is now open, and the calls.
\<close>

definition x_create :: "sys \<Rightarrow> bstring \<Rightarrow> bstring \<Rightarrow> syscall list \<Rightarrow> bool \<times> bool \<times> syscall list" where
  "x_create sys fname b evs =
     (let lname = field_str b (off H_LINK) 100; ty = b ! off H_TYPE; mode = mode_of b in
      if ty = typeflag HARDLINK then
        (let (r, evs) = call sys evs (HardLink lname fname) in (r, False, evs))
      else if ty = typeflag SYMLINK then
        (let (r, evs) = call sys evs (SymLink lname fname) in (r, False, evs))
      else if ty = typeflag DIRECTORY then
        (let (r, evs) = call sys evs (Mkdir fname mode) in (r, False, evs))
      else if ty = typeflag CHARDEV \<or> ty = typeflag BLOCKDEV then
        (let fmt = (if ty = typeflag CHARDEV then 0x2000 else 0x6000);
             dev = gnu_dev_makedev (ucast (strtoul8 (drop (off H_MAJ) b))) (ucast (strtoul8 (drop (off H_MIN) b)));
             (r, evs) = call sys evs (Mknod fname (fmt OR mode) dev)
         in (r, False, evs))
      else if ty = typeflag FIFO then
        (let (r, evs) = call sys evs (Mknod fname (0x1000 OR mode) 0) in (r, False, evs))
      else
        (let (bad, evs) = call sys evs (FopenW fname) in
         if bad then (True, False, evs)
         else let (r, evs) = call sys evs (Chmod fname mode) in (r, True, evs)))"

text \<open>\<open>strncmp(b + CHK, chk, 8)\<close> is zero exactly when the two agree up to the first NUL.\<close>

definition chk_ok :: "bstring \<Rightarrow> bool" where
  "chk_ok b \<longleftrightarrow> field_str b (off H_CHK) 8 = takeWhile (\<lambda>c. c \<noteq> 0) (take 8 (chksum b))"

text \<open>The data loop of \<open>x_op\<close>; the length \<open>l\<close> is an \<open>int\<close>, a file that is not open drops its data.\<close>

function x_data :: "bool \<Rightarrow> int \<Rightarrow> bstring \<Rightarrow> syscall list \<Rightarrow> bstring \<Rightarrow> syscall list \<times> bstring" where
  "x_data f l b evs inp =
     (if 0 < l then
        (case fread_block b inp of (_, b, inp) \<Rightarrow>
           x_data f (l - 512) b (if f then evs @ [Fwrite (take (nat (min l 512)) b)] else evs) inp)
      else (evs, inp))"
  by pat_completeness auto
termination
  by (relation "measure (\<lambda>(f, l, b, evs, inp). nat l)") auto

declare x_data.simps [simp del]

text \<open>\<open>root\<close> is whether \<open>getuid()\<close> is 0: only then is the owner set, and only after a success.\<close>

definition x_op :: "sys \<Rightarrow> bool \<Rightarrow> bstring \<Rightarrow> int \<Rightarrow> bstring \<Rightarrow> syscall list \<Rightarrow> bstring \<Rightarrow> syscall list \<times> bstring" where
  "x_op sys root fname l b evs inp =
     (let evs = snd (call sys evs (Unlink fname));
          (r, f, evs) = x_create sys fname b evs;
          (bad, evs) = (if r then (True, evs)
             else if root then call sys evs (Chown fname (ucast (strtoul8 (drop (off H_UID) b)))
                                               (ucast (strtoul8 (drop (off H_GID) b))))
             else (False, evs));
          evs = (if bad then evs @ [Perror fname] else evs);
          evs = (if chk_ok b then evs else evs @ [ChksumFailed fname]);
          (evs, inp) = x_data f l b evs inp
      in (if f then evs @ [Fclose] else evs, inp))"

function t_skip :: "int \<Rightarrow> bstring \<Rightarrow> bstring \<Rightarrow> bstring" where
  "t_skip l b inp = (if 0 < l then (case fread_block b inp of (_, b, inp) \<Rightarrow> t_skip (l - 512) b inp) else inp)"
  by pat_completeness auto
termination
  by (relation "measure (\<lambda>(l, b, inp). nat l)") auto

declare t_skip.simps [simp del]

definition t_op :: "bstring \<Rightarrow> int \<Rightarrow> bstring \<Rightarrow> syscall list \<Rightarrow> bstring \<Rightarrow> syscall list \<times> bstring" where
  "t_op fname l b evs inp = (evs @ [Puts fname], t_skip l b inp)"

text \<open>The handler that \<open>main\<close> passes to \<open>tar\<close>.\<close>

datatype handler = Fn_x sys bool | Fn_t

fun run_handler :: "handler \<Rightarrow> bstring \<Rightarrow> int \<Rightarrow> bstring \<Rightarrow> syscall list \<Rightarrow> bstring \<Rightarrow> syscall list \<times> bstring" where
  "run_handler (Fn_x sys root) fname l b evs inp = x_op sys root fname l b evs inp"
| "run_handler Fn_t fname l b evs inp = t_op fname l b evs inp"

lemma fread_block_length: "fread_block b inp = (ok, b', inp') \<Longrightarrow> length inp' \<le> length inp"
  by (auto simp: fread_block_def split: if_splits)

lemma x_data_length: "x_data f l b evs inp = (evs', inp') \<Longrightarrow> length inp' \<le> length inp"
proof (induction f l b evs inp rule: x_data.induct)
  case (1 f l b evs inp)
  show ?case
  proof (cases "0 < l")
    case True
    obtain ok b1 inp1 where fr: "fread_block b inp = (ok, b1, inp1)" by (metis prod_cases3)
    from "1.prems" True fr have "length inp' \<le> length inp1"
      by (intro "1.IH" [OF True fr [symmetric] refl]) (simp add: x_data.simps [of f l])
    with fread_block_length [OF fr] show ?thesis by simp
  next
    case False
    with "1.prems" show ?thesis by (simp add: x_data.simps)
  qed
qed

lemma t_skip_length: "length (t_skip l b inp) \<le> length inp"
proof (induction l b inp rule: t_skip.induct)
  case (1 l b inp)
  obtain ok b1 inp1 where fr: "fread_block b inp = (ok, b1, inp1)" by (metis prod_cases3)
  show ?case
  proof (cases "0 < l")
    case True
    have "length (t_skip (l - 512) b1 inp1) \<le> length inp1"
      by (rule "1.IH" [OF True fr [symmetric] refl])
    with True fr fread_block_length [OF fr] show ?thesis by (simp add: t_skip.simps [of l b])
  qed (simp add: t_skip.simps)
qed

lemma run_handler_length:
  "run_handler fn fname l b evs inp = (evs', inp') \<Longrightarrow> length inp' \<le> length inp"
  by (cases fn) (auto simp: x_op_def t_op_def Let_def t_skip_length split: prod.splits if_splits dest: x_data_length)

function tar :: "handler \<Rightarrow> syscall list \<Rightarrow> bstring \<Rightarrow> syscall list" where
  "tar fn evs inp =
     (if length inp < off H_END then evs
      else let b = take (off H_END) inp; rest = drop (off H_END) inp in
        if b ! 0 = 0 then evs
        else case run_handler fn (field_str b (off H_NAME) 100) (to_int32 (strtol8 (drop (off H_SIZE) b))) b evs rest
             of (evs, inp) \<Rightarrow> tar fn evs inp)"
  by pat_completeness auto
termination
  by (relation "measure (\<lambda>(fn, evs, inp). length inp)")
     (auto dest!: run_handler_length split: prod.splits)

declare tar.simps [simp del]

section \<open>The command line\<close>

datatype outcome =
    Exit int bstring "syscall list"
  | Usage

fun c_args :: "system \<Rightarrow> bstring list \<Rightarrow> bstring \<Rightarrow> crash + int \<times> bstring" where
  "c_args sy [] out = Inr (0, out)"
| "c_args sy (p # ps) out =
     ebind (c_op sy p out) (\<lambda>(r, out). if r \<noteq> 0 then Inr (1, out) else c_args sy ps out)"

text \<open>
  \<open>argv\<close> includes the program name. The paths are taken from the last one to the first.
\<close>

definition sltar_main :: "system \<Rightarrow> sys \<Rightarrow> bool \<Rightarrow> bstring list \<Rightarrow> bstring \<Rightarrow> crash + outcome" where
  "sltar_main sy sys root argv inp =
     (if length argv < 2 \<or> length (argv ! 1) \<noteq> 1 then Inr Usage
      else let k = (argv ! 1) ! 0 in
        if k = 99 then
          (if length argv < 3 then Inr Usage
           else ebind (c_args sy (rev (drop 2 argv)) []) (\<lambda>(r, out). Inr (Exit r out [])))
        else if k = 120 \<and> length argv = 2 then Inr (Exit 0 [] (tar (Fn_x sys root) [] inp))
        else if (k = 120 \<or> k = 116) \<and> length argv = 2 then Inr (Exit 0 [] (tar Fn_t [] inp))
        else Inr Usage)"

end
