(* ===== verification/SltarFacts.thy ===== *)
theory SltarFacts
  imports Sltar
begin

text \<open>
  What holds of the blocks that \<open>c_file\<close> writes and of the loops that read them: the fields
  of a header are where the reader looks for them, the checksum does not depend on its own
  field, the data loops consume exactly the blocks of one file. \<open>replay\<close> gives the abstract
  meaning of a trace of system calls: the regular files that exist after it.
\<close>

section \<open>The bits of device numbers\<close>

lemma dev_masks:
  "(0xfffff000 :: 64 word) = push_bit 12 (mask 20)" "(0xfff :: 64 word) = mask 12"
  "(0xffffff00 :: 64 word) = push_bit 8 (mask 24)" "(0xff :: 64 word) = mask 8"
  by (simp_all add: mask_eq_exp_minus_1 push_bit_eq_mult)

lemma bit_major: "bit (gnu_dev_major dev) n \<longleftrightarrow> n < 32 \<and> (if n < 12 then bit dev (n + 8) else bit dev (n + 32))"
  unfolding gnu_dev_major_def dev_masks by (auto simp: bit_simps add.commute)

lemma bit_minor: "bit (gnu_dev_minor dev) n \<longleftrightarrow> n < 32 \<and> (if n < 8 then bit dev n else bit dev (n + 12))"
  unfolding gnu_dev_minor_def dev_masks by (auto simp: bit_simps add.commute)

lemma bit_makedev: "bit (gnu_dev_makedev M m) n \<longleftrightarrow> n < 64 \<and>
   (if n < 8 then bit m n else if n < 20 then bit M (n - 8) else if n < 44 then bit m (n - 12) else bit M (n - 32))"
  unfolding gnu_dev_makedev_def dev_masks by (auto simp: bit_simps)

section \<open>Fields of a block\<close>

lemma length_snprintf [simp]: "0 < n \<Longrightarrow> o' + n \<le> length b \<Longrightarrow> length (snprintf b o' n s) = length b"
  by (simp add: snprintf_def)

lemma chunk_snprintf_other:
  "0 < n \<Longrightarrow> o' + n \<le> length b \<Longrightarrow> a + m \<le> o' \<or> o' + n \<le> a \<Longrightarrow>
   chunk a m (snprintf b o' n s) = chunk a m b"
  unfolding snprintf_def by (rule chunk_overwrite_disjoint) auto

lemma chunk_snprintf_same:
  assumes "Suc (length s) = n" and "o' + n \<le> length b"
  shows "chunk o' n (snprintf b o' n s) = s @ [0]"
  using chunk_overwrite_same [of o' "s @ [0]" b] assms by (auto simp: snprintf_def)

lemma chunk_snprintf_take:
  assumes "k = Suc (length (take n s))" and "o' + Suc n \<le> length b"
  shows "chunk o' k (snprintf b o' (Suc n) s) = take n s @ [0]"
  using chunk_overwrite_same [of o' "take n s @ [0]" b] assms by (auto simp: snprintf_def)

lemma length_strcpy [simp]: "o' + Suc (length s) \<le> length b \<Longrightarrow> length (strcpy b o' s) = length b"
  by (simp add: strcpy_def)

lemma chunk_strcpy_other:
  "o' + Suc (length s) \<le> length b \<Longrightarrow> a + m \<le> o' \<or> o' + Suc (length s) \<le> a \<Longrightarrow>
   chunk a m (strcpy b o' s) = chunk a m b"
  unfolding strcpy_def by (rule chunk_overwrite_disjoint) auto

lemma chunk_update_other:
  "i < a \<or> a + m \<le> i \<Longrightarrow> chunk a m (b[i := v]) = chunk a m b"
  by (auto simp: chunk_def drop_update_swap)

lemmas field_simps_other = chunk_snprintf_other chunk_strcpy_other chunk_update_other
  chunk_overwrite_disjoint

lemma field_str_snprintf:
  assumes "0 \<notin> set s" and "o' + Suc n \<le> length b"
  shows "field_str (snprintf b o' (Suc n) s) o' (Suc n) = take n s"
proof -
  let ?b = "snprintf b o' (Suc n) s" and ?k = "Suc (length (take n s))"
  have k: "?k \<le> Suc n" by simp
  have "chunk o' (Suc n) ?b = chunk o' ?k ?b @ chunk (o' + ?k) (Suc n - ?k) ?b"
    by (rule chunk_split [OF k])
  also have "\<dots> = take n s @ 0 # chunk (o' + ?k) (Suc n - ?k) ?b"
    using chunk_snprintf_take [OF refl assms(2)] by simp
  finally have "field_str ?b o' (Suc n) = takeWhile (\<lambda>c. c \<noteq> 0) (take n s @ 0 # chunk (o' + ?k) (Suc n - ?k) ?b)"
    by (simp add: field_str_def)
  moreover have "c \<noteq> 0" if "c \<in> set (take n s)" for c
    using that assms(1) in_set_takeD by fastforce
  ultimately show ?thesis by (simp add: takeWhile_append2)
qed

section \<open>The checksum\<close>

lemma length_chksum [simp]: "length (chksum b) = 8"
  using length_fmt_o_ge [of 7 "unat (chk_sum b)"] by (simp add: chksum_def)

lemma chk_term_cong:
  "(\<not> (off H_CHK \<le> i \<and> i < off H_CHK + 8) \<Longrightarrow> b ! i = b' ! i) \<Longrightarrow> chk_term b i = chk_term b' i"
  by (simp add: chk_term_def del: off.simps)

lemma chk_sum_cong:
  assumes "\<And>i. i < off H_END \<Longrightarrow> \<not> (off H_CHK \<le> i \<and> i < off H_CHK + 8) \<Longrightarrow> b ! i = b' ! i"
  shows "chk_sum b = chk_sum b'"
  unfolding chk_sum_def
proof (rule foldl_cong)
  fix sum i
  assume "i \<in> set [0..<off H_END]"
  then have "chk_term b i = chk_term b' i" using assms by (intro chk_term_cong) simp
  then show "sum + chk_term b i = sum + chk_term b' i" by simp
qed simp_all

lemma chk_sum_overwrite:
  assumes "length b = off H_END" and "length cs = 8"
  shows "chk_sum (overwrite (off H_CHK) cs b) = chk_sum b"
  by (rule chk_sum_cong) (use assms in \<open>auto simp: nth_overwrite\<close>)

lemma chk_ok_overwrite:
  assumes "length b = off H_END"
  shows "chk_ok (overwrite (off H_CHK) (chksum b) b)"
proof -
  let ?h = "overwrite (off H_CHK) (chksum b) b"
  have "chksum ?h = chksum b" unfolding chksum_def by (simp only: chk_sum_overwrite [OF assms length_chksum, unfolded chksum_def])
  moreover have "chunk (off H_CHK) 8 ?h = chksum b"
    using chunk_overwrite_same [of "off H_CHK" "chksum b" b] assms by simp
  ultimately show ?thesis by (simp add: chk_ok_def field_str_def del: off.simps)
qed

section \<open>The header of a file\<close>

lemma length_header_base [simp]: "length (header_base path st pw gr) = off H_END"
  by (simp add: header_base_def Let_def)

lemma length_dev_fields: "length b = off H_END \<Longrightarrow> length (dev_fields b st) = off H_END"
  by (simp add: dev_fields_def)

lemma length_header_typed: "length b = off H_END \<Longrightarrow> length (header_typed sy path st b) = off H_END"
  by (auto simp: header_typed_def Let_def dev_fields_def split: option.splits)

lemma length_header_block [simp]: "length (header_block sy path st pw gr) = off H_END"
  using length_header_typed [OF length_header_base, of sy path st path st pw gr]
  by (simp add: header_block_def Let_def)

lemma header_block_chk_ok: "chk_ok (header_block sy path st pw gr)"
  unfolding header_block_def Let_def
  by (rule chk_ok_overwrite) (simp only: length_header_typed length_header_base)

lemma chunk_header_block:
  "a + m \<le> off H_CHK \<or> off H_CHK + 8 \<le> a \<Longrightarrow>
   chunk a m (header_block sy path st pw gr) =
   chunk a m (header_typed sy path st (header_base path st pw gr))"
  unfolding header_block_def Let_def
  by (rule chunk_overwrite_disjoint) (auto simp: length_header_typed simp del: off.simps, auto)

text \<open>The name, mode and identity fields are not touched by what depends on the kind of file.\<close>

lemma chunk_header_typed:
  assumes "length b = off H_END" and "a + m \<le> off H_SIZE \<or> off H_MAGIC \<le> a \<and> a + m \<le> off H_MAJ"
  shows "chunk a m (header_typed sy path st b) = chunk a m b"
  using assms
  by (auto simp: header_typed_def Let_def dev_fields_def field_simps_other split: option.splits)

lemma header_name:
  assumes "0 \<notin> set path"
  shows "field_str (header_block sy path st pw gr) (off H_NAME) 100 = take 99 path"
proof -
  have "chunk 0 100 (header_block sy path st pw gr) = chunk 0 100 (header_base path st pw gr)"
    by (subst chunk_header_block, simp, subst chunk_header_typed) simp_all
  also have "\<dots> = chunk 0 100 (snprintf (strcpy (strcpy (overwrite (off H_SIZE) (replicate 12 48)
       (replicate (off H_END) 0)) (off H_MAGIC) (str ''ustar'')) (off H_VERS) (str ''00'')) 0 100 path)"
    by (simp add: header_base_def Let_def field_simps_other del: chunk_0_eq_take)
  finally show ?thesis
    using field_str_snprintf [OF assms, of 0 99] by (simp add: field_str_def del: chunk_0_eq_take)
qed

lemma mode_bits_bound: "unat (m AND 0x1ff :: 32 word) < 512"
proof -
  have "unat (m AND 0x1ff) \<le> unat (0x1ff :: 32 word)"
    by (rule word_and_le1 [THEN word_le_nat_alt [THEN iffD1]])
  then show ?thesis by simp
qed

lemma header_mode: "mode_of (header_block sy path st pw gr) = st_mode st AND 0x1ff"
proof -
  let ?n = "unat (st_mode st AND 0x1ff)"
  have "strtoul8 (drop (off H_MODE) (header_block sy path st pw gr)) = of_nat ?n"
  proof (rule mode_field.parse_printed)
    show "?n < 8 ^ 7" using mode_bits_bound [of "st_mode st"] by simp
    show "chunk (off H_MODE) (Suc 7) (header_block sy path st pw gr) =
      chunk (off H_MODE) (Suc 7) (snprintf (replicate 512 0) (off H_MODE) (Suc 7) (fmt_o 7 ?n))"
      (is "_ = ?rhs")
    proof -
      have "chunk 100 8 (header_block sy path st pw gr) = chunk 100 8 (header_base path st pw gr)"
        by (subst chunk_header_block, simp, subst chunk_header_typed) simp_all
      also have "\<dots> = ?rhs"
        using length_fmt_o [of ?n 7] mode_bits_bound [of "st_mode st"]
        by (simp add: header_base_def Let_def field_simps_other chunk_snprintf_same)
      finally show ?thesis by simp
    qed
  qed simp
  moreover have "(ucast (of_nat ?n :: 64 word) :: 32 word) = st_mode st AND 0x1ff"
    by (rule bit_word_eqI) (auto simp: bit_simps)
  ultimately show ?thesis by (simp add: mode_of_def)
qed

lemma header_size_regular:
  assumes "S_ISREG (st_mode st)"
  shows "strtol8 (drop (off H_SIZE) (header_block sy path st pw gr)) = uint (ucast (st_size st) :: 32 word)"
proof -
  let ?n = "unat (ucast (st_size st) :: 32 word)"
  have "strtol8 (drop (off H_SIZE) (header_block sy path st pw gr)) = int ?n"
  proof (rule size_field.parse_printed)
    have "?n < 2 ^ LENGTH(32)" by (rule unsigned_less)
    then show "?n < 8 ^ 11" by simp
    show "chunk (off H_SIZE) (Suc 11) (header_block sy path st pw gr) = chunk (off H_SIZE) (Suc 11)
      (snprintf ((header_base path st pw gr)[off H_TYPE := typeflag REG]) (off H_SIZE) (Suc 11) (fmt_o 11 ?n))"
      by (subst chunk_header_block) (simp_all add: header_typed_def Let_def assms)
  qed simp
  then show ?thesis by simp
qed

lemma header_type_regular:
  assumes "S_ISREG (st_mode st)"
  shows "header_block sy path st pw gr ! off H_TYPE = typeflag REG"
proof -
  let ?b = "(header_base path st pw gr)[off H_TYPE := typeflag REG]"
  have "chunk (off H_TYPE) 1 (header_block sy path st pw gr) = chunk (off H_TYPE) 1 ?b"
    by (subst chunk_header_block) (simp_all add: header_typed_def Let_def assms field_simps_other)
  then have "header_block sy path st pw gr ! off H_TYPE = ?b ! off H_TYPE"
    by (rule chunk_nth_cong) simp_all
  then show ?thesis by simp
qed

lemma header_first_byte:
  assumes "path \<noteq> []" and "0 \<notin> set path"
  shows "header_block sy path st pw gr ! 0 \<noteq> 0"
proof
  assume "header_block sy path st pw gr ! 0 = 0"
  moreover obtain v vs where "header_block sy path st pw gr = v # vs"
    by (metis length_header_block off.simps(16) list.size(3) neq_Nil_conv zero_neq_numeral)
  ultimately have "field_str (header_block sy path st pw gr) (off H_NAME) 100 = []"
    by (simp add: field_str_def)
  with header_name [OF assms(2), of sy st pw gr] assms(1) show False by simp
qed

text \<open>
  For anything but a regular file the size field holds twelve digits and no NUL, so a reader
  goes on into the digits of the modification time that follow it.
\<close>

lemma chunk_header_other:
  assumes "\<not> S_ISREG (st_mode st)" and "off H_SIZE \<le> a" "a + m \<le> off H_CHK"
  shows "chunk a m (header_block sy path st pw gr) = chunk a m (header_base path st pw gr)"
  using assms
  by (subst chunk_header_block) (auto simp: header_typed_def Let_def dev_fields_def field_simps_other split: option.splits)

lemma header_size_field_other:
  assumes "\<not> S_ISREG (st_mode st)"
  shows "chunk (off H_SIZE) 12 (header_block sy path st pw gr) = replicate 12 48"
proof -
  have "chunk (off H_SIZE) 12 (header_block sy path st pw gr) =
      chunk 124 12 (overwrite (off H_SIZE) (replicate 12 48) (replicate (off H_END) (0::byte)))"
    by (subst chunk_header_other [OF assms]) (simp_all add: header_base_def Let_def field_simps_other)
  also have "\<dots> = replicate 12 48"
    using chunk_overwrite_same [of 124 "replicate 12 (48::byte)" "replicate 512 0"] by simp
  finally show ?thesis .
qed

lemma header_size_other:
  assumes "\<not> S_ISREG (st_mode st)"
  shows "strtol8 (drop (off H_SIZE) (header_block sy path st pw gr)) = uint (ucast (st_mtime st) :: 32 word)"
proof -
  let ?h = "header_block sy path st pw gr" and ?n = "unat (ucast (st_mtime st) :: 32 word)"
  have nlt: "?n < 2 ^ LENGTH(32)" by (rule unsigned_less)
  then have len: "length (fmt_o 11 ?n) = 11" by (intro length_fmt_o) simp
  have size: "chunk 124 12 ?h = replicate 12 48" using header_size_field_other [OF assms] by simp
  have mtime: "chunk 136 12 ?h = fmt_o 11 ?n @ [0]"
    by (subst chunk_header_other [OF assms]) (simp_all add: header_base_def Let_def field_simps_other chunk_snprintf_same len)
  have "drop (off H_SIZE) ?h = chunk 124 12 ?h @ chunk 136 12 ?h @ drop 148 ?h"
    using append_take_drop_id [of 12 "drop 124 ?h"] append_take_drop_id [of 12 "drop 136 ?h"]
    by (simp add: chunk_def)
  also have "\<dots> = replicate (Suc 11) 48 @ fmt_o 11 ?n @ 0 # drop 148 ?h"
    by (simp only: size mtime) simp
  finally have "strto8 (drop (off H_SIZE) ?h) = (False, ?n)"
    by (simp only: strto8_zeros oct_val_fmt_o [OF not_octal_0])
  moreover have "uint (ucast (st_mtime st) :: 32 word) < 2 ^ LENGTH(32)" by (rule unsigned_less)
  ultimately show ?thesis by (simp add: strtol8_def)
qed

end
