(* ===== verification/SltarRun.thy ===== *)
theory SltarRun
  imports SltarFacts
begin

text \<open>
  Whole runs of \<open>sltar\<close>: the data loops consume exactly the blocks of one file, an archive of
  regular files is read entry by entry, and the trace of an extraction, given its abstract
  meaning by \<open>replay\<close>, leaves the archived files behind.
\<close>

section \<open>The blocks of one file\<close>

lemma file_blocks_Nil [simp]: "file_blocks [] = []"
  by (simp add: file_blocks.simps)

lemma file_blocks_step:
  "d \<noteq> [] \<Longrightarrow> file_blocks d = (take 512 d @ replicate (512 - length d) 0) @ file_blocks (drop 512 d)"
  by (subst file_blocks.simps) (auto simp: Let_def)

lemma length_file_blocks: "length (file_blocks d) = 512 * ((length d + 511) div 512)"
proof (induction d rule: file_blocks.induct)
  case (1 d)
  show ?case
  proof (cases "d = []")
    case False
    then have "length (file_blocks (drop 512 d)) = 512 * ((length (drop 512 d) + 511) div 512)"
      using "1.IH" [OF refl refl] by simp
    moreover have "(length d + 511) div 512 = Suc ((length d - 512 + 511) div 512)" if "512 \<le> length d"
      using that by (simp add: le_div_geq [of 512 "length d + 511"])
    moreover have "(length d + 511) div 512 = 1" if "length d < 512"
      using False that by (cases d) (auto intro!: div_nat_eqI)
    ultimately show ?thesis using False by (cases "512 \<le> length d") (auto simp: file_blocks_step)
  qed simp
qed

lemma take_file_blocks: "take (length d) (file_blocks d) = d"
proof (induction d rule: file_blocks.induct)
  case (1 d)
  show ?case
  proof (cases "d = []")
    case False
    then have IH: "take (length d - 512) (file_blocks (drop 512 d)) = drop 512 d"
      using "1.IH" [OF refl refl] by simp
    show ?thesis
    proof (cases "512 \<le> length d")
      case True
      with IH False show ?thesis by (simp add: file_blocks_step)
    qed (simp add: file_blocks_step False)
  qed simp
qed

text \<open>The pieces in which \<open>x_op\<close> writes the data of one file.\<close>

function pieces :: "bstring \<Rightarrow> bstring list" where
  "pieces d = (if d = [] then [] else take 512 d # pieces (drop 512 d))"
  by pat_completeness auto
termination
  by (relation "measure length") auto

declare pieces.simps [simp del]

lemma pieces_Nil [simp]: "pieces [] = []"
  by (simp add: pieces.simps)

lemma pieces_step: "d \<noteq> [] \<Longrightarrow> pieces d = take 512 d # pieces (drop 512 d)"
  by (subst pieces.simps) simp

lemma concat_pieces [simp]: "concat (pieces d) = d"
proof (induction d rule: pieces.induct)
  case (1 d)
  then show ?case by (cases "d = []") (simp_all add: pieces_step)
qed

lemma fread_block_file:
  assumes "d \<noteq> []"
  shows "fread_block b (file_blocks d @ rest) =
    (True, take 512 d @ replicate (512 - length d) 0, file_blocks (drop 512 d) @ rest)"
  using assms by (cases "512 \<le> length d") (simp_all add: fread_block_def file_blocks_step)

lemma x_data_done: "l \<le> 0 \<Longrightarrow> x_data f l b evs inp = (evs, inp)"
  by (subst x_data.simps) simp

lemma x_data_more:
  "0 < l \<Longrightarrow> fread_block b inp = (ok, b', inp') \<Longrightarrow>
   x_data f l b evs inp = x_data f (l - 512) b' (if f then evs @ [Fwrite (take (nat (min l 512)) b')] else evs) inp'"
  by (subst x_data.simps) simp

lemma t_skip_done: "l \<le> 0 \<Longrightarrow> t_skip l b inp = inp"
  by (subst t_skip.simps) simp

lemma t_skip_more:
  "0 < l \<Longrightarrow> fread_block b inp = (ok, b', inp') \<Longrightarrow> t_skip l b inp = t_skip (l - 512) b' inp'"
  by (subst t_skip.simps) simp

lemma take_piece: "take (nat (min (int (length d)) 512)) (take 512 d @ replicate (512 - length d) 0) = take 512 d"
  by (cases "512 \<le> length d") simp_all

lemma x_data_file:
  "x_data True (int (length d)) b evs (file_blocks d @ rest) = (evs @ map Fwrite (pieces d), rest)"
proof (induction d arbitrary: b evs rule: pieces.induct)
  case (1 d)
  show ?case
  proof (cases "d = []")
    case True
    then show ?thesis by (simp add: x_data_done)
  next
    case False
    let ?b = "take 512 d @ replicate (512 - length d) 0"
    have step: "x_data True (int (length d)) b evs (file_blocks d @ rest) =
      x_data True (int (length d) - 512) ?b (evs @ [Fwrite (take 512 d)]) (file_blocks (drop 512 d) @ rest)"
      using x_data_more [OF _ fread_block_file [OF False], of "int (length d)" True b evs rest] False
      by (simp only: take_piece if_True of_nat_0_less_iff length_greater_0_conv) simp
    show ?thesis
    proof (cases "512 \<le> length d")
      case True
      then have eq: "int (length d) - 512 = int (length (drop 512 d))" by simp
      show ?thesis by (simp only: step eq "1.IH" [OF False] pieces_step [OF False]) simp
    next
      case short: False
      with step False show ?thesis by (simp add: x_data_done pieces_step)
    qed
  qed
qed

text \<open>A file that could not be opened: the same input is consumed and nothing is written.\<close>

lemma x_data_closed: "x_data False l b evs inp = (evs, t_skip l b inp)"
proof (induction l b inp rule: t_skip.induct)
  case (1 l b inp)
  obtain ok b1 inp1 where fr: "fread_block b inp = (ok, b1, inp1)" by (metis prod_cases3)
  show ?case
  proof (cases "0 < l")
    case True
    then show ?thesis
      using "1.IH" [OF True fr [symmetric] refl] by (simp add: x_data_more [OF True fr] t_skip_more [OF True fr])
  qed (simp add: x_data_done t_skip_done)
qed

lemma t_skip_file: "t_skip (int (length d)) b (file_blocks d @ rest) = rest"
proof (induction d arbitrary: b rule: pieces.induct)
  case (1 d)
  show ?case
  proof (cases "d = []")
    case True
    then show ?thesis by (simp add: t_skip_done)
  next
    case False
    let ?b = "take 512 d @ replicate (512 - length d) 0"
    have step: "t_skip (int (length d)) b (file_blocks d @ rest) =
      t_skip (int (length d) - 512) ?b (file_blocks (drop 512 d) @ rest)"
      using t_skip_more [OF _ fread_block_file [OF False], of "int (length d)" b rest] False by simp
    show ?thesis
    proof (cases "512 \<le> length d")
      case True
      then have eq: "int (length d) - 512 = int (length (drop 512 d))" by simp
      show ?thesis by (simp only: step eq "1.IH" [OF False])
    next
      case short: False
      with step show ?thesis by (simp add: t_skip_done)
    qed
  qed
qed

lemma x_data_file_closed: "x_data False (int (length d)) b evs (file_blocks d @ rest) = (evs, rest)"
  by (simp add: x_data_closed t_skip_file)

section \<open>Archives of regular files\<close>

text \<open>A regular file that can be archived and read back: path, attributes and data.\<close>

definition regular_file :: "system \<Rightarrow> bstring \<Rightarrow> stat \<Rightarrow> bstring \<Rightarrow> bool" where
  "regular_file sy p st d \<longleftrightarrow>
     p \<noteq> [] \<and> 0 \<notin> set p \<and> length p \<le> 99 \<and> lstat sy p = Some st \<and> S_ISREG (st_mode st) \<and>
     open_read sy p = Some d \<and> unat (st_size st) = length d \<and> length d < 2 ^ 31 \<and>
     getpwuid sy (st_uid st) \<noteq> None \<and> getgrgid sy (st_gid st) \<noteq> None"

lemma S_ISREG_not_dir: "S_ISREG m \<Longrightarrow> \<not> S_ISDIR m"
  by (simp add: S_ISREG_def S_ISDIR_def)

lemma c_op_regular:
  assumes "regular_file sy p st d"
  obtains pw gr where "c_op sy p out = Inr (0, out @ header_block sy p st pw gr @ file_blocks d)"
  using assms by (auto simp: regular_file_def c_op_def c_file_def S_ISREG_not_dir Let_def)

text \<open>The first block of what \<open>c_file\<close> writes is a header.\<close>

lemma c_file_header:
  assumes "c_file sy p st = Inr bs"
  obtains pw gr where "take 512 bs = header_block sy p st pw gr" and "512 \<le> length bs"
proof -
  obtain pw gr where "take 512 bs = header_block sy p st pw gr \<and> 512 \<le> length bs"
    using assms by (force simp: c_file_def Let_def split: option.splits)
  then show ?thesis using that by blast
qed

lemma size_small:
  assumes "regular_file sy p st d"
  shows "to_int32 (uint (ucast (st_size st) :: 32 word)) = int (length d)"
proof -
  have lt: "length d < 2 ^ 31" and sz: "unat (st_size st) = length d"
    using assms by (simp_all add: regular_file_def)
  then have "uint (st_size st) = int (length d)" by (metis uint_nat)
  then have "uint (ucast (st_size st) :: 32 word) = int (length d)"
    using lt by (simp add: unsigned_ucast_eq take_bit_int_eq_self)
  with lt show ?thesis by (simp add: to_int32_small)
qed

lemma c_args_append:
  "c_args sy ps out = Inr (0, out') \<Longrightarrow> c_args sy (ps @ qs) out = c_args sy qs out'"
  by (induction ps arbitrary: out) (auto simp: ebind_simps split: if_splits prod.splits)

text \<open>One entry at the front of the input: the handler gets its name and length.\<close>

lemma tar_entry:
  assumes r: "regular_file sy p st d"
  shows "tar fn evs (header_block sy p st pw gr @ rest) =
    (case run_handler fn p (int (length d)) (header_block sy p st pw gr) evs rest of
       (evs, inp) \<Rightarrow> tar fn evs inp)"
proof -
  let ?h = "header_block sy p st pw gr"
  have p: "p \<noteq> []" "0 \<notin> set p" "length p \<le> 99" "S_ISREG (st_mode st)"
    using r by (simp_all add: regular_file_def)
  have name: "field_str ?h 0 100 = p" using header_name [OF p(2)] p(3) by simp
  have first: "?h ! 0 \<noteq> 0" by (rule header_first_byte [OF p(1,2)])
  have len: "length ?h = 512" by simp
  have size: "to_int32 (strtol8 (drop 124 ?h)) = int (length d)"
    using header_size_regular [OF p(4)] size_small [OF r] by simp
  show ?thesis
    by (subst tar.simps) (simp only: off.simps Let_def length_append len take_append drop_append,
      simp add: len name first size)
qed

lemma t_op_entry: "t_op p (int (length d)) h evs (file_blocks d @ rest) = (evs @ [Puts p], rest)"
  by (simp add: t_op_def t_skip_file)

text \<open>The calls of an extraction when none of them fails.\<close>

definition all_ok :: "sys \<Rightarrow> bool" where
  "all_ok sys \<longleftrightarrow> (\<forall>evs k. \<not> sys evs k)"

definition owner_calls :: "bool \<Rightarrow> bstring \<Rightarrow> bstring \<Rightarrow> syscall list" where
  "owner_calls root p h = (if root then [Chown p (ucast (strtoul8 (drop (off H_UID) h)))
     (ucast (strtoul8 (drop (off H_GID) h)))] else [])"

lemma x_op_entry:
  assumes "all_ok sys" and "S_ISREG (st_mode st)"
  shows "x_op sys root p (int (length d)) (header_block sy p st pw gr) evs (file_blocks d @ rest) =
    (evs @ [Unlink p, FopenW p, Chmod p (st_mode st AND 0x1ff)] @
       owner_calls root p (header_block sy p st pw gr) @ map Fwrite (pieces d) @ [Fclose], rest)"
  using assms
  by (simp add: x_op_def x_create_def call_def all_ok_def header_type_regular header_mode
      header_block_chk_ok x_data_file owner_calls_def Let_def del: off.simps)

section \<open>The abstract meaning of a trace\<close>

text \<open>
  The regular files, with mode and contents, and the path of the file being written. A file
  that is created has mode 0666 until it is changed.
\<close>

type_synonym files = "bstring \<rightharpoonup> 32 word \<times> bstring"

fun replay1 :: "files \<times> bstring option \<Rightarrow> syscall \<Rightarrow> files \<times> bstring option" where
  "replay1 (m, cur) (Unlink p) = (m(p := None), cur)"
| "replay1 (m, cur) (FopenW p) = (m(p \<mapsto> (0x1b6, [])), Some p)"
| "replay1 (m, cur) (Chmod p md) = (m(p := map_option (\<lambda>(_, d). (md, d)) (m p)), cur)"
| "replay1 (m, cur) (Fwrite bs) =
     (case cur of None \<Rightarrow> (m, cur) | Some p \<Rightarrow> (m(p := map_option (\<lambda>(md, d). (md, d @ bs)) (m p)), cur))"
| "replay1 (m, cur) Fclose = (m, None)"
| "replay1 (m, cur) k = (m, cur)"

definition replay :: "syscall list \<Rightarrow> files \<times> bstring option \<Rightarrow> files \<times> bstring option" where
  "replay evs s = foldl replay1 s evs"

lemma replay_append: "replay (es @ fs) s = replay fs (replay es s)"
  by (simp add: replay_def)

lemma replay_Nil [simp]: "replay [] s = s"
  by (simp add: replay_def)

lemma replay_Cons [simp]: "replay (k # es) s = replay es (replay1 s k)"
  by (simp add: replay_def)

lemma replay_writes:
  "m p = Some (md, d) \<Longrightarrow> replay (map Fwrite ds) (m, Some p) = (m(p \<mapsto> (md, d @ concat ds)), Some p)"
  by (induction ds arbitrary: m d) (auto simp: fun_upd_idem)

lemma replay_owner [simp]: "replay (owner_calls root p h) s = s"
  by (cases s) (simp add: owner_calls_def)

lemma replay_entry:
  "replay ([Unlink p, FopenW p, Chmod p md] @ owner_calls root p h @ map Fwrite (pieces d) @ [Fclose]) (m, cur)
    = (m(p \<mapsto> (md, d)), None)"
proof -
  let ?m = "m(p \<mapsto> (md, []))"
  have "replay (map Fwrite (pieces d)) (?m, Some p) = (?m(p \<mapsto> (md, [] @ concat (pieces d))), Some p)"
    by (rule replay_writes) simp
  then show ?thesis by (simp add: replay_append)
qed

end
