(* ===== verification/SltarProps.thy ===== *)
theory SltarProps
  imports SltarRun
begin

text \<open>
  The properties of \<open>sltar\<close>, each with a witness at a concrete input where it has hypotheses.
  The example system below has one file \<open>a\<close> of three bytes and one directory \<open>d\<close>.
\<close>

section \<open>Archives as a whole\<close>

text \<open>The archive of a list of regular files, read from its first entry to its last.\<close>

lemma c_args_regular:
  assumes "\<forall>p \<in> set ps. \<exists>st. regular_file sy p st (data p) \<and> st_mode st AND 0x1ff = mode p"
  shows "\<exists>arch. c_args sy ps out = Inr (0, out @ arch) \<and>
    (\<forall>evs. tar Fn_t evs arch = evs @ map Puts ps) \<and>
    (\<forall>sys root evs m. all_ok sys \<longrightarrow>
       (\<exists>new. tar (Fn_x sys root) evs arch = evs @ new \<and>
              fst (replay new (m, None)) = (\<lambda>p. if p \<in> set ps then Some (mode p, data p) else m p)))"
  using assms
proof (induction ps arbitrary: out)
  case Nil
  then show ?case by (auto simp: tar.simps)
next
  case (Cons p ps)
  then obtain st where r: "regular_file sy p st (data p)" and md: "st_mode st AND 0x1ff = mode p" by auto
  obtain pw gr where p: "c_op sy p out = Inr (0, out @ header_block sy p st pw gr @ file_blocks (data p))"
    using c_op_regular [OF r] .
  let ?h = "header_block sy p st pw gr" and ?d = "data p"
  obtain arch where arch: "c_args sy ps (out @ ?h @ file_blocks ?d) = Inr (0, (out @ ?h @ file_blocks ?d) @ arch)"
    and lst: "\<And>evs. tar Fn_t evs arch = evs @ map Puts ps"
    and ext: "\<And>sys root evs m. all_ok sys \<Longrightarrow> \<exists>new. tar (Fn_x sys root) evs arch = evs @ new \<and>
       fst (replay new (m, None)) = (\<lambda>p. if p \<in> set ps then Some (mode p, data p) else m p)"
    using Cons.IH [of "out @ ?h @ file_blocks ?d"] Cons.prems by auto
  let ?arch = "?h @ file_blocks ?d @ arch"
  have "c_args sy (p # ps) out = Inr (0, out @ ?arch)" using p arch by simp
  moreover have "tar Fn_t evs ?arch = evs @ map Puts (p # ps)" for evs
    by (simp only: tar_entry [OF r]) (simp add: t_op_entry lst)
  moreover have "\<exists>new. tar (Fn_x sys root) evs ?arch = evs @ new \<and>
      fst (replay new (m, None)) = (\<lambda>q. if q \<in> set (p # ps) then Some (mode q, data q) else m q)"
    if ok: "all_ok sys" for sys root evs m
  proof -
    let ?es = "[Unlink p, FopenW p, Chmod p (mode p)] @ owner_calls root p ?h @ map Fwrite (pieces ?d) @ [Fclose]"
    have reg: "S_ISREG (st_mode st)" using r by (simp add: regular_file_def)
    obtain new where new: "tar (Fn_x sys root) (evs @ ?es) arch = (evs @ ?es) @ new"
      "fst (replay new (m(p \<mapsto> (mode p, ?d)), None)) =
        (\<lambda>q. if q \<in> set ps then Some (mode q, data q) else (m(p \<mapsto> (mode p, ?d))) q)"
      using ext [OF ok] by blast
    have "tar (Fn_x sys root) evs ?arch = tar (Fn_x sys root) (evs @ ?es) arch"
      by (simp only: tar_entry [OF r]) (simp add: x_op_entry [OF ok reg] md)
    moreover have "fst (replay (?es @ new) (m, None)) = (\<lambda>q. if q \<in> set (p # ps) then Some (mode q, data q) else m q)"
      by (simp only: replay_append [of ?es new] replay_entry new(2)) auto
    ultimately show ?thesis using new(1) by (metis append.assoc)
  qed
  ultimately show ?case by blast
qed

definition ex_stat :: stat where
  "ex_stat = \<lparr>st_mode = 0x81a4, st_uid = 0, st_gid = 0, st_mtime = 1500000000, st_size = 3, st_dev = 0\<rparr>"

definition ex_dir :: stat where
  "ex_dir = \<lparr>st_mode = 0x41ed, st_uid = 0, st_gid = 0, st_mtime = 1500000000, st_size = 0, st_dev = 0\<rparr>"

definition ex_system :: system where
  "ex_system = \<lparr>getpwuid = (\<lambda>_. Some (str ''root'')), getgrgid = (\<lambda>_. Some (str ''root'')),
     open_read = (\<lambda>_. Some [1, 2, 3]), readlink = (\<lambda>_. None),
     lstat = (\<lambda>p. if p = [97] then Some ex_stat else if p = [100] then Some ex_dir else None),
     ftw_entries = (\<lambda>p. [(p, ex_dir)]), ftw_result = (\<lambda>_. 0)\<rparr>"

lemma ex_regular: "regular_file ex_system [97] ex_stat [1, 2, 3]"
  by (simp add: regular_file_def ex_system_def ex_stat_def S_ISREG_def S_IFMT_def)

lemma ex_all_ok: "all_ok (\<lambda>_ _. False)"
  by (simp add: all_ok_def)

text \<open>
  Property C15. Creating an archive of regular files and extracting it gives the files back:
  when every path given to \<open>sltar c\<close> is a regular file with a path of at most 99 bytes and a
  size below 2 GiB, \<open>sltar c\<close> ends with status 0, and \<open>sltar x\<close> on its output, where no
  system call fails, ends with status 0 and leaves exactly these files, each with its permission
  bits and its data.
\<close>

theorem sltar_roundtrip:
  assumes "ps \<noteq> []"
    and "\<forall>p \<in> set ps. \<exists>st. regular_file sy p st (data p) \<and> st_mode st AND 0x1ff = mode p"
    and "all_ok sys"
  shows "\<exists>arch evs. sltar_main sy sys0 root0 ([prog, str ''c''] @ ps) inp0 = Inr (Exit 0 arch []) \<and>
    sltar_main sy0 sys root [prog, str ''x''] arch = Inr (Exit 0 [] evs) \<and>
    fst (replay evs (Map.empty, None)) = (\<lambda>p. if p \<in> set ps then Some (mode p, data p) else None)"
proof -
  have "\<forall>p \<in> set (rev ps). \<exists>st. regular_file sy p st (data p) \<and> st_mode st AND 0x1ff = mode p"
    using assms(2) by simp
  from c_args_regular [OF this, of "[]"] obtain arch where
    arch: "c_args sy (rev ps) [] = Inr (0, arch)"
    and all: "\<forall>sys root evs m. all_ok sys \<longrightarrow> (\<exists>new. tar (Fn_x sys root) evs arch = evs @ new \<and>
      fst (replay new (m, None)) = (\<lambda>p. if p \<in> set (rev ps) then Some (mode p, data p) else m p))"
    by auto
  from all [rule_format, OF assms(3), of root "[]" Map.empty]
  have ext: "fst (replay (tar (Fn_x sys root) [] arch) (Map.empty, None)) =
      (\<lambda>p. if p \<in> set ps then Some (mode p, data p) else None)"
    by auto
  have "sltar_main sy sys0 root0 ([prog, str ''c''] @ ps) inp0 = Inr (Exit 0 arch [])"
    using arch assms(1) by (cases ps) (simp_all add: sltar_main_def)
  moreover have "sltar_main sy0 sys root [prog, str ''x''] arch = Inr (Exit 0 [] (tar (Fn_x sys root) [] arch))"
    by (simp add: sltar_main_def)
  ultimately show ?thesis using ext by auto
qed

theorem sltar_roundtrip_witness:
  "\<exists>arch evs. sltar_main ex_system (\<lambda>_ _. True) False [[115], str ''c'', [97]] [] = Inr (Exit 0 arch []) \<and>
    sltar_main ex_system (\<lambda>_ _. False) True [[115], str ''x''] arch = Inr (Exit 0 [] evs) \<and>
    fst (replay evs (Map.empty, None)) [97] = Some (0x1a4, [1, 2, 3])"
proof -
  have "\<forall>p \<in> set [[97]]. \<exists>st. regular_file ex_system p st ((\<lambda>_. [1, 2, 3]) p) \<and> st_mode st AND 0x1ff = (\<lambda>_. 0x1a4) p"
    using ex_regular by (auto intro!: exI [of _ ex_stat] simp: ex_stat_def)
  from sltar_roundtrip [OF _ this ex_all_ok] show ?thesis by fastforce
qed

text \<open>
  Property C16. Listing an archive of regular files prints their paths, each once, in the order of
  the entries, which is the reverse of the order on the command line.
\<close>

theorem sltar_list:
  assumes "ps \<noteq> []"
    and "\<forall>p \<in> set ps. \<exists>st. regular_file sy p st (data p)"
  shows "\<exists>arch. sltar_main sy sys0 root0 ([prog, str ''c''] @ ps) inp0 = Inr (Exit 0 arch []) \<and>
    sltar_main sy0 sys root [prog, str ''t''] arch = Inr (Exit 0 [] (map Puts (rev ps)))"
proof -
  obtain st where "\<forall>p \<in> set ps. regular_file sy p (st p) (data p)" using assms(2) by metis
  then have "\<forall>p \<in> set (rev ps). \<exists>s. regular_file sy p s (data p) \<and> st_mode s AND 0x1ff = st_mode (st p) AND 0x1ff"
    by auto
  from c_args_regular [OF this, of "[]"] obtain arch where
    arch: "c_args sy (rev ps) [] = Inr (0, arch)" and lst: "tar Fn_t [] arch = map Puts (rev ps)"
    by auto
  have "sltar_main sy sys0 root0 ([prog, str ''c''] @ ps) inp0 = Inr (Exit 0 arch [])"
    using arch assms(1) by (cases ps) (simp_all add: sltar_main_def)
  moreover have "sltar_main sy0 sys root [prog, str ''t''] arch = Inr (Exit 0 [] (map Puts (rev ps)))"
    using lst by (simp add: sltar_main_def)
  ultimately show ?thesis by blast
qed

theorem sltar_list_witness:
  "\<exists>arch. sltar_main ex_system (\<lambda>_ _. False) False [[115], str ''c'', [97], [97]] [] = Inr (Exit 0 arch []) \<and>
    sltar_main ex_system (\<lambda>_ _. False) False [[115], str ''t''] arch = Inr (Exit 0 [] [Puts [97], Puts [97]])"
proof -
  have "\<forall>p \<in> set [[97], [97]]. \<exists>st. regular_file ex_system p st ((\<lambda>_. [1, 2, 3]) p)"
    using ex_regular by auto
  from sltar_list [OF _ this] show ?thesis by fastforce
qed

text \<open>
  Property C30. The output of \<open>sltar c\<close> grows by whole blocks: what \<open>c_file\<close> writes for any path is
  one block and, for a regular file it can open, as many blocks as hold the data, which they start
  with.
\<close>

theorem c_file_blocks:
  assumes "c_file sy p st = Inr bs"
  shows "512 dvd length bs \<and>
    (if S_ISREG (st_mode st) \<and> open_read sy p \<noteq> None
     then take (length (the (open_read sy p))) (drop 512 bs) = the (open_read sy p) \<and>
          length bs = 512 * (1 + (length (the (open_read sy p)) + 511) div 512)
     else length bs = 512)"
  using assms
  by (auto simp: c_file_def Let_def length_file_blocks take_file_blocks split: option.splits if_splits)

theorem c_file_blocks_witness:
  "\<exists>bs. c_file ex_system [97] ex_stat = Inr bs \<and> 512 dvd length bs \<and> take 3 (drop 512 bs) = [1, 2, 3]"
proof -
  obtain bs where bs: "c_file ex_system [97] ex_stat = Inr bs"
    by (simp add: c_file_def ex_system_def Let_def)
  have "S_ISREG (st_mode ex_stat) \<and> open_read ex_system [97] = Some [1, 2, 3]"
    by (simp add: ex_stat_def ex_system_def S_ISREG_def S_IFMT_def)
  with c_file_blocks [OF bs] bs show ?thesis by (auto simp: numeral_3_eq_3)
qed

section \<open>The header\<close>

text \<open>
  Property C18. Every header that \<open>c_file\<close> writes passes the check of \<open>x\<close>: the checksum it stores
  is the one the reader computes, although the reader sums a block that contains it.
\<close>

theorem header_checksum_verifies:
  assumes "c_file sy p st = Inr bs"
  shows "chk_ok (take 512 bs) \<and> chksum (take 512 bs) = chunk (off H_CHK) 8 bs"
proof -
  obtain pw gr where bs: "take 512 bs = header_block sy p st pw gr"
    using assms by (rule c_file_header)
  let ?b = "header_typed sy p st (header_base p st pw gr)"
  have len: "length ?b = off H_END" by (rule length_header_typed) simp
  have tk: "take 512 bs = overwrite (off H_CHK) (chksum ?b) ?b"
    by (simp only: bs header_block_def Let_def)
  then have "chk_ok (take 512 bs)" using chk_ok_overwrite [OF len] by simp
  moreover have "chksum (take 512 bs) = chksum ?b"
    by (simp only: tk chksum_def chk_sum_overwrite [OF len length_chksum, unfolded chksum_def])
  moreover have "chunk (off H_CHK) 8 bs = chksum ?b"
  proof -
    have "chunk (off H_CHK) 8 bs = chunk (off H_CHK) 8 (take 512 bs)"
      by (simp add: chunk_def take_drop)
    also have "\<dots> = chksum ?b"
      using chunk_overwrite_same [of "off H_CHK" "chksum ?b" ?b] len by (simp only: tk length_chksum) simp
    finally show ?thesis .
  qed
  ultimately show ?thesis by simp
qed

theorem header_checksum_verifies_witness:
  "\<exists>bs. c_file ex_system [97] ex_stat = Inr bs \<and> chk_ok (take 512 bs)"
proof -
  obtain bs where bs: "c_file ex_system [97] ex_stat = Inr bs"
    by (simp add: c_file_def ex_system_def Let_def)
  with header_checksum_verifies [OF bs] show ?thesis by blast
qed

text \<open>
  Property C29. \<open>x\<close> expects its own rendering of the checksum, seven digits and a NUL. A field in the
  form other archivers write, six digits, a NUL and a blank, is reported as a failed checksum
  whatever the block holds.
\<close>

theorem six_digit_checksum_rejected:
  assumes "length b = 512" and "n < 8 ^ 6" and "chunk (off H_CHK) 8 b = fmt_o 6 n @ [0, 32]"
  shows "\<not> chk_ok b"
proof -
  have "length (fmt_o 6 n) = 6" using assms(2) by (rule length_fmt_o)
  moreover have nz: "c \<noteq> 0" if "c \<in> set (fmt_o p m)" for c p m
    using fmt_o_octal [OF that] is_octal_not_special by blast
  then have "takeWhile (\<lambda>c. c \<noteq> 0) (fmt_o 6 n @ [0, 32]) = fmt_o 6 n"
    by (subst takeWhile_append2) auto
  ultimately have "length (field_str b (off H_CHK) 8) = 6"
    by (simp only: field_str_def assms(3))
  moreover have "length (takeWhile (\<lambda>c. c \<noteq> 0) (take 8 (chksum b))) = 7"
  proof -
    let ?d = "take 7 (fmt_o 7 (unat (chk_sum b)))"
    have "length ?d = 7" using length_fmt_o_ge [of 7 "unat (chk_sum b)"] by simp
    moreover have "c \<noteq> 0" if "c \<in> set ?d" for c
      using in_set_takeD [OF that] by (rule nz)
    then have "takeWhile (\<lambda>c. c \<noteq> 0) (?d @ [0]) = ?d"
      by (simp add: takeWhile_append2)
    moreover have "take 8 (chksum b) = ?d @ [0]"
      using length_chksum [of b] by (metis chksum_def order_refl take_all)
    ultimately show ?thesis by metis
  qed
  moreover have "(6::nat) \<noteq> 7" by simp
  ultimately show ?thesis unfolding chk_ok_def by metis
qed

definition ex_six_digits :: bstring where
  "ex_six_digits = overwrite 148 [49, 48, 48, 51, 55, 48, 0, 32] (replicate 512 65)"

theorem six_digit_checksum_rejected_witness:
  "unat (chk_sum ex_six_digits) = 33016 \<and> chunk (off H_CHK) 8 ex_six_digits = fmt_o 6 33016 @ [0, 32] \<and> \<not> chk_ok ex_six_digits"
proof -
  let ?f = "[49, 48, 48, 51, 55, 48, 0, 32] :: bstring"
  have "fmt_o 6 33016 = [49, 48, 48, 51, 55, 48]" by (simp add: fmt_o_def oct_digits.simps)
  then have digits: "fmt_o 6 33016 @ [0, 32] = ?f" by simp
  have "chunk 148 (length ?f) (overwrite 148 ?f (replicate 512 65)) = ?f" by (rule chunk_overwrite_same) simp
  moreover have "length ?f = 8" by simp
  ultimately have field: "chunk (off H_CHK) 8 ex_six_digits = fmt_o 6 33016 @ [0, 32]"
    unfolding digits ex_six_digits_def by (simp only: off.simps)
  have nth: "ex_six_digits ! i = 65" if "i < 512" "i < 148 \<or> 156 \<le> i" for i
    using that by (auto simp: ex_six_digits_def nth_overwrite)
  let ?add = "\<lambda>n i. n + chk_term ex_six_digits i"
  have same: "foldl ?add n [i ..< j] = n + of_nat (j - i) * c" if "\<forall>k. i \<le> k \<and> k < j \<longrightarrow> chk_term ex_six_digits k = c" for n i j c
  proof -
    have "foldl ?add n is = n + of_nat (length is) * c" if "\<forall>k \<in> set is. chk_term ex_six_digits k = c" for "is"
      using that by (induction "is" arbitrary: n) (simp_all add: algebra_simps)
    from this [of "[i ..< j]"] that show ?thesis by simp
  qed
  have before: "foldl ?add n [0 ..< 148] = n + of_nat (148 - 0) * 65" and field': "foldl ?add n [148 ..< 156] = n + of_nat (156 - 148) * 32"
    and after: "foldl ?add n [156 ..< 512] = n + of_nat (512 - 156) * 65" for n
    by (rule same; use nth in \<open>auto simp: chk_term_def\<close>)+
  have split: "foldl ?add n [i ..< k] = foldl ?add (foldl ?add n [i ..< j]) [j ..< k]" if "i \<le> j" "j \<le> k" for n i j k
  proof -
    obtain l where "k = j + l" using \<open>j \<le> k\<close> by (auto simp: le_iff_add)
    then show ?thesis using upt_add_eq_append [OF \<open>i \<le> j\<close>, of l] by (simp only: foldl_append)
  qed
  have "foldl ?add 0 [0 ..< 512] = foldl ?add (foldl ?add 0 [0 ..< 148]) [148 ..< 512]" by (rule split) simp_all
  also have "\<dots> = foldl ?add (foldl ?add (foldl ?add 0 [0 ..< 148]) [148 ..< 156]) [156 ..< 512]" by (rule split) simp_all
  also have "\<dots> = 33016" by (simp only: before field' after) simp
  finally have "chk_sum ex_six_digits = 33016" by (simp only: chk_sum_def off.simps)
  then have sum: "unat (chk_sum ex_six_digits) = 33016" by simp
  have "\<not> chk_ok ex_six_digits"
    by (rule six_digit_checksum_rejected [OF _ _ field]) (simp_all add: ex_six_digits_def)
  with sum field show ?thesis by blast
qed

text \<open>
  Property C19. The length a reader takes from the header of a regular file is its size cut to 32 bits
  and read as a signed number: the size itself below 2 GiB, and a number that is not positive, so that
  no data is skipped, from 2 GiB to 4 GiB.
\<close>

theorem regular_length_read_back:
  assumes "c_file sy p st = Inr bs" and "S_ISREG (st_mode st)"
  shows "to_int32 (strtol8 (drop (off H_SIZE) (take 512 bs))) = sint (ucast (st_size st) :: 32 word)"
proof -
  obtain pw gr where "take 512 bs = header_block sy p st pw gr"
    using assms(1) by (rule c_file_header)
  then show ?thesis
    by (simp only: header_size_regular [OF assms(2)]) (simp add: to_int32_def sint_uint)
qed

theorem regular_length_read_back_witness:
  "\<exists>bs. c_file ex_system [97] (ex_stat\<lparr>st_size := 0xffffffff\<rparr>) = Inr bs \<and>
     to_int32 (strtol8 (drop (off H_SIZE) (take 512 bs))) = - 1"
proof -
  obtain bs where bs: "c_file ex_system [97] (ex_stat\<lparr>st_size := 0xffffffff\<rparr>) = Inr bs"
    by (simp add: c_file_def ex_system_def Let_def)
  have "S_ISREG (st_mode (ex_stat\<lparr>st_size := 0xffffffff\<rparr>))" by (simp add: ex_stat_def S_ISREG_def S_IFMT_def)
  from regular_length_read_back [OF bs this] bs show ?thesis by simp
qed

text \<open>
  Property C17. In the header of anything but a regular file the size field is twelve digits without an end, so the length
  a reader takes from it is the modification time, cut to 32 bits and read as a signed number. Where that is at least
  the number of bytes that follow, listing the archive prints this one entry and nothing of the rest.
\<close>

theorem other_entry_swallows_archive:
  assumes "c_file sy p st = Inr bs" and "\<not> S_ISREG (st_mode st)"
    and "p \<noteq> []" and "0 \<notin> set p"
  shows "chunk (off H_SIZE) 12 bs = replicate 12 48 \<and>
    to_int32 (strtol8 (drop (off H_SIZE) bs)) = sint (ucast (st_mtime st) :: 32 word) \<and>
    (\<forall>evs rest. int (length rest) \<le> sint (ucast (st_mtime st) :: 32 word) \<longrightarrow>
       tar Fn_t evs (bs @ rest) = evs @ [Puts (take 99 p)])"
proof (intro conjI allI impI)
  obtain pw gr where h: "take 512 bs = header_block sy p st pw gr" and le: "512 \<le> length bs"
    using assms(1) by (rule c_file_header)
  have len: "length bs = 512"
    using assms(1,2) by (auto simp: c_file_def Let_def split: option.splits)
  then have bs: "bs = header_block sy p st pw gr" using h by simp
  let ?l = "to_int32 (strtol8 (drop (off H_SIZE) bs))"
  have l: "?l = sint (ucast (st_mtime st) :: 32 word)"
    by (simp only: bs header_size_other [OF assms(2)]) (simp add: to_int32_def sint_uint)
  show "to_int32 (strtol8 (drop (off H_SIZE) bs)) = sint (ucast (st_mtime st) :: 32 word)" by (rule l)
  show "chunk (off H_SIZE) 12 bs = replicate 12 48" unfolding bs by (rule header_size_field_other [OF assms(2)])
  fix evs and rest :: bstring
  assume short: "int (length rest) \<le> sint (ucast (st_mtime st) :: 32 word)"
  have skip: "t_skip l b inp = []" if "int (length inp) \<le> l" for l b inp
    using that
  proof (induction l b inp rule: t_skip.induct)
    case (1 l b inp)
    show ?case
    proof (cases "0 < l")
      case True
      obtain ok b1 inp1 where fr: "fread_block b inp = (ok, b1, inp1)" by (metis prod_cases3)
      then have "int (length inp1) \<le> l - 512 \<or> inp1 = []"
        using "1.prems" by (auto simp: fread_block_def split: if_splits)
      moreover have "t_skip (l - 512) b1 inp1 = []" if "inp1 = []"
        using t_skip_length [of "l - 512" b1 inp1] that by simp
      moreover have "t_skip (l - 512) b1 inp1 = []" if "int (length inp1) \<le> l - 512"
        using "1.IH" [OF True fr [symmetric] refl] that by blast
      ultimately have "t_skip (l - 512) b1 inp1 = []" by blast
      with True fr show ?thesis by (simp add: t_skip_more)
    next
      case False
      with "1.prems" have "inp = []" by (cases inp) auto
      with False show ?thesis by (simp add: t_skip_done)
    qed
  qed
  have name: "field_str bs (off H_NAME) 100 = take 99 p"
    by (simp only: bs header_name [OF assms(4)])
  have first: "bs ! 0 \<noteq> 0" by (simp only: bs) (rule header_first_byte [OF assms(3,4)])
  have "tar Fn_t evs (bs @ rest) = (case t_op (take 99 p) ?l bs evs rest of (evs, inp) \<Rightarrow> tar Fn_t evs inp)"
    by (subst tar.simps) (simp only: off.simps Let_def length_append len take_append drop_append,
      use name first in \<open>simp add: len nth_append\<close>)
  also have "\<dots> = evs @ [Puts (take 99 p)]"
    using skip [of rest ?l bs] short by (simp only: t_op_def l) (simp add: tar.simps)
  finally show "tar Fn_t evs (bs @ rest) = evs @ [Puts (take 99 p)]" .
qed

theorem other_entry_swallows_archive_witness:
  "\<exists>bs rest. c_file ex_system [100] ex_dir = Inr bs \<and> c_file ex_system [97] ex_stat = Inr rest \<and>
     to_int32 (strtol8 (drop (off H_SIZE) bs)) = sint (ucast (st_mtime ex_dir) :: 32 word) \<and>
     tar Fn_t [] (bs @ rest) = [Puts [100]]"
proof -
  obtain bs where bs: "c_file ex_system [100] ex_dir = Inr bs"
    by (simp add: c_file_def ex_system_def Let_def)
  obtain rest where rest: "c_file ex_system [97] ex_stat = Inr rest"
    by (simp add: c_file_def ex_system_def Let_def)
  have "S_ISREG (st_mode ex_stat)" and dir: "\<not> S_ISREG (st_mode ex_dir)"
    by (simp_all add: ex_stat_def ex_dir_def S_ISREG_def S_IFMT_def)
  then have "length rest = 1024"
    using c_file_blocks [OF rest] by (simp add: ex_system_def)
  then have "int (length rest) \<le> sint (ucast (st_mtime ex_dir) :: 32 word)"
    by (simp add: ex_dir_def)
  moreover have "[100 :: byte] \<noteq> []" "0 \<notin> set [100 :: byte]" by simp_all
  note swallow = other_entry_swallows_archive [OF bs dir this]
  from swallow have "to_int32 (strtol8 (drop (off H_SIZE) bs)) = sint (ucast (st_mtime ex_dir) :: 32 word)" by blast
  moreover from calculation swallow have "tar Fn_t [] (bs @ rest) = [] @ [Puts (take 99 [100])]" by blast
  ultimately show ?thesis using bs rest by auto
qed

section \<open>Device numbers\<close>

lemma major_minor_parts:
  "gnu_dev_major (gnu_dev_makedev major minor) = major" "gnu_dev_minor (gnu_dev_makedev major minor) = minor"
  by (rule bit_word_eqI, simp add: bit_major bit_minor bit_makedev)+

lemma makedev_parts: "gnu_dev_makedev (gnu_dev_major dev) (gnu_dev_minor dev) = dev"
  by (rule bit_word_eqI) (auto simp: bit_major bit_minor bit_makedev)

text \<open>
  Property C33. The device number made of a major and a minor number gives both back, and every 64-bit device
  number is the one made of its major and minor number: no bit is lost.
\<close>

theorem makedev_major_minor:
  "gnu_dev_makedev major minor = dev \<longleftrightarrow> gnu_dev_major dev = major \<and> gnu_dev_minor dev = minor"
  by (metis major_minor_parts makedev_parts)

section \<open>Failures\<close>

text \<open>
  Property C31. When \<open>x\<close> cannot open the file of an entry, it reports the path, writes no data, and
  still reads past exactly the data of this entry, so the next header is found.
\<close>

theorem x_open_fails_in_step:
  assumes "\<And>evs. sys evs (FopenW p)" and "S_ISREG (st_mode st)"
  shows "x_op sys root p (int (length d)) (header_block sy p st pw gr) evs (file_blocks d @ rest) =
    (evs @ [Unlink p, FopenW p, Perror p], rest)"
  using assms
  by (simp add: x_op_def x_create_def call_def header_type_regular header_block_chk_ok
      x_data_file_closed Let_def del: off.simps)

theorem x_open_fails_in_step_witness:
  "x_op (\<lambda>_ k. k = FopenW [97]) True [97] 3 (header_block ex_system [97] ex_stat [] []) [] (file_blocks [1, 2, 3] @ [9])
    = ([Unlink [97], FopenW [97], Perror [97]], [9])"
proof -
  have "S_ISREG (st_mode ex_stat)" by (simp add: ex_stat_def S_ISREG_def S_IFMT_def)
  from x_open_fails_in_step [OF _ this, of "\<lambda>_ k. k = FopenW [97]" "[97]" True "[1, 2, 3]" ex_system "[]" "[]" "[]" "[9]"]
  show ?thesis by simp
qed

text \<open>
  Property C32. \<open>sltar c\<close> takes its paths from the last to the first and ends with status 1 at the first
  one it cannot examine: what it wrote until then are the entries of the paths after it.
\<close>

theorem c_stops_at_missing:
  assumes "\<forall>q \<in> set qs. \<exists>st. regular_file sy q st (data q)" and "lstat sy p = None"
  shows "\<exists>arch. sltar_main sy sys root ([prog, str ''c''] @ ps @ p # qs) inp = Inr (Exit 1 arch []) \<and>
    tar Fn_t [] arch = map Puts (rev qs)"
proof -
  obtain st where "\<forall>q \<in> set qs. regular_file sy q (st q) (data q)" using assms(1) by metis
  then have "\<forall>q \<in> set (rev qs). \<exists>s. regular_file sy q s (data q) \<and> st_mode s AND 0x1ff = st_mode (st q) AND 0x1ff"
    by auto
  from c_args_regular [OF this, of "[]"] obtain arch where
    arch: "c_args sy (rev qs) [] = Inr (0, arch)" and lst: "tar Fn_t [] arch = map Puts (rev qs)"
    by auto
  have "c_args sy (rev (ps @ p # qs)) [] = Inr (1, arch)"
    using c_args_append [OF arch, of "p # rev ps"] assms(2) by (simp add: c_op_def)
  then have "sltar_main sy sys root ([prog, str ''c''] @ ps @ p # qs) inp = Inr (Exit 1 arch [])"
    by (simp add: sltar_main_def)
  with lst show ?thesis by blast
qed

theorem c_stops_at_missing_witness:
  "\<exists>arch. sltar_main ex_system (\<lambda>_ _. False) False [[115], str ''c'', [100], [98], [97]] [] = Inr (Exit 1 arch []) \<and>
    tar Fn_t [] arch = [Puts [97]]"
proof -
  have 1: "\<forall>q \<in> set [[97]]. \<exists>st. regular_file ex_system q st ((\<lambda>_. [1, 2, 3]) q)"
    using ex_regular by auto
  have 2: "lstat ex_system [98] = None" by (simp add: ex_system_def)
  from c_stops_at_missing [OF 1 2, of _ _ "[115]" "[[100]]"] show ?thesis by fastforce
qed

end
