(* ===== verification/Endian.thy ===== *)
theory Endian
  imports Prelude
begin

text \<open>
  Integers in memory. \<open>wbytes\<close> and \<open>bytesw\<close> are how the host, a little-endian one, stores and
  loads an integer; \<open>rdi\<close> and \<open>wri\<close> are the conversions of \<open>patchelf.cc\<close> between an integer as
  it was loaded and its value in the byte order of the file. All of them are generic in the
  width of the integer, as the C++ templates are.
\<close>

section \<open>Host integers as bytes\<close>

definition byte_of :: "'a::len word \<Rightarrow> nat \<Rightarrow> byte" where
  "byte_of w n = ucast (drop_bit (8 * n) w)"

definition wsize :: "'a::len itself \<Rightarrow> nat" where
  "wsize T = LENGTH('a) div 8"

definition wbytes :: "'a::len word \<Rightarrow> bstring" where
  "wbytes w = map (byte_of w) [0 ..< wsize TYPE('a)]"

fun bytesw :: "bstring \<Rightarrow> 'a::len word" where
  "bytesw [] = 0"
| "bytesw (b # bs) = ucast b OR push_bit 8 (bytesw bs)"

lemma length_wbytes [simp]: "length (wbytes (w :: 'a::len word)) = wsize TYPE('a)"
  by (simp add: wbytes_def)

lemma wsize_simps [simp]:
  "wsize TYPE(8) = 1" "wsize TYPE(16) = 2" "wsize TYPE(32) = 4" "wsize TYPE(64) = 8"
  by (simp_all add: wsize_def)

lemma bit_byte_of: "bit (byte_of w n) k \<longleftrightarrow> k < 8 \<and> bit w (8 * n + k)"
  by (auto simp: byte_of_def bit_simps add.commute)

lemma bit_bytesw:
  "bit (bytesw bs :: 'a::len word) k \<longleftrightarrow> k < LENGTH('a) \<and> k div 8 < length bs \<and> bit (bs ! (k div 8)) (k mod 8)"
proof (induction bs arbitrary: k)
  case Nil
  then show ?case by simp
next
  case (Cons b bs)
  show ?case
  proof (cases "k < 8")
    case True
    then have "k div 8 = 0" "k mod 8 = k" by simp_all
    with True show ?thesis by (auto simp: bit_simps)
  next
    case False
    then obtain j where j: "k = j + 8" by (metis add.commute le_add_diff_inverse not_less)
    have "\<not> bit b k" using False bit_imp_le_length [of b k] by auto
    then have "bit (bytesw (b # bs) :: 'a word) k \<longleftrightarrow> k < LENGTH('a) \<and> bit (bytesw bs :: 'a word) j"
      by (auto simp: bit_simps j)
    moreover have "k div 8 = Suc (j div 8)" "k mod 8 = j mod 8" by (simp_all add: j)
    ultimately show ?thesis by (auto simp: Cons.IH j)
  qed
qed

lemma bytesw_wbytes [simp]:
  fixes w :: "'a::len word"
  assumes "8 dvd LENGTH('a)"
  shows "bytesw (wbytes w) = w"
proof (rule bit_word_eqI)
  fix k
  assume k: "k < LENGTH('a)"
  then have "k div 8 < wsize TYPE('a)" using assms by (auto simp: wsize_def elim!: dvdE)
  with k show "bit (bytesw (wbytes w) :: 'a word) k = bit w k"
    by (simp add: bit_bytesw) (simp add: wbytes_def bit_byte_of)
qed

lemma wbytes_bytesw [simp]:
  assumes "length bs = wsize TYPE('a::len)"
  shows "wbytes (bytesw bs :: 'a word) = bs"
proof (rule nth_equalityI)
  fix i
  assume i: "i < length (wbytes (bytesw bs :: 'a word))"
  then have "i < wsize TYPE('a)" by simp
  moreover have "8 * i + k < LENGTH('a)" if "k < 8" for k
    using \<open>i < wsize TYPE('a)\<close> that by (auto simp: wsize_def less_eq_div_iff_mult_less_eq Suc_le_eq [symmetric])
  ultimately show "wbytes (bytesw bs :: 'a word) ! i = bs ! i"
    using assms by (intro bit_word_eqI) (simp add: wbytes_def bit_byte_of bit_bytesw)
qed (simp add: assms)

section \<open>The byte order of the file\<close>

definition rdi :: "bool \<Rightarrow> 'a::len word \<Rightarrow> 'a word" where
  "rdi littleEndian i =
     (if littleEndian
      then foldl (\<lambda>r n. r OR push_bit (n * 8) (ucast (byte_of i n))) 0 [0 ..< wsize TYPE('a)]
      else foldl (\<lambda>r n. r OR push_bit ((wsize TYPE('a) - n - 1) * 8) (ucast (byte_of i n))) 0
             [0 ..< wsize TYPE('a)])"

text \<open>\<open>wri(t, i)\<close> stores this in \<open>t\<close>; the value the call returns is \<open>i\<close> itself.\<close>

definition wri :: "bool \<Rightarrow> 'b::len word \<Rightarrow> 'a::len word" where
  "wri littleEndian i = rdi littleEndian (ucast i)"

lemma bit_foldl_or:
  "bit (foldl (\<lambda>r n. r OR f n) r0 ns) k \<longleftrightarrow> bit (r0 :: 'a::len word) k \<or> (\<exists>n \<in> set ns. bit (f n) k)"
  by (induction ns arbitrary: r0) (auto simp: bit_simps)

lemma bit_placed_byte:
  "bit (push_bit (m * 8) (ucast (byte_of i n)) :: 'a::len word) k \<longleftrightarrow>
   k < LENGTH('a) \<and> k div 8 = m \<and> bit i (8 * n + k mod 8)"
proof (cases "m * 8 \<le> k \<and> k < m * 8 + 8")
  case True
  then have "k div 8 = m" by (auto intro!: div_nat_eqI)
  moreover from this have "k mod 8 = k - m * 8" by (metis minus_div_mult_eq_mod)
  ultimately have "k div 8 = m" "k mod 8 = k - m * 8" by blast+
  with True show ?thesis by (auto simp: bit_simps bit_byte_of)
next
  case False
  then have "k div 8 \<noteq> m" by auto
  with False show ?thesis by (auto simp: bit_simps bit_byte_of)
qed

lemma bit_rdi:
  fixes i :: "'a::len word"
  assumes "8 dvd LENGTH('a)"
  shows "bit (rdi le i) k \<longleftrightarrow> k < LENGTH('a) \<and>
    bit i (if le then k else 8 * (wsize TYPE('a) - 1 - k div 8) + k mod 8)"
proof (cases "k < LENGTH('a)")
  case k: True
  then have d: "k div 8 < wsize TYPE('a)" using assms by (auto simp: wsize_def elim!: dvdE)
  show ?thesis
  proof (cases le)
    case True
    then have "bit (rdi le i) k \<longleftrightarrow> (\<exists>n < wsize TYPE('a). k div 8 = n \<and> bit i (8 * n + k mod 8))"
      using k by (auto simp: rdi_def bit_foldl_or bit_placed_byte)
    with True d k show ?thesis by auto
  next
    case False
    then have "bit (rdi le i) k \<longleftrightarrow>
        (\<exists>n < wsize TYPE('a). k div 8 = wsize TYPE('a) - n - 1 \<and> bit i (8 * n + k mod 8))"
      using k by (auto simp: rdi_def bit_foldl_or bit_placed_byte)
    also have "\<dots> \<longleftrightarrow> bit i (8 * (wsize TYPE('a) - 1 - k div 8) + k mod 8)"
    proof
      assume "\<exists>n < wsize TYPE('a). k div 8 = wsize TYPE('a) - n - 1 \<and> bit i (8 * n + k mod 8)"
      then obtain n where n: "n < wsize TYPE('a)" "k div 8 = wsize TYPE('a) - n - 1" "bit i (8 * n + k mod 8)" by blast
      then have "wsize TYPE('a) - 1 - k div 8 = n" by arith
      with n show "bit i (8 * (wsize TYPE('a) - 1 - k div 8) + k mod 8)" by simp
    next
      assume "bit i (8 * (wsize TYPE('a) - 1 - k div 8) + k mod 8)"
      moreover have "wsize TYPE('a) - 1 - k div 8 < wsize TYPE('a)"
        "k div 8 = wsize TYPE('a) - (wsize TYPE('a) - 1 - k div 8) - 1" using d by arith+
      ultimately show "\<exists>n < wsize TYPE('a). k div 8 = wsize TYPE('a) - n - 1 \<and> bit i (8 * n + k mod 8)" by blast
    qed
    finally show ?thesis using k False by simp
  qed
next
  case False
  then show ?thesis using bit_imp_le_length [of "rdi le i" k] by auto
qed

lemma rdi_little [simp]:
  fixes i :: "'a::len word"
  assumes "8 dvd LENGTH('a)"
  shows "rdi True i = i"
  by (rule bit_word_eqI) (simp add: bit_rdi [OF assms])

lemma rdi_rdi [simp]:
  fixes i :: "'a::len word"
  assumes "8 dvd LENGTH('a)"
  shows "rdi le (rdi le i) = i"
proof (rule bit_word_eqI)
  fix k
  assume k: "k < LENGTH('a)"
  let ?s = "wsize TYPE('a)" and ?k = "8 * (wsize TYPE('a) - 1 - k div 8) + k mod 8"
  from k have d: "k div 8 < ?s" using assms by (auto simp: wsize_def elim!: dvdE)
  have k': "?k div 8 = ?s - 1 - k div 8" "?k mod 8 = k mod 8" by simp_all
  have "?k < 8 * ?s" using d by arith
  then have lt: "?k < LENGTH('a)" by (simp add: wsize_def)
  have "8 * (?s - 1 - ?k div 8) + ?k mod 8 = k" using d by (simp add: k')
  with k lt show "bit (rdi le (rdi le i)) k = bit i k"
    by (cases le) (simp_all add: bit_rdi [OF assms])
qed

lemma rdi_inject:
  "8 dvd LENGTH('a) \<Longrightarrow> rdi le (i :: 'a::len word) = rdi le j \<longleftrightarrow> i = j"
  by (metis rdi_rdi)

text \<open>What is written in the byte order of the file is read back, cut to the width of the field.\<close>

lemma rdi_wri [simp]:
  "8 dvd LENGTH('a) \<Longrightarrow> rdi le (wri le i :: 'a::len word) = ucast i"
  by (simp add: wri_def)

lemma rdi_0 [simp]: "rdi le (0 :: 'a::len word) = 0"
proof -
  have "foldl (\<lambda>r n. r OR push_bit (g n) (ucast (byte_of (0::'a word) n))) 0 ns = (0::'a word)" for g ns
    by (induction ns) (simp_all add: byte_of_def)
  then show ?thesis by (simp add: rdi_def)
qed

lemma rdi_eq_0 [simp]: "8 dvd LENGTH('a) \<Longrightarrow> rdi le (i :: 'a::len word) = 0 \<longleftrightarrow> i = 0"
  using rdi_inject [of le i 0] by simp

section \<open>Rounding up\<close>

definition roundUp :: "32 word \<Rightarrow> 32 word \<Rightarrow> 32 word" where
  "roundUp n m = ((n - 1) div m + 1) * m"

text \<open>
  Below the wrap-around the result is the least multiple of \<open>m\<close> that is not below \<open>n\<close>; for
  \<open>n = 0\<close> the subtraction wraps, and the result is 0 where \<open>m\<close> is a power of two.
\<close>

lemma unat_roundUp:
  assumes "0 < m" and "0 < n" and "unat n + unat m \<le> 2 ^ 32"
  shows "unat (roundUp n m) = ((unat n - 1) div unat m + 1) * unat m"
proof -
  have m: "0 < unat m" and n: "0 < unat n" using assms(1,2) by (simp_all add: word_less_nat_alt)
  have n1: "unat (n - 1) = unat n - 1"
    using n by (metis unat_minus_one unat_0 neq0_conv)
  let ?q = "(unat n - 1) div unat m"
  have q: "unat ((n - 1) div m) = ?q" by (simp add: unat_div n1)
  have le: "?q * unat m \<le> unat n - 1" by (rule div_times_less_eq_dividend)
  then have lt: "(?q + 1) * unat m < 2 ^ 32"
    using assms(3) n unfolding add_mult_distrib by linarith
  have "?q \<le> ?q * unat m" using m by simp
  then have small: "?q + 1 < 2 ^ 32" using lt unfolding add_mult_distrib using m by linarith
  have "unat ((n - 1) div m + 1) = (unat ((n - 1) div m) + 1) mod 2 ^ 32"
    by (simp only: unat_word_ariths) simp
  then have "unat ((n - 1) div m + 1) = ?q + 1"
    using small by (simp only: q mod_less)
  with lt show ?thesis unfolding roundUp_def by (simp add: unat_word_ariths)
qed

lemma roundUp_bounds:
  assumes "0 < m" and "0 < n" and "unat n + unat m \<le> 2 ^ 32"
  shows "unat m dvd unat (roundUp n m)" and "unat n \<le> unat (roundUp n m)"
    and "unat (roundUp n m) < unat n + unat m"
proof -
  have m: "0 < unat m" and n: "0 < unat n" using assms(1,2) by (simp_all add: word_less_nat_alt)
  let ?q = "(unat n - 1) div unat m"
  note r = unat_roundUp [OF assms]
  show "unat m dvd unat (roundUp n m)" by (simp add: r)
  have "unat n - 1 = ?q * unat m + (unat n - 1) mod unat m" by (rule div_mult_mod_eq [symmetric])
  moreover have "(unat n - 1) mod unat m < unat m" using m by simp
  ultimately show "unat n \<le> unat (roundUp n m)" and "unat (roundUp n m) < unat n + unat m"
    using n unfolding r add_mult_distrib by linarith+
qed

lemma roundUp_0 [simp]: "roundUp 0 4 = 0" "roundUp 0 8 = 0" "roundUp 0 0x1000 = 0"
  by (simp_all add: roundUp_def)

end
