(* ===== verification/ElfTypes.thy ===== *)
theory ElfTypes
  imports Endian
begin

text \<open>
  The structures of \<open>patchelf-0.9/src/elf.h\<close>. The header declares each twice, for 32-bit and for
  64-bit files; the two differ in the width of addresses, offsets and sizes, so each pair is one
  record here, over the width \<open>'a\<close> of \<open>Elf_Addr\<close> and \<open>Elf_Off\<close>, and the two declarations are its
  instances at 32 and 64. The members hold the bits as they stand in memory. \<open>enc\<close> and \<open>dec\<close>
  give the image of a structure in memory; where the two declarations order the members
  differently (\<open>Elf_Phdr\<close>, \<open>Elf_Sym\<close>) so do they.
\<close>

section \<open>The structures\<close>

type_synonym 'a Elf_Addr = "'a word"
type_synonym 'a Elf_Off = "'a word"
type_synonym Elf_Half = "16 word"
type_synonym Elf_Word = "32 word"
type_synonym Elf_Section = "16 word"

record (overloaded) 'a Elf_Ehdr =
  e_ident :: bstring
  e_type :: Elf_Half
  e_machine :: Elf_Half
  e_version :: Elf_Word
  e_entry :: "'a::len Elf_Addr"
  e_phoff :: "'a::len Elf_Off"
  e_shoff :: "'a::len Elf_Off"
  e_flags :: Elf_Word
  e_ehsize :: Elf_Half
  e_phentsize :: Elf_Half
  e_phnum :: Elf_Half
  e_shentsize :: Elf_Half
  e_shnum :: Elf_Half
  e_shstrndx :: Elf_Half

record (overloaded) 'a Elf_Shdr =
  sh_name :: Elf_Word
  sh_type :: Elf_Word
  sh_flags :: "'a::len word"
  sh_addr :: "'a::len Elf_Addr"
  sh_offset :: "'a::len Elf_Off"
  sh_size :: "'a::len word"
  sh_link :: Elf_Word
  sh_info :: Elf_Word
  sh_addralign :: "'a::len word"
  sh_entsize :: "'a::len word"

record (overloaded) 'a Elf_Sym =
  st_name :: Elf_Word
  st_value :: "'a::len Elf_Addr"
  st_size :: "'a::len word"
  st_info :: byte
  st_other :: byte
  st_shndx :: Elf_Section

record (overloaded) 'a Elf_Phdr =
  p_type :: Elf_Word
  p_offset :: "'a::len Elf_Off"
  p_vaddr :: "'a::len Elf_Addr"
  p_paddr :: "'a::len Elf_Addr"
  p_filesz :: "'a::len word"
  p_memsz :: "'a::len word"
  p_flags :: Elf_Word
  p_align :: "'a::len word"

text \<open>The union of a dynamic entry has one width, so \<open>d_un\<close> is read as \<open>d_val\<close> and as \<open>d_ptr\<close>.\<close>

record (overloaded) 'a Elf_Dyn =
  d_tag :: "'a::len word"
  d_un :: "'a::len word"

section \<open>Their images in memory\<close>

definition rdw :: "bstring \<Rightarrow> 'a::len word \<times> bstring" where
  "rdw bs = (bytesw (take (wsize TYPE('a)) bs), drop (wsize TYPE('a)) bs)"

definition elf32 :: "'a::len itself \<Rightarrow> bool" where
  "elf32 T \<longleftrightarrow> LENGTH('a) = 32"

definition EI_NIDENT :: nat where
  "EI_NIDENT = 16"

definition enc_Ehdr :: "'a::len Elf_Ehdr \<Rightarrow> bstring" where
  "enc_Ehdr h = e_ident h @ wbytes (e_type h) @ wbytes (e_machine h) @ wbytes (e_version h) @
     wbytes (e_entry h) @ wbytes (e_phoff h) @ wbytes (e_shoff h) @ wbytes (e_flags h) @
     wbytes (e_ehsize h) @ wbytes (e_phentsize h) @ wbytes (e_phnum h) @ wbytes (e_shentsize h) @
     wbytes (e_shnum h) @ wbytes (e_shstrndx h)"

definition dec_Ehdr :: "bstring \<Rightarrow> 'a::len Elf_Ehdr" where
  "dec_Ehdr bs =
     (let ident = take EI_NIDENT bs; bs = drop EI_NIDENT bs;
          (ty, bs) = rdw bs; (mach, bs) = rdw bs; (ver, bs) = rdw bs; (entry, bs) = rdw bs;
          (phoff, bs) = rdw bs; (shoff, bs) = rdw bs; (flags, bs) = rdw bs; (ehsize, bs) = rdw bs;
          (phentsize, bs) = rdw bs; (phnum, bs) = rdw bs; (shentsize, bs) = rdw bs;
          (shnum, bs) = rdw bs; (shstrndx, bs) = rdw bs
      in \<lparr>e_ident = ident, e_type = ty, e_machine = mach, e_version = ver, e_entry = entry,
          e_phoff = phoff, e_shoff = shoff, e_flags = flags, e_ehsize = ehsize,
          e_phentsize = phentsize, e_phnum = phnum, e_shentsize = shentsize, e_shnum = shnum,
          e_shstrndx = shstrndx\<rparr>)"

definition sizeof_Ehdr :: "'a::len itself \<Rightarrow> nat" where
  "sizeof_Ehdr T = 40 + 3 * wsize TYPE('a)"

definition enc_Shdr :: "'a::len Elf_Shdr \<Rightarrow> bstring" where
  "enc_Shdr s = wbytes (sh_name s) @ wbytes (sh_type s) @ wbytes (sh_flags s) @ wbytes (sh_addr s) @
     wbytes (sh_offset s) @ wbytes (sh_size s) @ wbytes (sh_link s) @ wbytes (sh_info s) @
     wbytes (sh_addralign s) @ wbytes (sh_entsize s)"

definition dec_Shdr :: "bstring \<Rightarrow> 'a::len Elf_Shdr" where
  "dec_Shdr bs =
     (let (nm, bs) = rdw bs; (ty, bs) = rdw bs; (flags, bs) = rdw bs; (addr, bs) = rdw bs;
          (offset, bs) = rdw bs; (size, bs) = rdw bs; (link, bs) = rdw bs; (info, bs) = rdw bs;
          (align, bs) = rdw bs; (entsize, bs) = rdw bs
      in \<lparr>sh_name = nm, sh_type = ty, sh_flags = flags, sh_addr = addr, sh_offset = offset,
          sh_size = size, sh_link = link, sh_info = info, sh_addralign = align,
          sh_entsize = entsize\<rparr>)"

definition sizeof_Shdr :: "'a::len itself \<Rightarrow> nat" where
  "sizeof_Shdr T = 6 * wsize TYPE('a) + 16"

definition enc_Phdr :: "'a::len Elf_Phdr \<Rightarrow> bstring" where
  "enc_Phdr p =
     (if elf32 TYPE('a) then
        wbytes (p_type p) @ wbytes (p_offset p) @ wbytes (p_vaddr p) @ wbytes (p_paddr p) @
        wbytes (p_filesz p) @ wbytes (p_memsz p) @ wbytes (p_flags p) @ wbytes (p_align p)
      else
        wbytes (p_type p) @ wbytes (p_flags p) @ wbytes (p_offset p) @ wbytes (p_vaddr p) @
        wbytes (p_paddr p) @ wbytes (p_filesz p) @ wbytes (p_memsz p) @ wbytes (p_align p))"

definition dec_Phdr :: "bstring \<Rightarrow> 'a::len Elf_Phdr" where
  "dec_Phdr bs =
     (if elf32 TYPE('a) then
        (let (ty, bs) = rdw bs; (offset, bs) = rdw bs; (vaddr, bs) = rdw bs; (paddr, bs) = rdw bs;
             (filesz, bs) = rdw bs; (memsz, bs) = rdw bs; (flags, bs) = rdw bs; (align, bs) = rdw bs
         in \<lparr>p_type = ty, p_offset = offset, p_vaddr = vaddr, p_paddr = paddr, p_filesz = filesz,
             p_memsz = memsz, p_flags = flags, p_align = align\<rparr>)
      else
        (let (ty, bs) = rdw bs; (flags, bs) = rdw bs; (offset, bs) = rdw bs; (vaddr, bs) = rdw bs;
             (paddr, bs) = rdw bs; (filesz, bs) = rdw bs; (memsz, bs) = rdw bs; (align, bs) = rdw bs
         in \<lparr>p_type = ty, p_offset = offset, p_vaddr = vaddr, p_paddr = paddr, p_filesz = filesz,
             p_memsz = memsz, p_flags = flags, p_align = align\<rparr>))"

definition sizeof_Phdr :: "'a::len itself \<Rightarrow> nat" where
  "sizeof_Phdr T = 6 * wsize TYPE('a) + 8"

definition enc_Sym :: "'a::len Elf_Sym \<Rightarrow> bstring" where
  "enc_Sym s =
     (if elf32 TYPE('a) then
        wbytes (st_name s) @ wbytes (st_value s) @ wbytes (st_size s) @ wbytes (st_info s) @
        wbytes (st_other s) @ wbytes (st_shndx s)
      else
        wbytes (st_name s) @ wbytes (st_info s) @ wbytes (st_other s) @ wbytes (st_shndx s) @
        wbytes (st_value s) @ wbytes (st_size s))"

definition dec_Sym :: "bstring \<Rightarrow> 'a::len Elf_Sym" where
  "dec_Sym bs =
     (if elf32 TYPE('a) then
        (let (nm, bs) = rdw bs; (value, bs) = rdw bs; (size, bs) = rdw bs; (info, bs) = rdw bs;
             (other, bs) = rdw bs; (shndx, bs) = rdw bs
         in \<lparr>st_name = nm, st_value = value, st_size = size, st_info = info, st_other = other,
             st_shndx = shndx\<rparr>)
      else
        (let (nm, bs) = rdw bs; (info, bs) = rdw bs; (other, bs) = rdw bs; (shndx, bs) = rdw bs;
             (value, bs) = rdw bs; (size, bs) = rdw bs
         in \<lparr>st_name = nm, st_value = value, st_size = size, st_info = info, st_other = other,
             st_shndx = shndx\<rparr>))"

definition sizeof_Sym :: "'a::len itself \<Rightarrow> nat" where
  "sizeof_Sym T = 2 * wsize TYPE('a) + 8"

definition enc_Dyn :: "'a::len Elf_Dyn \<Rightarrow> bstring" where
  "enc_Dyn d = wbytes (d_tag d) @ wbytes (d_un d)"

definition dec_Dyn :: "bstring \<Rightarrow> 'a::len Elf_Dyn" where
  "dec_Dyn bs = (let (tag, bs) = rdw bs; (un, bs) = rdw bs in \<lparr>d_tag = tag, d_un = un\<rparr>)"

definition sizeof_Dyn :: "'a::len itself \<Rightarrow> nat" where
  "sizeof_Dyn T = 2 * wsize TYPE('a)"

section \<open>The layout interface\<close>

text \<open>
  What the clients of a structure rely on: its image has the structure's size, an image followed
  by anything gives the structure back, and any image of that size is the image of what it
  decodes to, so that storing a structure that was loaded changes nothing.
\<close>

locale layout =
  fixes enc :: "'s \<Rightarrow> bstring" and dec :: "bstring \<Rightarrow> 's" and size :: nat and wf :: "'s \<Rightarrow> bool"
  assumes length_enc: "wf s \<Longrightarrow> length (enc s) = size"
    and dec_enc: "wf s \<Longrightarrow> dec (enc s @ rest) = s"
    and enc_dec: "size \<le> length bs \<Longrightarrow> enc (dec bs) = take size bs"
    and wf_dec: "size \<le> length bs \<Longrightarrow> wf (dec bs)"
begin

lemma enc_inject: "wf s \<Longrightarrow> wf s' \<Longrightarrow> enc s = enc s' \<longleftrightarrow> s = s'"
  by (metis dec_enc)

text \<open>Loading from an image.\<close>

lemma dec_chunk_enc: "wf s \<Longrightarrow> chunk off size c = enc s \<Longrightarrow> dec (chunk off size c) = s"
  using dec_enc [of s "[]"] by simp

lemma load_store:
  assumes "wf s" and "off + size \<le> length c"
  shows "dec (chunk off size (overwrite off (enc s) c)) = s"
proof -
  have "chunk off size (overwrite off (enc s) c) = enc s"
    using assms chunk_overwrite_same [of off "enc s" c] by (simp add: length_enc)
  then show ?thesis using dec_enc [OF assms(1), of "[]"] by simp
qed

lemma store_load: "off + size \<le> length c \<Longrightarrow> overwrite off (enc (dec (chunk off size c))) c = c"
  using enc_dec [of "chunk off size c"] overwrite_id [of off size c] by simp

text \<open>A table of structures: entry \<open>i\<close> of the images one after the other.\<close>

lemma chunk_table:
  assumes "\<forall>s \<in> set xs. wf s" and "i < length xs"
  shows "chunk (i * size) size (concat (map enc xs) @ rest) = enc (xs ! i)"
  using assms
proof (induction xs arbitrary: i)
  case Nil
  then show ?case by simp
next
  case (Cons x xs)
  have len: "length (enc x) = size" using Cons.prems(1) by (simp add: length_enc)
  show ?case
  proof (cases i)
    case 0
    then show ?thesis by (simp add: chunk_def len)
  next
    case (Suc j)
    have "chunk (i * size) size (concat (map enc (x # xs)) @ rest) = chunk (j * size) size (concat (map enc xs) @ rest)"
      using len by (simp add: chunk_def Suc)
    with Cons Suc show ?thesis by simp
  qed
qed

end

text \<open>The widths at which the layouts are used: 32 and 64 bits.\<close>

definition elf_width :: "'a::len itself \<Rightarrow> bool" where
  "elf_width T \<longleftrightarrow> LENGTH('a) = 32 \<or> LENGTH('a) = 64"

lemma elf_width_32 [simp]: "elf_width TYPE(32)" and elf_width_64 [simp]: "elf_width TYPE(64)"
  by (simp_all add: elf_width_def)

lemma elf_width_dvd: "elf_width TYPE('a::len) \<Longrightarrow> 8 dvd LENGTH('a)"
  by (auto simp: elf_width_def)

lemma wsize_elf_width: "elf_width TYPE('a::len) \<Longrightarrow> wsize TYPE('a) = (if elf32 TYPE('a) then 4 else 8)"
  by (auto simp: elf_width_def elf32_def wsize_def)

lemma rdw_wbytes:
  "8 dvd LENGTH('a) \<Longrightarrow> rdw (wbytes (w :: 'a::len word) @ rest) = (w, rest)"
  by (simp add: rdw_def)

lemma wbytes_rdw:
  "wsize TYPE('a) \<le> length bs \<Longrightarrow> rdw bs = (w :: 'a::len word, rest) \<Longrightarrow>
   wbytes w = take (wsize TYPE('a)) bs \<and> rest = drop (wsize TYPE('a)) bs"
  by (auto simp: rdw_def)

lemmas enc_defs = enc_Ehdr_def enc_Shdr_def enc_Phdr_def enc_Sym_def enc_Dyn_def
lemmas dec_defs = dec_Ehdr_def dec_Shdr_def dec_Phdr_def dec_Sym_def dec_Dyn_def
lemmas sizeof_defs = sizeof_Ehdr_def sizeof_Shdr_def sizeof_Phdr_def sizeof_Sym_def sizeof_Dyn_def

lemma wbytes_take: "wsize TYPE('a) \<le> length bs \<Longrightarrow> wbytes (bytesw (take (wsize TYPE('a)) bs) :: 'a::len word) = take (wsize TYPE('a)) bs"
  by simp

lemma take_add_drop: "a = c \<Longrightarrow> take a bs @ take b (drop c bs) = take (a + b) bs"
  by (simp add: take_add)

lemma layout_Ehdr:
  assumes "elf_width TYPE('a::len)"
  shows "layout (enc_Ehdr :: 'a Elf_Ehdr \<Rightarrow> bstring) dec_Ehdr (sizeof_Ehdr TYPE('a)) (\<lambda>h. length (e_ident h) = EI_NIDENT)"
proof
  note d = elf_width_dvd [OF assms]
  fix s :: "'a Elf_Ehdr" and rest
  assume "length (e_ident s) = EI_NIDENT"
  then show "length (enc_Ehdr s) = sizeof_Ehdr TYPE('a)" and "dec_Ehdr (enc_Ehdr s @ rest) = s"
    by (simp_all add: enc_Ehdr_def dec_Ehdr_def sizeof_Ehdr_def EI_NIDENT_def rdw_wbytes d)
next
  fix bs :: bstring
  assume "sizeof_Ehdr TYPE('a) \<le> length bs"
  then show "enc_Ehdr (dec_Ehdr bs :: 'a Elf_Ehdr) = take (sizeof_Ehdr TYPE('a)) bs"
    by (simp add: enc_Ehdr_def dec_Ehdr_def sizeof_Ehdr_def EI_NIDENT_def rdw_def take_add_drop flip: append_assoc)
  from \<open>sizeof_Ehdr TYPE('a) \<le> length bs\<close> show "length (e_ident (dec_Ehdr bs :: 'a Elf_Ehdr)) = EI_NIDENT"
    by (simp add: dec_Ehdr_def sizeof_Ehdr_def EI_NIDENT_def rdw_def)
qed

lemma layout_Shdr:
  assumes "elf_width TYPE('a::len)"
  shows "layout (enc_Shdr :: 'a Elf_Shdr \<Rightarrow> bstring) dec_Shdr (sizeof_Shdr TYPE('a)) (\<lambda>_. True)"
proof
  note d = elf_width_dvd [OF assms]
  fix s :: "'a Elf_Shdr" and rest
  show "length (enc_Shdr s) = sizeof_Shdr TYPE('a)" and "dec_Shdr (enc_Shdr s @ rest) = s"
    by (simp_all add: enc_Shdr_def dec_Shdr_def sizeof_Shdr_def rdw_wbytes d)
next
  fix bs :: bstring
  assume "sizeof_Shdr TYPE('a) \<le> length bs"
  then show "enc_Shdr (dec_Shdr bs :: 'a Elf_Shdr) = take (sizeof_Shdr TYPE('a)) bs"
    by (simp add: enc_Shdr_def dec_Shdr_def sizeof_Shdr_def rdw_def take_add_drop flip: append_assoc)
qed simp_all

lemma layout_Phdr:
  assumes "elf_width TYPE('a::len)"
  shows "layout (enc_Phdr :: 'a Elf_Phdr \<Rightarrow> bstring) dec_Phdr (sizeof_Phdr TYPE('a)) (\<lambda>_. True)"
proof
  note d = elf_width_dvd [OF assms]
  fix s :: "'a Elf_Phdr" and rest
  show "length (enc_Phdr s) = sizeof_Phdr TYPE('a)" and "dec_Phdr (enc_Phdr s @ rest) = s"
    by (simp_all add: enc_Phdr_def dec_Phdr_def sizeof_Phdr_def rdw_wbytes d)
next
  fix bs :: bstring
  assume "sizeof_Phdr TYPE('a) \<le> length bs"
  then show "enc_Phdr (dec_Phdr bs :: 'a Elf_Phdr) = take (sizeof_Phdr TYPE('a)) bs"
    by (simp add: enc_Phdr_def dec_Phdr_def sizeof_Phdr_def rdw_def take_add_drop flip: append_assoc)
qed simp_all

lemma layout_Sym:
  assumes "elf_width TYPE('a::len)"
  shows "layout (enc_Sym :: 'a Elf_Sym \<Rightarrow> bstring) dec_Sym (sizeof_Sym TYPE('a)) (\<lambda>_. True)"
proof
  note d = elf_width_dvd [OF assms]
  fix s :: "'a Elf_Sym" and rest
  show "length (enc_Sym s) = sizeof_Sym TYPE('a)" and "dec_Sym (enc_Sym s @ rest) = s"
    by (simp_all add: enc_Sym_def dec_Sym_def sizeof_Sym_def rdw_wbytes d)
next
  fix bs :: bstring
  assume "sizeof_Sym TYPE('a) \<le> length bs"
  then show "enc_Sym (dec_Sym bs :: 'a Elf_Sym) = take (sizeof_Sym TYPE('a)) bs"
    by (simp add: enc_Sym_def dec_Sym_def sizeof_Sym_def rdw_def take_add_drop add.commute [of 8 "2 * wsize TYPE('a)"] flip: append_assoc)
qed simp_all

lemma layout_Dyn:
  assumes "elf_width TYPE('a::len)"
  shows "layout (enc_Dyn :: 'a Elf_Dyn \<Rightarrow> bstring) dec_Dyn (sizeof_Dyn TYPE('a)) (\<lambda>_. True)"
proof
  note d = elf_width_dvd [OF assms]
  fix s :: "'a Elf_Dyn" and rest
  show "length (enc_Dyn s) = sizeof_Dyn TYPE('a)" and "dec_Dyn (enc_Dyn s @ rest) = s"
    by (simp_all add: enc_Dyn_def dec_Dyn_def sizeof_Dyn_def rdw_wbytes d)
next
  fix bs :: bstring
  assume "sizeof_Dyn TYPE('a) \<le> length bs"
  then show "enc_Dyn (dec_Dyn bs :: 'a Elf_Dyn) = take (sizeof_Dyn TYPE('a)) bs"
    by (simp add: enc_Dyn_def dec_Dyn_def sizeof_Dyn_def rdw_def mult_2 take_add_drop flip: append_assoc)
qed simp_all

interpretation Ehdr32: layout "enc_Ehdr :: 32 Elf_Ehdr \<Rightarrow> bstring" dec_Ehdr "sizeof_Ehdr TYPE(32)" "\<lambda>h. length (e_ident h) = EI_NIDENT"
  by (rule layout_Ehdr) simp

interpretation Ehdr64: layout "enc_Ehdr :: 64 Elf_Ehdr \<Rightarrow> bstring" dec_Ehdr "sizeof_Ehdr TYPE(64)" "\<lambda>h. length (e_ident h) = EI_NIDENT"
  by (rule layout_Ehdr) simp

interpretation Shdr32: layout "enc_Shdr :: 32 Elf_Shdr \<Rightarrow> bstring" dec_Shdr "sizeof_Shdr TYPE(32)" "\<lambda>_. True"
  by (rule layout_Shdr) simp

interpretation Shdr64: layout "enc_Shdr :: 64 Elf_Shdr \<Rightarrow> bstring" dec_Shdr "sizeof_Shdr TYPE(64)" "\<lambda>_. True"
  by (rule layout_Shdr) simp

interpretation Phdr32: layout "enc_Phdr :: 32 Elf_Phdr \<Rightarrow> bstring" dec_Phdr "sizeof_Phdr TYPE(32)" "\<lambda>_. True"
  by (rule layout_Phdr) simp

interpretation Phdr64: layout "enc_Phdr :: 64 Elf_Phdr \<Rightarrow> bstring" dec_Phdr "sizeof_Phdr TYPE(64)" "\<lambda>_. True"
  by (rule layout_Phdr) simp

interpretation Sym32: layout "enc_Sym :: 32 Elf_Sym \<Rightarrow> bstring" dec_Sym "sizeof_Sym TYPE(32)" "\<lambda>_. True"
  by (rule layout_Sym) simp

interpretation Sym64: layout "enc_Sym :: 64 Elf_Sym \<Rightarrow> bstring" dec_Sym "sizeof_Sym TYPE(64)" "\<lambda>_. True"
  by (rule layout_Sym) simp

interpretation Dyn32: layout "enc_Dyn :: 32 Elf_Dyn \<Rightarrow> bstring" dec_Dyn "sizeof_Dyn TYPE(32)" "\<lambda>_. True"
  by (rule layout_Dyn) simp

interpretation Dyn64: layout "enc_Dyn :: 64 Elf_Dyn \<Rightarrow> bstring" dec_Dyn "sizeof_Dyn TYPE(64)" "\<lambda>_. True"
  by (rule layout_Dyn) simp

end
