(* ===== verification/ElfConstants.thy ===== *)
theory ElfConstants
  imports ElfTypes
begin

text \<open>
  The rest of the generic part of \<open>patchelf-0.9/src/elf.h\<close>: the structures \<open>patchelf\<close> itself does
  not touch, the macros that take packed fields apart, and the numbers the header gives names
  to, as tables from names to values, one per field. The names that \<open>patchelf.cc\<close> uses are
  abbreviations at the type they are used at; the tables and the abbreviations agree.
  The processor-specific rest of the header is in \<open>ElfProcessor\<close> and \<open>ElfRelocations\<close>.
\<close>

section \<open>Structures that are only described\<close>

record Elf_Syminfo =
  si_boundto :: Elf_Half
  si_flags :: Elf_Half

definition enc_Syminfo :: "Elf_Syminfo \<Rightarrow> bstring" where
  "enc_Syminfo s = wbytes (si_boundto s) @ wbytes (si_flags s)"

definition dec_Syminfo :: "bstring \<Rightarrow> Elf_Syminfo" where
  "dec_Syminfo bs =
     (let (v0, bs) = rdw bs; (v1, bs) = rdw bs
      in \<lparr>si_boundto = v0, si_flags = v1\<rparr>)"

interpretation Syminfo: layout enc_Syminfo dec_Syminfo 4 "\<lambda>_. True"
  by unfold_locales (simp_all add: enc_Syminfo_def dec_Syminfo_def rdw_wbytes rdw_def take_add_drop flip: append_assoc)

record (overloaded) 'a Elf_Rel =
  r_offset :: "'a::len Elf_Addr"
  r_info :: "'a::len word"

definition enc_Rel :: "'a::len Elf_Rel \<Rightarrow> bstring" where
  "enc_Rel s = wbytes (r_offset s) @ wbytes (r_info s)"

definition dec_Rel :: "bstring \<Rightarrow> 'a::len Elf_Rel" where
  "dec_Rel bs =
     (let (v0, bs) = rdw bs; (v1, bs) = rdw bs
      in \<lparr>r_offset = v0, r_info = v1\<rparr>)"

lemma layout_Rel:
  assumes "elf_width TYPE('a::len)"
  shows "layout (enc_Rel :: 'a Elf_Rel \<Rightarrow> bstring) dec_Rel (2 * wsize TYPE('a)) (\<lambda>_. True)"
proof
  note d = elf_width_dvd [OF assms]
  fix s :: "'a Elf_Rel" and rest
  show "length (enc_Rel s) = 2 * wsize TYPE('a)" and "dec_Rel (enc_Rel s @ rest) = s"
    by (simp_all add: enc_Rel_def dec_Rel_def rdw_wbytes d)
next
  fix bs :: bstring
  assume "2 * wsize TYPE('a) \<le> length bs"
  then show "enc_Rel (dec_Rel bs :: 'a Elf_Rel) = take (2 * wsize TYPE('a)) bs"
    by (cases "elf32 TYPE('a)")
       (simp_all add: enc_Rel_def dec_Rel_def rdw_def wsize_elf_width [OF assms] take_add_drop flip: append_assoc)
qed simp_all

interpretation Rel32: layout "enc_Rel :: 32 Elf_Rel \<Rightarrow> bstring" dec_Rel "2 * wsize TYPE(32)" "\<lambda>_. True"
  by (rule layout_Rel) simp

interpretation Rel64: layout "enc_Rel :: 64 Elf_Rel \<Rightarrow> bstring" dec_Rel "2 * wsize TYPE(64)" "\<lambda>_. True"
  by (rule layout_Rel) simp

record (overloaded) 'a Elf_Rela =
  ra_offset :: "'a::len Elf_Addr"
  ra_info :: "'a::len word"
  ra_addend :: "'a::len word"

definition enc_Rela :: "'a::len Elf_Rela \<Rightarrow> bstring" where
  "enc_Rela s = wbytes (ra_offset s) @ wbytes (ra_info s) @ wbytes (ra_addend s)"

definition dec_Rela :: "bstring \<Rightarrow> 'a::len Elf_Rela" where
  "dec_Rela bs =
     (let (v0, bs) = rdw bs; (v1, bs) = rdw bs; (v2, bs) = rdw bs
      in \<lparr>ra_offset = v0, ra_info = v1, ra_addend = v2\<rparr>)"

lemma layout_Rela:
  assumes "elf_width TYPE('a::len)"
  shows "layout (enc_Rela :: 'a Elf_Rela \<Rightarrow> bstring) dec_Rela (3 * wsize TYPE('a)) (\<lambda>_. True)"
proof
  note d = elf_width_dvd [OF assms]
  fix s :: "'a Elf_Rela" and rest
  show "length (enc_Rela s) = 3 * wsize TYPE('a)" and "dec_Rela (enc_Rela s @ rest) = s"
    by (simp_all add: enc_Rela_def dec_Rela_def rdw_wbytes d)
next
  fix bs :: bstring
  assume "3 * wsize TYPE('a) \<le> length bs"
  then show "enc_Rela (dec_Rela bs :: 'a Elf_Rela) = take (3 * wsize TYPE('a)) bs"
    by (cases "elf32 TYPE('a)")
       (simp_all add: enc_Rela_def dec_Rela_def rdw_def wsize_elf_width [OF assms] take_add_drop flip: append_assoc)
qed simp_all

interpretation Rela32: layout "enc_Rela :: 32 Elf_Rela \<Rightarrow> bstring" dec_Rela "3 * wsize TYPE(32)" "\<lambda>_. True"
  by (rule layout_Rela) simp

interpretation Rela64: layout "enc_Rela :: 64 Elf_Rela \<Rightarrow> bstring" dec_Rela "3 * wsize TYPE(64)" "\<lambda>_. True"
  by (rule layout_Rela) simp

record Elf_Verdef =
  vd_version :: Elf_Half
  vd_flags :: Elf_Half
  vd_ndx :: Elf_Half
  vd_cnt :: Elf_Half
  vd_hash :: Elf_Word
  vd_aux :: Elf_Word
  vd_next :: Elf_Word

definition enc_Verdef :: "Elf_Verdef \<Rightarrow> bstring" where
  "enc_Verdef s = wbytes (vd_version s) @ wbytes (vd_flags s) @ wbytes (vd_ndx s) @ wbytes (vd_cnt s) @ wbytes (vd_hash s) @ wbytes (vd_aux s) @ wbytes (vd_next s)"

definition dec_Verdef :: "bstring \<Rightarrow> Elf_Verdef" where
  "dec_Verdef bs =
     (let (v0, bs) = rdw bs; (v1, bs) = rdw bs; (v2, bs) = rdw bs; (v3, bs) = rdw bs; (v4, bs) = rdw bs; (v5, bs) = rdw bs; (v6, bs) = rdw bs
      in \<lparr>vd_version = v0, vd_flags = v1, vd_ndx = v2, vd_cnt = v3, vd_hash = v4, vd_aux = v5, vd_next = v6\<rparr>)"

interpretation Verdef: layout enc_Verdef dec_Verdef 20 "\<lambda>_. True"
  by unfold_locales (simp_all add: enc_Verdef_def dec_Verdef_def rdw_wbytes rdw_def take_add_drop flip: append_assoc)

record Elf_Verdaux =
  vda_name :: Elf_Word
  vda_next :: Elf_Word

definition enc_Verdaux :: "Elf_Verdaux \<Rightarrow> bstring" where
  "enc_Verdaux s = wbytes (vda_name s) @ wbytes (vda_next s)"

definition dec_Verdaux :: "bstring \<Rightarrow> Elf_Verdaux" where
  "dec_Verdaux bs =
     (let (v0, bs) = rdw bs; (v1, bs) = rdw bs
      in \<lparr>vda_name = v0, vda_next = v1\<rparr>)"

interpretation Verdaux: layout enc_Verdaux dec_Verdaux 8 "\<lambda>_. True"
  by unfold_locales (simp_all add: enc_Verdaux_def dec_Verdaux_def rdw_wbytes rdw_def take_add_drop flip: append_assoc)

record Elf_Verneed =
  vn_version :: Elf_Half
  vn_cnt :: Elf_Half
  vn_file :: Elf_Word
  vn_aux :: Elf_Word
  vn_next :: Elf_Word

definition enc_Verneed :: "Elf_Verneed \<Rightarrow> bstring" where
  "enc_Verneed s = wbytes (vn_version s) @ wbytes (vn_cnt s) @ wbytes (vn_file s) @ wbytes (vn_aux s) @ wbytes (vn_next s)"

definition dec_Verneed :: "bstring \<Rightarrow> Elf_Verneed" where
  "dec_Verneed bs =
     (let (v0, bs) = rdw bs; (v1, bs) = rdw bs; (v2, bs) = rdw bs; (v3, bs) = rdw bs; (v4, bs) = rdw bs
      in \<lparr>vn_version = v0, vn_cnt = v1, vn_file = v2, vn_aux = v3, vn_next = v4\<rparr>)"

interpretation Verneed: layout enc_Verneed dec_Verneed 16 "\<lambda>_. True"
  by unfold_locales (simp_all add: enc_Verneed_def dec_Verneed_def rdw_wbytes rdw_def take_add_drop flip: append_assoc)

record Elf_Vernaux =
  vna_hash :: Elf_Word
  vna_flags :: Elf_Half
  vna_other :: Elf_Half
  vna_name :: Elf_Word
  vna_next :: Elf_Word

definition enc_Vernaux :: "Elf_Vernaux \<Rightarrow> bstring" where
  "enc_Vernaux s = wbytes (vna_hash s) @ wbytes (vna_flags s) @ wbytes (vna_other s) @ wbytes (vna_name s) @ wbytes (vna_next s)"

definition dec_Vernaux :: "bstring \<Rightarrow> Elf_Vernaux" where
  "dec_Vernaux bs =
     (let (v0, bs) = rdw bs; (v1, bs) = rdw bs; (v2, bs) = rdw bs; (v3, bs) = rdw bs; (v4, bs) = rdw bs
      in \<lparr>vna_hash = v0, vna_flags = v1, vna_other = v2, vna_name = v3, vna_next = v4\<rparr>)"

interpretation Vernaux: layout enc_Vernaux dec_Vernaux 16 "\<lambda>_. True"
  by unfold_locales (simp_all add: enc_Vernaux_def dec_Vernaux_def rdw_wbytes rdw_def take_add_drop flip: append_assoc)

record (overloaded) 'a Elf_auxv_t =
  a_type :: "'a::len word"
  a_val :: "'a::len word"

definition enc_auxv_t :: "'a::len Elf_auxv_t \<Rightarrow> bstring" where
  "enc_auxv_t s = wbytes (a_type s) @ wbytes (a_val s)"

definition dec_auxv_t :: "bstring \<Rightarrow> 'a::len Elf_auxv_t" where
  "dec_auxv_t bs =
     (let (v0, bs) = rdw bs; (v1, bs) = rdw bs
      in \<lparr>a_type = v0, a_val = v1\<rparr>)"

lemma layout_auxv_t:
  assumes "elf_width TYPE('a::len)"
  shows "layout (enc_auxv_t :: 'a Elf_auxv_t \<Rightarrow> bstring) dec_auxv_t (2 * wsize TYPE('a)) (\<lambda>_. True)"
proof
  note d = elf_width_dvd [OF assms]
  fix s :: "'a Elf_auxv_t" and rest
  show "length (enc_auxv_t s) = 2 * wsize TYPE('a)" and "dec_auxv_t (enc_auxv_t s @ rest) = s"
    by (simp_all add: enc_auxv_t_def dec_auxv_t_def rdw_wbytes d)
next
  fix bs :: bstring
  assume "2 * wsize TYPE('a) \<le> length bs"
  then show "enc_auxv_t (dec_auxv_t bs :: 'a Elf_auxv_t) = take (2 * wsize TYPE('a)) bs"
    by (cases "elf32 TYPE('a)")
       (simp_all add: enc_auxv_t_def dec_auxv_t_def rdw_def wsize_elf_width [OF assms] take_add_drop flip: append_assoc)
qed simp_all

interpretation auxv_t32: layout "enc_auxv_t :: 32 Elf_auxv_t \<Rightarrow> bstring" dec_auxv_t "2 * wsize TYPE(32)" "\<lambda>_. True"
  by (rule layout_auxv_t) simp

interpretation auxv_t64: layout "enc_auxv_t :: 64 Elf_auxv_t \<Rightarrow> bstring" dec_auxv_t "2 * wsize TYPE(64)" "\<lambda>_. True"
  by (rule layout_auxv_t) simp

record Elf_Nhdr =
  n_namesz :: Elf_Word
  n_descsz :: Elf_Word
  n_type :: Elf_Word

definition enc_Nhdr :: "Elf_Nhdr \<Rightarrow> bstring" where
  "enc_Nhdr s = wbytes (n_namesz s) @ wbytes (n_descsz s) @ wbytes (n_type s)"

definition dec_Nhdr :: "bstring \<Rightarrow> Elf_Nhdr" where
  "dec_Nhdr bs =
     (let (v0, bs) = rdw bs; (v1, bs) = rdw bs; (v2, bs) = rdw bs
      in \<lparr>n_namesz = v0, n_descsz = v1, n_type = v2\<rparr>)"

interpretation Nhdr: layout enc_Nhdr dec_Nhdr 12 "\<lambda>_. True"
  by unfold_locales (simp_all add: enc_Nhdr_def dec_Nhdr_def rdw_wbytes rdw_def take_add_drop flip: append_assoc)

section \<open>Packed fields\<close>

definition ELF32_ST_BIND :: "32 word \<Rightarrow> 32 word" where
  "ELF32_ST_BIND val = drop_bit 4 (ucast (ucast val :: byte))"

definition ELF32_ST_TYPE :: "32 word \<Rightarrow> 32 word" where
  "ELF32_ST_TYPE val = val AND 0xf"

definition ELF32_ST_INFO :: "32 word \<Rightarrow> 32 word \<Rightarrow> 32 word" where
  "ELF32_ST_INFO b type = push_bit 4 b + (type AND 0xf)"

definition ELF32_ST_VISIBILITY :: "32 word \<Rightarrow> 32 word" where
  "ELF32_ST_VISIBILITY o' = o' AND 0x03"

definition ELF32_R_SYM :: "32 word \<Rightarrow> 32 word" where
  "ELF32_R_SYM val = drop_bit 8 val"

definition ELF32_R_TYPE :: "32 word \<Rightarrow> 32 word" where
  "ELF32_R_TYPE val = val AND 0xff"

definition ELF32_R_INFO :: "32 word \<Rightarrow> 32 word \<Rightarrow> 32 word" where
  "ELF32_R_INFO sy ty = push_bit 8 sy + (ty AND 0xff)"

definition ELF64_R_SYM :: "64 word \<Rightarrow> 64 word" where
  "ELF64_R_SYM i = drop_bit 32 i"

definition ELF64_R_TYPE :: "64 word \<Rightarrow> 64 word" where
  "ELF64_R_TYPE i = i AND 0xffffffff"

definition ELF64_R_INFO :: "64 word \<Rightarrow> 64 word \<Rightarrow> 64 word" where
  "ELF64_R_INFO sy ty = push_bit 32 sy + ty"

definition ELF32_M_SYM :: "'a::len word \<Rightarrow> 'a word" where
  "ELF32_M_SYM info = drop_bit 8 info"

definition ELF32_M_SIZE :: "'a::len word \<Rightarrow> byte" where
  "ELF32_M_SIZE info = ucast info"

definition ELF32_M_INFO :: "'a::len word \<Rightarrow> 'a word \<Rightarrow> 'a word" where
  "ELF32_M_INFO sy sz = push_bit 8 sy + ucast (ucast sz :: byte)"

text \<open>The tags of the three ranges that are counted from the end.\<close>

definition DT_VALTAGIDX :: "int \<Rightarrow> int" where
  "DT_VALTAGIDX tag = 0x6ffffdff - tag"

definition DT_ADDRTAGIDX :: "int \<Rightarrow> int" where
  "DT_ADDRTAGIDX tag = 0x6ffffeff - tag"

definition DT_VERSIONTAGIDX :: "int \<Rightarrow> int" where
  "DT_VERSIONTAGIDX tag = 0x6fffffff - tag"

definition DT_EXTRATAGIDX :: "32 word \<Rightarrow> 32 word" where
  "DT_EXTRATAGIDX tag = - signed_drop_bit 1 (push_bit 1 tag) - 1"

section \<open>Named numbers\<close>

text \<open>Indices into \<open>e_ident\<close>.\<close>

definition EI_table :: "(string \<times> int) list" where
  "EI_table = [(''EI_MAG0'', 0), (''EI_MAG1'', 1), (''EI_MAG2'', 2), (''EI_MAG3'', 3), (''EI_CLASS'', 4),
     (''EI_DATA'', 5), (''EI_VERSION'', 6), (''EI_OSABI'', 7), (''EI_ABIVERSION'', 8),
     (''EI_PAD'', 9)]"

text \<open>The magic bytes.\<close>

definition ELFMAG_table :: "(string \<times> int) list" where
  "ELFMAG_table = [(''ELFMAG0'', 127), (''ELFMAG1'', 69), (''ELFMAG2'', 76), (''ELFMAG3'', 70)]"

text \<open>File classes.\<close>

definition ELFCLASS_table :: "(string \<times> int) list" where
  "ELFCLASS_table = [(''ELFCLASSNONE'', 0), (''ELFCLASS32'', 1), (''ELFCLASS64'', 2), (''ELFCLASSNUM'', 3)]"

text \<open>Data encodings.\<close>

definition ELFDATA_table :: "(string \<times> int) list" where
  "ELFDATA_table = [(''ELFDATANONE'', 0), (''ELFDATA2LSB'', 1), (''ELFDATA2MSB'', 2), (''ELFDATANUM'', 3)]"

text \<open>OS ABI identifications.\<close>

definition ELFOSABI_table :: "(string \<times> int) list" where
  "ELFOSABI_table = [(''ELFOSABI_NONE'', 0), (''ELFOSABI_SYSV'', 0), (''ELFOSABI_HPUX'', 1),
     (''ELFOSABI_NETBSD'', 2), (''ELFOSABI_GNU'', 3), (''ELFOSABI_LINUX'', 3),
     (''ELFOSABI_SOLARIS'', 6), (''ELFOSABI_AIX'', 7), (''ELFOSABI_IRIX'', 8),
     (''ELFOSABI_FREEBSD'', 9), (''ELFOSABI_TRU64'', 10), (''ELFOSABI_MODESTO'', 11),
     (''ELFOSABI_OPENBSD'', 12), (''ELFOSABI_ARM_AEABI'', 64), (''ELFOSABI_ARM'', 97),
     (''ELFOSABI_STANDALONE'', 255)]"

text \<open>Object file types.\<close>

definition ET_table :: "(string \<times> int) list" where
  "ET_table = [(''ET_NONE'', 0), (''ET_REL'', 1), (''ET_EXEC'', 2), (''ET_DYN'', 3), (''ET_CORE'', 4),
     (''ET_NUM'', 5), (''ET_LOOS'', 65024), (''ET_HIOS'', 65279), (''ET_LOPROC'', 65280),
     (''ET_HIPROC'', 65535)]"

text \<open>Architectures.\<close>

definition EM_table :: "(string \<times> int) list" where
  "EM_table = [(''EM_NONE'', 0), (''EM_M32'', 1), (''EM_SPARC'', 2), (''EM_386'', 3), (''EM_68K'', 4),
     (''EM_88K'', 5), (''EM_860'', 7), (''EM_MIPS'', 8), (''EM_S370'', 9),
     (''EM_MIPS_RS3_LE'', 10), (''EM_PARISC'', 15), (''EM_VPP500'', 17),
     (''EM_SPARC32PLUS'', 18), (''EM_960'', 19), (''EM_PPC'', 20), (''EM_PPC64'', 21),
     (''EM_S390'', 22), (''EM_V800'', 36), (''EM_FR20'', 37), (''EM_RH32'', 38),
     (''EM_RCE'', 39), (''EM_ARM'', 40), (''EM_FAKE_ALPHA'', 41), (''EM_SH'', 42),
     (''EM_SPARCV9'', 43), (''EM_TRICORE'', 44), (''EM_ARC'', 45), (''EM_H8_300'', 46),
     (''EM_H8_300H'', 47), (''EM_H8S'', 48), (''EM_H8_500'', 49), (''EM_IA_64'', 50),
     (''EM_MIPS_X'', 51), (''EM_COLDFIRE'', 52), (''EM_68HC12'', 53), (''EM_MMA'', 54),
     (''EM_PCP'', 55), (''EM_NCPU'', 56), (''EM_NDR1'', 57), (''EM_STARCORE'', 58),
     (''EM_ME16'', 59), (''EM_ST100'', 60), (''EM_TINYJ'', 61), (''EM_X86_64'', 62),
     (''EM_PDSP'', 63), (''EM_FX66'', 66), (''EM_ST9PLUS'', 67), (''EM_ST7'', 68),
     (''EM_68HC16'', 69), (''EM_68HC11'', 70), (''EM_68HC08'', 71), (''EM_68HC05'', 72),
     (''EM_SVX'', 73), (''EM_ST19'', 74), (''EM_VAX'', 75), (''EM_CRIS'', 76),
     (''EM_JAVELIN'', 77), (''EM_FIREPATH'', 78), (''EM_ZSP'', 79), (''EM_MMIX'', 80),
     (''EM_HUANY'', 81), (''EM_PRISM'', 82), (''EM_AVR'', 83), (''EM_FR30'', 84),
     (''EM_D10V'', 85), (''EM_D30V'', 86), (''EM_V850'', 87), (''EM_M32R'', 88),
     (''EM_MN10300'', 89), (''EM_MN10200'', 90), (''EM_PJ'', 91), (''EM_OPENRISC'', 92),
     (''EM_ARC_A5'', 93), (''EM_XTENSA'', 94), (''EM_AARCH64'', 183), (''EM_TILEPRO'', 188),
     (''EM_MICROBLAZE'', 189), (''EM_TILEGX'', 191), (''EM_NUM'', 192), (''EM_ALPHA'', 36902)]"

text \<open>Versions.\<close>

definition EV_table :: "(string \<times> int) list" where
  "EV_table = [(''EV_NONE'', 0), (''EV_CURRENT'', 1), (''EV_NUM'', 2)]"

text \<open>Special section indices.\<close>

definition SHN_table :: "(string \<times> int) list" where
  "SHN_table = [(''SHN_UNDEF'', 0), (''SHN_LORESERVE'', 65280), (''SHN_LOPROC'', 65280),
     (''SHN_BEFORE'', 65280), (''SHN_AFTER'', 65281), (''SHN_HIPROC'', 65311),
     (''SHN_LOOS'', 65312), (''SHN_HIOS'', 65343), (''SHN_ABS'', 65521),
     (''SHN_COMMON'', 65522), (''SHN_XINDEX'', 65535), (''SHN_HIRESERVE'', 65535)]"

text \<open>Section types.\<close>

definition SHT_table :: "(string \<times> int) list" where
  "SHT_table = [(''SHT_NULL'', 0), (''SHT_PROGBITS'', 1), (''SHT_SYMTAB'', 2), (''SHT_STRTAB'', 3),
     (''SHT_RELA'', 4), (''SHT_HASH'', 5), (''SHT_DYNAMIC'', 6), (''SHT_NOTE'', 7),
     (''SHT_NOBITS'', 8), (''SHT_REL'', 9), (''SHT_SHLIB'', 10), (''SHT_DYNSYM'', 11),
     (''SHT_INIT_ARRAY'', 14), (''SHT_FINI_ARRAY'', 15), (''SHT_PREINIT_ARRAY'', 16),
     (''SHT_GROUP'', 17), (''SHT_SYMTAB_SHNDX'', 18), (''SHT_NUM'', 19),
     (''SHT_LOOS'', 1610612736), (''SHT_GNU_ATTRIBUTES'', 1879048181),
     (''SHT_GNU_HASH'', 1879048182), (''SHT_GNU_LIBLIST'', 1879048183),
     (''SHT_CHECKSUM'', 1879048184), (''SHT_LOSUNW'', 1879048186),
     (''SHT_SUNW_move'', 1879048186), (''SHT_SUNW_COMDAT'', 1879048187),
     (''SHT_SUNW_syminfo'', 1879048188), (''SHT_GNU_verdef'', 1879048189),
     (''SHT_GNU_verneed'', 1879048190), (''SHT_GNU_versym'', 1879048191),
     (''SHT_HISUNW'', 1879048191), (''SHT_HIOS'', 1879048191), (''SHT_LOPROC'', 1879048192),
     (''SHT_HIPROC'', 2147483647), (''SHT_LOUSER'', 2147483648), (''SHT_HIUSER'', 2415919103)]"

text \<open>Section flags.\<close>

definition SHF_table :: "(string \<times> int) list" where
  "SHF_table = [(''SHF_WRITE'', 1), (''SHF_ALLOC'', 2), (''SHF_EXECINSTR'', 4), (''SHF_MERGE'', 16),
     (''SHF_STRINGS'', 32), (''SHF_INFO_LINK'', 64), (''SHF_LINK_ORDER'', 128),
     (''SHF_OS_NONCONFORMING'', 256), (''SHF_GROUP'', 512), (''SHF_TLS'', 1024),
     (''SHF_MASKOS'', 267386880), (''SHF_MASKPROC'', 4026531840), (''SHF_ORDERED'', 1073741824),
     (''SHF_EXCLUDE'', 2147483648)]"

text \<open>Values of the syminfo section.\<close>

definition SYMINFO_table :: "(string \<times> int) list" where
  "SYMINFO_table = [(''SYMINFO_BT_SELF'', 65535), (''SYMINFO_BT_PARENT'', 65534),
     (''SYMINFO_BT_LOWRESERVE'', 65280), (''SYMINFO_FLG_DIRECT'', 1),
     (''SYMINFO_FLG_PASSTHRU'', 2), (''SYMINFO_FLG_COPY'', 4), (''SYMINFO_FLG_LAZYLOAD'', 8),
     (''SYMINFO_NONE'', 0), (''SYMINFO_CURRENT'', 1), (''SYMINFO_NUM'', 2)]"

text \<open>Symbol bindings.\<close>

definition STB_table :: "(string \<times> int) list" where
  "STB_table = [(''STB_LOCAL'', 0), (''STB_GLOBAL'', 1), (''STB_WEAK'', 2), (''STB_NUM'', 3),
     (''STB_LOOS'', 10), (''STB_GNU_UNIQUE'', 10), (''STB_HIOS'', 12), (''STB_LOPROC'', 13),
     (''STB_HIPROC'', 15)]"

text \<open>Symbol types.\<close>

definition STT_table :: "(string \<times> int) list" where
  "STT_table = [(''STT_NOTYPE'', 0), (''STT_OBJECT'', 1), (''STT_FUNC'', 2), (''STT_SECTION'', 3),
     (''STT_FILE'', 4), (''STT_COMMON'', 5), (''STT_TLS'', 6), (''STT_NUM'', 7),
     (''STT_LOOS'', 10), (''STT_GNU_IFUNC'', 10), (''STT_HIOS'', 12), (''STT_LOPROC'', 13),
     (''STT_HIPROC'', 15)]"

text \<open>Symbol visibilities.\<close>

definition STV_table :: "(string \<times> int) list" where
  "STV_table = [(''STV_DEFAULT'', 0), (''STV_INTERNAL'', 1), (''STV_HIDDEN'', 2), (''STV_PROTECTED'', 3)]"

text \<open>Segment types.\<close>

definition PT_table :: "(string \<times> int) list" where
  "PT_table = [(''PT_NULL'', 0), (''PT_LOAD'', 1), (''PT_DYNAMIC'', 2), (''PT_INTERP'', 3),
     (''PT_NOTE'', 4), (''PT_SHLIB'', 5), (''PT_PHDR'', 6), (''PT_TLS'', 7), (''PT_NUM'', 8),
     (''PT_LOOS'', 1610612736), (''PT_GNU_EH_FRAME'', 1685382480),
     (''PT_GNU_STACK'', 1685382481), (''PT_GNU_RELRO'', 1685382482),
     (''PT_LOSUNW'', 1879048186), (''PT_SUNWBSS'', 1879048186), (''PT_SUNWSTACK'', 1879048187),
     (''PT_HISUNW'', 1879048191), (''PT_HIOS'', 1879048191), (''PT_LOPROC'', 1879048192),
     (''PT_HIPROC'', 2147483647)]"

text \<open>Segment flags.\<close>

definition PF_table :: "(string \<times> int) list" where
  "PF_table = [(''PF_X'', 1), (''PF_W'', 2), (''PF_R'', 4), (''PF_MASKOS'', 267386880),
     (''PF_MASKPROC'', 4026531840)]"

text \<open>Note types.\<close>

definition NT_table :: "(string \<times> int) list" where
  "NT_table = [(''NT_PRSTATUS'', 1), (''NT_FPREGSET'', 2), (''NT_PRPSINFO'', 3), (''NT_PRXREG'', 4),
     (''NT_TASKSTRUCT'', 4), (''NT_PLATFORM'', 5), (''NT_AUXV'', 6), (''NT_GWINDOWS'', 7),
     (''NT_ASRS'', 8), (''NT_PSTATUS'', 10), (''NT_PSINFO'', 13), (''NT_PRCRED'', 14),
     (''NT_UTSNAME'', 15), (''NT_LWPSTATUS'', 16), (''NT_LWPSINFO'', 17), (''NT_PRFPXREG'', 20),
     (''NT_SIGINFO'', 1397311305), (''NT_FILE'', 1179208773), (''NT_PRXFPREG'', 1189489535),
     (''NT_PPC_VMX'', 256), (''NT_PPC_SPE'', 257), (''NT_PPC_VSX'', 258), (''NT_386_TLS'', 512),
     (''NT_386_IOPERM'', 513), (''NT_X86_XSTATE'', 514), (''NT_S390_HIGH_GPRS'', 768),
     (''NT_S390_TIMER'', 769), (''NT_S390_TODCMP'', 770), (''NT_S390_TODPREG'', 771),
     (''NT_S390_CTRS'', 772), (''NT_S390_PREFIX'', 773), (''NT_S390_LAST_BREAK'', 774),
     (''NT_S390_SYSTEM_CALL'', 775), (''NT_S390_TDB'', 776), (''NT_ARM_VFP'', 1024),
     (''NT_ARM_TLS'', 1025), (''NT_ARM_HW_BREAK'', 1026), (''NT_ARM_HW_WATCH'', 1027),
     (''NT_VERSION'', 1)]"

text \<open>Dynamic tags of the generic range.\<close>

definition DT_table :: "(string \<times> int) list" where
  "DT_table = [(''DT_NULL'', 0), (''DT_NEEDED'', 1), (''DT_PLTRELSZ'', 2), (''DT_PLTGOT'', 3),
     (''DT_HASH'', 4), (''DT_STRTAB'', 5), (''DT_SYMTAB'', 6), (''DT_RELA'', 7),
     (''DT_RELASZ'', 8), (''DT_RELAENT'', 9), (''DT_STRSZ'', 10), (''DT_SYMENT'', 11),
     (''DT_INIT'', 12), (''DT_FINI'', 13), (''DT_SONAME'', 14), (''DT_RPATH'', 15),
     (''DT_SYMBOLIC'', 16), (''DT_REL'', 17), (''DT_RELSZ'', 18), (''DT_RELENT'', 19),
     (''DT_PLTREL'', 20), (''DT_DEBUG'', 21), (''DT_TEXTREL'', 22), (''DT_JMPREL'', 23),
     (''DT_BIND_NOW'', 24), (''DT_INIT_ARRAY'', 25), (''DT_FINI_ARRAY'', 26),
     (''DT_INIT_ARRAYSZ'', 27), (''DT_FINI_ARRAYSZ'', 28), (''DT_RUNPATH'', 29),
     (''DT_FLAGS'', 30), (''DT_ENCODING'', 32), (''DT_PREINIT_ARRAY'', 32),
     (''DT_PREINIT_ARRAYSZ'', 33), (''DT_NUM'', 34), (''DT_LOOS'', 1610612749),
     (''DT_HIOS'', 1879044096), (''DT_LOPROC'', 1879048192), (''DT_HIPROC'', 2147483647),
     (''DT_PROCNUM'', 53)]"

text \<open>Dynamic tags whose entry holds a value.\<close>

definition DT_VAL_table :: "(string \<times> int) list" where
  "DT_VAL_table = [(''DT_VALRNGLO'', 1879047424), (''DT_GNU_PRELINKED'', 1879047669),
     (''DT_GNU_CONFLICTSZ'', 1879047670), (''DT_GNU_LIBLISTSZ'', 1879047671),
     (''DT_CHECKSUM'', 1879047672), (''DT_PLTPADSZ'', 1879047673), (''DT_MOVEENT'', 1879047674),
     (''DT_MOVESZ'', 1879047675), (''DT_FEATURE_1'', 1879047676),
     (''DT_POSFLAG_1'', 1879047677), (''DT_SYMINSZ'', 1879047678),
     (''DT_SYMINENT'', 1879047679), (''DT_VALRNGHI'', 1879047679), (''DT_VALNUM'', 12)]"

text \<open>Dynamic tags whose entry holds an address.\<close>

definition DT_ADDR_table :: "(string \<times> int) list" where
  "DT_ADDR_table = [(''DT_ADDRRNGLO'', 1879047680), (''DT_GNU_HASH'', 1879047925),
     (''DT_TLSDESC_PLT'', 1879047926), (''DT_TLSDESC_GOT'', 1879047927),
     (''DT_GNU_CONFLICT'', 1879047928), (''DT_GNU_LIBLIST'', 1879047929),
     (''DT_CONFIG'', 1879047930), (''DT_DEPAUDIT'', 1879047931), (''DT_AUDIT'', 1879047932),
     (''DT_PLTPAD'', 1879047933), (''DT_MOVETAB'', 1879047934), (''DT_SYMINFO'', 1879047935),
     (''DT_ADDRRNGHI'', 1879047935), (''DT_ADDRNUM'', 11)]"

text \<open>Versioning tags.\<close>

definition DT_VERSION_table :: "(string \<times> int) list" where
  "DT_VERSION_table = [(''DT_VERSYM'', 1879048176), (''DT_RELACOUNT'', 1879048185), (''DT_RELCOUNT'', 1879048186),
     (''DT_FLAGS_1'', 1879048187), (''DT_VERDEF'', 1879048188), (''DT_VERDEFNUM'', 1879048189),
     (''DT_VERNEED'', 1879048190), (''DT_VERNEEDNUM'', 1879048191), (''DT_VERSIONTAGNUM'', 16)]"

text \<open>Extensions in the processor-specific range.\<close>

definition DT_EXTRA_table :: "(string \<times> int) list" where
  "DT_EXTRA_table = [(''DT_AUXILIARY'', 2147483645), (''DT_FILTER'', 2147483647), (''DT_EXTRANUM'', 3)]"

text \<open>Flags of \<open>DT_FLAGS\<close>.\<close>

definition DF_table :: "(string \<times> int) list" where
  "DF_table = [(''DF_ORIGIN'', 1), (''DF_SYMBOLIC'', 2), (''DF_TEXTREL'', 4), (''DF_BIND_NOW'', 8),
     (''DF_STATIC_TLS'', 16)]"

text \<open>Flags of \<open>DT_FLAGS_1\<close>.\<close>

definition DF_1_table :: "(string \<times> int) list" where
  "DF_1_table = [(''DF_1_NOW'', 1), (''DF_1_GLOBAL'', 2), (''DF_1_GROUP'', 4), (''DF_1_NODELETE'', 8),
     (''DF_1_LOADFLTR'', 16), (''DF_1_INITFIRST'', 32), (''DF_1_NOOPEN'', 64),
     (''DF_1_ORIGIN'', 128), (''DF_1_DIRECT'', 256), (''DF_1_TRANS'', 512),
     (''DF_1_INTERPOSE'', 1024), (''DF_1_NODEFLIB'', 2048), (''DF_1_NODUMP'', 4096),
     (''DF_1_CONFALT'', 8192), (''DF_1_ENDFILTEE'', 16384), (''DF_1_DISPRELDNE'', 32768),
     (''DF_1_DISPRELPND'', 65536), (''DF_1_NODIRECT'', 131072), (''DF_1_IGNMULDEF'', 262144),
     (''DF_1_NOKSYMS'', 524288), (''DF_1_NOHDR'', 1048576), (''DF_1_EDITED'', 2097152),
     (''DF_1_NORELOC'', 4194304), (''DF_1_SYMINTPOSE'', 8388608),
     (''DF_1_GLOBAUDIT'', 16777216), (''DF_1_SINGLETON'', 33554432)]"

text \<open>Feature flags.\<close>

definition DTF_1_table :: "(string \<times> int) list" where
  "DTF_1_table = [(''DTF_1_PARINIT'', 1), (''DTF_1_CONFEXP'', 2)]"

text \<open>Position flags.\<close>

definition DF_P1_table :: "(string \<times> int) list" where
  "DF_P1_table = [(''DF_P1_LAZYLOAD'', 1), (''DF_P1_GROUPPERM'', 2)]"

text \<open>Version definitions and flags.\<close>

definition VER_DEF_table :: "(string \<times> int) list" where
  "VER_DEF_table = [(''VER_DEF_NONE'', 0), (''VER_DEF_CURRENT'', 1), (''VER_DEF_NUM'', 2),
     (''VER_FLG_BASE'', 1), (''VER_FLG_WEAK'', 2)]"

text \<open>Version indices.\<close>

definition VER_NDX_table :: "(string \<times> int) list" where
  "VER_NDX_table = [(''VER_NDX_LOCAL'', 0), (''VER_NDX_GLOBAL'', 1), (''VER_NDX_LORESERVE'', 65280),
     (''VER_NDX_ELIMINATE'', 65281)]"

text \<open>Versions of a dependency.\<close>

definition VER_NEED_table :: "(string \<times> int) list" where
  "VER_NEED_table = [(''VER_NEED_NONE'', 0), (''VER_NEED_CURRENT'', 1), (''VER_NEED_NUM'', 2)]"

text \<open>Note types of GNU and Solaris.\<close>

definition ELF_NOTE_table :: "(string \<times> int) list" where
  "ELF_NOTE_table = [(''ELF_NOTE_PAGESIZE_HINT'', 1), (''NT_GNU_ABI_TAG'', 1), (''ELF_NOTE_ABI'', 1),
     (''ELF_NOTE_OS_LINUX'', 0), (''ELF_NOTE_OS_GNU'', 1), (''ELF_NOTE_OS_SOLARIS2'', 2),
     (''ELF_NOTE_OS_FREEBSD'', 3), (''NT_GNU_HWCAP'', 2), (''NT_GNU_BUILD_ID'', 3),
     (''NT_GNU_GOLD_VERSION'', 4)]"

text \<open>68k relocations.\<close>

definition R_68K_table :: "(string \<times> int) list" where
  "R_68K_table = [(''R_68K_NONE'', 0), (''R_68K_32'', 1), (''R_68K_16'', 2), (''R_68K_8'', 3),
     (''R_68K_PC32'', 4), (''R_68K_PC16'', 5), (''R_68K_PC8'', 6), (''R_68K_GOT32'', 7),
     (''R_68K_GOT16'', 8), (''R_68K_GOT8'', 9), (''R_68K_GOT32O'', 10), (''R_68K_GOT16O'', 11),
     (''R_68K_GOT8O'', 12), (''R_68K_PLT32'', 13), (''R_68K_PLT16'', 14), (''R_68K_PLT8'', 15),
     (''R_68K_PLT32O'', 16), (''R_68K_PLT16O'', 17), (''R_68K_PLT8O'', 18),
     (''R_68K_COPY'', 19), (''R_68K_GLOB_DAT'', 20), (''R_68K_JMP_SLOT'', 21),
     (''R_68K_RELATIVE'', 22), (''R_68K_TLS_GD32'', 25), (''R_68K_TLS_GD16'', 26),
     (''R_68K_TLS_GD8'', 27), (''R_68K_TLS_LDM32'', 28), (''R_68K_TLS_LDM16'', 29),
     (''R_68K_TLS_LDM8'', 30), (''R_68K_TLS_LDO32'', 31), (''R_68K_TLS_LDO16'', 32),
     (''R_68K_TLS_LDO8'', 33), (''R_68K_TLS_IE32'', 34), (''R_68K_TLS_IE16'', 35),
     (''R_68K_TLS_IE8'', 36), (''R_68K_TLS_LE32'', 37), (''R_68K_TLS_LE16'', 38),
     (''R_68K_TLS_LE8'', 39), (''R_68K_TLS_DTPMOD32'', 40), (''R_68K_TLS_DTPREL32'', 41),
     (''R_68K_TLS_TPREL32'', 42), (''R_68K_NUM'', 43)]"

text \<open>386 relocations.\<close>

definition R_386_table :: "(string \<times> int) list" where
  "R_386_table = [(''R_386_NONE'', 0), (''R_386_32'', 1), (''R_386_PC32'', 2), (''R_386_GOT32'', 3),
     (''R_386_PLT32'', 4), (''R_386_COPY'', 5), (''R_386_GLOB_DAT'', 6),
     (''R_386_JMP_SLOT'', 7), (''R_386_RELATIVE'', 8), (''R_386_GOTOFF'', 9),
     (''R_386_GOTPC'', 10), (''R_386_32PLT'', 11), (''R_386_TLS_TPOFF'', 14),
     (''R_386_TLS_IE'', 15), (''R_386_TLS_GOTIE'', 16), (''R_386_TLS_LE'', 17),
     (''R_386_TLS_GD'', 18), (''R_386_TLS_LDM'', 19), (''R_386_16'', 20), (''R_386_PC16'', 21),
     (''R_386_8'', 22), (''R_386_PC8'', 23), (''R_386_TLS_GD_32'', 24),
     (''R_386_TLS_GD_PUSH'', 25), (''R_386_TLS_GD_CALL'', 26), (''R_386_TLS_GD_POP'', 27),
     (''R_386_TLS_LDM_32'', 28), (''R_386_TLS_LDM_PUSH'', 29), (''R_386_TLS_LDM_CALL'', 30),
     (''R_386_TLS_LDM_POP'', 31), (''R_386_TLS_LDO_32'', 32), (''R_386_TLS_IE_32'', 33),
     (''R_386_TLS_LE_32'', 34), (''R_386_TLS_DTPMOD32'', 35), (''R_386_TLS_DTPOFF32'', 36),
     (''R_386_TLS_TPOFF32'', 37), (''R_386_SIZE32'', 38), (''R_386_TLS_GOTDESC'', 39),
     (''R_386_TLS_DESC_CALL'', 40), (''R_386_TLS_DESC'', 41), (''R_386_IRELATIVE'', 42),
     (''R_386_NUM'', 43)]"

text \<open>SPARC relocations.\<close>

definition R_SPARC_table :: "(string \<times> int) list" where
  "R_SPARC_table = [(''R_SPARC_NONE'', 0), (''R_SPARC_8'', 1), (''R_SPARC_16'', 2), (''R_SPARC_32'', 3),
     (''R_SPARC_DISP8'', 4), (''R_SPARC_DISP16'', 5), (''R_SPARC_DISP32'', 6),
     (''R_SPARC_WDISP30'', 7), (''R_SPARC_WDISP22'', 8), (''R_SPARC_HI22'', 9),
     (''R_SPARC_22'', 10), (''R_SPARC_13'', 11), (''R_SPARC_LO10'', 12),
     (''R_SPARC_GOT10'', 13), (''R_SPARC_GOT13'', 14), (''R_SPARC_GOT22'', 15),
     (''R_SPARC_PC10'', 16), (''R_SPARC_PC22'', 17), (''R_SPARC_WPLT30'', 18),
     (''R_SPARC_COPY'', 19), (''R_SPARC_GLOB_DAT'', 20), (''R_SPARC_JMP_SLOT'', 21),
     (''R_SPARC_RELATIVE'', 22), (''R_SPARC_UA32'', 23), (''R_SPARC_PLT32'', 24),
     (''R_SPARC_HIPLT22'', 25), (''R_SPARC_LOPLT10'', 26), (''R_SPARC_PCPLT32'', 27),
     (''R_SPARC_PCPLT22'', 28), (''R_SPARC_PCPLT10'', 29), (''R_SPARC_10'', 30),
     (''R_SPARC_11'', 31), (''R_SPARC_64'', 32), (''R_SPARC_OLO10'', 33),
     (''R_SPARC_HH22'', 34), (''R_SPARC_HM10'', 35), (''R_SPARC_LM22'', 36),
     (''R_SPARC_PC_HH22'', 37), (''R_SPARC_PC_HM10'', 38), (''R_SPARC_PC_LM22'', 39),
     (''R_SPARC_WDISP16'', 40), (''R_SPARC_WDISP19'', 41), (''R_SPARC_GLOB_JMP'', 42),
     (''R_SPARC_7'', 43), (''R_SPARC_5'', 44), (''R_SPARC_6'', 45), (''R_SPARC_DISP64'', 46),
     (''R_SPARC_PLT64'', 47), (''R_SPARC_HIX22'', 48), (''R_SPARC_LOX10'', 49),
     (''R_SPARC_H44'', 50), (''R_SPARC_M44'', 51), (''R_SPARC_L44'', 52),
     (''R_SPARC_REGISTER'', 53), (''R_SPARC_UA64'', 54), (''R_SPARC_UA16'', 55),
     (''R_SPARC_TLS_GD_HI22'', 56), (''R_SPARC_TLS_GD_LO10'', 57), (''R_SPARC_TLS_GD_ADD'', 58),
     (''R_SPARC_TLS_GD_CALL'', 59), (''R_SPARC_TLS_LDM_HI22'', 60),
     (''R_SPARC_TLS_LDM_LO10'', 61), (''R_SPARC_TLS_LDM_ADD'', 62),
     (''R_SPARC_TLS_LDM_CALL'', 63), (''R_SPARC_TLS_LDO_HIX22'', 64),
     (''R_SPARC_TLS_LDO_LOX10'', 65), (''R_SPARC_TLS_LDO_ADD'', 66),
     (''R_SPARC_TLS_IE_HI22'', 67), (''R_SPARC_TLS_IE_LO10'', 68), (''R_SPARC_TLS_IE_LD'', 69),
     (''R_SPARC_TLS_IE_LDX'', 70), (''R_SPARC_TLS_IE_ADD'', 71), (''R_SPARC_TLS_LE_HIX22'', 72),
     (''R_SPARC_TLS_LE_LOX10'', 73), (''R_SPARC_TLS_DTPMOD32'', 74),
     (''R_SPARC_TLS_DTPMOD64'', 75), (''R_SPARC_TLS_DTPOFF32'', 76),
     (''R_SPARC_TLS_DTPOFF64'', 77), (''R_SPARC_TLS_TPOFF32'', 78),
     (''R_SPARC_TLS_TPOFF64'', 79), (''R_SPARC_GOTDATA_HIX22'', 80),
     (''R_SPARC_GOTDATA_LOX10'', 81), (''R_SPARC_GOTDATA_OP_HIX22'', 82),
     (''R_SPARC_GOTDATA_OP_LOX10'', 83), (''R_SPARC_GOTDATA_OP'', 84), (''R_SPARC_H34'', 85),
     (''R_SPARC_SIZE32'', 86), (''R_SPARC_SIZE64'', 87), (''R_SPARC_WDISP10'', 88),
     (''R_SPARC_JMP_IREL'', 248), (''R_SPARC_IRELATIVE'', 249),
     (''R_SPARC_GNU_VTINHERIT'', 250), (''R_SPARC_GNU_VTENTRY'', 251), (''R_SPARC_REV32'', 252),
     (''R_SPARC_NUM'', 253)]"

section \<open>The names patchelf uses\<close>

definition ELFMAG :: bstring where
  "ELFMAG = [0x7f, 0x45, 0x4c, 0x46]"

abbreviation EI_CLASS :: nat where "EI_CLASS \<equiv> 4"
abbreviation EI_DATA :: nat where "EI_DATA \<equiv> 5"
abbreviation EI_VERSION :: nat where "EI_VERSION \<equiv> 6"
abbreviation ELFCLASS32 :: byte where "ELFCLASS32 \<equiv> 1"
abbreviation ELFCLASS64 :: byte where "ELFCLASS64 \<equiv> 2"
abbreviation ELFDATA2LSB :: byte where "ELFDATA2LSB \<equiv> 1"
abbreviation EV_CURRENT :: byte where "EV_CURRENT \<equiv> 1"
abbreviation ET_EXEC :: Elf_Half where "ET_EXEC \<equiv> 2"
abbreviation ET_DYN :: Elf_Half where "ET_DYN \<equiv> 3"
abbreviation SHN_UNDEF :: Elf_Word where "SHN_UNDEF \<equiv> 0"
abbreviation SHN_LORESERVE :: Elf_Word where "SHN_LORESERVE \<equiv> 0xff00"
abbreviation SHT_PROGBITS :: Elf_Word where "SHT_PROGBITS \<equiv> 1"
abbreviation SHT_SYMTAB :: Elf_Word where "SHT_SYMTAB \<equiv> 2"
abbreviation SHT_RELA :: Elf_Word where "SHT_RELA \<equiv> 4"
abbreviation SHT_REL :: Elf_Word where "SHT_REL \<equiv> 9"
abbreviation SHT_DYNSYM :: Elf_Word where "SHT_DYNSYM \<equiv> 11"
abbreviation STT_SECTION :: Elf_Word where "STT_SECTION \<equiv> 3"
abbreviation PT_LOAD :: Elf_Word where "PT_LOAD \<equiv> 1"
abbreviation PT_DYNAMIC :: Elf_Word where "PT_DYNAMIC \<equiv> 2"
abbreviation PT_INTERP :: Elf_Word where "PT_INTERP \<equiv> 3"
abbreviation PT_PHDR :: Elf_Word where "PT_PHDR \<equiv> 6"
abbreviation PF_W :: Elf_Word where "PF_W \<equiv> 2"
abbreviation PF_R :: Elf_Word where "PF_R \<equiv> 4"
abbreviation DT_NULL :: "'a::len word" where "DT_NULL \<equiv> 0"
abbreviation DT_NEEDED :: "'a::len word" where "DT_NEEDED \<equiv> 1"
abbreviation DT_HASH :: "'a::len word" where "DT_HASH \<equiv> 4"
abbreviation DT_STRTAB :: "'a::len word" where "DT_STRTAB \<equiv> 5"
abbreviation DT_SYMTAB :: "'a::len word" where "DT_SYMTAB \<equiv> 6"
abbreviation DT_RELA :: "'a::len word" where "DT_RELA \<equiv> 7"
abbreviation DT_STRSZ :: "'a::len word" where "DT_STRSZ \<equiv> 10"
abbreviation DT_INIT :: "'a::len word" where "DT_INIT \<equiv> 12"
abbreviation DT_SONAME :: "'a::len word" where "DT_SONAME \<equiv> 14"
abbreviation DT_RPATH :: "'a::len word" where "DT_RPATH \<equiv> 15"
abbreviation DT_REL :: "'a::len word" where "DT_REL \<equiv> 17"
abbreviation DT_JMPREL :: "'a::len word" where "DT_JMPREL \<equiv> 23"
abbreviation DT_RUNPATH :: "'a::len word" where "DT_RUNPATH \<equiv> 29"
abbreviation DT_GNU_HASH :: "'a::len word" where "DT_GNU_HASH \<equiv> 0x6ffffef5"
abbreviation DT_VERSYM :: "'a::len word" where "DT_VERSYM \<equiv> 0x6ffffff0"
abbreviation DT_FLAGS_1 :: "'a::len word" where "DT_FLAGS_1 \<equiv> 0x6ffffffb"
abbreviation DT_VERNEED :: "'a::len word" where "DT_VERNEED \<equiv> 0x6ffffffe"
abbreviation DF_1_NODEFLIB :: "'a::len word" where "DF_1_NODEFLIB \<equiv> 0x800"

lemma names_agree:
  "map_of ET_table ''ET_EXEC'' = Some (uint ET_EXEC)" "map_of ET_table ''ET_DYN'' = Some (uint ET_DYN)"
  "map_of SHT_table ''SHT_PROGBITS'' = Some (uint SHT_PROGBITS)"
  "map_of SHT_table ''SHT_DYNSYM'' = Some (uint SHT_DYNSYM)"
  "map_of SHN_table ''SHN_LORESERVE'' = Some (uint SHN_LORESERVE)"
  "map_of PT_table ''PT_LOAD'' = Some (uint PT_LOAD)" "map_of PT_table ''PT_INTERP'' = Some (uint PT_INTERP)"
  "map_of PT_table ''PT_DYNAMIC'' = Some (uint PT_DYNAMIC)" "map_of PT_table ''PT_PHDR'' = Some (uint PT_PHDR)"
  "map_of DT_table ''DT_RUNPATH'' = Some (uint (DT_RUNPATH :: 32 word))"
  "map_of DT_ADDR_table ''DT_GNU_HASH'' = Some (uint (DT_GNU_HASH :: 32 word))"
  "map_of DT_VERSION_table ''DT_FLAGS_1'' = Some (uint (DT_FLAGS_1 :: 32 word))"
  "map_of DF_1_table ''DF_1_NODEFLIB'' = Some (uint (DF_1_NODEFLIB :: 32 word))"
  by (simp_all add: ET_table_def SHT_table_def SHN_table_def PT_table_def DT_table_def
      DT_ADDR_table_def DT_VERSION_table_def DF_1_table_def)

end
