(* ===== verification/StdContainers.thy ===== *)
theory StdContainers
  imports Prelude "HOL-Library.List_Lexorder" "HOL-Library.Multiset"
begin

text \<open>
  The containers and the algorithm of the C++ library that \<open>patchelf.cc\<close> uses: \<open>std::map\<close> and
  \<open>std::set\<close> as ascending lists, which is the order in which they are iterated, and \<open>std::sort\<close>.
  Strings are ordered as \<open>std::string\<close> is, by unsigned bytes from the left.
  \<open>std_sort\<close> is the insertion sort that libstdc++ uses up to sixteen elements; the contract
  \<open>sorting\<close> states the part of the standard that the proofs rely on, so they hold for any
  implementation that meets it.
\<close>

section \<open>Ordered maps and sets\<close>

fun map_put :: "'k::linorder \<Rightarrow> 'v \<Rightarrow> ('k \<times> 'v) list \<Rightarrow> ('k \<times> 'v) list" where
  "map_put k v [] = [(k, v)]"
| "map_put k v ((k', v') # m) =
     (if k < k' then (k, v) # (k', v') # m
      else if k = k' then (k, v) # m
      else (k', v') # map_put k v m)"

definition map_inv :: "('k::linorder \<times> 'v) list \<Rightarrow> bool" where
  "map_inv m \<longleftrightarrow> sorted_wrt (<) (map fst m)"

text \<open>\<open>m[k]\<close> of a map of strings: a missing key gives the empty string.\<close>

definition map_get :: "('k \<times> bstring) list \<Rightarrow> 'k \<Rightarrow> bstring" where
  "map_get m k = (case map_of m k of None \<Rightarrow> [] | Some v \<Rightarrow> v)"

fun set_put :: "'k::linorder \<Rightarrow> 'k list \<Rightarrow> 'k list" where
  "set_put k [] = [k]"
| "set_put k (k' # ks) = (if k < k' then k # k' # ks else if k = k' then k' # ks else k' # set_put k ks)"

locale ordered_map =
  fixes find :: "'m \<Rightarrow> 'k::linorder \<Rightarrow> 'v option" and put :: "'k \<Rightarrow> 'v \<Rightarrow> 'm \<Rightarrow> 'm"
    and keys :: "'m \<Rightarrow> 'k list" and inv :: "'m \<Rightarrow> bool"
  assumes inv_put: "inv m \<Longrightarrow> inv (put k v m)"
    and find_put: "inv m \<Longrightarrow> find (put k v m) = (find m)(k \<mapsto> v)"
    and keys_find: "inv m \<Longrightarrow> set (keys m) = dom (find m)"
    and keys_ascending: "inv m \<Longrightarrow> sorted_wrt (<) (keys m)"
begin

lemma keys_put: "inv m \<Longrightarrow> set (keys (put k v m)) = insert k (set (keys m))"
  by (simp add: keys_find inv_put find_put)

lemma keys_distinct: "inv m \<Longrightarrow> distinct (keys m)"
  using keys_ascending strict_sorted_iff by auto

text \<open>Entries put one after the other: the last one for a key is found.\<close>

lemma find_puts:
  "inv m \<Longrightarrow> find (foldl (\<lambda>m (k, v). put k v m) m kvs) = (find m) ++ map_of (rev kvs)"
proof (induction kvs arbitrary: m)
  case Nil
  then show ?case by simp
next
  case (Cons kv kvs)
  obtain k v where "kv = (k, v)" by fastforce
  with Cons show ?case by (simp add: inv_put find_put map_add_upd_left flip: fun_upd_apply)
qed

end

lemma fst_map_put: "fst ` set (map_put k v m) = insert k (fst ` set m)"
proof (induction m)
  case (Cons kv m)
  then show ?case by (cases kv) auto
qed simp

lemma map_inv_put: "map_inv m \<Longrightarrow> map_inv (map_put k v m)"
proof (induction m)
  case (Cons kv m)
  obtain k' v' where kv: "kv = (k', v')" by fastforce
  from Cons.prems have less: "\<forall>x \<in> fst ` set m. k' < x" and inv: "map_inv m"
    by (auto simp: map_inv_def kv)
  show ?case
  proof (cases "k < k'")
    case True
    with Cons.prems less show ?thesis by (auto simp: map_inv_def kv intro: less_trans)
  next
    case False
    then show ?thesis
    proof (cases "k = k'")
      case True
      with False Cons.prems show ?thesis by (simp add: map_inv_def kv)
    next
      case ne: False
      with False have gt: "k' < k" by auto
      have "map_inv (map_put k v m)" by (rule Cons.IH [OF inv])
      moreover have "\<forall>x \<in> fst ` set (map_put k v m). k' < x"
        using less gt by (simp only: fst_map_put) auto
      ultimately show ?thesis using False ne by (auto simp: map_inv_def kv)
    qed
  qed
qed (simp add: map_inv_def)

lemma map_of_put: "map_inv m \<Longrightarrow> map_of (map_put k v m) = (map_of m)(k \<mapsto> v)"
proof (induction m)
  case (Cons kv m)
  obtain k' v' where kv: "kv = (k', v')" by fastforce
  from Cons.prems have "map_inv m" by (simp add: map_inv_def)
  with Cons.IH show ?case by (auto simp: kv fun_upd_twist)
qed simp

interpretation std_map: ordered_map map_of map_put "map fst" map_inv
proof
  fix m :: "('a \<times> 'b) list" and k v
  assume inv: "map_inv m"
  show "map_inv (map_put k v m)" by (rule map_inv_put [OF inv])
  show "map_of (map_put k v m) = (map_of m)(k \<mapsto> v)" by (rule map_of_put [OF inv])
  show "set (map fst m) = dom (map_of m)" by (simp add: dom_map_of_conv_image_fst)
  show "sorted_wrt (<) (map fst m)" using inv by (simp add: map_inv_def)
qed

lemma map_inv_Nil [simp]: "map_inv []"
  by (simp add: map_inv_def)

lemma set_set_put [simp]: "set (set_put k ks) = insert k (set ks)"
  by (induction ks) auto

lemma set_put_ascending: "sorted_wrt (<) ks \<Longrightarrow> sorted_wrt (<) (set_put k ks)"
  by (induction ks) (auto intro: less_trans)

lemma set_put_id: "sorted_wrt (<) ks \<Longrightarrow> k \<in> set ks \<Longrightarrow> set_put k ks = ks"
  by (induction ks) (auto dest: order.asym)

section \<open>std::sort\<close>

fun insert_back :: "('x \<Rightarrow> 'x \<Rightarrow> bool) \<Rightarrow> 'x \<Rightarrow> 'x list \<Rightarrow> 'x list" where
  "insert_back lt x [] = [x]"
| "insert_back lt x (y # ys) = (if lt x y then y # insert_back lt x ys else x # y # ys)"

definition std_insert :: "('x \<Rightarrow> 'x \<Rightarrow> bool) \<Rightarrow> 'x \<Rightarrow> 'x list \<Rightarrow> 'x list" where
  "std_insert lt x ys =
     (if ys \<noteq> [] \<and> lt x (hd ys) then x # ys else rev (insert_back lt x (rev ys)))"

definition std_sort :: "('x \<Rightarrow> 'x \<Rightarrow> bool) \<Rightarrow> 'x list \<Rightarrow> 'x list" where
  "std_sort lt xs = foldl (\<lambda>ys x. std_insert lt x ys) [] xs"

text \<open>
  The contract: the result is a rearrangement, and it ascends by a key when the comparison is
  the strict order of this key.
\<close>

locale sorting =
  fixes srt :: "('x \<Rightarrow> 'x \<Rightarrow> bool) \<Rightarrow> 'x list \<Rightarrow> 'x list"
  assumes mset_srt: "mset (srt lt xs) = mset xs"
    and sorted_srt: "sorted (map key (srt (\<lambda>x y. key x < (key y :: 'k::linorder)) xs))"
begin

lemma set_srt [simp]: "set (srt lt xs) = set xs"
  using mset_srt mset_eq_setD by blast

lemma length_srt [simp]: "length (srt lt xs) = length xs"
  using mset_srt [of lt xs] by (metis size_mset)

lemma distinct_srt [simp]: "distinct (map f (srt lt xs)) \<longleftrightarrow> distinct (map f xs)"
  by (metis mset_map mset_srt mset_eq_imp_distinct_iff)

lemma srt_nth: "i < length xs \<Longrightarrow> srt lt xs ! i \<in> set xs"
  by (metis length_srt nth_mem set_srt)

end

lemma mset_insert_back [simp]: "mset (insert_back lt x ys) = add_mset x (mset ys)"
  by (induction ys) auto

lemma mset_std_insert [simp]: "mset (std_insert lt x ys) = add_mset x (mset ys)"
  by (simp add: std_insert_def)

lemma mset_std_sort: "mset (std_sort lt xs) = mset xs"
proof -
  have "mset (foldl (\<lambda>ys x. std_insert lt x ys) ys xs) = mset xs + mset ys" for ys
    by (induction xs arbitrary: ys) simp_all
  then show ?thesis by (simp add: std_sort_def)
qed

lemma set_insert_back [simp]: "set (insert_back lt x ys) = insert x (set ys)"
  by (induction ys) auto

text \<open>The order of a key, as the comparison of a sort.\<close>

definition key_less :: "('x \<Rightarrow> 'k::linorder) \<Rightarrow> 'x \<Rightarrow> 'x \<Rightarrow> bool" where
  "key_less key x y \<longleftrightarrow> key x < key y"

lemma sorted_insert_back:
  "sorted_wrt (\<ge>) (map key ys) \<Longrightarrow> sorted_wrt (\<ge>) (map key (insert_back (key_less key) x ys))"
  by (induction ys) (auto simp: key_less_def not_less)

lemma sorted_rev_map: "sorted_wrt (\<ge>) (map key (rev ys)) \<longleftrightarrow> sorted (map key ys)"
  by (simp only: rev_map [symmetric] sorted_wrt_rev)

lemma sorted_std_insert:
  assumes "sorted (map key ys)"
  shows "sorted (map key (std_insert (key_less key) x ys))"
proof (cases "ys \<noteq> [] \<and> key_less key x (hd ys)")
  case True
  then obtain z zs where ys: "ys = z # zs" by (cases ys) auto
  with True assms have "\<forall>y \<in> set ys. key x \<le> key y" by (force simp: key_less_def)
  with True assms show ?thesis by (simp add: std_insert_def)
next
  case False
  have "sorted_wrt (\<ge>) (map key (insert_back (key_less key) x (rev ys)))"
    by (rule sorted_insert_back) (simp only: sorted_rev_map assms)
  then have "sorted (map key (rev (insert_back (key_less key) x (rev ys))))"
    by (metis sorted_rev_map rev_rev_ident)
  with False show ?thesis by (simp only: std_insert_def if_False)
qed

lemma sorted_std_sort: "sorted (map key (std_sort (key_less key) xs))"
proof -
  have "sorted (map key ys) \<Longrightarrow> sorted (map key (foldl (\<lambda>ys x. std_insert (key_less key) x ys) ys xs))" for ys
  proof (induction xs arbitrary: ys)
    case (Cons x xs)
    from Cons.IH [OF sorted_std_insert [OF Cons.prems]] show ?case by simp
  qed simp
  then show ?thesis by (simp add: std_sort_def)
qed

interpretation std: sorting std_sort
  by unfold_locales (rule mset_std_sort, rule sorted_std_sort [unfolded key_less_def [abs_def]])

end
