(* ===== verification/ElfState.thy ===== *)
theory ElfState
  imports ElfConstants StdContainers
begin

text \<open>
  The state of \<open>patchelf.cc\<close>: the class \<open>ElfFile\<close> together with the file image it works on
  (\<open>contents\<close>, \<open>fileSize\<close>, \<open>maxSize\<close>) and the static variables its operations read. The ELF
  header is not a copy: the class keeps a pointer to the start of the image, so \<open>hdr\<close> decodes
  the image and \<open>upd_hdr\<close> changes it. The program and section headers are copies.

  The type parameter is the address width, 32 or 64 bits. A failed \<open>assert\<close>, a call of
  \<open>error\<close> and an access outside the image or outside a vector are the three errors; what the
  code would do after such an access is undefined and not modelled. The host is little-endian
  with 32-bit \<open>int\<close> and 64-bit \<open>size_t\<close> and \<open>off_t\<close>; pointers do not wrap around.
\<close>

section \<open>The state\<close>

datatype elf_error = Error bstring | AssertFailed | OutOfBounds

record (overloaded) 'a ElfFile =
  contents :: bstring
  maxSize :: int
  phdrs :: "'a::len Elf_Phdr list"
  shdrs :: "'a::len Elf_Shdr list"
  littleEndian :: bool
  changed :: bool
  isExecutable :: bool
  replacedSections :: "(bstring \<times> bstring) list"
  sectionNames :: bstring
  sectionsByOldIndex :: "bstring list"
  pageSize :: "32 word"
  forceRPath :: bool
  rpathLibs :: "bstring list"
  sonameLibs :: "bstring list"
  stdout :: "bstring list"

definition fileSize :: "'a::len ElfFile \<Rightarrow> nat" where
  "fileSize s = length (contents s)"

text \<open>\<open>rpathLibs\<close> and \<open>sonameLibs\<close> are the two function-local \<open>static vector<string> neededLibs\<close>.\<close>

definition rd :: "'a::len ElfFile \<Rightarrow> nat \<Rightarrow> nat \<Rightarrow> elf_error + bstring" where
  "rd s off n = mem_read OutOfBounds (contents s) off n"

definition wr :: "'a::len ElfFile \<Rightarrow> nat \<Rightarrow> bstring \<Rightarrow> elf_error + 'a ElfFile" where
  "wr s off bs = ebind (mem_write OutOfBounds (contents s) off bs) (\<lambda>c. Inr (s\<lparr>contents := c\<rparr>))"

definition cstr_at :: "'a::len ElfFile \<Rightarrow> nat \<Rightarrow> elf_error + bstring" where
  "cstr_at s off = (case cstr (drop off (contents s)) of None \<Rightarrow> Inl OutOfBounds | Some t \<Rightarrow> Inr t)"

text \<open>An element of a vector, and its update.\<close>

definition at :: "'x list \<Rightarrow> nat \<Rightarrow> elf_error + 'x" where
  "at xs i = (if i < length xs then Inr (xs ! i) else Inl OutOfBounds)"

definition upd_at :: "'x list \<Rightarrow> nat \<Rightarrow> ('x \<Rightarrow> 'x) \<Rightarrow> elf_error + 'x list" where
  "upd_at xs i f = (if i < length xs then Inr (xs[i := f (xs ! i)]) else Inl OutOfBounds)"

definition hdr :: "'a::len ElfFile \<Rightarrow> 'a Elf_Ehdr" where
  "hdr s = dec_Ehdr (contents s)"

definition upd_hdr :: "('a::len Elf_Ehdr \<Rightarrow> 'a Elf_Ehdr) \<Rightarrow> 'a ElfFile \<Rightarrow> 'a ElfFile" where
  "upd_hdr f s = s\<lparr>contents := overwrite 0 (enc_Ehdr (f (hdr s))) (contents s)\<rparr>"

text \<open>Fields in the byte order of the file, as numbers.\<close>

definition rdn :: "'a::len ElfFile \<Rightarrow> 'b::len word \<Rightarrow> nat" where
  "rdn s w = unat (rdi (littleEndian s) w)"

definition wrn :: "'a::len ElfFile \<Rightarrow> nat \<Rightarrow> 'b::len word" where
  "wrn s n = wri (littleEndian s) (of_nat n :: 64 word)"

definition phnum :: "'a::len ElfFile \<Rightarrow> nat" where
  "phnum s = rdn s (e_phnum (hdr s))"

definition shnum :: "'a::len ElfFile \<Rightarrow> nat" where
  "shnum s = rdn s (e_shnum (hdr s))"

text \<open>The product of two 16-bit values is an \<open>int\<close>; it wraps around as the host's does.\<close>

definition int_mul :: "16 word \<Rightarrow> 16 word \<Rightarrow> 32 word" where
  "int_mul a b = ucast a * ucast b"

text \<open>\<open>(off_t) (off + n * size)\<close> where \<open>off\<close> is an \<open>Elf_Off\<close>.\<close>

definition table_end :: "'a::len word \<Rightarrow> 16 word \<Rightarrow> 16 word \<Rightarrow> int" where
  "table_end off n entsz = sint (ucast (off + scast (int_mul n entsz)) :: 64 word)"

section \<open>The file\<close>

definition growFile :: "int \<Rightarrow> 'a::len ElfFile \<Rightarrow> elf_error + 'a ElfFile" where
  "growFile newSize s =
     (if newSize > maxSize s then Inl (Error (str ''maximum file size exceeded''))
      else if newSize \<le> int (fileSize s) then Inr s
      else Inr (s\<lparr>contents := contents s @ replicate (nat newSize - fileSize s) 0\<rparr>))"

text \<open>\<open>readFile\<close> and the constructor of the class: the image of a file, and nothing parsed yet.\<close>

definition readFile :: "32 word \<Rightarrow> bool \<Rightarrow> bstring \<Rightarrow> 'a::len ElfFile" where
  "readFile page force file =
     \<lparr>contents = file, maxSize = int (length file) + 32 * 1024 * 1024, phdrs = [], shdrs = [],
      littleEndian = False, changed = False, isExecutable = False, replacedSections = [],
      sectionNames = [], sectionsByOldIndex = [], pageSize = page, forceRPath = force,
      rpathLibs = [], sonameLibs = [], stdout = []\<rparr>"

definition checkPointer :: "'a::len ElfFile \<Rightarrow> nat \<Rightarrow> 32 word \<Rightarrow> elf_error + unit" where
  "checkPointer s off sz = check (off + unat sz \<le> fileSize s) AssertFailed"

definition sectionAlignment :: "'a::len ElfFile \<Rightarrow> 32 word" where
  "sectionAlignment s = of_nat (wsize TYPE('a))"

section \<open>Sections by name\<close>

text \<open>The string at \<open>sh_name\<close> of the name table, which \<open>c_str()\<close> ends with a NUL of its own.\<close>

definition getSectionName :: "'a::len ElfFile \<Rightarrow> 'a Elf_Shdr \<Rightarrow> elf_error + bstring" where
  "getSectionName s sh =
     (case cstr (drop (rdn s (sh_name sh)) (sectionNames s @ [0])) of
        None \<Rightarrow> Inl OutOfBounds | Some nm \<Rightarrow> Inr nm)"

definition sectionName :: "'a::len ElfFile \<Rightarrow> nat \<Rightarrow> elf_error + bstring" where
  "sectionName s i = ebind (at (shdrs s) i) (getSectionName s)"

fun find_index :: "'a::len ElfFile \<Rightarrow> bstring \<Rightarrow> nat list \<Rightarrow> elf_error + nat" where
  "find_index s nm [] = Inr 0"
| "find_index s nm (i # is) =
     ebind (sectionName s i) (\<lambda>n. if n = nm then Inr i else find_index s nm is)"

definition findSection3 :: "'a::len ElfFile \<Rightarrow> bstring \<Rightarrow> elf_error + nat" where
  "findSection3 s nm = find_index s nm [1 ..< shnum s]"

text \<open>A pointer to a section header is its index; the null pointer is \<open>None\<close>.\<close>

definition findSection2 :: "'a::len ElfFile \<Rightarrow> bstring \<Rightarrow> elf_error + nat option" where
  "findSection2 s nm = ebind (findSection3 s nm) (\<lambda>i. Inr (if i = 0 then None else Some i))"

definition findSection :: "'a::len ElfFile \<Rightarrow> bstring \<Rightarrow> elf_error + nat" where
  "findSection s nm =
     ebind (findSection2 s nm) (\<lambda>r. case r of
        None \<Rightarrow> Inl (Error (str ''cannot find section '' @ nm))
      | Some i \<Rightarrow> Inr i)"

text \<open>The header of the section that \<open>findSection\<close> finds.\<close>

definition section_hdr :: "'a::len ElfFile \<Rightarrow> bstring \<Rightarrow> elf_error + 'a Elf_Shdr" where
  "section_hdr s nm = ebind (findSection s nm) (\<lambda>i. at (shdrs s) i)"

section \<open>Replaced sections\<close>

definition resize :: "nat \<Rightarrow> bstring \<Rightarrow> bstring" where
  "resize n t = take n t @ replicate (n - length t) 0"

definition replaceSection :: "bstring \<Rightarrow> 32 word \<Rightarrow> 'a::len ElfFile \<Rightarrow> elf_error + 'a ElfFile" where
  "replaceSection nm sz s =
     ebind (case map_of (replacedSections s) nm of
        Some t \<Rightarrow> Inr t
      | None \<Rightarrow> ebind (section_hdr s nm) (\<lambda>sh. rd s (rdn s (sh_offset sh)) (rdn s (sh_size sh))))
     (\<lambda>t. Inr (s\<lparr>replacedSections := map_put nm (resize (unat sz) t) (replacedSections s)\<rparr>))"

definition setSubstr :: "bstring \<Rightarrow> 32 word \<Rightarrow> bstring \<Rightarrow> elf_error + bstring" where
  "setSubstr t pos u =
     (if unat pos + length u \<le> length t then Inr (overwrite (unat pos) u t) else Inl AssertFailed)"

text \<open>\<open>setSubstr\<close> on the string that a call of \<open>replaceSection\<close> returned a reference to.\<close>

definition set_replaced :: "bstring \<Rightarrow> 32 word \<Rightarrow> bstring \<Rightarrow> 'a::len ElfFile \<Rightarrow> elf_error + 'a ElfFile" where
  "set_replaced nm pos u s =
     ebind (setSubstr (map_get (replacedSections s) nm) pos u)
       (\<lambda>t. Inr (s\<lparr>replacedSections := map_put nm t (replacedSections s)\<rparr>))"

section \<open>Parsing\<close>

definition load_phdr :: "'a::len ElfFile \<Rightarrow> nat \<Rightarrow> elf_error + 'a Elf_Phdr" where
  "load_phdr s i =
     ebind (rd s (rdn s (e_phoff (hdr s)) + i * sizeof_Phdr TYPE('a)) (sizeof_Phdr TYPE('a)))
       (\<lambda>bs. Inr (dec_Phdr bs))"

definition load_shdr :: "'a::len ElfFile \<Rightarrow> nat \<Rightarrow> elf_error + 'a Elf_Shdr" where
  "load_shdr s i =
     ebind (rd s (rdn s (e_shoff (hdr s)) + i * sizeof_Shdr TYPE('a)) (sizeof_Shdr TYPE('a)))
       (\<lambda>bs. Inr (dec_Shdr bs))"

definition push_phdr :: "'a::len ElfFile \<Rightarrow> nat \<Rightarrow> elf_error + 'a ElfFile" where
  "push_phdr s i =
     ebind (load_phdr s i) (\<lambda>p. Inr (s\<lparr>phdrs := phdrs s @ [p],
       isExecutable := isExecutable s \<or> rdi (littleEndian s) (p_type p) = PT_INTERP\<rparr>))"

definition push_shdr :: "'a::len ElfFile \<Rightarrow> nat \<Rightarrow> elf_error + 'a ElfFile" where
  "push_shdr s i = ebind (load_shdr s i) (\<lambda>sh. Inr (s\<lparr>shdrs := shdrs s @ [sh]\<rparr>))"

definition record_name :: "'a::len ElfFile \<Rightarrow> nat \<Rightarrow> elf_error + 'a ElfFile" where
  "record_name s i =
     ebind (sectionName s i) (\<lambda>nm.
     ebind (upd_at (sectionsByOldIndex s) i (\<lambda>_. nm)) (\<lambda>v. Inr (s\<lparr>sectionsByOldIndex := v\<rparr>)))"

text \<open>The section header string table; the name vector has the size of the field as stored.\<close>

definition parse_names :: "'a::len ElfFile \<Rightarrow> elf_error + 'a ElfFile" where
  "parse_names s =
     (let i = rdn s (e_shstrndx (hdr s)) in
      ebind (check (i < length (shdrs s)) AssertFailed) (\<lambda>_.
      let sh = shdrs s ! i; sz = ucast (rdi (littleEndian s) (sh_size sh)) :: 32 word;
          off = rdn s (sh_offset sh) in
      ebind (checkPointer s off sz) (\<lambda>_.
      ebind (check (sz > 0) AssertFailed) (\<lambda>_.
      ebind (rd s off (unat sz)) (\<lambda>tab.
      ebind (check (last tab = 0) AssertFailed) (\<lambda>_.
      let s = s\<lparr>sectionNames := tab, sectionsByOldIndex := replicate (unat (e_shnum (hdr s))) []\<rparr> in
      efold record_name s [1 ..< shnum s]))))))"

definition parse :: "'a::len ElfFile \<Rightarrow> elf_error + 'a ElfFile" where
  "parse s =
     (let s = s\<lparr>isExecutable := False\<rparr>; h = hdr s in
      ebind (check (sizeof_Ehdr TYPE('a) \<le> fileSize s) (Error (str ''missing ELF header''))) (\<lambda>_.
      ebind (check (take 4 (e_ident h) = ELFMAG) (Error (str ''not an ELF executable''))) (\<lambda>_.
      let le = contents s ! EI_DATA = ELFDATA2LSB; s = s\<lparr>littleEndian := le\<rparr> in
      ebind (check (rdi le (e_type h) = ET_EXEC \<or> rdi le (e_type h) = ET_DYN) (Error (str ''wrong ELF type''))) (\<lambda>_.
      ebind (check (table_end (rdi le (e_phoff h)) (rdi le (e_phnum h)) (rdi le (e_phentsize h)) \<le> int (fileSize s))
              (Error (str ''missing program headers''))) (\<lambda>_.
      ebind (check (table_end (rdi le (e_shoff h)) (rdi le (e_shnum h)) (rdi le (e_shentsize h)) \<le> int (fileSize s))
              (Error (str ''missing section headers''))) (\<lambda>_.
      ebind (check (rdn s (e_phentsize h) = sizeof_Phdr TYPE('a)) (Error (str ''program headers have wrong size''))) (\<lambda>_.
      ebind (efold push_phdr s [0 ..< phnum s]) (\<lambda>s.
      ebind (efold push_shdr s [0 ..< shnum s]) parse_names))))))))"

end
