(* ===== verification/ElfRewrite.thy ===== *)
theory ElfRewrite
  imports ElfState
begin

text \<open>
  The layout of the file in \<open>patchelf.cc\<close>: sorting the header tables, writing the replaced
  sections, rewriting the headers with the addresses that depend on them, and the two
  strategies, a new segment at the end (libraries) and a grown start (executables).
\<close>

section \<open>Sorting the header tables\<close>

definition CompPhdr :: "bool \<Rightarrow> 'a::len Elf_Phdr \<Rightarrow> 'a Elf_Phdr \<Rightarrow> bool" where
  "CompPhdr le x y =
     (if p_type x = PT_PHDR then True
      else if p_type y = PT_PHDR then False
      else rdi le (p_paddr x) < rdi le (p_paddr y))"

definition CompShdr :: "bool \<Rightarrow> 'a::len Elf_Shdr \<Rightarrow> 'a Elf_Shdr \<Rightarrow> bool" where
  "CompShdr le x y \<longleftrightarrow> rdi le (sh_offset x) < rdi le (sh_offset y)"

definition sortPhdrs :: "'a::len ElfFile \<Rightarrow> 'a ElfFile" where
  "sortPhdrs s = s\<lparr>phdrs := std_sort (CompPhdr (littleEndian s)) (phdrs s)\<rparr>"

definition has_link :: "'a::len ElfFile \<Rightarrow> 'a Elf_Shdr \<Rightarrow> bool" where
  "has_link s sh \<longleftrightarrow> rdi (littleEndian s) (sh_link sh) \<noteq> 0"

definition has_info :: "'a::len ElfFile \<Rightarrow> 'a Elf_Shdr \<Rightarrow> bool" where
  "has_info s sh \<longleftrightarrow> rdi (littleEndian s) (sh_info sh) \<noteq> 0 \<and>
     (rdi (littleEndian s) (sh_type sh) = SHT_REL \<or> rdi (littleEndian s) (sh_type sh) = SHT_RELA)"

text \<open>
  The names that a field of the section headers refers to, by the name of the section that has
  the field; and the field set again from these names.
\<close>

definition link_names ::
  "('a::len Elf_Shdr \<Rightarrow> bool) \<Rightarrow> ('a Elf_Shdr \<Rightarrow> Elf_Word) \<Rightarrow> 'a ElfFile \<Rightarrow> elf_error + (bstring \<times> bstring) list" where
  "link_names has fld s =
     efold (\<lambda>m i.
       ebind (at (shdrs s) i) (\<lambda>sh.
       if has sh then
         ebind (getSectionName s sh) (\<lambda>nm.
         ebind (sectionName s (rdn s (fld sh))) (\<lambda>target.
         Inr (map_put nm target m)))
       else Inr m)) [] [1 ..< shnum s]"

definition restore_links ::
  "('a::len Elf_Shdr \<Rightarrow> bool) \<Rightarrow> (Elf_Word \<Rightarrow> 'a Elf_Shdr \<Rightarrow> 'a Elf_Shdr) \<Rightarrow> (bstring \<times> bstring) list
     \<Rightarrow> 'a ElfFile \<Rightarrow> elf_error + 'a ElfFile" where
  "restore_links has set_fld m s =
     efold (\<lambda>s i.
       ebind (at (shdrs s) i) (\<lambda>sh.
       if has sh then
         ebind (getSectionName s sh) (\<lambda>nm.
         ebind (findSection3 s (map_get m nm)) (\<lambda>j.
         ebind (upd_at (shdrs s) i (set_fld (wrn s j))) (\<lambda>v. Inr (s\<lparr>shdrs := v\<rparr>))))
       else Inr s)) s [1 ..< shnum s]"

definition sortShdrs :: "'a::len ElfFile \<Rightarrow> elf_error + 'a ElfFile" where
  "sortShdrs s =
     ebind (link_names (has_link s) sh_link s) (\<lambda>linkage.
     ebind (link_names (has_info s) sh_info s) (\<lambda>info.
     ebind (sectionName s (rdn s (e_shstrndx (hdr s)))) (\<lambda>shstrtabName.
     let s = s\<lparr>shdrs := std_sort (CompShdr (littleEndian s)) (shdrs s)\<rparr> in
     ebind (restore_links (has_link s) (\<lambda>w. sh_link_update (\<lambda>_. w)) linkage s) (\<lambda>s.
     ebind (restore_links (has_info s) (\<lambda>w. sh_info_update (\<lambda>_. w)) info s) (\<lambda>s.
     ebind (findSection3 s shstrtabName) (\<lambda>i.
     Inr (upd_hdr (e_shstrndx_update (\<lambda>_. wrn s i)) s)))))))"

section \<open>Growing the start of the file\<close>

text \<open>A segment added at the end of the program header table.\<close>

definition add_segment :: "nat \<Rightarrow> 'a::len word \<Rightarrow> nat \<Rightarrow> 'a ElfFile \<Rightarrow> elf_error + 'a ElfFile" where
  "add_segment offset addr len s =
     (let n = phnum s + 1;
          s = s\<lparr>phdrs := take n (phdrs s) @ replicate (n - length (phdrs s)) (dec_Phdr (replicate (sizeof_Phdr TYPE('a)) 0))\<rparr>;
          s = upd_hdr (e_phnum_update (\<lambda>_. wrn s n)) s; le = littleEndian s in
      if phnum s = 0 then Inl OutOfBounds
      else ebind (upd_at (phdrs s) (phnum s - 1) (\<lambda>p.
             \<lparr>p_type = wri le PT_LOAD, p_offset = wrn s offset, p_vaddr = wri le addr,
              p_paddr = wri le addr, p_filesz = wrn s len, p_memsz = wrn s len,
              p_flags = wri le (PF_R OR PF_W), p_align = wri le (pageSize s)\<rparr>))
        (\<lambda>v. Inr (s\<lparr>phdrs := v\<rparr>)))"

definition shift_shdr :: "32 word \<Rightarrow> 'a::len ElfFile \<Rightarrow> nat \<Rightarrow> elf_error + 'a ElfFile" where
  "shift_shdr shift s i =
     (let le = littleEndian s in
      ebind (upd_at (shdrs s) i (\<lambda>sh. sh\<lparr>sh_offset := wri le (rdi le (sh_offset sh) + ucast shift)\<rparr>))
        (\<lambda>v. Inr (s\<lparr>shdrs := v\<rparr>)))"

definition shift_phdr :: "32 word \<Rightarrow> 'a::len ElfFile \<Rightarrow> nat \<Rightarrow> elf_error + 'a ElfFile" where
  "shift_phdr shift s i =
     (let le = littleEndian s in
      ebind (upd_at (phdrs s) i (\<lambda>p.
          let p = p\<lparr>p_offset := wri le (rdi le (p_offset p) + ucast shift)\<rparr> in
          if rdi le (p_align p) \<noteq> 0 \<and> (rdi le (p_vaddr p) - rdi le (p_offset p)) mod rdi le (p_align p) \<noteq> 0
          then p\<lparr>p_align := wri le (pageSize s)\<rparr> else p))
        (\<lambda>v. Inr (s\<lparr>phdrs := v\<rparr>)))"

definition move_contents :: "32 word \<Rightarrow> 'a::len ElfFile \<Rightarrow> elf_error + 'a ElfFile" where
  "move_contents shift s =
     (let oldSize = of_nat (fileSize s) :: 32 word; hs = sizeof_Ehdr TYPE('a) in
      ebind (growFile (int (fileSize s) + int (unat shift)) s) (\<lambda>s.
      ebind (rd s 0 (unat oldSize)) (\<lambda>old.
      ebind (wr s (unat shift) old) (\<lambda>s.
      ebind (check (hs \<le> unat shift) OutOfBounds) (\<lambda>_.
      wr s hs (replicate (unat shift - hs) 0))))))"

definition shiftFile :: "32 word \<Rightarrow> 'a::len word \<Rightarrow> 'a ElfFile \<Rightarrow> elf_error + 'a ElfFile" where
  "shiftFile extraPages startPage s =
     (let shift = extraPages * pageSize s; le = littleEndian s in
      ebind (move_contents shift s) (\<lambda>s.
      let s = upd_hdr (e_phoff_update (\<lambda>_. wrn s (sizeof_Ehdr TYPE('a)))) s;
          s = upd_hdr (\<lambda>h. h\<lparr>e_shoff := wri le (rdi le (e_shoff h) + ucast shift)\<rparr>) s in
      ebind (efold (shift_shdr shift) s [1 ..< shnum s]) (\<lambda>s.
      ebind (efold (shift_phdr shift) s [0 ..< phnum s]) (\<lambda>s.
      add_segment 0 startPage (unat shift) s))))"

section \<open>Writing the replaced sections\<close>

text \<open>The old contents are overwritten with \<open>X\<close>, all of them before any new contents are written.\<close>

definition erase_section :: "'a::len ElfFile \<Rightarrow> bstring \<times> bstring \<Rightarrow> elf_error + 'a ElfFile" where
  "erase_section s = (\<lambda>(nm, t).
     ebind (section_hdr s nm) (\<lambda>sh.
     wr s (rdn s (sh_offset sh)) (replicate (rdn s (sh_size sh)) 88)))"

definition sync_phdrs :: "Elf_Word \<Rightarrow> 'a::len Elf_Shdr \<Rightarrow> 'a ElfFile \<Rightarrow> 'a ElfFile" where
  "sync_phdrs ty sh s =
     s\<lparr>phdrs := map (\<lambda>p. if rdi (littleEndian s) (p_type p) = ty
       then p\<lparr>p_offset := sh_offset sh, p_vaddr := sh_addr sh, p_paddr := sh_addr sh,
              p_filesz := sh_size sh, p_memsz := sh_size sh\<rparr>
       else p) (phdrs s)\<rparr>"

definition place_section ::
  "'a::len word \<Rightarrow> 'a word \<Rightarrow> 'a ElfFile \<times> 'a word \<Rightarrow> bstring \<times> bstring \<Rightarrow> elf_error + 'a ElfFile \<times> 'a word" where
  "place_section startAddr startOffset = (\<lambda>(s, curOff) (nm, t).
     ebind (findSection s nm) (\<lambda>i.
     ebind (wr s (unat curOff) t) (\<lambda>s.
     let le = littleEndian s in
     ebind (upd_at (shdrs s) i (\<lambda>sh. sh\<lparr>sh_offset := wri le curOff,
         sh_addr := wri le (startAddr + (curOff - startOffset)), sh_size := wrn s (length t),
         sh_addralign := wri le (sectionAlignment s)\<rparr>)) (\<lambda>v.
     let s = s\<lparr>shdrs := v\<rparr>; sh = v ! i;
         s = (if nm = str ''.interp'' then sync_phdrs PT_INTERP sh s else s);
         s = (if nm = str ''.dynamic'' then sync_phdrs PT_DYNAMIC sh s else s) in
     Inr (s, curOff + ucast (roundUp (of_nat (length t)) (sectionAlignment s)))))))"

definition writeReplacedSections ::
  "'a::len word \<Rightarrow> 'a word \<Rightarrow> 'a word \<Rightarrow> 'a ElfFile \<Rightarrow> elf_error + 'a ElfFile \<times> 'a word" where
  "writeReplacedSections curOff startAddr startOffset s =
     ebind (efold erase_section s (replacedSections s)) (\<lambda>s.
     ebind (efold (place_section startAddr startOffset) (s, curOff) (replacedSections s)) (\<lambda>(s, curOff).
     Inr (s\<lparr>replacedSections := []\<rparr>, curOff)))"

text \<open>\<open>neededSpace\<close>: what the sections take, each rounded up to the alignment.\<close>

definition sections_space :: "'a::len ElfFile \<Rightarrow> nat" where
  "sections_space s = foldl (\<lambda>n (nm, t). n + unat (roundUp (of_nat (length t)) (sectionAlignment s))) 0 (replacedSections s)"

section \<open>Rewriting the headers\<close>

definition store_phdr :: "'a::len ElfFile \<Rightarrow> nat \<Rightarrow> elf_error + 'a ElfFile" where
  "store_phdr s i =
     ebind (at (phdrs s) i) (\<lambda>p. wr s (rdn s (e_phoff (hdr s)) + i * sizeof_Phdr TYPE('a)) (enc_Phdr p))"

definition store_shdr :: "'a::len ElfFile \<Rightarrow> nat \<Rightarrow> elf_error + 'a ElfFile" where
  "store_shdr s i =
     ebind (at (shdrs s) i) (\<lambda>sh. wr s (rdn s (e_shoff (hdr s)) + i * sizeof_Shdr TYPE('a)) (enc_Shdr sh))"

text \<open>The section header table: sorted, then stored from index 1 on.\<close>

definition rewrite_shdrs :: "'a::len ElfFile \<Rightarrow> elf_error + 'a ElfFile" where
  "rewrite_shdrs s =
     ebind (check (shnum s = length (shdrs s)) AssertFailed) (\<lambda>_.
     ebind (sortShdrs s) (\<lambda>s.
     efold store_shdr s [1 ..< shnum s]))"

text \<open>The first header of type \<open>PT_PHDR\<close>, if there is one, describes the table itself.\<close>

fun sync_pt_phdr :: "bool \<Rightarrow> ('a::len Elf_Phdr \<Rightarrow> 'a Elf_Phdr) \<Rightarrow> 'a Elf_Phdr list \<Rightarrow> 'a Elf_Phdr list" where
  "sync_pt_phdr le f [] = []"
| "sync_pt_phdr le f (p # ps) =
     (if rdi le (p_type p) = PT_PHDR then f p # ps else p # sync_pt_phdr le f ps)"

definition rewrite_phdrs :: "'a::len word \<Rightarrow> 'a ElfFile \<Rightarrow> elf_error + 'a ElfFile" where
  "rewrite_phdrs phdrAddress s =
     (let le = littleEndian s; len = wrn s (length (phdrs s) * sizeof_Phdr TYPE('a));
          s = s\<lparr>phdrs := sync_pt_phdr le (\<lambda>p. p\<lparr>p_offset := e_phoff (hdr s),
                 p_vaddr := wri le phdrAddress, p_paddr := wri le phdrAddress,
                 p_filesz := len, p_memsz := len\<rparr>) (phdrs s)\<rparr>;
          s = sortPhdrs s in
      efold store_phdr s [0 ..< length (phdrs s)])"

section \<open>The dynamic section\<close>

text \<open>
  A loop over the entries of a dynamic section at \<open>off\<close> until the tag \<open>DT_NULL\<close>: \<open>body\<close> gets the
  offset of the entry and its tag. \<open>conv\<close> is what the code makes of the tag before it tests
  it, \<open>img\<close> the memory that is read. The result has the offset at which the loop ended. The number of steps is bounded by
  the entries whose tag lies inside the memory; going on after the last one is the error.
\<close>

definition dyn_tag :: "bool \<Rightarrow> bstring \<Rightarrow> nat \<Rightarrow> 'a::len word" where
  "dyn_tag le c off = rdi le (bytesw (chunk off (wsize TYPE('a)) c))"

definition dyn_count :: "'a::len itself \<Rightarrow> bstring \<Rightarrow> nat \<Rightarrow> nat" where
  "dyn_count T c off = (length c - off + wsize TYPE('a)) div sizeof_Dyn TYPE('a)"

fun dyn_for :: "bool \<Rightarrow> ('a::len word \<Rightarrow> 'a word) \<Rightarrow> ('s \<Rightarrow> bstring) \<Rightarrow> (nat \<Rightarrow> 'a word \<Rightarrow> 's \<Rightarrow> elf_error + 's)
    \<Rightarrow> nat \<Rightarrow> nat \<Rightarrow> 's \<Rightarrow> elf_error + nat \<times> 's" where
  "dyn_for le conv img body off 0 s = Inl OutOfBounds"
| "dyn_for le conv img body off (Suc n) s =
     (let tag = conv (dyn_tag le (img s) off) in
      if tag = DT_NULL then Inr (off, s)
      else ebind (body off tag s) (\<lambda>s. dyn_for le conv img body (off + sizeof_Dyn TYPE('a)) n s))"

text \<open>The loop over the section in the file.\<close>

definition dyn_loop :: "(nat \<Rightarrow> 'a::len word \<Rightarrow> 'a ElfFile \<Rightarrow> elf_error + 'a ElfFile) \<Rightarrow> nat \<Rightarrow> 'a ElfFile \<Rightarrow> elf_error + 'a ElfFile" where
  "dyn_loop body off s =
     ebind (dyn_for (littleEndian s) (\<lambda>t. t) contents body off (dyn_count TYPE('a) (contents s) off) s) (\<lambda>(_, s). Inr s)"

definition d_un_at :: "'a::len ElfFile \<Rightarrow> nat \<Rightarrow> elf_error + 'a word" where
  "d_un_at s off = ebind (rd s (off + wsize TYPE('a)) (wsize TYPE('a))) (\<lambda>bs. Inr (bytesw bs))"

definition set_d_un :: "nat \<Rightarrow> 'a::len word \<Rightarrow> 'a ElfFile \<Rightarrow> elf_error + 'a ElfFile" where
  "set_d_un off w s = wr s (off + wsize TYPE('a)) (wbytes w)"

text \<open>The first of the named sections that exists.\<close>

fun find_first :: "'a::len ElfFile \<Rightarrow> bstring list \<Rightarrow> elf_error + nat option" where
  "find_first s [] = Inr None"
| "find_first s (nm # nms) =
     ebind (findSection2 s nm) (\<lambda>r. case r of Some i \<Rightarrow> Inr (Some i) | None \<Rightarrow> find_first s nms)"

definition addr_of :: "'a::len ElfFile \<Rightarrow> nat option \<Rightarrow> elf_error + 'a word option" where
  "addr_of s r = (case r of None \<Rightarrow> Inr None | Some i \<Rightarrow> ebind (at (shdrs s) i) (\<lambda>sh. Inr (Some (sh_addr sh))))"

text \<open>What an entry is set to: \<open>None\<close> leaves it alone.\<close>

definition dyn_value :: "'a::len ElfFile \<Rightarrow> 'a word \<Rightarrow> elf_error + 'a word option" where
  "dyn_value s tag =
     (let addr = (\<lambda>nm. ebind (section_hdr s (str nm)) (\<lambda>sh. Inr (Some (sh_addr sh)))) in
      if tag = DT_STRTAB then addr ''.dynstr''
      else if tag = DT_STRSZ then ebind (section_hdr s (str ''.dynstr'')) (\<lambda>sh. Inr (Some (sh_size sh)))
      else if tag = DT_SYMTAB then addr ''.dynsym''
      else if tag = DT_HASH then addr ''.hash''
      else if tag = DT_GNU_HASH then addr ''.gnu.hash''
      else if tag = DT_JMPREL then
        ebind (find_first s [str ''.rel.plt'', str ''.rela.plt'', str ''.rela.IA_64.pltoff'']) (\<lambda>r.
        if r = None then Inl (Error (str ''cannot find section corresponding to DT_JMPREL'')) else addr_of s r)
      else if tag = DT_REL then ebind (find_first s [str ''.rel.dyn'', str ''.rel.got'']) (addr_of s)
      else if tag = DT_RELA then ebind (find_first s [str ''.rela.dyn'']) (addr_of s)
      else if tag = DT_VERNEED then addr ''.gnu.version_r''
      else if tag = DT_VERSYM then addr ''.gnu.version''
      else Inr None)"

definition fix_dyn :: "nat \<Rightarrow> 'a::len word \<Rightarrow> 'a ElfFile \<Rightarrow> elf_error + 'a ElfFile" where
  "fix_dyn off tag s =
     ebind (dyn_value s tag) (\<lambda>r. case r of None \<Rightarrow> Inr s | Some w \<Rightarrow> set_d_un off w s)"

text \<open>\<open>d_tag\<close> is an \<open>unsigned int\<close> here: on 64 bits the tag loses its upper half before the tests.\<close>

definition rewrite_dynamic :: "'a::len ElfFile \<Rightarrow> elf_error + 'a ElfFile" where
  "rewrite_dynamic s =
     ebind (findSection2 s (str ''.dynamic'')) (\<lambda>r. case r of
        None \<Rightarrow> Inr s
      | Some i \<Rightarrow>
          ebind (at (shdrs s) i) (\<lambda>sh.
          let off = rdn s (sh_offset sh) in
          ebind (dyn_for (littleEndian s) (\<lambda>t. ucast (ucast t :: 32 word)) contents fix_dyn off
                   (dyn_count TYPE('a) (contents s) off) s)
            (\<lambda>(_, s). Inr s)))"

section \<open>The symbol tables\<close>

definition fix_sym :: "nat \<Rightarrow> 'a::len ElfFile \<Rightarrow> nat \<Rightarrow> elf_error + 'a ElfFile" where
  "fix_sym tab s entry =
     (let le = littleEndian s; pos = tab + entry * sizeof_Sym TYPE('a) in
      ebind (rd s pos (sizeof_Sym TYPE('a))) (\<lambda>bs.
      let sy = dec_Sym bs :: 'a Elf_Sym; shndx = rdi le (st_shndx sy) in
      if shndx \<noteq> 0 \<and> ucast shndx < SHN_LORESERVE then
        (if length (sectionsByOldIndex s) \<le> unat shndx then Inr s
         else
           let section = sectionsByOldIndex s ! unat shndx in
           ebind (check (section \<noteq> []) AssertFailed) (\<lambda>_.
           ebind (findSection3 s section) (\<lambda>newIndex.
           let sy = sy\<lparr>st_shndx := wrn s newIndex\<rparr> in
           ebind (if ELF32_ST_TYPE (ucast (rdi le (st_info sy))) = STT_SECTION
                  then ebind (at (shdrs s) newIndex) (\<lambda>sh. Inr (sy\<lparr>st_value := wri le (rdi le (sh_addr sh))\<rparr>))
                  else Inr sy) (\<lambda>sy.
           wr s pos (enc_Sym sy)))))
      else Inr s))"

definition is_symtab :: "'a::len ElfFile \<Rightarrow> 'a Elf_Shdr \<Rightarrow> bool" where
  "is_symtab s sh \<longleftrightarrow> rdi (littleEndian s) (sh_type sh) = SHT_SYMTAB \<or> rdi (littleEndian s) (sh_type sh) = SHT_DYNSYM"

definition rewrite_symbols :: "'a::len ElfFile \<Rightarrow> elf_error + 'a ElfFile" where
  "rewrite_symbols s =
     efold (\<lambda>s i. ebind (at (shdrs s) i) (\<lambda>sh.
       if is_symtab s sh then
         efold (fix_sym (rdn s (sh_offset sh))) s [0 ..< rdn s (sh_size sh) div sizeof_Sym TYPE('a)]
       else Inr s)) s [1 ..< shnum s]"

definition rewriteHeaders :: "'a::len word \<Rightarrow> 'a ElfFile \<Rightarrow> elf_error + 'a ElfFile" where
  "rewriteHeaders phdrAddress s =
     ebind (rewrite_phdrs phdrAddress s) (\<lambda>s.
     ebind (rewrite_shdrs s) (\<lambda>s.
     ebind (rewrite_dynamic s) rewrite_symbols))"

end
