(* ===== verification/ElfLayout.thy ===== *)
theory ElfLayout
  imports ElfRewrite
begin

text \<open>
  The two strategies of \<open>patchelf.cc\<close> for placing the replaced sections,
  \<open>rewriteSectionsLibrary\<close> and \<open>rewriteSectionsExecutable\<close>, and their choice by the type of
  the file, \<open>rewriteSections\<close>.
\<close>

section \<open>Libraries: a new segment after the others\<close>

text \<open>\<open>roundUp\<close> takes and gives an \<open>unsigned int\<close>, so the page of a 64-bit address is cut to 32 bits.\<close>

definition last_page :: "'a::len ElfFile \<Rightarrow> 'a word" where
  "last_page s =
     foldl (\<lambda>startPage p.
       let thisPage = ucast (roundUp (ucast (rdi (littleEndian s) (p_vaddr p) + rdi (littleEndian s) (p_memsz p))) (pageSize s)) in
       if startPage < thisPage then thisPage else startPage) 0 (phdrs s)"

text \<open>
  Where the new segment starts in the file and in memory: \<open>rewriteSectionsLibrary\<close> up to the
  comment on adding a segment. An executable gets equal offset and address, with a hole in the
  file if the address space demands it.
\<close>

definition place_segment :: "nat \<Rightarrow> 'a::len ElfFile \<Rightarrow> elf_error + 'a ElfFile \<times> nat \<times> 'a word" where
  "place_segment neededSpace s =
     (let startPage = last_page s;
          startOffset = unat (roundUp (of_nat (fileSize s)) (pageSize s)) in
      ebind (growFile (int (startOffset + neededSpace)) s) (\<lambda>s.
      if isExecutable s then
        (if unat startPage \<le> startOffset then Inr (s, startOffset, of_nat startOffset)
         else
           let hole = unat startPage - startOffset in
           ebind (check (hole mod unat (pageSize s) = 0) AssertFailed) (\<lambda>_.
           ebind (growFile (int (fileSize s + hole)) s) (\<lambda>s.
           Inr (s, startOffset + hole, of_nat (startOffset + hole)))))
      else Inr (s, startOffset, startPage)))"

definition rewriteSectionsLibrary :: "'a::len ElfFile \<Rightarrow> elf_error + 'a ElfFile" where
  "rewriteSectionsLibrary s =
     (let neededSpace = (length (phdrs s) + 1) * sizeof_Phdr TYPE('a) + sections_space s in
      ebind (place_segment neededSpace s) (\<lambda>(s, startOffset, startPage).
      ebind (add_segment startOffset startPage neededSpace s) (\<lambda>s.
      ebind (writeReplacedSections (of_nat (startOffset + length (phdrs s) * sizeof_Phdr TYPE('a))) startPage
              (of_nat startOffset) s) (\<lambda>(s, curOff).
      ebind (check (unat curOff = startOffset + neededSpace) AssertFailed) (\<lambda>_.
      rewriteHeaders startPage (upd_hdr (e_phoff_update (\<lambda>_. wrn s startOffset)) s))))))"

section \<open>Executables: a grown start of the file\<close>

definition last_replaced :: "'a::len ElfFile \<Rightarrow> elf_error + nat" where
  "last_replaced s =
     efold (\<lambda>last i. ebind (sectionName s i) (\<lambda>nm.
       Inr (if map_of (replacedSections s) nm \<noteq> None then i else last))) 0 [1 ..< shnum s]"

text \<open>
  The sections up to the last replaced one are replaced too, until one that cannot be moved,
  or one after \<open>.dynstr\<close>: \<open>Some i\<close> is the section at which the loop broke off.
\<close>

fun replace_before :: "nat list \<Rightarrow> bstring \<Rightarrow> 'a::len ElfFile \<Rightarrow> elf_error + 'a ElfFile \<times> nat option" where
  "replace_before [] prev s = Inr (s, None)"
| "replace_before (i # is) prev s =
     ebind (at (shdrs s) i) (\<lambda>sh.
     ebind (getSectionName s sh) (\<lambda>nm.
     if (rdi (littleEndian s) (sh_type sh) = SHT_PROGBITS \<and> nm \<noteq> str ''.interp'') \<or> prev = str ''.dynstr''
     then Inr (s, Some i)
     else
       ebind (if map_of (replacedSections s) nm = None
              then replaceSection nm (ucast (rdi (littleEndian s) (sh_size sh))) s else Inr s)
         (replace_before is nm)))"

text \<open>The section headers are moved to the end of the file when they would be overwritten.\<close>

definition move_shdrs :: "nat \<Rightarrow> 'a::len ElfFile \<Rightarrow> elf_error + 'a ElfFile" where
  "move_shdrs startOffset s =
     (let le = littleEndian s; h = hdr s in
      if rdn s (e_shoff h) < startOffset then
        (let shoffNew = fileSize s;
             shSize = table_end (rdi le (e_shoff h)) (rdi le (e_shnum h)) (rdi le (e_shentsize h)) in
         ebind (growFile (int (fileSize s) + shSize) s) (\<lambda>s.
         rewrite_shdrs (upd_hdr (e_shoff_update (\<lambda>_. wrn s shoffNew)) s)))
      else Inr s)"

text \<open>
  Room at the start: the state, the space needed, the first offset that is not free and the
  address of the first page, after \<open>shiftFile\<close> if the space did not suffice.
\<close>

definition make_room :: "nat \<Rightarrow> 'a::len word \<Rightarrow> 'a ElfFile \<Rightarrow> elf_error + 'a ElfFile \<times> nat \<times> nat \<times> 'a word" where
  "make_room startOffset firstPage s =
     (let neededSpace = sizeof_Ehdr TYPE('a) + length (phdrs s) * sizeof_Phdr TYPE('a) + sections_space s in
      if startOffset < neededSpace then
        (let neededSpace = neededSpace + sizeof_Phdr TYPE('a);
             neededPages = roundUp (of_nat (neededSpace - startOffset)) (pageSize s) div pageSize s;
             bytes = neededPages * pageSize s in
         if unat bytes > unat firstPage then Inl (Error (str ''virtual address space underrun!''))
         else
           let firstPage = firstPage - ucast bytes; startOffset = startOffset + unat bytes in
           ebind (shiftFile neededPages firstPage s) (\<lambda>s. Inr (s, neededSpace, startOffset, firstPage)))
      else Inr (s, neededSpace, startOffset, firstPage))"

text \<open>The free space is cleared and the sections are written into it, from the program headers on.\<close>

definition fill_start :: "nat \<Rightarrow> nat \<Rightarrow> 'a::len word \<Rightarrow> 'a ElfFile \<Rightarrow> elf_error + 'a ElfFile" where
  "fill_start neededSpace startOffset firstPage s =
     (let curOff = sizeof_Ehdr TYPE('a) + length (phdrs s) * sizeof_Phdr TYPE('a) in
      ebind (check (curOff \<le> startOffset) OutOfBounds) (\<lambda>_.
      ebind (wr s curOff (replicate (startOffset - curOff) 0)) (\<lambda>s.
      ebind (writeReplacedSections (of_nat curOff) firstPage 0 s) (\<lambda>(s, curOff).
      ebind (check (unat curOff = neededSpace) AssertFailed) (\<lambda>_.
      rewriteHeaders (firstPage + rdi (littleEndian s) (e_phoff (hdr s))) s)))))"

definition rewriteSectionsExecutable :: "'a::len ElfFile \<Rightarrow> elf_error + 'a ElfFile" where
  "rewriteSectionsExecutable s =
     ebind (sortShdrs s) (\<lambda>s.
     ebind (last_replaced s) (\<lambda>lastReplaced.
     ebind (check (lastReplaced \<noteq> 0) AssertFailed) (\<lambda>_.
     ebind (check (lastReplaced + 1 < length (shdrs s)) AssertFailed) (\<lambda>_.
     ebind (replace_before [1 ..< lastReplaced + 1] [] s) (\<lambda>(s, stop).
     ebind (at (shdrs s) (case stop of None \<Rightarrow> lastReplaced + 1 | Some i \<Rightarrow> i)) (\<lambda>sh.
     let startOffset = rdn s (sh_offset sh); startAddr = rdi (littleEndian s) (sh_addr sh) in
     ebind (check (unat startAddr mod unat (pageSize s) = startOffset mod unat (pageSize s)) AssertFailed) (\<lambda>_.
     ebind (move_shdrs startOffset s) (\<lambda>s.
     ebind (make_room startOffset (startAddr - of_nat startOffset) s) (\<lambda>(s, neededSpace, startOffset, firstPage).
     fill_start neededSpace startOffset firstPage s)))))))))"

section \<open>The choice\<close>

definition rewriteSections :: "'a::len ElfFile \<Rightarrow> elf_error + 'a ElfFile" where
  "rewriteSections s =
     (if replacedSections s = [] then Inr s
      else if rdi (littleEndian s) (e_type (hdr s)) = ET_DYN then rewriteSectionsLibrary s
      else if rdi (littleEndian s) (e_type (hdr s)) = ET_EXEC then rewriteSectionsExecutable s
      else Inl (Error (str ''unknown ELF type'')))"

end
