(* ===== verification/ElfDynamic.thy ===== *)
theory ElfDynamic
  imports ElfLayout
begin

text \<open>
  The operations of \<open>patchelf.cc\<close> on the interpreter and on the dynamic section: the soname, the
  run-time search path, the needed libraries and the flag for the default libraries. Entries
  are changed in place in the file where they exist; a new entry or a longer string goes to a
  copy of the section that \<open>rewriteSections\<close> places later. Several fields are stored without
  a conversion of the byte order; the model stores them as the code does.
\<close>

section \<open>The interpreter\<close>

definition getInterpreter :: "'a::len ElfFile \<Rightarrow> elf_error + bstring" where
  "getInterpreter s =
     ebind (section_hdr s (str ''.interp'')) (\<lambda>sh. rd s (rdn s (sh_offset sh)) (rdn s (sh_size sh)))"

definition setInterpreter :: "bstring \<Rightarrow> 'a::len ElfFile \<Rightarrow> elf_error + 'a ElfFile" where
  "setInterpreter newInterpreter s =
     ebind (replaceSection (str ''.interp'') (of_nat (length newInterpreter + 1)) s) (\<lambda>s.
     ebind (set_replaced (str ''.interp'') 0 (newInterpreter @ [0]) s) (\<lambda>s.
     Inr (s\<lparr>changed := True\<rparr>)))"

section \<open>Shared steps\<close>

definition print_line :: "bstring \<Rightarrow> 'a::len ElfFile \<Rightarrow> 'a ElfFile" where
  "print_line t s = s\<lparr>stdout := stdout s @ [t]\<rparr>"

text \<open>The two sections every operation on the dynamic section starts from.\<close>

definition dynamic_hdr :: "'a::len ElfFile \<Rightarrow> elf_error + 'a Elf_Shdr" where
  "dynamic_hdr s = section_hdr s (str ''.dynamic'')"

definition dynstr_hdr :: "'a::len ElfFile \<Rightarrow> elf_error + 'a Elf_Shdr" where
  "dynstr_hdr s = section_hdr s (str ''.dynstr'')"

text \<open>A loop over the entries that only reads the file and collects a result.\<close>

definition dyn_scan :: "'a::len ElfFile \<Rightarrow> (nat \<Rightarrow> 'a word \<Rightarrow> 'x \<Rightarrow> elf_error + 'x) \<Rightarrow> nat \<Rightarrow> 'x \<Rightarrow> elf_error + 'x" where
  "dyn_scan s body off r =
     ebind (dyn_for (littleEndian s) (\<lambda>t. t) (\<lambda>_. contents s) body off (dyn_count TYPE('a) (contents s) off) r) (\<lambda>(_, r). Inr r)"

text \<open>The address in the last \<open>DT_STRTAB\<close> entry, which has to be the one of \<open>.dynstr\<close>.\<close>

definition check_strtab :: "'a::len ElfFile \<Rightarrow> nat \<Rightarrow> 'a Elf_Shdr \<Rightarrow> elf_error + unit" where
  "check_strtab s dyn strsh =
     ebind (dyn_scan s (\<lambda>off tag r. if tag = DT_STRTAB then ebind (d_un_at s off) (\<lambda>w. Inr (rdi (littleEndian s) w)) else Inr r) dyn 0)
       (\<lambda>strTabAddr.
     ebind (check (strTabAddr \<noteq> 0) (Error (str ''strange: no string table''))) (\<lambda>_.
     check (strTabAddr = rdi (littleEndian s) (sh_addr strsh)) AssertFailed))"

text \<open>The string of the string table at \<open>strTab\<close> that the entry at \<open>off\<close> refers to.\<close>

definition dyn_str_pos :: "'a::len ElfFile \<Rightarrow> nat \<Rightarrow> nat \<Rightarrow> elf_error + nat" where
  "dyn_str_pos s strTab off = ebind (d_un_at s off) (\<lambda>w. Inr (strTab + rdn s w))"

definition dyn_str :: "'a::len ElfFile \<Rightarrow> nat \<Rightarrow> nat \<Rightarrow> elf_error + bstring" where
  "dyn_str s strTab off = ebind (dyn_str_pos s strTab off) (cstr_at s)"

text \<open>The index of the \<open>DT_NULL\<close> entry of a copy of the section, read through \<open>c_str()\<close>.\<close>

definition null_index :: "'a::len itself \<Rightarrow> bool \<Rightarrow> bstring \<Rightarrow> elf_error + nat" where
  "null_index T le t =
     ebind (dyn_for le (\<lambda>t :: 'a word. t) (\<lambda>_. t @ [0]) (\<lambda>_ _ i. Inr (i + 1)) 0 (dyn_count TYPE('a) (t @ [0]) 0) 0)
       (\<lambda>(_, idx). Inr idx)"

text \<open>
  A copy of the section with room for \<open>k\<close> more entries: the old entries with the final
  \<open>DT_NULL\<close> move down by \<open>k\<close>.
\<close>

definition grow_dynamic :: "nat \<Rightarrow> 'a::len Elf_Shdr \<Rightarrow> 'a ElfFile \<Rightarrow> elf_error + 'a ElfFile" where
  "grow_dynamic k dynsh s =
     ebind (replaceSection (str ''.dynamic'') (of_nat (rdn s (sh_size dynsh) + sizeof_Dyn TYPE('a) * k)) s) (\<lambda>s.
     let t = map_get (replacedSections s) (str ''.dynamic'') in
     ebind (null_index TYPE('a) (littleEndian s) t) (\<lambda>idx.
     set_replaced (str ''.dynamic'') (of_nat (sizeof_Dyn TYPE('a) * k)) (take (sizeof_Dyn TYPE('a) * (idx + 1)) t) s))"

definition add_dyn :: "'a::len Elf_Dyn \<Rightarrow> 'a Elf_Shdr \<Rightarrow> 'a ElfFile \<Rightarrow> elf_error + 'a ElfFile" where
  "add_dyn d dynsh s =
     ebind (grow_dynamic 1 dynsh s) (\<lambda>s. set_replaced (str ''.dynamic'') 0 (enc_Dyn d) s)"

text \<open>A string added at the end of a copy of the string table, \<open>sh_size\<close> bytes from its start.\<close>

definition add_string :: "bstring \<Rightarrow> 'a::len Elf_Shdr \<Rightarrow> 'a ElfFile \<Rightarrow> elf_error + 'a ElfFile" where
  "add_string t strsh s =
     ebind (replaceSection (str ''.dynstr'') (of_nat (rdn s (sh_size strsh) + length t + 1)) s) (\<lambda>s.
     set_replaced (str ''.dynstr'') (of_nat (rdn s (sh_size strsh))) (t @ [0]) s)"

section \<open>The soname\<close>

datatype sonameMode = printSoname | replaceSoname

text \<open>The second loop: the entry and the name found so far. \<open>DT_INIT\<close> is what the code tests.\<close>

definition soname_step :: "'a::len ElfFile \<Rightarrow> nat \<Rightarrow> nat \<Rightarrow> 'a word \<Rightarrow> (nat \<times> nat) option \<times> bstring list \<Rightarrow>
    elf_error + (nat \<times> nat) option \<times> bstring list" where
  "soname_step s strTab off tag = (\<lambda>(found, libs).
     if tag = DT_SONAME then ebind (dyn_str_pos s strTab off) (\<lambda>pos. Inr (Some (off, pos), libs))
     else if tag = DT_INIT then ebind (dyn_str s strTab off) (\<lambda>nm. Inr (found, libs @ [nm]))
     else Inr (found, libs))"

text \<open>The old name is overwritten, the new one goes to the end of the string table.\<close>

definition set_soname :: "bstring \<Rightarrow> bstring \<Rightarrow> (nat \<times> nat) option \<Rightarrow> 'a::len Elf_Shdr \<Rightarrow> 'a Elf_Shdr \<Rightarrow> 'a ElfFile
    \<Rightarrow> elf_error + 'a ElfFile" where
  "set_soname newSoname soname found dynsh strsh s =
     ebind (case found of None \<Rightarrow> Inr s | Some (_, pos) \<Rightarrow> wr s pos (replicate (length soname) 88)) (\<lambda>s.
     ebind (add_string newSoname strsh s) (\<lambda>s.
     ebind (case found of
              Some (off, _) \<Rightarrow> set_d_un off (sh_size strsh) s
            | None \<Rightarrow> add_dyn \<lparr>d_tag = wri (littleEndian s) (DT_SONAME :: 'a word), d_un = sh_size strsh\<rparr> dynsh s) (\<lambda>s.
     Inr (s\<lparr>changed := True\<rparr>))))"

definition modifySoname :: "sonameMode \<Rightarrow> bstring \<Rightarrow> 'a::len ElfFile \<Rightarrow> elf_error + 'a ElfFile" where
  "modifySoname op newSoname s =
     (if rdi (littleEndian s) (e_type (hdr s)) \<noteq> ET_DYN then Inr s
      else
        ebind (dynamic_hdr s) (\<lambda>dynsh.
        ebind (dynstr_hdr s) (\<lambda>strsh.
        let dyn = rdn s (sh_offset dynsh); strTab = rdn s (sh_offset strsh) in
        ebind (check_strtab s dyn strsh) (\<lambda>_.
        ebind (dyn_scan s (soname_step s strTab) dyn (None, sonameLibs s)) (\<lambda>(found, libs).
        let s = s\<lparr>sonameLibs := libs\<rparr> in
        ebind (case found of None \<Rightarrow> Inr [] | Some (_, pos) \<Rightarrow> cstr_at s pos) (\<lambda>soname.
        if op = printSoname then
          Inr (if soname = [] then s else print_line soname s)
        else if soname = newSoname then Inr s
        else set_soname newSoname soname found dynsh strsh s))))))"

section \<open>The search path\<close>

datatype RPathOp = rpPrint | rpShrink | rpSet | rpRemove

definition DT_IGNORE :: "'a::len word" where
  "DT_IGNORE = 0x00726e67"

definition concatToRPath :: "bstring \<Rightarrow> bstring \<Rightarrow> bstring" where
  "concatToRPath rpath path = (if rpath \<noteq> [] then rpath @ [58] else rpath) @ path"

text \<open>
  Shrinking: the libraries not found yet, each with its flag, and the path built so far.
  \<open>exists_file\<close> stands for a successful \<open>stat\<close>.
\<close>

definition mark_found :: "(bstring \<Rightarrow> bool) \<Rightarrow> bstring \<Rightarrow> (bstring \<times> bool) list \<Rightarrow> bool \<times> (bstring \<times> bool) list" where
  "mark_found exists_file dirName libs =
     (let hit = (\<lambda>(lib, found). \<not> found \<and> exists_file (dirName @ [47] @ lib))
      in (list_ex hit libs, map (\<lambda>(lib, found). (lib, found \<or> hit (lib, found))) libs))"

function shrink_path :: "(bstring \<Rightarrow> bool) \<Rightarrow> (bstring \<times> bool) list \<Rightarrow> bstring \<Rightarrow> bstring \<Rightarrow> bstring" where
  "shrink_path exists_file libs pos newRPath =
     (if pos = [] then newRPath
      else
        let dirName = takeWhile (\<lambda>b. b \<noteq> 58) pos; pos = drop (length dirName + 1) pos in
        if dirName = [] \<or> hd dirName \<noteq> 47
        then shrink_path exists_file libs pos (concatToRPath newRPath dirName)
        else
          let (libFound, libs) = mark_found exists_file dirName libs in
          shrink_path exists_file libs pos (if libFound then concatToRPath newRPath dirName else newRPath))"
  by pat_completeness auto
termination
  by (relation "measure (\<lambda>(e, libs, pos, acc). length pos)") auto

declare shrink_path.simps [simp del]

text \<open>
  \<open>*last++ = *dyn\<close> for the entries that stay, then zeros from \<open>last\<close> to \<open>dyn\<close>. The loop carries
  the offset \<open>last\<close> with the state; \<open>drop\<close> says which entries go.
\<close>

definition compact_step :: "(nat \<Rightarrow> 'a::len word \<Rightarrow> 'a ElfFile \<Rightarrow> elf_error + bool) \<Rightarrow> nat \<Rightarrow> 'a word \<Rightarrow> 'a ElfFile \<times> nat
    \<Rightarrow> elf_error + 'a ElfFile \<times> nat" where
  "compact_step goes off tag = (\<lambda>(s, last).
     ebind (goes off tag s) (\<lambda>b.
     if b then Inr (s\<lparr>changed := True\<rparr>, last)
     else
       ebind (rd s off (sizeof_Dyn TYPE('a))) (\<lambda>bs.
       ebind (wr s last bs) (\<lambda>s. Inr (s, last + sizeof_Dyn TYPE('a))))))"

definition compact_dynamic :: "(nat \<Rightarrow> 'a::len word \<Rightarrow> 'a ElfFile \<Rightarrow> elf_error + bool) \<Rightarrow> nat \<Rightarrow> 'a ElfFile
    \<Rightarrow> elf_error + 'a ElfFile" where
  "compact_dynamic goes dyn s =
     ebind (dyn_for (littleEndian s) (\<lambda>t. t) (\<lambda>p. contents (fst p)) (compact_step goes) dyn (dyn_count TYPE('a) (contents s) dyn) (s, dyn))
       (\<lambda>(off, s, last). wr s last (replicate (off - last) 0))"

text \<open>What the walk over the entries finds: \<open>DT_RPATH\<close>, \<open>DT_RUNPATH\<close> and the string that counts.\<close>

record rpath_scan =
  dynRPath :: "nat option"
  dynRunPath :: "nat option"
  rpath_pos :: "nat option"
  needed :: "bstring list"

definition rpath_step :: "'a::len ElfFile \<Rightarrow> nat \<Rightarrow> nat \<Rightarrow> 'a word \<Rightarrow> rpath_scan \<Rightarrow> elf_error + rpath_scan" where
  "rpath_step s strTab off tag r =
     (if tag = DT_RPATH then
        (if dynRunPath r = None
         then ebind (dyn_str_pos s strTab off) (\<lambda>pos. Inr (r\<lparr>dynRPath := Some off, rpath_pos := Some pos\<rparr>))
         else Inr (r\<lparr>dynRPath := Some off\<rparr>))
      else if tag = DT_RUNPATH then
        ebind (dyn_str_pos s strTab off) (\<lambda>pos. Inr (r\<lparr>dynRunPath := Some off, rpath_pos := Some pos\<rparr>))
      else if tag = DT_NEEDED then
        ebind (dyn_str s strTab off) (\<lambda>nm. Inr (r\<lparr>needed := needed r @ [nm]\<rparr>))
      else Inr r)"

definition is_rpath :: "nat \<Rightarrow> 'a::len word \<Rightarrow> 'a ElfFile \<Rightarrow> elf_error + bool" where
  "is_rpath off tag s = Inr (tag = DT_RPATH \<or> tag = DT_RUNPATH)"

text \<open>
  The conversions between the two entries; the tags are stored as the host has them. The
  result has the entries that are updated afterwards.
\<close>

definition convert_rpath :: "rpath_scan \<Rightarrow> 'a::len ElfFile \<Rightarrow> elf_error + 'a ElfFile \<times> nat option \<times> nat option" where
  "convert_rpath r s =
     (case (dynRPath r, dynRunPath r) of
        (Some p, None) \<Rightarrow>
          if forceRPath s then Inr (s, Some p, None)
          else ebind (wr s p (wbytes (DT_RUNPATH :: 'a word))) (\<lambda>s. Inr (s, None, Some p))
      | (Some p, Some q) \<Rightarrow>
          if forceRPath s then ebind (wr s q (wbytes (DT_IGNORE :: 'a word))) (\<lambda>s. Inr (s, Some p, Some q))
          else Inr (s, Some p, Some q)
      | (p, q) \<Rightarrow> Inr (s, p, q))"

text \<open>The new path: in place where it fits, else in a longer copy of the string table.\<close>

definition set_rpath :: "bstring \<Rightarrow> bstring \<Rightarrow> rpath_scan \<Rightarrow> 'a::len Elf_Shdr \<Rightarrow> 'a Elf_Shdr \<Rightarrow> 'a ElfFile \<Rightarrow> elf_error + 'a ElfFile" where
  "set_rpath newRPath rpath r dynsh strsh s =
     (let s = s\<lparr>changed := True\<rparr> in
      ebind (case rpath_pos r of None \<Rightarrow> Inr s | Some pos \<Rightarrow> wr s pos (replicate (length rpath) 88)) (\<lambda>s.
      ebind (convert_rpath r s) (\<lambda>(s, rp, rup).
      case rpath_pos r of
        Some pos \<Rightarrow>
          if length newRPath \<le> length rpath then wr s pos (newRPath @ [0])
          else
            ebind (add_string newRPath strsh s) (\<lambda>s.
            ebind (case rup of None \<Rightarrow> Inr s | Some q \<Rightarrow> set_d_un q (sh_size strsh) s) (\<lambda>s.
            case rp of None \<Rightarrow> Inr s | Some p \<Rightarrow> set_d_un p (sh_size strsh) s))
      | None \<Rightarrow>
          ebind (add_string newRPath strsh s) (\<lambda>s.
          add_dyn \<lparr>d_tag = wri (littleEndian s) (if forceRPath s then DT_RPATH else DT_RUNPATH :: 'a word),
                   d_un = sh_size strsh\<rparr> dynsh s))))"

definition modifyRPath :: "(bstring \<Rightarrow> bool) \<Rightarrow> RPathOp \<Rightarrow> bstring \<Rightarrow> 'a::len ElfFile \<Rightarrow> elf_error + 'a ElfFile" where
  "modifyRPath exists_file op newRPath s =
     ebind (dynamic_hdr s) (\<lambda>dynsh.
     ebind (dynstr_hdr s) (\<lambda>strsh.
     let dyn = rdn s (sh_offset dynsh); strTab = rdn s (sh_offset strsh) in
     ebind (check_strtab s dyn strsh) (\<lambda>_.
     ebind (dyn_scan s (rpath_step s strTab) dyn \<lparr>dynRPath = None, dynRunPath = None, rpath_pos = None, needed = rpathLibs s\<rparr>) (\<lambda>r.
     let s = s\<lparr>rpathLibs := needed r\<rparr> in
     case op of
       rpPrint \<Rightarrow> ebind (case rpath_pos r of None \<Rightarrow> Inr [] | Some pos \<Rightarrow> cstr_at s pos) (\<lambda>rpath. Inr (print_line rpath s))
     | rpRemove \<Rightarrow> if rpath_pos r = None then Inr s else compact_dynamic is_rpath dyn s
     | _ \<Rightarrow>
         if op = rpShrink \<and> rpath_pos r = None then Inr s
         else
           ebind (case rpath_pos r of None \<Rightarrow> Inr [] | Some pos \<Rightarrow> cstr_at s pos) (\<lambda>rpath.
           let newRPath = (if op = rpShrink then shrink_path exists_file (map (\<lambda>l. (l, False)) (rpathLibs s)) rpath []
                           else newRPath) in
           if rpath = newRPath then Inr s else set_rpath newRPath rpath r dynsh strsh s)))))"

section \<open>The needed libraries\<close>

definition needed_in :: "bstring list \<Rightarrow> nat \<Rightarrow> nat \<Rightarrow> 'a::len word \<Rightarrow> 'a ElfFile \<Rightarrow> elf_error + bool" where
  "needed_in libs strTab off tag s =
     (if tag = DT_NEEDED then ebind (dyn_str s strTab off) (\<lambda>nm. Inr (nm \<in> set libs)) else Inr False)"

definition removeNeeded :: "bstring list \<Rightarrow> 'a::len ElfFile \<Rightarrow> elf_error + 'a ElfFile" where
  "removeNeeded libs s =
     (if libs = [] then Inr s
      else
        ebind (dynamic_hdr s) (\<lambda>dynsh.
        ebind (dynstr_hdr s) (\<lambda>strsh.
        compact_dynamic (needed_in libs (rdn s (sh_offset strsh))) (rdn s (sh_offset dynsh)) s)))"

text \<open>The loop counts the bytes added to the string table; the sum in the entry is a raw one.\<close>

definition replace_step :: "(bstring \<times> bstring) list \<Rightarrow> 'a::len Elf_Shdr \<Rightarrow> nat \<Rightarrow> 'a word \<Rightarrow> 'a ElfFile \<times> 32 word
    \<Rightarrow> elf_error + 'a ElfFile \<times> 32 word" where
  "replace_step libs strsh off tag = (\<lambda>(s, added).
     if tag = DT_NEEDED then
       ebind (dyn_str s (rdn s (sh_offset strsh)) off) (\<lambda>nm.
       case map_of libs nm of
         None \<Rightarrow> Inr (s, added)
       | Some replacement \<Rightarrow>
           let sz = rdn s (sh_size strsh) in
           ebind (replaceSection (str ''.dynstr'') (of_nat (sz + length replacement + 1) + added) s) (\<lambda>s.
           ebind (set_replaced (str ''.dynstr'') (of_nat sz + added) (replacement @ [0]) s) (\<lambda>s.
           ebind (set_d_un off (sh_size strsh + ucast added) s) (\<lambda>s.
           Inr (s\<lparr>changed := True\<rparr>, added + of_nat (length replacement + 1))))))
     else Inr (s, added))"

definition replaceNeeded :: "(bstring \<times> bstring) list \<Rightarrow> 'a::len ElfFile \<Rightarrow> elf_error + 'a ElfFile" where
  "replaceNeeded libs s =
     (if libs = [] then Inr s
      else
        ebind (dynamic_hdr s) (\<lambda>dynsh.
        ebind (dynstr_hdr s) (\<lambda>strsh.
        let dyn = rdn s (sh_offset dynsh) in
        ebind (dyn_for (littleEndian s) (\<lambda>t. t) (\<lambda>p. contents (fst p)) (replace_step libs strsh) dyn
                 (dyn_count TYPE('a) (contents s) dyn) (s, 0))
          (\<lambda>(_, s, _). Inr s))))"

text \<open>Adding: all names go to the string table, then the entries to the start of the section.\<close>

definition add_lib_string :: "'a::len Elf_Shdr \<Rightarrow> 'a ElfFile \<times> 64 word list \<times> 32 word \<Rightarrow> bstring
    \<Rightarrow> elf_error + 'a ElfFile \<times> 64 word list \<times> 32 word" where
  "add_lib_string strsh = (\<lambda>(s, libStrings, pos) lib.
     let sz = rdi (littleEndian s) (sh_size strsh) in
     ebind (set_replaced (str ''.dynstr'') (ucast (sz + ucast pos)) (lib @ [0]) s) (\<lambda>s.
     Inr (s, set_put (ucast (sz + ucast pos)) libStrings, pos + of_nat (length lib + 1))))"

definition add_lib_entry :: "'a::len ElfFile \<times> nat \<Rightarrow> 64 word \<Rightarrow> elf_error + 'a ElfFile \<times> nat" where
  "add_lib_entry = (\<lambda>(s, i) v.
     let le = littleEndian s; d = \<lparr>d_tag = wri le (DT_NEEDED :: 'a word), d_un = wri le v\<rparr> :: 'a Elf_Dyn in
     ebind (set_replaced (str ''.dynamic'') (of_nat (i * sizeof_Dyn TYPE('a))) (enc_Dyn d) s) (\<lambda>s. Inr (s, i + 1)))"

definition addNeeded :: "bstring list \<Rightarrow> 'a::len ElfFile \<Rightarrow> elf_error + 'a ElfFile" where
  "addNeeded libs s =
     (if libs = [] then Inr s
      else
        ebind (dynamic_hdr s) (\<lambda>dynsh.
        ebind (dynstr_hdr s) (\<lambda>strsh.
        let len = foldl (\<lambda>n lib. n + of_nat (length lib + 1)) (0 :: 32 word) libs in
        ebind (replaceSection (str ''.dynstr'') (of_nat (rdn s (sh_size strsh)) + len + 1) s) (\<lambda>s.
        ebind (efold (add_lib_string strsh) (s, [], 0) libs) (\<lambda>(s, libStrings, _).
        ebind (grow_dynamic (length libs) dynsh s) (\<lambda>s.
        ebind (efold add_lib_entry (s, 0) libStrings) (\<lambda>(s, _).
        Inr (s\<lparr>changed := True\<rparr>))))))))"

definition print_step :: "nat \<Rightarrow> nat \<Rightarrow> 'a::len word \<Rightarrow> 'a ElfFile \<Rightarrow> elf_error + 'a ElfFile" where
  "print_step strTab off tag s =
     (if tag = DT_NEEDED then ebind (dyn_str s strTab off) (\<lambda>nm. Inr (print_line nm s)) else Inr s)"

definition printNeededLibs :: "'a::len ElfFile \<Rightarrow> elf_error + 'a ElfFile" where
  "printNeededLibs s =
     ebind (dynamic_hdr s) (\<lambda>dynsh.
     ebind (dynstr_hdr s) (\<lambda>strsh.
     dyn_loop (print_step (rdn s (sh_offset strsh))) (rdn s (sh_offset dynsh)) s))"

section \<open>Default libraries\<close>

text \<open>The first entry with a given tag: this loop breaks off there.\<close>

fun dyn_find :: "bool \<Rightarrow> 'a::len word \<Rightarrow> bstring \<Rightarrow> nat \<Rightarrow> nat \<Rightarrow> elf_error + nat option" where
  "dyn_find le wanted c off 0 = Inl OutOfBounds"
| "dyn_find le wanted c off (Suc n) =
     (let tag = dyn_tag le c off :: 'a word in
      if tag = DT_NULL then Inr None
      else if tag = wanted then Inr (Some off)
      else dyn_find le wanted c (off + sizeof_Dyn TYPE('a)) n)"

definition noDefaultLib :: "'a::len ElfFile \<Rightarrow> elf_error + 'a ElfFile" where
  "noDefaultLib s =
     ebind (dynamic_hdr s) (\<lambda>dynsh.
     let dyn = rdn s (sh_offset dynsh) in
     ebind (dyn_find (littleEndian s) (DT_FLAGS_1 :: 'a word) (contents s) dyn (dyn_count TYPE('a) (contents s) dyn)) (\<lambda>r.
     case r of
       Some off \<Rightarrow>
         ebind (d_un_at s off) (\<lambda>w.
         if w AND DF_1_NODEFLIB \<noteq> 0 then Inr s
         else ebind (set_d_un off (w OR DF_1_NODEFLIB) s) (\<lambda>s. Inr (s\<lparr>changed := True\<rparr>)))
     | None \<Rightarrow>
         ebind (add_dyn \<lparr>d_tag = wri (littleEndian s) (DT_FLAGS_1 :: 'a word), d_un = DF_1_NODEFLIB\<rparr> dynsh s) (\<lambda>s.
         Inr (s\<lparr>changed := True\<rparr>))))"

end
