(* ===== verification/ElfMain.thy ===== *)
theory ElfMain
  imports ElfDynamic Octal
begin

text \<open>
  The command line of \<open>patchelf\<close> (\<open>main\<close>), the sequence of operations on one file (\<open>patchElf2\<close>)
  and the choice of the class (\<open>patchElf\<close>). Arguments are byte strings without a NUL. The result is
  an error, or the lines printed to standard output with the new contents of the file if it is
  written. Debug output and warnings go to standard error and are not modelled.
\<close>

section \<open>Options\<close>

record options =
  printInterpreter :: bool
  optPrintSoname :: bool
  setSoname :: bool
  newSoname :: bstring
  newInterpreter :: bstring
  shrinkRPath :: bool
  removeRPath :: bool
  setRPath :: bool
  printRPath :: bool
  newRPath :: bstring
  neededLibsToRemove :: "bstring list"
  neededLibsToReplace :: "(bstring \<times> bstring) list"
  neededLibsToAdd :: "bstring list"
  printNeeded :: bool
  optNoDefaultLib :: bool
  optForceRPath :: bool
  optPageSize :: "32 word"
  debugMode :: bool

definition default_options :: "32 word \<Rightarrow> bool \<Rightarrow> options" where
  "default_options PAGESIZE debug =
     \<lparr>printInterpreter = False, optPrintSoname = False, setSoname = False, newSoname = [], newInterpreter = [],
      shrinkRPath = False, removeRPath = False, setRPath = False, printRPath = False, newRPath = [],
      neededLibsToRemove = [], neededLibsToReplace = [], neededLibsToAdd = [], printNeeded = False,
      optNoDefaultLib = False, optForceRPath = False, optPageSize = PAGESIZE, debugMode = debug\<rparr>"

text \<open>
  \<open>atoi\<close>: blanks, a sign, decimal digits up to the first other byte; \<open>strtol\<close> stops at the
  bounds of \<open>long\<close>, and the conversion to \<open>int\<close> keeps the low 32 bits.
\<close>

definition is_digit :: "byte \<Rightarrow> bool" where
  "is_digit b \<longleftrightarrow> 48 \<le> b \<and> b \<le> 57"

definition atoi :: "bstring \<Rightarrow> int" where
  "atoi t =
     (let t = dropWhile is_space t;
          neg = (t \<noteq> [] \<and> hd t = 45);
          t = (if t \<noteq> [] \<and> (hd t = 45 \<or> hd t = 43) then tl t else t);
          n = foldl (\<lambda>n b. 10 * n + (uint b - 48)) 0 (takeWhile is_digit t);
          v = (if neg then max (- n) (- (2 ^ 63)) else min n (2 ^ 63 - 1))
      in to_int32 v)"

datatype command =
    ShowHelp int
  | ShowVersion
  | Patch options bstring

definition missing :: "elf_error" where
  "missing = Error (str ''missing argument'')"

text \<open>The options without an argument.\<close>

definition flag_options :: "(string \<times> (options \<Rightarrow> options)) list" where
  "flag_options =
     [(''--print-interpreter'', printInterpreter_update (\<lambda>_. True)),
      (''--print-soname'', optPrintSoname_update (\<lambda>_. True)),
      (''--remove-rpath'', removeRPath_update (\<lambda>_. True)),
      (''--shrink-rpath'', shrinkRPath_update (\<lambda>_. True)),
      (''--print-rpath'', printRPath_update (\<lambda>_. True)),
      (''--force-rpath'', optForceRPath_update (\<lambda>_. True)),
      (''--print-needed'', printNeeded_update (\<lambda>_. True)),
      (''--debug'', debugMode_update (\<lambda>_. True)),
      (''--no-default-lib'', optNoDefaultLib_update (\<lambda>_. True))]"

text \<open>The options with one argument; \<open>--page-size\<close> also checks it.\<close>

definition arg_options :: "(string \<times> (bstring \<Rightarrow> options \<Rightarrow> elf_error + options)) list" where
  "arg_options =
     [(''--set-interpreter'', \<lambda>v opt. Inr (opt\<lparr>newInterpreter := v\<rparr>)),
      (''--interpreter'', \<lambda>v opt. Inr (opt\<lparr>newInterpreter := v\<rparr>)),
      (''--page-size'', \<lambda>v opt. if atoi v \<le> 0 then Inl (Error (str ''invalid argument to --page-size''))
                               else Inr (opt\<lparr>optPageSize := of_int (atoi v)\<rparr>)),
      (''--set-soname'', \<lambda>v opt. Inr (opt\<lparr>setSoname := True, newSoname := v\<rparr>)),
      (''--set-rpath'', \<lambda>v opt. Inr (opt\<lparr>setRPath := True, newRPath := v\<rparr>)),
      (''--add-needed'', \<lambda>v opt. Inr (opt\<lparr>neededLibsToAdd := set_put v (neededLibsToAdd opt)\<rparr>)),
      (''--remove-needed'', \<lambda>v opt. Inr (opt\<lparr>neededLibsToRemove := set_put v (neededLibsToRemove opt)\<rparr>))]"

definition lookup_option :: "(string \<times> 'x) list \<Rightarrow> bstring \<Rightarrow> 'x option" where
  "lookup_option tab arg = map_of (map (\<lambda>(nm, x). (str nm, x)) tab) arg"

fun parse_args :: "bstring list \<Rightarrow> options \<Rightarrow> elf_error + command" where
  "parse_args [] opt = Inl (Error (str ''missing filename''))"
| "parse_args (arg # rest) opt =
     (case lookup_option flag_options arg of
        Some f \<Rightarrow> parse_args rest (f opt)
      | None \<Rightarrow>
     (case lookup_option arg_options arg of
        Some f \<Rightarrow>
          (case rest of
             [] \<Rightarrow> Inl missing
           | v # rest' \<Rightarrow> (case f v opt of Inl e \<Rightarrow> Inl e | Inr opt \<Rightarrow> parse_args rest' opt))
      | None \<Rightarrow>
          if arg = str ''--replace-needed'' then
            (case rest of
               a # b # rest' \<Rightarrow> parse_args rest' (opt\<lparr>neededLibsToReplace := map_put a b (neededLibsToReplace opt)\<rparr>)
             | _ \<Rightarrow> Inl (Error (str ''missing argument(s)'')))
          else if arg = str ''--help'' \<or> arg = str ''-h'' then Inr (ShowHelp 0)
          else if arg = str ''--version'' then Inr ShowVersion
          else Inr (Patch opt arg)))"

section \<open>One file\<close>

text \<open>A step that is taken when an option is given.\<close>

definition if_set :: "bool \<Rightarrow> ('s \<Rightarrow> elf_error + 's) \<Rightarrow> 's \<Rightarrow> elf_error + 's" where
  "if_set b f s = (if b then f s else Inr s)"

definition print_interp :: "'a::len ElfFile \<Rightarrow> elf_error + 'a ElfFile" where
  "print_interp s =
     ebind (getInterpreter s) (\<lambda>t. Inr (print_line (takeWhile (\<lambda>b. b \<noteq> 0) t) s))"

definition rpath_ops :: "(bstring \<Rightarrow> bool) \<Rightarrow> options \<Rightarrow> 'a::len ElfFile \<Rightarrow> elf_error + 'a ElfFile" where
  "rpath_ops exists_file opt s =
     (if shrinkRPath opt then modifyRPath exists_file rpShrink [] s
      else if removeRPath opt then modifyRPath exists_file rpRemove [] s
      else if setRPath opt then modifyRPath exists_file rpSet (newRPath opt) s
      else Inr s)"

definition apply_options :: "(bstring \<Rightarrow> bool) \<Rightarrow> options \<Rightarrow> 'a::len ElfFile \<Rightarrow> elf_error + 'a ElfFile" where
  "apply_options exists_file opt s =
     ebind (if_set (printInterpreter opt) print_interp s) (\<lambda>s.
     ebind (if_set (optPrintSoname opt) (modifySoname printSoname []) s) (\<lambda>s.
     ebind (if_set (setSoname opt) (modifySoname replaceSoname (newSoname opt)) s) (\<lambda>s.
     ebind (if_set (newInterpreter opt \<noteq> []) (setInterpreter (newInterpreter opt)) s) (\<lambda>s.
     ebind (if_set (printRPath opt) (modifyRPath exists_file rpPrint []) s) (\<lambda>s.
     ebind (rpath_ops exists_file opt s) (\<lambda>s.
     ebind (if_set (printNeeded opt) printNeededLibs s) (\<lambda>s.
     ebind (removeNeeded (neededLibsToRemove opt) s) (\<lambda>s.
     ebind (replaceNeeded (neededLibsToReplace opt) s) (\<lambda>s.
     ebind (addNeeded (neededLibsToAdd opt) s) (\<lambda>s.
     if_set (optNoDefaultLib opt) noDefaultLib s))))))))))"

text \<open>The lines printed, and the new contents if the file is written.\<close>

definition patchElf2 :: "(bstring \<Rightarrow> bool) \<Rightarrow> options \<Rightarrow> 'a::len ElfFile \<Rightarrow> elf_error + bstring list \<times> bstring option" where
  "patchElf2 exists_file opt s =
     ebind (parse s) (\<lambda>s.
     ebind (apply_options exists_file opt s) (\<lambda>s.
     if changed s then ebind (rewriteSections s) (\<lambda>s. Inr (stdout s, Some (contents s)))
     else Inr (stdout s, None)))"

definition patchElf :: "(bstring \<Rightarrow> bool) \<Rightarrow> options \<Rightarrow> bstring \<Rightarrow> elf_error + bstring list \<times> bstring option" where
  "patchElf exists_file opt file =
     ebind (check (sizeof_Ehdr TYPE(32) \<le> length file) (Error (str ''missing ELF header''))) (\<lambda>_.
     ebind (check (take 4 file = ELFMAG) (Error (str ''not an ELF executable''))) (\<lambda>_.
     if file ! EI_CLASS = ELFCLASS32 \<and> file ! EI_VERSION = EV_CURRENT then
       patchElf2 exists_file opt (readFile (optPageSize opt) (optForceRPath opt) file :: 32 ElfFile)
     else if file ! EI_CLASS = ELFCLASS64 \<and> file ! EI_VERSION = EV_CURRENT then
       patchElf2 exists_file opt (readFile (optPageSize opt) (optForceRPath opt) file :: 64 ElfFile)
     else Inl (Error (str ''ELF executable is not 32/64-bit, little/big-endian, version 1''))))"

text \<open>
  \<open>main\<close>: the file system gives the contents of a file that can be read. The result is the exit
  status with the lines printed, and the file that is written with its new contents.
\<close>

definition patchelf_main :: "(bstring \<Rightarrow> bstring option) \<Rightarrow> (bstring \<Rightarrow> bool) \<Rightarrow> 32 word \<Rightarrow> bool \<Rightarrow> bstring \<Rightarrow> bstring list
    \<Rightarrow> elf_error + int \<times> bstring list \<times> (bstring \<times> bstring) option" where
  "patchelf_main fs exists_file PAGESIZE debug PACKAGE_STRING args =
     (if args = [] then Inr (1, [], None)
      else
        ebind (parse_args args (default_options PAGESIZE debug)) (\<lambda>cmd.
        case cmd of
          ShowHelp n \<Rightarrow> Inr (n, [], None)
        | ShowVersion \<Rightarrow> Inr (0, [PACKAGE_STRING], None)
        | Patch opt fileName \<Rightarrow>
            (case fs fileName of
               None \<Rightarrow> Inl (Error (str ''stat''))
             | Some file \<Rightarrow>
                 ebind (patchElf exists_file opt file) (\<lambda>(out, new).
                 Inr (0, out, map_option (\<lambda>c. (fileName, c)) new)))))"

end
