(* ===== verification/ElfFacts.thy ===== *)
theory ElfFacts
  imports ElfMain
begin

text \<open>
  Facts about the state of \<open>patchelf\<close> that the proofs about its operations share: accesses to
  the image, the header behind the alias, the lookup of sections by name, and the loops over
  dynamic entries.
\<close>

section \<open>Accesses\<close>

lemma rd_Inr [ebind_simps]:
  "rd s off n = Inr bs \<longleftrightarrow> off + n \<le> fileSize s \<and> bs = chunk off n (contents s)"
  by (simp add: rd_def mem_read_Inr fileSize_def)

lemma wr_Inr [ebind_simps]:
  "wr s off bs = Inr s' \<longleftrightarrow>
     off + length bs \<le> fileSize s \<and> s' = s\<lparr>contents := overwrite off bs (contents s)\<rparr>"
  by (auto simp: wr_def ebind_simps fileSize_def)

lemma at_Inr [ebind_simps]: "at xs i = Inr x \<longleftrightarrow> i < length xs \<and> x = xs ! i"
  by (auto simp: at_def)

lemma upd_at_Inr [ebind_simps]: "upd_at xs i f = Inr ys \<longleftrightarrow> i < length xs \<and> ys = xs[i := f (xs ! i)]"
  by (auto simp: upd_at_def)

lemma cstr_at_Inr: "cstr_at s off = Inr t \<longleftrightarrow> cstr (drop off (contents s)) = Some t"
  by (simp add: cstr_at_def split: option.split)

lemma fileSize_contents [simp]: "fileSize (s\<lparr>contents := c\<rparr>) = length c"
  by (simp add: fileSize_def)

lemma fileSize_other [simp]:
  "fileSize (s\<lparr>phdrs := a\<rparr>) = fileSize s" "fileSize (s\<lparr>shdrs := b\<rparr>) = fileSize s"
  "fileSize (s\<lparr>changed := c\<rparr>) = fileSize s" "fileSize (s\<lparr>replacedSections := d\<rparr>) = fileSize s"
  "fileSize (s\<lparr>stdout := e\<rparr>) = fileSize s" "fileSize (s\<lparr>rpathLibs := f\<rparr>) = fileSize s"
  "fileSize (s\<lparr>sonameLibs := f\<rparr>) = fileSize s"
  by (simp_all add: fileSize_def)

section \<open>The header\<close>

lemma hdr_contents: "contents s' = contents s \<Longrightarrow> hdr s' = hdr s"
  by (simp add: hdr_def)

lemma hdr_other [simp]:
  "hdr (s\<lparr>phdrs := a\<rparr>) = hdr s" "hdr (s\<lparr>shdrs := b\<rparr>) = hdr s" "hdr (s\<lparr>changed := c\<rparr>) = hdr s"
  "hdr (s\<lparr>replacedSections := d\<rparr>) = hdr s" "hdr (s\<lparr>stdout := e\<rparr>) = hdr s"
  by (simp_all add: hdr_def)

lemma rdw_take_append:
  "wsize TYPE('a::len) \<le> n \<Longrightarrow> rdw (take n bs) = (w :: 'a word, r) \<Longrightarrow> rdw bs = (w, drop (wsize TYPE('a)) bs)"
  by (auto simp: rdw_def min_def)

lemma dec_Ehdr_take:
  "dec_Ehdr (take (sizeof_Ehdr TYPE('a::len)) c) = (dec_Ehdr c :: 'a Elf_Ehdr)"
  by (simp add: dec_Ehdr_def rdw_def sizeof_Ehdr_def EI_NIDENT_def Let_def drop_take min_def)

text \<open>The header is what the first bytes say, so a write after them leaves it alone.\<close>

lemma hdr_overwrite:
  fixes s :: "'a::len ElfFile"
  assumes "sizeof_Ehdr TYPE('a) \<le> off" and "off + length bs \<le> fileSize s"
  shows "hdr (s\<lparr>contents := overwrite off bs (contents s)\<rparr>) = hdr s"
proof -
  have "take (sizeof_Ehdr TYPE('a)) (overwrite off bs (contents s)) = take (sizeof_Ehdr TYPE('a)) (contents s)"
    using assms by (simp add: overwrite_def fileSize_def min_def)
  then show ?thesis unfolding hdr_def using dec_Ehdr_take by (metis ElfFile.select_convs(1) ElfFile.surjective ElfFile.update_convs(1))
qed

lemma length_enc_Ehdr:
  fixes h :: "'a::len Elf_Ehdr"
  assumes "elf_width TYPE('a)" and "length (e_ident h) = EI_NIDENT"
  shows "length (enc_Ehdr h) = sizeof_Ehdr TYPE('a)"
  using layout.length_enc [OF layout_Ehdr [OF assms(1)], OF assms(2)] .

lemma length_e_ident:
  fixes s :: "'a::len ElfFile"
  assumes "sizeof_Ehdr TYPE('a) \<le> fileSize s"
  shows "length (e_ident (hdr s)) = EI_NIDENT"
  using assms by (simp add: hdr_def dec_Ehdr_def Let_def rdw_def sizeof_Ehdr_def EI_NIDENT_def fileSize_def)

lemma hdr_upd_hdr:
  fixes s :: "'a::len ElfFile"
  assumes "elf_width TYPE('a)" and "length (e_ident (f (hdr s))) = EI_NIDENT"
  shows "hdr (upd_hdr f s) = f (hdr s)"
proof -
  have "dec_Ehdr (enc_Ehdr (f (hdr s)) @ drop (sizeof_Ehdr TYPE('a)) (contents s)) = f (hdr s)"
    using layout.dec_enc [OF layout_Ehdr [OF assms(1)], OF assms(2)] .
  moreover have "hdr (upd_hdr f s) = dec_Ehdr (enc_Ehdr (f (hdr s)) @ drop (length (enc_Ehdr (f (hdr s)))) (contents s))"
    by (simp add: upd_hdr_def hdr_def [of "s\<lparr>contents := c\<rparr>" for c] overwrite_def)
  ultimately show ?thesis by (simp add: length_enc_Ehdr [OF assms])
qed

lemma upd_hdr_fields [simp]:
  "phdrs (upd_hdr f s) = phdrs s" "shdrs (upd_hdr f s) = shdrs s" "littleEndian (upd_hdr f s) = littleEndian s"
  "changed (upd_hdr f s) = changed s" "replacedSections (upd_hdr f s) = replacedSections s"
  "sectionNames (upd_hdr f s) = sectionNames s" "pageSize (upd_hdr f s) = pageSize s"
  "stdout (upd_hdr f s) = stdout s" "maxSize (upd_hdr f s) = maxSize s"
  by (simp_all add: upd_hdr_def)

lemma fileSize_upd_hdr [simp]:
  fixes s :: "'a::len ElfFile"
  assumes "elf_width TYPE('a)" and "length (e_ident (f (hdr s))) = EI_NIDENT" and "sizeof_Ehdr TYPE('a) \<le> fileSize s"
  shows "fileSize (upd_hdr f s) = fileSize s"
  using assms by (simp add: upd_hdr_def fileSize_def length_enc_Ehdr)

section \<open>Fields\<close>

lemma rdn_wrn:
  assumes "8 dvd LENGTH('b::len)" and "n < 2 ^ LENGTH('b)" and "n < 2 ^ 64"
  shows "rdn s (wrn s n :: 'b word) = n"
proof -
  have "unat (ucast (of_nat n :: 64 word) :: 'b word) = n"
    using assms(2,3) by (simp add: unsigned_ucast_eq unat_of_nat take_bit_eq_mod)
  with assms(1) show ?thesis by (simp add: rdn_def wrn_def)
qed

lemma rdn_cong: "littleEndian s' = littleEndian s \<Longrightarrow> rdn s' w = rdn s w"
  by (simp add: rdn_def)

section \<open>Sections by name\<close>

text \<open>All that the lookup of a section depends on.\<close>

definition name_view :: "'a::len ElfFile \<Rightarrow> nat \<times> bstring \<times> bool \<times> Elf_Word list" where
  "name_view s = (shnum s, sectionNames s, littleEndian s, map sh_name (shdrs s))"

lemma sectionName_view:
  assumes "name_view s' = name_view s"
  shows "sectionName s' i = sectionName s i"
proof -
  from assms have n: "map sh_name (shdrs s') = map sh_name (shdrs s)"
    and o: "sectionNames s' = sectionNames s" "littleEndian s' = littleEndian s" by (simp_all add: name_view_def)
  from n have l: "length (shdrs s') = length (shdrs s)" by (metis length_map)
  show ?thesis
  proof (cases "i < length (shdrs s)")
    case True
    with n l have "sh_name (shdrs s' ! i) = sh_name (shdrs s ! i)" by (metis nth_map)
    with True l have "getSectionName s' (shdrs s' ! i) = getSectionName s (shdrs s ! i)"
      by (simp only: getSectionName_def rdn_def o)
    with True l show ?thesis by (simp add: sectionName_def at_def)
  next
    case False
    with l show ?thesis by (simp add: sectionName_def at_def)
  qed
qed

lemma find_index_view:
  assumes "name_view s' = name_view s"
  shows "find_index s' nm is = find_index s nm is"
  by (induction "is") (simp_all add: sectionName_view [OF assms] cong: if_cong)

lemma findSection_view:
  assumes "name_view s' = name_view s"
  shows "findSection3 s' nm = findSection3 s nm" and "findSection2 s' nm = findSection2 s nm"
    and "findSection s' nm = findSection s nm"
proof -
  have "shnum s' = shnum s" using assms by (simp add: name_view_def)
  then show 3: "findSection3 s' nm = findSection3 s nm"
    by (simp add: findSection3_def find_index_view [OF assms])
  then show 2: "findSection2 s' nm = findSection2 s nm" by (simp add: findSection2_def)
  then show "findSection s' nm = findSection s nm" by (simp add: findSection_def)
qed

lemma find_index_found:
  "find_index s nm is = Inr i \<Longrightarrow> i \<noteq> 0 \<Longrightarrow> i \<in> set is \<and> sectionName s i = Inr nm"
proof (induction "is")
  case (Cons j js)
  then obtain n where n: "sectionName s j = Inr n" by (cases "sectionName s j") auto
  with Cons show ?case by (cases "n = nm") auto
qed simp

lemma find_index_not_found:
  "find_index s nm is = Inr 0 \<Longrightarrow> 0 \<notin> set is \<Longrightarrow> j \<in> set is \<Longrightarrow> \<exists>n. sectionName s j = Inr n \<and> n \<noteq> nm"
proof (induction "is")
  case (Cons k ks)
  then obtain n where n: "sectionName s k = Inr n" by (cases "sectionName s k") auto
  with Cons show ?case by (cases "n = nm") auto
qed simp

lemma find_index_first:
  "find_index s nm is = Inr i \<Longrightarrow> sorted is \<Longrightarrow> j \<in> set is \<Longrightarrow> j < i \<Longrightarrow> \<exists>n. sectionName s j = Inr n \<and> n \<noteq> nm"
proof (induction "is")
  case (Cons k ks)
  then obtain n where n: "sectionName s k = Inr n" by (cases "sectionName s k") auto
  show ?case
  proof (cases "n = nm")
    case True
    with n Cons.prems have "i = k" by simp
    with Cons.prems show ?thesis by auto
  next
    case False
    with n Cons show ?thesis by (cases "j = k") auto
  qed
qed simp

lemma sectionName_Inr: "sectionName s i = Inr nm \<Longrightarrow> i < length (shdrs s)"
  by (auto simp: sectionName_def ebind_simps)

lemma findSection_Inr:
  assumes "findSection s nm = Inr i"
  shows "0 < i" and "i < shnum s" and "i < length (shdrs s)" and "sectionName s i = Inr nm"
proof -
  from assms have f: "find_index s nm [1 ..< shnum s] = Inr i" and "i \<noteq> 0"
    by (auto simp: findSection_def findSection2_def findSection3_def ebind_simps split: option.splits if_splits)
  with find_index_found [OF f] show "0 < i" "i < shnum s" and n: "sectionName s i = Inr nm" by auto
  from n show "i < length (shdrs s)" by (rule sectionName_Inr)
qed

lemma section_hdr_Inr [ebind_simps]:
  "section_hdr s nm = Inr sh \<longleftrightarrow> (\<exists>i. findSection s nm = Inr i \<and> i < length (shdrs s) \<and> sh = shdrs s ! i)"
  by (auto simp: section_hdr_def ebind_simps)

end
