(* ===== verification/ElfPlace.thy ===== *)
theory ElfPlace
  imports ElfFacts
begin

text \<open>
  \<open>writeReplacedSections\<close>: every replaced section ends up at an aligned place of the new area
  with its header saying so, the rest of the file keeps its bytes, up to the \<open>X\<close>s over
  the old contents, and the program headers of the interpreter and the dynamic section follow.
\<close>

section \<open>Space\<close>

definition slot :: "'a::len itself \<Rightarrow> bstring \<Rightarrow> nat" where
  "slot T t = unat (roundUp (of_nat (length t)) (of_nat (wsize TYPE('a))))"

definition space :: "'a::len itself \<Rightarrow> (bstring \<times> bstring) list \<Rightarrow> nat" where
  "space T rs = sum_list (map (slot T \<circ> snd) rs)"

lemma space_simps [simp]: "space T [] = 0" "space T ((nm, t) # rs) = slot T t + space T rs"
  by (simp_all add: space_def)

lemma sections_space_eq: "sections_space (s :: 'a::len ElfFile) = space TYPE('a) (replacedSections s)"
proof -
  have "foldl (\<lambda>n (nm, t). n + unat (roundUp (of_nat (length t)) (sectionAlignment s))) k rs = k + space TYPE('a) rs"
    for k rs
    by (induction rs arbitrary: k) (auto simp: slot_def sectionAlignment_def)
  then show ?thesis by (simp add: sections_space_def)
qed

text \<open>A slot is the least multiple of the alignment that holds the section.\<close>

lemma slot_bounds:
  assumes w: "elf_width TYPE('a::len)" and len: "length t + 8 \<le> 2 ^ 32"
  shows "length t \<le> slot TYPE('a) t" and "wsize TYPE('a) dvd slot TYPE('a) t"
    and "slot TYPE('a) t < length t + wsize TYPE('a)"
proof -
  let ?n = "of_nat (length t) :: 32 word" and ?m = "of_nat (wsize TYPE('a)) :: 32 word"
  have m: "unat ?m = wsize TYPE('a)" "0 < ?m" "wsize TYPE('a) \<le> 8" "0 < wsize TYPE('a)"
    using w by (auto simp: wsize_elf_width)
  have n: "unat ?n = length t" using len by (simp add: unat_of_nat)
  have "length t \<le> slot TYPE('a) t \<and> wsize TYPE('a) dvd slot TYPE('a) t \<and> slot TYPE('a) t < length t + wsize TYPE('a)"
  proof (cases "t = []")
    case True
    with w m(4) show ?thesis by (auto simp: slot_def wsize_elf_width)
  next
    case False
    then have "0 < ?n" using n by (metis length_0_conv unat_0 word_gt_0)
    with roundUp_bounds [of ?m ?n] m n len show ?thesis by (simp add: slot_def)
  qed
  then show "length t \<le> slot TYPE('a) t" and "wsize TYPE('a) dvd slot TYPE('a) t"
    and "slot TYPE('a) t < length t + wsize TYPE('a)" by simp_all
qed

section \<open>Erasing\<close>

lemma sync_phdrs_fields [simp]:
  "contents (sync_phdrs ty sh s) = contents s" "shdrs (sync_phdrs ty sh s) = shdrs s"
  "littleEndian (sync_phdrs ty sh s) = littleEndian s" "sectionNames (sync_phdrs ty sh s) = sectionNames s"
  "hdr (sync_phdrs ty sh s) = hdr s" "length (phdrs (sync_phdrs ty sh s)) = length (phdrs s)"
  "replacedSections (sync_phdrs ty sh s) = replacedSections s" "fileSize (sync_phdrs ty sh s) = fileSize s"
  by (simp_all add: sync_phdrs_def)

definition header_safe :: "'a::len ElfFile \<Rightarrow> bstring \<Rightarrow> bool" where
  "header_safe s nm \<longleftrightarrow> (\<forall>i. findSection s nm = Inr i \<longrightarrow> sizeof_Ehdr TYPE('a) \<le> rdn s (sh_offset (shdrs s ! i)))"

text \<open>What erasing keeps: all but the contents, and these outside the old sections.\<close>

lemma erase_fold:
  fixes s :: "'a::len ElfFile"
  assumes "efold erase_section s rs = Inr s'" and "\<forall>(nm, t) \<in> set rs. header_safe s nm"
  shows "s' = s\<lparr>contents := contents s'\<rparr> \<and> fileSize s' = fileSize s \<and> hdr s' = hdr s"
proof -
  let ?P = "\<lambda>u. u = s\<lparr>contents := contents u\<rparr> \<and> fileSize u = fileSize s \<and> hdr u = hdr s"
  show ?thesis
  proof (rule efold_inv [OF assms(1), where P = ?P])
    show "?P s" by simp
  next
    fix u x u'
    assume x: "x \<in> set rs" and u: "?P u" and step: "erase_section u x = Inr u'"
    obtain nm t where nm: "x = (nm, t)" by fastforce
    from u have same: "shdrs u = shdrs s" "littleEndian u = littleEndian s" "sectionNames u = sectionNames s"
      by (metis ElfFile.select_convs ElfFile.surjective ElfFile.update_convs(1))+
    have view: "name_view u = name_view s" using u same by (simp add: name_view_def shnum_def rdn_def)
    from step obtain i where i: "findSection u nm = Inr i"
      and w: "wr u (rdn u (sh_offset (shdrs u ! i))) (replicate (rdn u (sh_size (shdrs u ! i))) 88) = Inr u'"
      by (auto simp: erase_section_def nm ebind_simps)
    have "findSection s nm = Inr i" using i findSection_view(3) [OF view] by simp
    then have safe: "sizeof_Ehdr TYPE('a) \<le> rdn u (sh_offset (shdrs u ! i))"
      using assms(2) x nm same by (auto simp: header_safe_def rdn_def)
    from w have b: "rdn u (sh_offset (shdrs u ! i)) + rdn u (sh_size (shdrs u ! i)) \<le> fileSize u"
      and u': "u' = u\<lparr>contents := overwrite (rdn u (sh_offset (shdrs u ! i))) (replicate (rdn u (sh_size (shdrs u ! i))) 88) (contents u)\<rparr>"
      by (auto simp: wr_Inr)
    have "hdr u' = hdr u" unfolding u' by (rule hdr_overwrite [OF safe]) (simp add: b)
    moreover have "fileSize u' = fileSize u" using b by (simp add: u' fileSize_def)
    moreover have "u' = s\<lparr>contents := contents u'\<rparr>"
    proof -
      have "u' = u\<lparr>contents := contents u'\<rparr>" by (simp add: u')
      also have "\<dots> = (s\<lparr>contents := contents u\<rparr>)\<lparr>contents := contents u'\<rparr>" using u by metis
      finally show ?thesis by simp
    qed
    ultimately show "?P u'" using u by simp
  qed
qed

text \<open>A byte outside all the replaced sections is not touched.\<close>

definition outside :: "'a::len ElfFile \<Rightarrow> nat \<Rightarrow> nat \<Rightarrow> bstring \<Rightarrow> bool" where
  "outside s a n nm \<longleftrightarrow> (\<forall>i. findSection s nm = Inr i \<longrightarrow>
     a + n \<le> rdn s (sh_offset (shdrs s ! i)) \<or>
     rdn s (sh_offset (shdrs s ! i)) + rdn s (sh_size (shdrs s ! i)) \<le> a)"

lemma erase_frame:
  fixes s :: "'a::len ElfFile"
  assumes "efold erase_section s rs = Inr s'" and "\<forall>(nm, t) \<in> set rs. header_safe s nm"
    and "\<forall>(nm, t) \<in> set rs. outside s a n nm"
  shows "chunk a n (contents s') = chunk a n (contents s)"
  using assms
proof (induction rs arbitrary: s)
  case Nil
  then show ?case by simp
next
  case (Cons x rs)
  obtain nm t where x: "x = (nm, t)" by fastforce
  from Cons.prems(1) obtain u where u: "erase_section s x = Inr u" "efold erase_section u rs = Inr s'"
    by (auto simp: ebind_simps)
  have e: "u = s\<lparr>contents := contents u\<rparr> \<and> fileSize u = fileSize s \<and> hdr u = hdr s"
    by (rule erase_fold [of s "[x]"]) (use u(1) Cons.prems(2) in auto)
  then have same: "shdrs u = shdrs s" "littleEndian u = littleEndian s" "sectionNames u = sectionNames s"
    by (metis ElfFile.select_convs ElfFile.surjective ElfFile.update_convs(1))+
  have view: "name_view u = name_view s" using e same by (simp add: name_view_def shnum_def rdn_def)
  have "chunk a n (contents s') = chunk a n (contents u)"
    by (rule Cons.IH [OF u(2)])
       (use Cons.prems(2,3) same in \<open>auto simp: header_safe_def outside_def findSection_view(3) [OF view] rdn_def\<close>)
  moreover have "chunk a n (contents u) = chunk a n (contents s)"
  proof -
    from u(1) obtain i where i: "findSection s nm = Inr i"
      and b: "rdn s (sh_offset (shdrs s ! i)) + rdn s (sh_size (shdrs s ! i)) \<le> fileSize s"
      and c: "contents u = overwrite (rdn s (sh_offset (shdrs s ! i))) (replicate (rdn s (sh_size (shdrs s ! i))) 88) (contents s)"
      by (auto simp: erase_section_def x ebind_simps)
    show ?thesis unfolding c
      by (rule chunk_overwrite_disjoint)
         (use Cons.prems(3) x i b in \<open>auto simp: outside_def fileSize_def\<close>)
  qed
  ultimately show ?case by simp
qed

section \<open>Placing\<close>

text \<open>What the header of a section says, and the bytes it stands for.\<close>

definition section_at :: "'a::len ElfFile \<Rightarrow> nat \<Rightarrow> nat \<Rightarrow> bstring \<Rightarrow> bool" where
  "section_at s i off t \<longleftrightarrow>
     rdn s (sh_offset (shdrs s ! i)) = off \<and> rdn s (sh_size (shdrs s ! i)) = length t \<and>
     chunk off (length t) (contents s) = t"

lemma place_step:
  fixes s :: "'a::len ElfFile"
  assumes w: "elf_width TYPE('a)" and step: "place_section sa so (s, cur) (nm, t) = Inr (u, cur')"
    and lo: "sizeof_Ehdr TYPE('a) \<le> unat cur" and hi: "unat cur + slot TYPE('a) t < 2 ^ LENGTH('a)"
    and len: "length t + 8 \<le> 2 ^ 32"
  obtains i where "findSection s nm = Inr i" and "findSection u nm = Inr i" and "section_at u i (unat cur) t"
    and "rdi (littleEndian u) (sh_addr (shdrs u ! i)) = sa + (cur - so)"
    and "unat cur' = unat cur + slot TYPE('a) t"
    and "contents u = overwrite (unat cur) t (contents s)" and "unat cur + length t \<le> fileSize s"
    and "hdr u = hdr s" and "name_view u = name_view s" and "littleEndian u = littleEndian s"
    and "\<And>j. j \<noteq> i \<Longrightarrow> shdrs u ! j = shdrs s ! j" and "length (phdrs u) = length (phdrs s)"
proof -
  note d = elf_width_dvd [OF w]
  let ?sh = "\<lambda>i. (shdrs s ! i)\<lparr>sh_offset := wri (littleEndian s) cur,
              sh_addr := wri (littleEndian s) (sa + (cur - so)), sh_size := wrn s (length t),
              sh_addralign := wri (littleEndian s) (sectionAlignment s)\<rparr>"
  have "\<exists>i. findSection s nm = Inr i \<and> unat cur + length t \<le> fileSize s \<and> i < length (shdrs s) \<and>
      shdrs u = (shdrs s)[i := ?sh i] \<and> contents u = overwrite (unat cur) t (contents s) \<and>
      hdr u = hdr (s\<lparr>contents := overwrite (unat cur) t (contents s)\<rparr>) \<and>
      littleEndian u = littleEndian s \<and> sectionNames u = sectionNames s \<and> length (phdrs u) = length (phdrs s) \<and>
      cur' = cur + ucast (roundUp (of_nat (length t)) (sectionAlignment s))"
    using step by (auto simp: place_section_def ebind_simps Let_def wrn_def sectionAlignment_def split: if_splits)
  then obtain i v where i: "findSection s nm = Inr i" and b: "unat cur + length t \<le> fileSize s"
    and il: "i < length (shdrs s)" and v: "v = (shdrs s)[i := ?sh i]"
    and us: "shdrs u = v" "contents u = overwrite (unat cur) t (contents s)" "hdr u = hdr (s\<lparr>contents := overwrite (unat cur) t (contents s)\<rparr>)"
      "littleEndian u = littleEndian s" "sectionNames u = sectionNames s" "length (phdrs u) = length (phdrs s)"
    and cur': "cur' = cur + ucast (roundUp (of_nat (length t)) (sectionAlignment s))"
    by blast
  have h: "hdr u = hdr s" using us(3) hdr_overwrite [OF lo b] by simp
  have names: "map sh_name v = map sh_name (shdrs s)"
    by (rule nth_equalityI) (use v il in \<open>auto simp: nth_list_update\<close>)
  have view: "name_view u = name_view s"
    by (simp add: name_view_def shnum_def rdn_def h us names)
  have lt: "length t < 2 ^ LENGTH('a)" "length t < 2 ^ 64"
  proof -
    have "length t < 2 ^ 32" using len by simp
    moreover have "(2::nat) ^ 32 \<le> 2 ^ LENGTH('a)" using w by (auto simp: elf_width_def)
    ultimately show "length t < 2 ^ LENGTH('a)" by linarith
    show "length t < 2 ^ 64" using \<open>length t < 2 ^ 32\<close> by simp
  qed
  have ui: "shdrs u ! i = ?sh i"
    using il by (simp add: us v)
  have off: "rdn u (sh_offset (shdrs u ! i)) = unat cur"
    by (simp add: ui rdn_def us(4) d)
  have sz: "rdn u (sh_size (shdrs u ! i)) = length t"
    using rdn_wrn [OF d lt, of s] by (simp add: ui rdn_def us(4))
  have at: "section_at u i (unat cur) t"
    unfolding section_at_def off sz us(2) using b by (simp add: fileSize_def)
  have addr: "rdi (littleEndian u) (sh_addr (shdrs u ! i)) = sa + (cur - so)"
    by (simp add: ui us(4) d)
  have "unat (ucast (roundUp (of_nat (length t)) (sectionAlignment s)) :: 'a word) = slot TYPE('a) t"
  proof -
    have "slot TYPE('a) t < 2 ^ LENGTH('a)" using hi by linarith
    then show ?thesis
      by (simp add: slot_def sectionAlignment_def unsigned_ucast_eq take_bit_nat_eq_self)
  qed
  then have "unat cur' = unat cur + slot TYPE('a) t"
    unfolding cur' using hi by (simp add: unat_plus_if')
  moreover have "findSection u nm = Inr i" using i findSection_view(3) [OF view] by simp
  moreover have "shdrs u ! j = shdrs s ! j" if "j \<noteq> i" for j using that by (simp add: us v)
  ultimately show ?thesis using that i at addr us b h view by blast
qed

lemma different_sections:
  assumes "findSection s nm = Inr i" and "findSection s nm' = Inr j" and "nm \<noteq> nm'"
  shows "i \<noteq> j"
  using findSection_Inr(4) [OF assms(1)] findSection_Inr(4) [OF assms(2)] assms(3) by auto

lemma place_fold:
  fixes s :: "'a::len ElfFile"
  assumes w: "elf_width TYPE('a)" and "efold (place_section sa so) (s, cur) rs = Inr (s', cur')"
    and "sizeof_Ehdr TYPE('a) \<le> unat cur" and "unat cur + space TYPE('a) rs < 2 ^ LENGTH('a)"
    and "\<forall>(nm, t) \<in> set rs. length t + 8 \<le> 2 ^ 32" and "distinct (map fst rs)"
  shows "unat cur' = unat cur + space TYPE('a) rs \<and> fileSize s' = fileSize s \<and> hdr s' = hdr s \<and>
    name_view s' = name_view s \<and> littleEndian s' = littleEndian s \<and> length (phdrs s') = length (phdrs s) \<and>
    (\<forall>a n. a + n \<le> unat cur \<or> unat cur' \<le> a \<longrightarrow> chunk a n (contents s') = chunk a n (contents s)) \<and>
    (\<forall>j. (\<forall>nm \<in> fst ` set rs. findSection s nm \<noteq> Inr j) \<longrightarrow> shdrs s' ! j = shdrs s ! j) \<and>
    (\<forall>(nm, t) \<in> set rs. \<exists>i off. findSection s' nm = Inr i \<and> unat cur \<le> off \<and> off + length t \<le> unat cur' \<and>
       section_at s' i off t \<and> rdi (littleEndian s') (sh_addr (shdrs s' ! i)) = sa + (of_nat off - so))"
  using assms(2-)
proof (induction rs arbitrary: s cur)
  case Nil
  then show ?case by simp
next
  case (Cons x rs)
  obtain nm t where x: "x = (nm, t)" by fastforce
  from Cons.prems(1) obtain u c where step: "place_section sa so (s, cur) (nm, t) = Inr (u, c)"
    and rest: "efold (place_section sa so) (u, c) rs = Inr (s', cur')"
    by (auto simp: ebind_simps x)
  have len: "length t + 8 \<le> 2 ^ 32" and hi: "unat cur + slot TYPE('a) t < 2 ^ LENGTH('a)"
    using Cons.prems(3,4) by (auto simp: x)
  obtain i where i: "findSection s nm = Inr i" "findSection u nm = Inr i" "section_at u i (unat cur) t"
      "rdi (littleEndian u) (sh_addr (shdrs u ! i)) = sa + (cur - so)" "unat c = unat cur + slot TYPE('a) t"
    and cu: "contents u = overwrite (unat cur) t (contents s)" "unat cur + length t \<le> fileSize s"
    and u: "hdr u = hdr s" "name_view u = name_view s" "littleEndian u = littleEndian s"
      "length (phdrs u) = length (phdrs s)"
    and other: "\<And>j. j \<noteq> i \<Longrightarrow> shdrs u ! j = shdrs s ! j"
    by (rule place_step [OF w step Cons.prems(2) hi len]) blast
  have slot: "length t \<le> slot TYPE('a) t" by (rule slot_bounds(1) [OF w len])
  have "sizeof_Ehdr TYPE('a) \<le> unat c" "unat c + space TYPE('a) rs < 2 ^ LENGTH('a)"
    using Cons.prems(2,3) by (simp_all add: i(5) x)
  note IH = Cons.IH [OF rest this]
  have IH: "unat cur' = unat c + space TYPE('a) rs" "fileSize s' = fileSize u" "hdr s' = hdr u"
    "name_view s' = name_view u" "littleEndian s' = littleEndian u" "length (phdrs s') = length (phdrs u)"
    "\<forall>a n. a + n \<le> unat c \<or> unat cur' \<le> a \<longrightarrow> chunk a n (contents s') = chunk a n (contents u)"
    "\<forall>j. (\<forall>nm \<in> fst ` set rs. findSection u nm \<noteq> Inr j) \<longrightarrow> shdrs s' ! j = shdrs u ! j"
    "\<forall>(nm, t) \<in> set rs. \<exists>i off. findSection s' nm = Inr i \<and> unat c \<le> off \<and> off + length t \<le> unat cur' \<and>
       section_at s' i off t \<and> rdi (littleEndian s') (sh_addr (shdrs s' ! i)) = sa + (of_nat off - so)"
    using IH Cons.prems(4,5) x by auto
  have find: "findSection u n = findSection s n" for n by (rule findSection_view(3) [OF u(2)])
  have "\<forall>n \<in> fst ` set rs. findSection u n \<noteq> Inr i"
    using different_sections [OF i(2)] Cons.prems(5) x by auto
  then have si: "shdrs s' ! i = shdrs u ! i" using IH(8) by blast
  have size: "fileSize u = fileSize s" using cu by (simp add: fileSize_def)
  have "chunk (unat cur) (length t) (contents s') = chunk (unat cur) (length t) (contents u)"
    using IH(7) slot i(5) by simp
  then have "section_at s' i (unat cur) t"
    using i(3) si IH(5) by (simp add: section_at_def rdn_def)
  moreover have "findSection s' nm = Inr i" using i(2) findSection_view(3) [OF IH(4)] by simp
  moreover have "unat cur + length t \<le> unat cur'" using slot by (simp add: IH(1) i(5))
  ultimately have this_section: "\<exists>i off. findSection s' nm = Inr i \<and> unat cur \<le> off \<and> off + length t \<le> unat cur' \<and>
       section_at s' i off t \<and> rdi (littleEndian s') (sh_addr (shdrs s' ! i)) = sa + (of_nat off - so)"
    using i(4) si IH(5) by (intro exI [of _ i] exI [of _ "unat cur"]) simp
  have frame: "chunk a n (contents s') = chunk a n (contents s)" if "a + n \<le> unat cur \<or> unat cur' \<le> a" for a n
  proof -
    have "chunk a n (contents s') = chunk a n (contents u)"
      using IH(7) that i(5) by auto
    also have "\<dots> = chunk a n (contents s)"
      unfolding cu(1) by (rule chunk_overwrite_disjoint) (use that cu(2) slot IH(1) i(5) in \<open>auto simp: fileSize_def\<close>)
    finally show ?thesis .
  qed
  have others: "shdrs s' ! j = shdrs s ! j" if "\<forall>n \<in> fst ` set (x # rs). findSection s n \<noteq> Inr j" for j
    using that IH(8) other [of j] find i(1) x by auto
  have later: "\<exists>i off. findSection s' n = Inr i \<and> unat cur \<le> off \<and> off + length b \<le> unat cur' \<and>
       section_at s' i off b \<and> rdi (littleEndian s') (sh_addr (shdrs s' ! i)) = sa + (of_nat off - so)"
    if mem: "(n, b) \<in> set rs" for n b
  proof -
    obtain i off where o: "findSection s' n = Inr i" "unat c \<le> off" "off + length b \<le> unat cur'"
      "section_at s' i off b" "rdi (littleEndian s') (sh_addr (shdrs s' ! i)) = sa + (of_nat off - so)"
      using bspec [OF IH(9) mem] unfolding prod.case by (elim exE conjE)
    from o(2) i(5) have "unat cur \<le> off" by linarith
    with o(1,3-5) show ?thesis by (intro exI [of _ i] exI [of _ off] conjI)
  qed
  show ?case
  proof (intro conjI allI impI)
    show "unat cur' = unat cur + space TYPE('a) (x # rs)" by (simp add: IH(1) i(5) x)
    show "fileSize s' = fileSize s" by (simp only: IH(2) size)
    show "hdr s' = hdr s" by (simp only: IH(3) u)
    show "name_view s' = name_view s" by (simp only: IH(4) u)
    show "littleEndian s' = littleEndian s" by (simp only: IH(5) u)
    show "length (phdrs s') = length (phdrs s)" by (simp only: IH(6) u)
    show "chunk a n (contents s') = chunk a n (contents s)" if "a + n \<le> unat cur \<or> unat cur' \<le> a" for a n
      by (rule frame [OF that])
    show "shdrs s' ! j = shdrs s ! j" if "\<forall>n \<in> fst ` set (x # rs). findSection s n \<noteq> Inr j" for j
      by (rule others [OF that])
    show "\<forall>(nm, t) \<in> set (x # rs). \<exists>i off. findSection s' nm = Inr i \<and> unat cur \<le> off \<and> off + length t \<le> unat cur' \<and>
       section_at s' i off t \<and> rdi (littleEndian s') (sh_addr (shdrs s' ! i)) = sa + (of_nat off - so)"
    proof (rule ballI, rule case_prodI2)
      fix z n b
      assume z: "z \<in> set (x # rs)" and nb: "z = (n, b)"
      show "\<exists>i off. findSection s' n = Inr i \<and> unat cur \<le> off \<and> off + length b \<le> unat cur' \<and>
         section_at s' i off b \<and> rdi (littleEndian s') (sh_addr (shdrs s' ! i)) = sa + (of_nat off - so)"
      proof (cases "z = x")
        case True
        with nb x have "n = nm" "b = t" by simp_all
        with this_section show ?thesis by blast
      next
        case False
        with z nb have "(n, b) \<in> set rs" by simp
        then show ?thesis by (rule later)
      qed
    qed
  qed
qed

section \<open>Program headers that follow a section\<close>

definition segment_section :: "Elf_Word \<Rightarrow> bstring option" where
  "segment_section ty =
     (if ty = PT_INTERP then Some (str ''.interp'') else if ty = PT_DYNAMIC then Some (str ''.dynamic'') else None)"

definition covering :: "'a::len Elf_Shdr \<Rightarrow> 'a Elf_Phdr \<Rightarrow> 'a Elf_Phdr" where
  "covering sh p = p\<lparr>p_offset := sh_offset sh, p_vaddr := sh_addr sh, p_paddr := sh_addr sh,
     p_filesz := sh_size sh, p_memsz := sh_size sh\<rparr>"

definition following :: "'a::len ElfFile \<Rightarrow> bstring set \<Rightarrow> 'a Elf_Phdr \<Rightarrow> 'a Elf_Phdr" where
  "following s names p = (case segment_section (rdi (littleEndian s) (p_type p)) of
     Some nm \<Rightarrow> if nm \<in> names then covering (shdrs s ! projr (findSection s nm)) p else p
   | None \<Rightarrow> p)"

text \<open>Of the header of a placed section nothing but the place, the address, the size and the alignment changes.\<close>

definition moved_header :: "'a::len ElfFile \<Rightarrow> 'a Elf_Shdr \<Rightarrow> 'a Elf_Shdr \<Rightarrow> bool" where
  "moved_header s h h' \<longleftrightarrow> h' = h\<lparr>sh_offset := sh_offset h', sh_addr := sh_addr h', sh_size := sh_size h',
     sh_addralign := wri (littleEndian s) (sectionAlignment s)\<rparr>"

lemma different_names: "str ''.interp'' \<noteq> str ''.dynamic''" "PT_INTERP \<noteq> PT_DYNAMIC"
  by code_simp+

lemma place_step_phdrs:
  assumes "place_section sa so (s, cur) (nm, t) = Inr (u, cur')" and "findSection s nm = Inr i"
  shows "phdrs u = map (\<lambda>p. if segment_section (rdi (littleEndian s) (p_type p)) = Some nm
      then covering (shdrs u ! i) p else p) (phdrs s)"
    and "u = s\<lparr>contents := contents u, shdrs := shdrs u, phdrs := phdrs u\<rparr>"
    and "moved_header s (shdrs s ! i) (shdrs u ! i)"
proof -
  have names: "segment_section ty = Some nm \<longleftrightarrow>
      nm = str ''.interp'' \<and> ty = PT_INTERP \<or> nm = str ''.dynamic'' \<and> ty = PT_DYNAMIC" for ty
    using different_names by (auto simp: segment_section_def simp del: str_simps)
  show "phdrs u = map (\<lambda>p. if segment_section (rdi (littleEndian s) (p_type p)) = Some nm
      then covering (shdrs u ! i) p else p) (phdrs s)"
    using assms different_names unfolding names
    by (cases "nm = str ''.interp''"; cases "nm = str ''.dynamic''")
       (auto simp: place_section_def ebind_simps Let_def sync_phdrs_def covering_def simp del: str_simps)
  show "u = s\<lparr>contents := contents u, shdrs := shdrs u, phdrs := phdrs u\<rparr>"
    using assms by (auto simp: place_section_def ebind_simps Let_def sync_phdrs_def simp del: str_simps)
  show "moved_header s (shdrs s ! i) (shdrs u ! i)"
    using assms by (auto simp: place_section_def ebind_simps Let_def sync_phdrs_def moved_header_def sectionAlignment_def wrn_def simp del: str_simps)
qed

lemma place_phdrs:
  fixes s :: "'a::len ElfFile"
  assumes w: "elf_width TYPE('a)" and "efold (place_section sa so) (s, cur) rs = Inr (s', cur')"
    and "sizeof_Ehdr TYPE('a) \<le> unat cur" and "unat cur + space TYPE('a) rs < 2 ^ LENGTH('a)"
    and "\<forall>(nm, t) \<in> set rs. length t + 8 \<le> 2 ^ 32" and "distinct (map fst rs)"
  shows "s' = s\<lparr>contents := contents s', shdrs := shdrs s', phdrs := phdrs s'\<rparr> \<and>
    phdrs s' = map (following s' (fst ` set rs)) (phdrs s) \<and>
    (\<forall>nm \<in> fst ` set rs. \<forall>i. findSection s nm = Inr i \<longrightarrow> moved_header s (shdrs s ! i) (shdrs s' ! i))"
  using assms(2-)
proof (induction rs arbitrary: s cur)
  case Nil
  then show ?case by (auto simp: following_def intro!: map_idI [symmetric] split: option.splits)
next
  case (Cons x rs)
  obtain nm t where x: "x = (nm, t)" by fastforce
  from Cons.prems(1) obtain u c where step: "place_section sa so (s, cur) (nm, t) = Inr (u, c)"
    and rest: "efold (place_section sa so) (u, c) rs = Inr (s', cur')"
    by (auto simp: ebind_simps x)
  have len: "length t + 8 \<le> 2 ^ 32" and hi: "unat cur + slot TYPE('a) t < 2 ^ LENGTH('a)"
    using Cons.prems(3,4) by (auto simp: x)
  obtain i where i: "findSection s nm = Inr i" "findSection u nm = Inr i" "unat c = unat cur + slot TYPE('a) t"
    and u: "littleEndian u = littleEndian s" "name_view u = name_view s" and other: "\<And>j. j \<noteq> i \<Longrightarrow> shdrs u ! j = shdrs s ! j"
    by (rule place_step [OF w step Cons.prems(2) hi len]) blast
  have cond: "sizeof_Ehdr TYPE('a) \<le> unat c" "unat c + space TYPE('a) rs < 2 ^ LENGTH('a)"
    "\<forall>(nm, t) \<in> set rs. length t + 8 \<le> 2 ^ 32" "distinct (map fst rs)" and new: "nm \<notin> fst ` set rs"
    using Cons.prems(2-5) by (auto simp: i(3) x)
  note place = place_fold [OF w rest cond]
  have le: "littleEndian s' = littleEndian s" and view: "name_view s' = name_view u" using place u by simp_all
  have "\<forall>n \<in> fst ` set rs. findSection u n \<noteq> Inr i"
    using different_sections [OF i(2)] new by fastforce
  then have si: "shdrs s' ! i = shdrs u ! i" using place by blast
  have find: "findSection s' nm = Inr i" using i(2) findSection_view(3) [OF view] by simp
  note IH = Cons.IH [OF rest cond, THEN conjunct2, THEN conjunct1] Cons.IH [OF rest cond, THEN conjunct1]
  have "moved_header s (shdrs s ! j) (shdrs s' ! j)" if "n \<in> fst ` set (x # rs)" "findSection s n = Inr j" for n j
  proof (cases "n = nm")
    case True
    with that i(1) place_step_phdrs(3) [OF step i(1)] si show ?thesis by simp
  next
    case False
    have find_u: "findSection u m = findSection s m" for m by (rule findSection_view(3) [OF u(2)])
    have "j \<noteq> i" using different_sections [OF that(2) i(1) False] .
    moreover have "moved_header u (shdrs u ! j) (shdrs s' ! j)"
      using Cons.IH [OF rest cond] that False by (auto simp: x find_u)
    ultimately show ?thesis by (simp add: other moved_header_def u(1) sectionAlignment_def)
  qed
  note headers = this
  have pointwise: "following s' (fst ` set rs) (if segment_section (rdi (littleEndian s) (p_type p)) = Some nm
      then covering (shdrs u ! i) p else p) = following s' (fst ` set (x # rs)) p" for p
    using new by (auto simp: following_def le x find si covering_def split: option.splits)
  have "phdrs s' = map (following s' (fst ` set (x # rs))) (phdrs s)"
    unfolding IH(1) place_step_phdrs(1) [OF step i(1)] map_map comp_def pointwise ..
  moreover have "s' = s\<lparr>contents := contents s', shdrs := shdrs s', phdrs := phdrs s'\<rparr>"
    by (rule trans [OF IH(2)], subst place_step_phdrs(2) [OF step i(1)]) simp
  ultimately show ?case using headers by blast
qed

end
