(* ===== verification/ElfTable.thy ===== *)
theory ElfTable
  imports ElfFacts
begin

text \<open>
  Dynamic sections as tables: \<open>dyn_table\<close> says that an image holds a list of entries at an offset,
  ended by an entry with the tag \<open>DT_NULL\<close>. The loops of \<open>patchelf\<close> over the entries are
  run on such a table; this theory holds the rules for that and what the in-place removal and
  the growing of a table do.
\<close>

section \<open>Tables\<close>

definition dyn_table :: "bool \<Rightarrow> bstring \<Rightarrow> nat \<Rightarrow> 'a::len Elf_Dyn list \<Rightarrow> bool" where
  "dyn_table le c off es \<longleftrightarrow>
     off + length es * sizeof_Dyn TYPE('a) + wsize TYPE('a) \<le> length c \<and>
     chunk off (length es * sizeof_Dyn TYPE('a)) c = concat (map enc_Dyn es) \<and>
     (\<forall>d \<in> set es. rdi le (d_tag d) \<noteq> 0) \<and>
     (dyn_tag le c (off + length es * sizeof_Dyn TYPE('a)) :: 'a word) = 0"

lemma length_enc_Dyn [simp]: "length (enc_Dyn (d :: 'a::len Elf_Dyn)) = sizeof_Dyn TYPE('a)"
  by (simp add: enc_Dyn_def sizeof_Dyn_def)

lemma length_enc_Dyns [simp]: "length (concat (map enc_Dyn (es :: 'a::len Elf_Dyn list))) = length es * sizeof_Dyn TYPE('a)"
  by (induction es) simp_all

lemma dyn_table_Cons:
  "dyn_table le c off (d # es :: 'a::len Elf_Dyn list) \<longleftrightarrow>
     off + sizeof_Dyn TYPE('a) \<le> length c \<and> chunk off (sizeof_Dyn TYPE('a)) c = enc_Dyn d \<and>
     rdi le (d_tag d) \<noteq> 0 \<and> dyn_table le c (off + sizeof_Dyn TYPE('a)) es"
proof -
  let ?z = "sizeof_Dyn TYPE('a)"
  have split: "chunk off (length (d # es) * ?z) c = chunk off ?z c @ chunk (off + ?z) (length es * ?z) c"
    using chunk_split [of ?z "length (d # es) * ?z" off c] by simp
  have "chunk off (length (d # es) * ?z) c = enc_Dyn d @ concat (map enc_Dyn es) \<longleftrightarrow>
      chunk off ?z c = enc_Dyn d \<and> chunk (off + ?z) (length es * ?z) c = concat (map enc_Dyn es)"
    if "off + ?z + length es * ?z \<le> length c"
    using that unfolding split by (subst append_eq_append_conv) auto
  then show ?thesis by (auto simp: dyn_table_def add.assoc)
qed

lemma dyn_tag_entry:
  fixes d :: "'a::len Elf_Dyn"
  assumes "elf_width TYPE('a)" and "chunk off (sizeof_Dyn TYPE('a)) c = enc_Dyn d"
  shows "dyn_tag le c off = rdi le (d_tag d)"
proof -
  have "chunk off (wsize TYPE('a)) c = take (wsize TYPE('a)) (chunk off (sizeof_Dyn TYPE('a)) c)"
    by (simp add: chunk_def sizeof_Dyn_def min_def)
  also have "\<dots> = wbytes (d_tag d)" by (simp add: assms(2) enc_Dyn_def)
  finally show ?thesis by (simp add: dyn_tag_def elf_width_dvd [OF assms(1)])
qed

lemma d_un_entry:
  fixes s :: "'a::len ElfFile"
  assumes "elf_width TYPE('a)" and "off + sizeof_Dyn TYPE('a) \<le> fileSize s"
    and "chunk off (sizeof_Dyn TYPE('a)) (contents s) = enc_Dyn d"
  shows "d_un_at s off = Inr (d_un d)"
proof -
  let ?w = "wsize TYPE('a)"
  have "chunk (off + ?w) ?w (contents s) = chunk ?w ?w (chunk off (2 * ?w) (contents s))"
    by (simp add: chunk_chunk)
  also have "\<dots> = wbytes (d_un d)"
    using assms(3) by (simp add: sizeof_Dyn_def enc_Dyn_def chunk_def)
  finally show ?thesis
    using assms(2) by (simp add: d_un_at_def rd_def mem_read_def fileSize_def sizeof_Dyn_def elf_width_dvd [OF assms(1)])
qed

lemma dyn_table_nth:
  fixes es :: "'a::len Elf_Dyn list"
  assumes "dyn_table le c off es" and "k < length es"
  shows "chunk (off + k * sizeof_Dyn TYPE('a)) (sizeof_Dyn TYPE('a)) c = enc_Dyn (es ! k)"
    and "off + k * sizeof_Dyn TYPE('a) + sizeof_Dyn TYPE('a) \<le> length c"
proof -
  have "chunk (off + k * sizeof_Dyn TYPE('a)) (sizeof_Dyn TYPE('a)) c = enc_Dyn (es ! k) \<and>
      off + k * sizeof_Dyn TYPE('a) + sizeof_Dyn TYPE('a) \<le> length c"
    using assms
  proof (induction es arbitrary: off k)
    case (Cons d es)
    show ?case
    proof (cases k)
      case 0
      with Cons.prems show ?thesis by (simp add: dyn_table_Cons)
    next
      case (Suc j)
      have "dyn_table le c (off + sizeof_Dyn TYPE('a)) es" "j < length es"
        using Cons.prems Suc by (simp_all add: dyn_table_Cons)
      from Cons.IH [OF this] show ?thesis by (simp add: Suc add.assoc)
    qed
  qed simp
  then show "chunk (off + k * sizeof_Dyn TYPE('a)) (sizeof_Dyn TYPE('a)) c = enc_Dyn (es ! k)"
    and "off + k * sizeof_Dyn TYPE('a) + sizeof_Dyn TYPE('a) \<le> length c" by simp_all
qed

text \<open>A table survives what happens outside it.\<close>

lemma dyn_table_cong:
  fixes es :: "'a::len Elf_Dyn list"
  assumes "dyn_table le c off es" and "length c' = length c"
    and "chunk off (length es * sizeof_Dyn TYPE('a) + wsize TYPE('a)) c' = chunk off (length es * sizeof_Dyn TYPE('a) + wsize TYPE('a)) c"
  shows "dyn_table le c' off es"
proof -
  let ?n = "length es * sizeof_Dyn TYPE('a)" and ?w = "wsize TYPE('a)"
  have "chunk off ?n c' = chunk off ?n c"
    using assms(3) chunk_chunk [of 0 ?n "?n + ?w" off c] chunk_chunk [of 0 ?n "?n + ?w" off c'] by simp
  moreover have "chunk (off + ?n) ?w c' = chunk (off + ?n) ?w c"
    using assms(3) chunk_chunk [of ?n ?w "?n + ?w" off c] chunk_chunk [of ?n ?w "?n + ?w" off c'] by simp
  ultimately show ?thesis using assms(1,2) by (simp add: dyn_table_def dyn_tag_def)
qed

lemma dyn_table_suffix:
  "dyn_table le c off (pre @ es :: 'a::len Elf_Dyn list) \<Longrightarrow> dyn_table le c (off + length pre * sizeof_Dyn TYPE('a)) es"
  by (induction pre arbitrary: off) (auto simp: dyn_table_Cons simp flip: add.assoc)

section \<open>Loops over a table\<close>

lemma dyn_count_table:
  fixes es :: "'a::len Elf_Dyn list"
  assumes "elf_width TYPE('a)" and "dyn_table le c off es"
  shows "length es < dyn_count TYPE('a) c off"
proof -
  let ?z = "sizeof_Dyn TYPE('a)" and ?w = "wsize TYPE('a)"
  have z: "?z = 2 * ?w" "0 < ?z" using assms(1) by (auto simp: sizeof_Dyn_def wsize_elf_width)
  have b: "off + length es * ?z + ?w \<le> length c" using assms(2) by (simp add: dyn_table_def)
  have "(length es + 1) * ?z = length es * ?z + ?w + ?w" using z by simp
  also have "\<dots> \<le> length c - off + ?w" using b by linarith
  finally have "(length es + 1) * ?z \<le> length c - off + ?w" .
  then have "length es + 1 \<le> (length c - off + ?w) div ?z" using z(2) by (simp add: less_eq_div_iff_mult_less_eq)
  then show ?thesis by (simp add: dyn_count_def)
qed

lemma dyn_for_Nil:
  "dyn_table le (img st) off ([] :: 'a::len Elf_Dyn list) \<Longrightarrow> 0 < n \<Longrightarrow>
   dyn_for le (\<lambda>t :: 'a word. t) img body off n st = Inr (off, st)"
  by (cases n) (simp_all add: dyn_table_def)

lemma dyn_for_Cons:
  assumes "elf_width TYPE('a::len)" and "dyn_table le (img st) off (d # es :: 'a Elf_Dyn list)" and "0 < n"
  shows "dyn_for le (\<lambda>t :: 'a word. t) img body off n st =
    ebind (body off (rdi le (d_tag d)) st) (\<lambda>st. dyn_for le (\<lambda>t. t) img body (off + sizeof_Dyn TYPE('a)) (n - 1) st)"
  using assms dyn_tag_entry [OF assms(1), of off "img st" d le] by (cases n) (simp_all add: dyn_table_Cons)

text \<open>A loop that only reads is a fold over the entries, each with its offset.\<close>

definition positions :: "'a::len itself \<Rightarrow> nat \<Rightarrow> 'x list \<Rightarrow> (nat \<times> 'x) list" where
  "positions T off es = zip (map (\<lambda>k. off + k * sizeof_Dyn TYPE('a)) [0 ..< length es]) es"

lemma positions_Nil [simp]: "positions T off [] = []"
  by (simp add: positions_def)

lemma positions_Cons [simp]:
  "positions (T :: 'a::len itself) off (e # es) = (off, e) # positions T (off + sizeof_Dyn TYPE('a)) es"
proof -
  have "map (\<lambda>k. off + k * sizeof_Dyn TYPE('a)) [0 ..< length (e # es)] =
      off # map (\<lambda>k. off + sizeof_Dyn TYPE('a) + k * sizeof_Dyn TYPE('a)) [0 ..< length es]"
    by (rule nth_equalityI) (simp_all add: nth_Cons' add.assoc del: upt_Suc, auto simp: nth_append algebra_simps split: nat.split)
  then show ?thesis by (simp only: positions_def zip_Cons_Cons)
qed

lemma dyn_for_scan:
  fixes es :: "'a::len Elf_Dyn list"
  assumes "elf_width TYPE('a)" and "dyn_table le c off es" and "length es < n"
  shows "dyn_for le (\<lambda>t :: 'a word. t) (\<lambda>_. c) body off n r =
    ebind (efold (\<lambda>r (o', d). body o' (rdi le (d_tag d)) r) r (positions TYPE('a) off es))
      (\<lambda>r. Inr (off + length es * sizeof_Dyn TYPE('a), r))"
  using assms(2,3)
proof (induction es arbitrary: off n r)
  case Nil
  then have "dyn_for le (\<lambda>t :: 'a word. t) (\<lambda>_. c) body off n r = Inr (off, r)"
    by (intro dyn_for_Nil) simp_all
  then show ?case by (simp only: positions_Nil efold.simps ebind_Inr list.size mult_0 add_0_right)
next
  case (Cons d es)
  have t: "dyn_table le c (off + sizeof_Dyn TYPE('a)) es" using Cons.prems(1) by (simp add: dyn_table_Cons)
  have "dyn_for le (\<lambda>t. t) (\<lambda>_. c) body (off + sizeof_Dyn TYPE('a)) (n - 1) r' =
      ebind (efold (\<lambda>r (o', d). body o' (rdi le (d_tag d)) r) r' (positions TYPE('a) (off + sizeof_Dyn TYPE('a)) es))
        (\<lambda>r. Inr (off + length (d # es) * sizeof_Dyn TYPE('a), r))" for r'
    using Cons.IH [OF t, of "n - 1" r'] Cons.prems(2) by (simp add: add.assoc)
  with dyn_for_Cons [where img = "\<lambda>_. c" and st = r and body = body and n = n, OF assms(1) Cons.prems(1)] Cons.prems(2)
  show ?case by (cases "body off (rdi le (d_tag d)) r") (simp_all add: ebind_assoc)
qed

lemma dyn_scan_table:
  fixes s :: "'a::len ElfFile" and es :: "'a Elf_Dyn list"
  assumes "elf_width TYPE('a)" and "dyn_table (littleEndian s) (contents s) off es"
  shows "dyn_scan s body off r =
    efold (\<lambda>r (o', d). body o' (rdi (littleEndian s) (d_tag d)) r) r (positions TYPE('a) off es)"
  by (simp add: dyn_scan_def dyn_for_scan [OF assms dyn_count_table [OF assms]] ebind_assoc)
     (cases "efold (\<lambda>r (o', d). body o' (rdi (littleEndian s) (d_tag d)) r) r (positions TYPE('a) off es)", simp_all)

section \<open>Removing entries in place\<close>

lemma overwrite_adjacent:
  assumes "off + length a + length b \<le> length c"
  shows "overwrite (off + length a) b (overwrite off a c) = overwrite off (a @ b) c"
proof (rule nth_equalityI)
  show "length (overwrite (off + length a) b (overwrite off a c)) = length (overwrite off (a @ b) c)"
    using assms by simp
next
  fix i
  assume "i < length (overwrite (off + length a) b (overwrite off a c))"
  with assms have "i < length c" by simp
  with assms show "overwrite (off + length a) b (overwrite off a c) ! i = overwrite off (a @ b) c ! i"
    by (auto simp: nth_overwrite nth_append)
qed

lemma overwrite_Nil [simp]: "overwrite off [] c = c"
  by (simp add: overwrite_def)

text \<open>
  The loop of the removal: \<open>P\<close> is the verdict on an entry, which the code reaches by \<open>goes\<close> in
  every state that differs from the first one only before the entry.
\<close>

lemma compact_loop:
  fixes s :: "'a::len ElfFile" and es :: "'a Elf_Dyn list"
  assumes w: "elf_width TYPE('a)"
    and "dyn_table (littleEndian s) (contents s) off es" and "dst \<le> off" and "length es < n"
    and "\<And>k u. k < length es \<Longrightarrow> u = s\<lparr>contents := contents u, changed := changed u\<rparr> \<Longrightarrow> fileSize u = fileSize s \<Longrightarrow>
       (\<forall>a m. a + m \<le> dst \<or> off + k * sizeof_Dyn TYPE('a) \<le> a \<longrightarrow> chunk a m (contents u) = chunk a m (contents s)) \<Longrightarrow>
       goes (off + k * sizeof_Dyn TYPE('a)) (rdi (littleEndian s) (d_tag (es ! k))) u = Inr (P (es ! k))"
  shows "dyn_for (littleEndian s) (\<lambda>t. t) (\<lambda>p. contents (fst p)) (compact_step goes) off n (s, dst) =
    Inr (off + length es * sizeof_Dyn TYPE('a),
         s\<lparr>contents := overwrite dst (concat (map enc_Dyn (filter (\<lambda>d. \<not> P d) es))) (contents s),
           changed := changed s \<or> (\<exists>d \<in> set es. P d)\<rparr>,
         dst + length (filter (\<lambda>d. \<not> P d) es) * sizeof_Dyn TYPE('a))"
  using assms(2-)
proof (induction es arbitrary: s off dst n)
  case Nil
  then have "dyn_for (littleEndian s) (\<lambda>t :: 'a word. t) (\<lambda>p. contents (fst p)) (compact_step goes) off n (s, dst) = Inr (off, s, dst)"
    by (intro dyn_for_Nil) simp_all
  moreover have "s\<lparr>contents := contents s, changed := changed s\<rparr> = s" by simp
  ultimately show ?case by (simp only: list.size list.map concat.simps filter.simps overwrite_Nil mult_0 add_0_right) simp
next
  case (Cons d es)
  let ?z = "sizeof_Dyn TYPE('a)" and ?le = "littleEndian s"
  have t: "dyn_table ?le (contents s) (off + ?z) es" and e: "chunk off ?z (contents s) = enc_Dyn d"
    and b: "off + ?z \<le> fileSize s"
    using Cons.prems(1) by (auto simp: dyn_table_Cons fileSize_def)
  have g: "goes off (rdi ?le (d_tag d)) s = Inr (P d)"
    using Cons.prems(4) [of 0 s] by simp
  have tab: "dyn_table ?le ((\<lambda>p. contents (fst p)) (s, dst)) off (d # es)" using Cons.prems(1) by simp
  note step = dyn_for_Cons [where img = "\<lambda>p. contents (fst p)" and st = "(s, dst)" and body = "compact_step goes" and n = n, OF w tab]
  show ?case
  proof (cases "P d")
    case True
    let ?s = "s\<lparr>changed := True\<rparr>"
    have s1: "compact_step goes off (rdi ?le (d_tag d)) (s, dst) = Inr (?s, dst)"
      by (simp add: compact_step_def g True)
    have "dyn_for (littleEndian ?s) (\<lambda>t. t) (\<lambda>p. contents (fst p)) (compact_step goes) (off + ?z) (n - 1) (?s, dst) =
      Inr (off + ?z + length es * ?z,
           ?s\<lparr>contents := overwrite dst (concat (map enc_Dyn (filter (\<lambda>d. \<not> P d) es))) (contents ?s),
              changed := changed ?s \<or> (\<exists>d \<in> set es. P d)\<rparr>,
           dst + length (filter (\<lambda>d. \<not> P d) es) * ?z)"
    proof (rule Cons.IH)
      show "dyn_table (littleEndian ?s) (contents ?s) (off + ?z) es" using t by simp
      show "dst \<le> off + ?z" "length es < n - 1" using Cons.prems(2,3) by simp_all
      fix k u
      assume k: "k < length es" and u: "u = ?s\<lparr>contents := contents u, changed := changed u\<rparr>"
        "fileSize u = fileSize ?s" "\<forall>a m. a + m \<le> dst \<or> off + ?z + k * ?z \<le> a \<longrightarrow> chunk a m (contents u) = chunk a m (contents ?s)"
      have "goes (off + Suc k * ?z) (rdi ?le (d_tag ((d # es) ! Suc k))) u = Inr (P ((d # es) ! Suc k))"
        by (rule Cons.prems(4)) (use k u in \<open>auto simp: add.assoc\<close>)
      then show "goes (off + ?z + k * ?z) (rdi (littleEndian ?s) (d_tag (es ! k))) u = Inr (P (es ! k))"
        by (simp add: add.assoc)
    qed
    with step s1 Cons.prems(3) True show ?thesis by (simp add: add.assoc)
  next
    case False
    let ?c = "overwrite dst (enc_Dyn d) (contents s)"
    let ?s = "s\<lparr>contents := ?c\<rparr>"
    have len: "length ?c = length (contents s)" using Cons.prems(2) b by (simp add: fileSize_def)
    have frame: "chunk a m ?c = chunk a m (contents s)" if "a + m \<le> dst \<or> off + ?z \<le> a" for a m
      by (rule chunk_overwrite_disjoint) (use that Cons.prems(2) b in \<open>auto simp: fileSize_def\<close>)
    have s1: "compact_step goes off (rdi ?le (d_tag d)) (s, dst) = Inr (?s, dst + ?z)"
      using b Cons.prems(2) by (simp add: compact_step_def g False rd_def wr_def mem_read_def mem_write_def fileSize_def e)
    have "dyn_for (littleEndian ?s) (\<lambda>t. t) (\<lambda>p. contents (fst p)) (compact_step goes) (off + ?z) (n - 1) (?s, dst + ?z) =
      Inr (off + ?z + length es * ?z,
           ?s\<lparr>contents := overwrite (dst + ?z) (concat (map enc_Dyn (filter (\<lambda>d. \<not> P d) es))) (contents ?s),
              changed := changed ?s \<or> (\<exists>d \<in> set es. P d)\<rparr>,
           dst + ?z + length (filter (\<lambda>d. \<not> P d) es) * ?z)"
    proof (rule Cons.IH)
      show "dyn_table (littleEndian ?s) (contents ?s) (off + ?z) es"
        by (simp, rule dyn_table_cong [OF t]) (use len frame in auto)
      show "dst + ?z \<le> off + ?z" "length es < n - 1" using Cons.prems(2,3) by simp_all
      fix k u
      assume k: "k < length es" and u: "u = ?s\<lparr>contents := contents u, changed := changed u\<rparr>"
        "fileSize u = fileSize ?s" "\<forall>a m. a + m \<le> dst + ?z \<or> off + ?z + k * ?z \<le> a \<longrightarrow> chunk a m (contents u) = chunk a m (contents ?s)"
      have "goes (off + Suc k * ?z) (rdi ?le (d_tag ((d # es) ! Suc k))) u = Inr (P ((d # es) ! Suc k))"
      proof (rule Cons.prems(4))
        show "Suc k < length (d # es)" using k by simp
        show "u = s\<lparr>contents := contents u, changed := changed u\<rparr>" using u(1) by simp
        show "fileSize u = fileSize s" using u(2) len by (simp add: fileSize_def)
        show "\<forall>a m. a + m \<le> dst \<or> off + Suc k * ?z \<le> a \<longrightarrow> chunk a m (contents u) = chunk a m (contents s)"
          using u(3) frame by (auto simp: add.assoc)
      qed
      then show "goes (off + ?z + k * ?z) (rdi (littleEndian ?s) (d_tag (es ! k))) u = Inr (P (es ! k))"
        by (simp add: add.assoc)
    qed
    moreover have "overwrite (dst + ?z) (concat (map enc_Dyn (filter (\<lambda>d. \<not> P d) es))) ?c =
        overwrite dst (enc_Dyn d @ concat (map enc_Dyn (filter (\<lambda>d. \<not> P d) es))) (contents s)"
    proof -
      have "length (filter (\<lambda>d. \<not> P d) es) * ?z \<le> length es * ?z" by simp
      moreover have "off + ?z + length es * ?z \<le> length (contents s)" using t by (simp add: dyn_table_def)
      ultimately have "dst + ?z + length (filter (\<lambda>d. \<not> P d) es) * ?z \<le> length (contents s)"
        using Cons.prems(2) by linarith
      then show ?thesis using overwrite_adjacent [of dst "enc_Dyn d" _ "contents s"] by simp
    qed
    ultimately show ?thesis using step s1 Cons.prems(3) False by (simp add: add.assoc)
  qed
qed

text \<open>The whole removal: the kept entries move up, and zeros fill the rest.\<close>

lemma compact_dynamic_table:
  fixes s :: "'a::len ElfFile" and es :: "'a Elf_Dyn list"
  assumes w: "elf_width TYPE('a)" and tab: "dyn_table (littleEndian s) (contents s) dyn es"
    and goes: "\<And>k u. k < length es \<Longrightarrow> u = s\<lparr>contents := contents u, changed := changed u\<rparr> \<Longrightarrow> fileSize u = fileSize s \<Longrightarrow>
       (\<forall>a m. a + m \<le> dyn \<or> dyn + k * sizeof_Dyn TYPE('a) \<le> a \<longrightarrow> chunk a m (contents u) = chunk a m (contents s)) \<Longrightarrow>
       goes (dyn + k * sizeof_Dyn TYPE('a)) (rdi (littleEndian s) (d_tag (es ! k))) u = Inr (P (es ! k))"
  defines "kept \<equiv> filter (\<lambda>d. \<not> P d) es"
  shows "compact_dynamic goes dyn s =
    Inr (s\<lparr>contents := overwrite dyn (concat (map enc_Dyn kept) @
              replicate ((length es - length kept) * sizeof_Dyn TYPE('a)) 0) (contents s),
            changed := changed s \<or> (\<exists>d \<in> set es. P d)\<rparr>)"
proof -
  let ?z = "sizeof_Dyn TYPE('a)"
  have n: "length kept \<le> length es" by (simp add: kept_def)
  have b: "dyn + length es * ?z \<le> length (contents s)" using tab by (simp add: dyn_table_def)
  have split: "length es * ?z = length kept * ?z + (length es - length kept) * ?z"
    using n by (metis add_mult_distrib le_add_diff_inverse)
  have l: "length (overwrite dyn (concat (map enc_Dyn kept)) (contents s)) = length (contents s)"
    using b split by simp
  have loop: "dyn_for (littleEndian s) (\<lambda>t. t) (\<lambda>p. contents (fst p)) (compact_step goes) dyn (dyn_count TYPE('a) (contents s) dyn) (s, dyn) =
    Inr (dyn + length es * ?z,
         s\<lparr>contents := overwrite dyn (concat (map enc_Dyn kept)) (contents s), changed := changed s \<or> (\<exists>d \<in> set es. P d)\<rparr>,
         dyn + length kept * ?z)"
    unfolding kept_def
    by (rule compact_loop [OF w tab order.refl dyn_count_table [OF w tab]]) (rule goes)
  have diff: "dyn + length es * ?z - (dyn + length kept * ?z) = (length es - length kept) * ?z"
    using split by simp
  have "dyn + length kept * ?z + (length es - length kept) * ?z \<le> length (contents s)"
    using b split by linarith
  then show ?thesis
    using overwrite_adjacent [of dyn "concat (map enc_Dyn kept)" "replicate ((length es - length kept) * ?z) 0" "contents s"]
    by (simp add: compact_dynamic_def loop diff wr_def mem_write_def l flip: diff_mult_distrib)
qed

text \<open>Zeros read as the end of a table.\<close>

lemma bytesw_zeros [simp]: "bytesw (replicate n 0) = (0 :: 'a::len word)"
  by (induction n) simp_all

lemma dyn_table_kept:
  fixes es :: "'a::len Elf_Dyn list"
  assumes w: "elf_width TYPE('a)" and tab: "dyn_table le c dyn es" and sub: "set kept \<subseteq> set es" and n: "length kept \<le> length es"
    and id: "length kept = length es \<Longrightarrow> kept = es"
  shows "dyn_table le (overwrite dyn (concat (map enc_Dyn kept) @
           replicate ((length es - length kept) * sizeof_Dyn TYPE('a)) 0) c) dyn kept"
proof -
  let ?z = "sizeof_Dyn TYPE('a)" and ?w = "wsize TYPE('a)"
  let ?new = "concat (map enc_Dyn kept) @ replicate ((length es - length kept) * ?z) 0 :: bstring"
  have z: "?z = 2 * ?w" by (simp add: sizeof_Dyn_def)
  have split: "length kept * ?z + (length es - length kept) * ?z = length es * ?z"
    using n by (metis add_mult_distrib le_add_diff_inverse)
  have len: "length ?new = length es * ?z" using split by simp
  have b: "dyn + length es * ?z + ?w \<le> length c" using tab by (simp add: dyn_table_def)
  have new: "chunk dyn (length es * ?z) (overwrite dyn ?new c) = ?new"
    using chunk_overwrite_same [of dyn ?new c] b len by simp
  have le: "0 + length kept * ?z \<le> length es * ?z" using n by simp
  have "chunk dyn (length kept * ?z) (overwrite dyn ?new c) = chunk 0 (length kept * ?z) (chunk dyn (length es * ?z) (overwrite dyn ?new c))"
    by (simp only: chunk_chunk [OF le] add_0_right)
  also have "\<dots> = chunk 0 (length kept * ?z) ?new" by (simp only: new)
  finally have "chunk dyn (length kept * ?z) (overwrite dyn ?new c) = chunk 0 (length kept * ?z) ?new" .
  then have entries: "chunk dyn (length kept * ?z) (overwrite dyn ?new c) = concat (map enc_Dyn kept)" by simp
  have "dyn_tag le (overwrite dyn ?new c) (dyn + length kept * ?z) = (0 :: 'a word)"
  proof (cases "length kept = length es")
    case True
    have "chunk (dyn + length es * ?z) ?w (overwrite dyn ?new c) = chunk (dyn + length es * ?z) ?w c"
      by (rule chunk_overwrite_after) (use len b in auto)
    with True tab show ?thesis by (simp add: dyn_tag_def dyn_table_def)
  next
    case False
    then have "?z \<le> (length es - length kept) * ?z" using n by (cases "length es - length kept") auto
    then have le: "length kept * ?z + ?w \<le> length es * ?z" using split z by linarith
    have "chunk (dyn + length kept * ?z) ?w (overwrite dyn ?new c) = chunk (length kept * ?z) ?w ?new"
      using chunk_chunk [OF le, of dyn "overwrite dyn ?new c"] new by simp
    also have "\<dots> = replicate ?w 0"
      using le split by (simp add: chunk_def min_def)
    finally show ?thesis by (simp add: dyn_tag_def)
  qed
  moreover have "dyn + length kept * ?z + ?w \<le> length (overwrite dyn ?new c)"
  proof -
    have "length (overwrite dyn ?new c) = length c" using len b by (intro length_overwrite) linarith
    moreover have "length kept * ?z \<le> length es * ?z" using n by simp
    ultimately show ?thesis using b by linarith
  qed
  ultimately show ?thesis using entries tab sub by (auto simp: dyn_table_def)
qed

text \<open>A string in the file is what its bytes up to the NUL say.\<close>

lemma cstr_at_cong:
  assumes "cstr_at s pos = Inr t" and "chunk pos (length t + 1) (contents u) = chunk pos (length t + 1) (contents s)"
  shows "cstr_at u pos = Inr t"
proof -
  from assms(1) obtain rest where t: "0 \<notin> set t" "drop pos (contents s) = t @ 0 # rest"
    by (auto simp: cstr_at_Inr cstr_Some_iff)
  then have "chunk pos (length t + 1) (contents s) = t @ [0]" by (simp add: chunk_def)
  then have "take (length t + 1) (drop pos (contents u)) = t @ [0]" using assms(2) by (simp add: chunk_def)
  then have "drop pos (contents u) = t @ 0 # drop (length t + 1) (drop pos (contents u))"
    by (metis append.assoc append_Cons append_Nil append_take_drop_id)
  with t(1) show ?thesis unfolding cstr_at_Inr cstr_Some_iff by blast
qed

end
