(* ===== verification/ElfExample.thy ===== *)
theory ElfExample
  imports ElfPlace ElfTable
begin

text \<open>
  Small states for the examples: a library with an interpreter, a string table and a dynamic
  section, in both byte orders, with the facts about them that the examples share.
\<close>

definition ex_elf :: "32 ElfFile" where
  "ex_elf =
     \<lparr>contents =
       [127, 69, 76, 70, 1, 1, 1, 0, 0, 0, 0, 0, 0, 0, 0, 0, 3, 0, 3, 0, 1, 0, 0, 0, 0, 0, 0, 0, 
        52, 0, 0, 0, 96, 0, 0, 0, 0, 0, 0, 0, 52, 0, 32, 0, 1, 0, 40, 0, 4, 0, 1, 0, 47, 108, 0, 
        0, 97, 0, 47, 112, 58, 113, 0, 0, 1, 0, 0, 0, 1, 0, 0, 0, 15, 0, 0, 0, 3, 0, 0, 0, 5, 0, 
        0, 0, 55, 0, 0, 0, 0, 0, 0, 0, 0, 0, 0, 0],
      maxSize = 100000,
      phdrs = [\<lparr>p_type = 1, p_offset = 0, p_vaddr = 0, p_paddr = 0, p_filesz = 96, p_memsz = 96, p_flags = 5, p_align = 4096\<rparr>],
      shdrs =
       [\<lparr>sh_name = 0, sh_type = 0, sh_flags = 0, sh_addr = 0, sh_offset = 0, sh_size = 0, sh_link = 0, sh_info = 0, sh_addralign = 0, sh_entsize = 0\<rparr>,
        \<lparr>sh_name = 1, sh_type = 1, sh_flags = 0, sh_addr = 52, sh_offset = 52, sh_size = 3, sh_link = 0, sh_info = 0, sh_addralign = 0, sh_entsize = 0\<rparr>,
        \<lparr>sh_name = 9, sh_type = 3, sh_flags = 0, sh_addr = 55, sh_offset = 55, sh_size = 8, sh_link = 0, sh_info = 0, sh_addralign = 0, sh_entsize = 0\<rparr>,
        \<lparr>sh_name = 17, sh_type = 6, sh_flags = 0, sh_addr = 64, sh_offset = 64, sh_size = 32, sh_link = 2, sh_info = 0, sh_addralign = 0, sh_entsize = 0\<rparr>],
      littleEndian = True, changed = False, isExecutable = False, replacedSections = [],
      sectionNames =
       [0, 46, 105, 110, 116, 101, 114, 112, 0, 46, 100, 121, 110, 115, 116, 114, 0, 46, 100, 
        121, 110, 97, 109, 105, 99, 0],
      sectionsByOldIndex = [[], str ''.interp'', str ''.dynstr'', str ''.dynamic''],
      pageSize = 4096, forceRPath = False, rpathLibs = [], sonameLibs = [], stdout = []\<rparr>"

definition ex_big :: "32 ElfFile" where
  "ex_big =
     \<lparr>contents =
       [127, 69, 76, 70, 1, 2, 1, 0, 0, 0, 0, 0, 0, 0, 0, 0, 0, 3, 0, 3, 0, 0, 0, 1, 0, 0, 0, 0, 
        0, 0, 0, 52, 0, 0, 0, 96, 0, 0, 0, 0, 0, 52, 0, 32, 0, 1, 0, 40, 0, 4, 0, 1, 47, 108, 0, 
        0, 97, 0, 47, 112, 58, 113, 0, 0, 0, 0, 0, 1, 0, 0, 0, 1, 0, 0, 0, 15, 0, 0, 0, 3, 0, 0, 
        0, 5, 0, 0, 0, 55, 0, 0, 0, 0, 0, 0, 0, 0],
      maxSize = 100000,
      phdrs = [\<lparr>p_type = 16777216, p_offset = 0, p_vaddr = 0, p_paddr = 0, p_filesz = 1610612736, p_memsz = 1610612736, p_flags = 83886080, p_align = 1048576\<rparr>],
      shdrs =
       [\<lparr>sh_name = 0, sh_type = 0, sh_flags = 0, sh_addr = 0, sh_offset = 0, sh_size = 0, sh_link = 0, sh_info = 0, sh_addralign = 0, sh_entsize = 0\<rparr>,
        \<lparr>sh_name = 16777216, sh_type = 16777216, sh_flags = 0, sh_addr = 872415232, sh_offset = 872415232, sh_size = 50331648, sh_link = 0, sh_info = 0, sh_addralign = 0, sh_entsize = 0\<rparr>,
        \<lparr>sh_name = 150994944, sh_type = 50331648, sh_flags = 0, sh_addr = 922746880, sh_offset = 922746880, sh_size = 134217728, sh_link = 0, sh_info = 0, sh_addralign = 0, sh_entsize = 0\<rparr>,
        \<lparr>sh_name = 285212672, sh_type = 100663296, sh_flags = 0, sh_addr = 1073741824, sh_offset = 1073741824, sh_size = 536870912, sh_link = 33554432, sh_info = 0, sh_addralign = 0, sh_entsize = 0\<rparr>],
      littleEndian = False, changed = False, isExecutable = False, replacedSections = [],
      sectionNames =
       [0, 46, 105, 110, 116, 101, 114, 112, 0, 46, 100, 121, 110, 115, 116, 114, 0, 46, 100, 
        121, 110, 97, 109, 105, 99, 0],
      sectionsByOldIndex = [[], str ''.interp'', str ''.dynstr'', str ''.dynamic''],
      pageSize = 4096, forceRPath = False, rpathLibs = [], sonameLibs = [], stdout = []\<rparr>"

text \<open>The entries of the dynamic section: a needed library, a search path, the string table.\<close>

definition ex_dyns :: "32 Elf_Dyn list" where
  "ex_dyns = [\<lparr>d_tag = 1, d_un = 1\<rparr>, \<lparr>d_tag = 15, d_un = 3\<rparr>, \<lparr>d_tag = 5, d_un = 55\<rparr>]"

definition ex_replaced :: "32 ElfFile" where
  "ex_replaced = ex_elf\<lparr>contents := contents ex_elf @ replicate 16 0,
     replacedSections := [(str ''.interp'', [47, 120, 121, 122, 0])]\<rparr>"

lemma not_isl: "\<not> isl m \<Longrightarrow> \<exists>x. m = Inr x"
  by (cases m) auto

lemma ex_finds:
  "findSection ex_elf (str ''.interp'') = Inr 1" "findSection ex_elf (str ''.dynstr'') = Inr 2"
  "findSection ex_elf (str ''.dynamic'') = Inr 3" "findSection ex_replaced (str ''.interp'') = Inr 1"
  by code_simp+

lemma ex_table: "dyn_table True (contents ex_elf) 64 ex_dyns"
  by code_simp

text \<open>The smallest file the program accepts: one program header and a table of section names.\<close>

definition ex_file :: bstring where
  "ex_file =
    [127, 69, 76, 70, 1, 1, 1, 0, 0, 0, 0, 0, 0, 0, 0, 0, 3, 0, 3, 0, 1, 0, 0, 0, 0, 0, 0, 0, 52, 
     0, 0, 0, 88, 0, 0, 0, 0, 0, 0, 0, 52, 0, 32, 0, 1, 0, 40, 0, 2, 0, 1, 0, 1, 0, 0, 0, 0, 0, 0, 
     0, 0, 0, 0, 0, 0, 0, 0, 0, 168, 0, 0, 0, 168, 0, 0, 0, 4, 0, 0, 0, 0, 16, 0, 0, 0, 46, 115, 0, 
     0, 0, 0, 0, 0, 0, 0, 0, 0, 0, 0, 0, 0, 0, 0, 0, 0, 0, 0, 0, 0, 0, 0, 0, 0, 0, 0, 0, 0, 0, 0, 
     0, 0, 0, 0, 0, 0, 0, 0, 0, 1, 0, 0, 0, 3, 0, 0, 0, 0, 0, 0, 0, 0, 0, 0, 0, 84, 0, 0, 0, 4, 0, 
     0, 0, 0, 0, 0, 0, 0, 0, 0, 0, 1, 0, 0, 0, 0, 0, 0, 0]"

lemma ex_file_parses: "\<not> isl (parse (readFile 4096 False ex_file :: 32 ElfFile))"
  by code_simp

end
