(* ===== verification/ElfPlaceProps.thy ===== *)
theory ElfPlaceProps
  imports ElfExample
begin

text \<open>
  The properties of the placement of replaced sections and of the removal of needed libraries,
  each with a witness on the example library.
\<close>

section \<open>Placing sections\<close>

text \<open>The state after both loops, against the state before them.\<close>

lemma placed_sections:
  fixes s :: "'a::len ElfFile"
  assumes w: "elf_width TYPE('a)"
    and run: "writeReplacedSections curOff startAddr startOffset s = Inr (s', curOff')"
    and keys: "map_inv (replacedSections s)"
    and header: "sizeof_Ehdr TYPE('a) \<le> unat curOff" "\<forall>(nm, t) \<in> set (replacedSections s). header_safe s nm"
    and room: "unat curOff + sections_space s < 2 ^ LENGTH('a)" "\<forall>(nm, t) \<in> set (replacedSections s). length t + 8 \<le> 2 ^ 32"
  obtains v where "s' = v\<lparr>replacedSections := []\<rparr>" and "unat curOff' = unat curOff + sections_space s"
    and "v = s\<lparr>contents := contents v, shdrs := shdrs v, phdrs := phdrs v\<rparr>" and "fileSize v = fileSize s" and "hdr v = hdr s"
    and "\<forall>(nm, t) \<in> set (replacedSections s). \<exists>i off. findSection v nm = Inr i \<and> unat curOff \<le> off \<and> off + length t \<le> unat curOff' \<and>
       section_at v i off t \<and> rdi (littleEndian v) (sh_addr (shdrs v ! i)) = startAddr + (of_nat off - startOffset) \<and>
       moved_header s (shdrs s ! i) (shdrs v ! i)"
    and "\<forall>a n. (a + n \<le> unat curOff \<or> unat curOff' \<le> a) \<and> (\<forall>(nm, t) \<in> set (replacedSections s). outside s a n nm) \<longrightarrow>
       chunk a n (contents v) = chunk a n (contents s)"
    and "\<forall>j. (\<forall>nm \<in> fst ` set (replacedSections s). findSection s nm \<noteq> Inr j) \<longrightarrow> shdrs v ! j = shdrs s ! j"
    and "phdrs v = map (following v (fst ` set (replacedSections s))) (phdrs s)"
proof -
  let ?rs = "replacedSections s"
  from run obtain u v where e: "efold erase_section s ?rs = Inr u"
    and p: "efold (place_section startAddr startOffset) (u, curOff) (replacedSections u) = Inr (v, curOff')"
    and s': "s' = v\<lparr>replacedSections := []\<rparr>"
    by (auto simp: writeReplacedSections_def ebind_simps)
  note er = erase_fold [OF e header(2)]
  have us: "u = s\<lparr>contents := contents u\<rparr>" using er by blast
  have same: "replacedSections u = ?rs" "shdrs u = shdrs s" "phdrs u = phdrs s" "littleEndian u = littleEndian s"
    using us by (cases u, cases s, simp)+
  have viewu: "name_view u = name_view s"
    using er by (cases u, cases s) (simp add: name_view_def shnum_def rdn_def)
  have d: "distinct (map fst ?rs)" by (rule std_map.keys_distinct [OF keys])
  have hi: "unat curOff + space TYPE('a) ?rs < 2 ^ LENGTH('a)" using room(1) by (simp add: sections_space_eq)
  have r: "unat curOff' = unat curOff + space TYPE('a) ?rs" "fileSize v = fileSize u" "hdr v = hdr u" "name_view v = name_view u"
    "\<forall>a n. a + n \<le> unat curOff \<or> unat curOff' \<le> a \<longrightarrow> chunk a n (contents v) = chunk a n (contents u)"
    "\<forall>(nm, t) \<in> set ?rs. \<exists>i off. findSection v nm = Inr i \<and> unat curOff \<le> off \<and> off + length t \<le> unat curOff' \<and>
       section_at v i off t \<and> rdi (littleEndian v) (sh_addr (shdrs v ! i)) = startAddr + (of_nat off - startOffset)"
    using place_fold [OF w p [unfolded same(1)] header(1) hi room(2) d] by blast+
  have vu: "v = u\<lparr>contents := contents v, shdrs := shdrs v, phdrs := phdrs v\<rparr>"
    and ph: "phdrs v = map (following v (fst ` set ?rs)) (phdrs s)"
    using place_phdrs [OF w p [unfolded same(1)] header(1) hi room(2) d] by (blast, simp add: same)
  have moved: "moved_header s (shdrs s ! i) (shdrs v ! i)" if "nm \<in> fst ` set ?rs" "findSection v nm = Inr i" for nm i
  proof -
    have "\<forall>nm \<in> fst ` set ?rs. \<forall>i. findSection u nm = Inr i \<longrightarrow> moved_header u (shdrs u ! i) (shdrs v ! i)"
      using place_phdrs [OF w p [unfolded same(1)] header(1) hi room(2) d] by blast
    moreover have "findSection u nm = Inr i" using that(2) findSection_view(3) [OF r(4)] by simp
    ultimately have "moved_header u (shdrs u ! i) (shdrs v ! i)" using that(1) by blast
    then show ?thesis by (simp only: moved_header_def same sectionAlignment_def)
  qed
  have other: "shdrs v ! j = shdrs s ! j" if "\<forall>nm \<in> fst ` set ?rs. findSection s nm \<noteq> Inr j" for j
  proof -
    have "\<forall>j. (\<forall>nm \<in> fst ` set ?rs. findSection u nm \<noteq> Inr j) \<longrightarrow> shdrs v ! j = shdrs u ! j"
      using place_fold [OF w p [unfolded same(1)] header(1) hi room(2) d] by blast
    with that show ?thesis by (simp add: findSection_view(3) [OF viewu] same(2))
  qed
  have frame: "chunk a n (contents v) = chunk a n (contents s)"
    if "(a + n \<le> unat curOff \<or> unat curOff' \<le> a) \<and> (\<forall>(nm, t) \<in> set ?rs. outside s a n nm)" for a n
    using r(5) that erase_frame [OF e header(2), of a n] by auto
  show ?thesis
  proof (rule that [OF s' _ _ _ _ _ _ _ ph])
    show "\<forall>(nm, t) \<in> set ?rs. \<exists>i off. findSection v nm = Inr i \<and> unat curOff \<le> off \<and> off + length t \<le> unat curOff' \<and>
       section_at v i off t \<and> rdi (littleEndian v) (sh_addr (shdrs v ! i)) = startAddr + (of_nat off - startOffset) \<and>
       moved_header s (shdrs s ! i) (shdrs v ! i)"
      using r(6) moved by fastforce
    show "unat curOff' = unat curOff + sections_space s" by (simp only: r(1) sections_space_eq)
    show "v = s\<lparr>contents := contents v, shdrs := shdrs v, phdrs := phdrs v\<rparr>"
      using us vu by (cases v, cases u, cases s) simp
  qed (use r er frame other in \<open>simp_all\<close>)
qed

text \<open>
  Property C7. \<open>writeReplacedSections\<close> puts every replaced section into the area that begins at
  \<open>curOff\<close>, and its header then says where it is, how long it is and at
  which address, and changes in nothing else but the alignment; the area is exactly as long as \<open>neededSpace\<close> counted, which is what the assertions
  of the callers test; the bytes outside the area and outside the old contents are unchanged, and so are the
  headers of the other sections. The program headers that describe a replaced section, those of type \<open>PT_INTERP\<close>
  for \<open>.interp\<close> and of type \<open>PT_DYNAMIC\<close> for \<open>.dynamic\<close>, take the place, the address and the size
  from the new header of the section; every other program header is unchanged.
\<close>

theorem writeReplacedSections_correct:
  fixes s :: "'a::len ElfFile"
  assumes w: "elf_width TYPE('a)"
    and run: "writeReplacedSections curOff startAddr startOffset s = Inr (s', curOff')"
    and keys: "map_inv (replacedSections s)"
    and header: "sizeof_Ehdr TYPE('a) \<le> unat curOff" "\<forall>(nm, t) \<in> set (replacedSections s). header_safe s nm"
    and room: "unat curOff + sections_space s < 2 ^ LENGTH('a)" "\<forall>(nm, t) \<in> set (replacedSections s). length t + 8 \<le> 2 ^ 32"
  shows "replacedSections s' = [] \<and> unat curOff' = unat curOff + sections_space s \<and>
    fileSize s' = fileSize s \<and> hdr s' = hdr s \<and>
    (\<forall>(nm, t) \<in> set (replacedSections s). \<exists>i off. findSection s' nm = Inr i \<and>
       unat curOff \<le> off \<and> off + length t \<le> unat curOff' \<and> section_at s' i off t \<and>
       rdi (littleEndian s') (sh_addr (shdrs s' ! i)) = startAddr + (of_nat off - startOffset) \<and>
       moved_header s (shdrs s ! i) (shdrs s' ! i)) \<and>
    (\<forall>a n. (a + n \<le> unat curOff \<or> unat curOff' \<le> a) \<and> (\<forall>(nm, t) \<in> set (replacedSections s). outside s a n nm) \<longrightarrow>
       chunk a n (contents s') = chunk a n (contents s)) \<and>
    (\<forall>j. (\<forall>nm \<in> fst ` set (replacedSections s). findSection s nm \<noteq> Inr j) \<longrightarrow> shdrs s' ! j = shdrs s ! j) \<and>
    s' = s\<lparr>contents := contents s', shdrs := shdrs s', phdrs := phdrs s', replacedSections := []\<rparr> \<and>
    length (phdrs s') = length (phdrs s) \<and>
    (\<forall>k < length (phdrs s). case segment_section (rdi (littleEndian s) (p_type (phdrs s ! k))) of
       None \<Rightarrow> phdrs s' ! k = phdrs s ! k
     | Some nm \<Rightarrow> if nm \<in> fst ` set (replacedSections s)
         then \<exists>i. findSection s' nm = Inr i \<and> phdrs s' ! k = covering (shdrs s' ! i) (phdrs s ! k)
         else phdrs s' ! k = phdrs s ! k)"
proof -
  let ?rs = "replacedSections s"
  obtain v where s': "s' = v\<lparr>replacedSections := []\<rparr>" and space: "unat curOff' = unat curOff + sections_space s"
    and vs: "v = s\<lparr>contents := contents v, shdrs := shdrs v, phdrs := phdrs v\<rparr>" and same: "fileSize v = fileSize s" "hdr v = hdr s"
    and sections: "\<forall>(nm, t) \<in> set (replacedSections s). \<exists>i off. findSection v nm = Inr i \<and> unat curOff \<le> off \<and> off + length t \<le> unat curOff' \<and>
       section_at v i off t \<and> rdi (littleEndian v) (sh_addr (shdrs v ! i)) = startAddr + (of_nat off - startOffset) \<and>
       moved_header s (shdrs s ! i) (shdrs v ! i)"
    and frame: "\<forall>a n. (a + n \<le> unat curOff \<or> unat curOff' \<le> a) \<and> (\<forall>(nm, t) \<in> set (replacedSections s). outside s a n nm) \<longrightarrow>
       chunk a n (contents v) = chunk a n (contents s)"
    and other: "\<forall>j. (\<forall>nm \<in> fst ` set (replacedSections s). findSection s nm \<noteq> Inr j) \<longrightarrow> shdrs v ! j = shdrs s ! j"
    and ph: "phdrs v = map (following v (fst ` set (replacedSections s))) (phdrs s)"
    by (rule placed_sections [OF assms])
  have lev: "littleEndian v = littleEndian s" by (subst vs) simp
  have found: "\<exists>i. findSection v nm = Inr i" if "nm \<in> fst ` set ?rs" for nm using sections that by fastforce
  have view: "name_view s' = name_view v" by (simp add: s' name_view_def shnum_def rdn_def)
  have sec: "section_at s' = section_at v" "littleEndian s' = littleEndian v" "shdrs s' = shdrs v"
    by (auto simp: s' section_at_def rdn_def fun_eq_iff)
  have find: "findSection s' nm = findSection v nm" for nm by (rule findSection_view(3) [OF view])
  show ?thesis unfolding sec find
  proof (intro conjI allI impI)
    show "s' = s\<lparr>contents := contents s', shdrs := shdrs v, phdrs := phdrs s', replacedSections := []\<rparr>"
      using vs by (cases v, cases s) (simp add: s')
    show "replacedSections s' = []" "fileSize s' = fileSize s" "hdr s' = hdr s" by (simp_all add: s' same)
    show "chunk a n (contents s') = chunk a n (contents s)"
      if "(a + n \<le> unat curOff \<or> unat curOff' \<le> a) \<and> (\<forall>(nm, t) \<in> set ?rs. outside s a n nm)" for a n
      using frame that by (simp add: s')
    show "shdrs v ! j = shdrs s ! j" if "\<forall>nm \<in> fst ` set ?rs. findSection s nm \<noteq> Inr j" for j using other that by blast
    show "length (phdrs s') = length (phdrs s)" by (simp add: s' ph)
    fix k
    assume k: "k < length (phdrs s)"
    have "phdrs s' ! k = following v (fst ` set ?rs) (phdrs s ! k)" using k by (simp add: s' ph)
    then show "case segment_section (rdi (littleEndian s) (p_type (phdrs s ! k))) of
       None \<Rightarrow> phdrs s' ! k = phdrs s ! k
     | Some nm \<Rightarrow> if nm \<in> fst ` set ?rs
         then \<exists>i. findSection v nm = Inr i \<and> phdrs s' ! k = covering (shdrs v ! i) (phdrs s ! k)
         else phdrs s' ! k = phdrs s ! k"
      using found by (fastforce simp: following_def lev split: option.splits)
  qed (rule space sections)+
qed

definition ex_segments :: "32 ElfFile" where
  "ex_segments = ex_replaced\<lparr>phdrs := phdrs ex_replaced @ [(phdrs ex_replaced ! 0)\<lparr>p_type := PT_INTERP\<rparr>]\<rparr>"

theorem writeReplacedSections_witness:
  "\<exists>s' c i off. writeReplacedSections 96 0x1000 96 ex_segments = Inr (s', c) \<and> unat c = 104 \<and>
     findSection s' (str ''.interp'') = Inr i \<and> 96 \<le> off \<and> off + 5 \<le> unat c \<and>
     section_at s' i off [47, 120, 121, 122, 0] \<and> phdrs s' ! 0 = phdrs ex_elf ! 0 \<and>
     p_filesz (phdrs s' ! 1) = sh_size (shdrs s' ! i) \<and> p_offset (phdrs s' ! 1) = sh_offset (shdrs s' ! i)"
proof -
  let ?nm = "str ''.interp''" and ?t = "[47, 120, 121, 122, 0 :: byte]"
  have "\<not> isl (writeReplacedSections 96 0x1000 96 ex_segments)" by code_simp
  then obtain s' c where run: "writeReplacedSections 96 0x1000 96 ex_segments = Inr (s', c)"
    by (metis not_isl surj_pair)
  have rs: "replacedSections ex_segments = [(?nm, ?t)]" by code_simp
  have facts: "sections_space ex_segments = 8" "rdn ex_segments (sh_offset (shdrs ex_segments ! 1)) = 52"
    "findSection ex_segments ?nm = Inr 1" "phdrs ex_segments ! 0 = phdrs ex_elf ! 0" "length (phdrs ex_segments) = 2"
    "segment_section (rdi (littleEndian ex_segments) (p_type (phdrs ex_segments ! 0))) = None"
    "segment_section (rdi (littleEndian ex_segments) (p_type (phdrs ex_segments ! 1))) = Some ?nm"
    by code_simp+
  have safe: "\<forall>(nm, t) \<in> set (replacedSections ex_segments). header_safe ex_segments nm"
    using facts(2,3) by (simp add: rs header_safe_def sizeof_Ehdr_def)
  have prems: "elf_width TYPE(32)" "map_inv (replacedSections ex_segments)" "sizeof_Ehdr TYPE(32) \<le> unat (96 :: 32 word)"
    "unat (96 :: 32 word) + sections_space ex_segments < 2 ^ LENGTH(32)"
    "\<forall>(nm, t) \<in> set (replacedSections ex_segments). length t + 8 \<le> 2 ^ 32"
    by (simp_all add: facts rs map_inv_def sizeof_Ehdr_def)
  note wr = writeReplacedSections_correct [OF prems(1) run prems(2,3) safe prems(4,5)]
  have "(?nm, ?t) \<in> set (replacedSections ex_segments)" unfolding rs by simp
  with wr obtain i off where sec: "findSection s' ?nm = Inr i" "unat (96 :: 32 word) \<le> off" "off + length ?t \<le> unat c"
      "section_at s' i off ?t"
    by blast
  have names: "fst ` set (replacedSections ex_segments) = {?nm}" unfolding rs by simp
  have headers: "\<forall>k < 2. case segment_section (rdi (littleEndian ex_segments) (p_type (phdrs ex_segments ! k))) of
       None \<Rightarrow> phdrs s' ! k = phdrs ex_segments ! k
     | Some nm \<Rightarrow> if nm \<in> {?nm}
         then \<exists>i. findSection s' nm = Inr i \<and> phdrs s' ! k = covering (shdrs s' ! i) (phdrs ex_segments ! k)
         else phdrs s' ! k = phdrs ex_segments ! k"
    using wr by (elim conjE) (simp only: names facts(5))
  from headers [rule_format, of 0] facts(4,6) have "phdrs s' ! 0 = phdrs ex_elf ! 0" by simp
  moreover from headers [rule_format, of 1] facts(7) sec(1)
  have "phdrs s' ! 1 = covering (shdrs s' ! i) (phdrs ex_segments ! 1)" by (simp del: str_simps)
  moreover have "unat c = 104" using wr facts(1) by simp
  ultimately show ?thesis using run sec
    by (intro exI [of _ s'] exI [of _ c] exI [of _ i] exI [of _ off]) (simp add: covering_def del: str_simps)
qed

section \<open>Removing entries\<close>

text \<open>
  Property C11. Removing libraries from the needed ones, \<open>removeNeeded\<close>, leaves in the dynamic section exactly the other
  entries, in their order, with zeros after them; nothing else in the file changes, and the file is
  marked as changed exactly if an entry was removed. The names are the strings the entries refer to,
  which must not lie inside the section.
\<close>

theorem removeNeeded_filters:
  fixes s :: "'a::len ElfFile" and es :: "'a Elf_Dyn list"
  assumes w: "elf_width TYPE('a)" and libs: "libs \<noteq> []"
    and dyn: "dynamic_hdr s = Inr dynsh" "dyn = rdn s (sh_offset dynsh)" "dyn_table (littleEndian s) (contents s) dyn es"
    and str: "dynstr_hdr s = Inr strsh"
    and names: "\<And>d. d \<in> set es \<Longrightarrow> rdi (littleEndian s) (d_tag d) = DT_NEEDED \<Longrightarrow>
       cstr_at s (rdn s (sh_offset strsh) + rdn s (d_un d)) = Inr (nm d) \<and>
       (rdn s (sh_offset strsh) + rdn s (d_un d) + length (nm d) < dyn \<or>
        dyn + length es * sizeof_Dyn TYPE('a) \<le> rdn s (sh_offset strsh) + rdn s (d_un d))"
  defines "kept \<equiv> filter (\<lambda>d. \<not> (rdi (littleEndian s) (d_tag d) = DT_NEEDED \<and> nm d \<in> set libs)) es"
  shows "\<exists>s'. removeNeeded libs s = Inr s' \<and> dyn_table (littleEndian s) (contents s') dyn kept \<and>
    s' = s\<lparr>contents := overwrite dyn (concat (map enc_Dyn kept) @
             replicate ((length es - length kept) * sizeof_Dyn TYPE('a)) 0) (contents s),
           changed := changed s \<or> kept \<noteq> es\<rparr>"
proof -
  let ?P = "\<lambda>d. rdi (littleEndian s) (d_tag d) = DT_NEEDED \<and> nm d \<in> set libs" and ?z = "sizeof_Dyn TYPE('a)"
  have goes: "needed_in libs (rdn s (sh_offset strsh)) (dyn + k * ?z) (rdi (littleEndian s) (d_tag (es ! k))) u = Inr (?P (es ! k))"
    if k: "k < length es" and u: "u = s\<lparr>contents := contents u, changed := changed u\<rparr>" "fileSize u = fileSize s"
      "\<forall>a m. a + m \<le> dyn \<or> dyn + k * ?z \<le> a \<longrightarrow> chunk a m (contents u) = chunk a m (contents s)" for k u
  proof (cases "rdi (littleEndian s) (d_tag (es ! k)) = DT_NEEDED")
    case True
    let ?d = "es ! k"
    let ?pos = "rdn s (sh_offset strsh) + rdn s (d_un ?d)"
    have nm: "cstr_at s ?pos = Inr (nm ?d)" "?pos + length (nm ?d) < dyn \<or> dyn + length es * ?z \<le> ?pos"
      using names [OF nth_mem [OF k] True] by simp_all
    have "k * ?z \<le> length es * ?z" using k by simp
    with nm(2) have "?pos + (length (nm ?d) + 1) \<le> dyn \<or> dyn + k * ?z \<le> ?pos" by linarith
    with u(3) have "chunk ?pos (length (nm ?d) + 1) (contents u) = chunk ?pos (length (nm ?d) + 1) (contents s)" by blast
    with nm(1) have str: "cstr_at u ?pos = Inr (nm ?d)" by (rule cstr_at_cong)
    have "chunk (dyn + k * ?z) ?z (contents u) = enc_Dyn ?d"
      using u(3) dyn_table_nth(1) [OF dyn(3) k] by simp
    then have un: "d_un_at u (dyn + k * ?z) = Inr (d_un ?d)"
      using dyn_table_nth(2) [OF dyn(3) k] u(2) by (intro d_un_entry [OF w]) (simp_all add: fileSize_def)
    have le: "littleEndian u = littleEndian s" using u(1) by (metis ElfFile.select_convs(5) ElfFile.surjective ElfFile.update_convs(1,6))
    show ?thesis using True by (simp add: needed_in_def dyn_str_def dyn_str_pos_def un str rdn_cong [OF le])
  next
    case False
    then show ?thesis by (simp add: needed_in_def)
  qed
  have run: "compact_dynamic (needed_in libs (rdn s (sh_offset strsh))) dyn s =
      Inr (s\<lparr>contents := overwrite dyn (concat (map enc_Dyn kept) @ replicate ((length es - length kept) * ?z) 0) (contents s),
             changed := changed s \<or> (\<exists>d \<in> set es. ?P d)\<rparr>)"
    unfolding kept_def by (rule compact_dynamic_table [OF w dyn(3)]) (rule goes)
  have changed: "(\<exists>d \<in> set es. ?P d) \<longleftrightarrow> kept \<noteq> es" by (auto simp: kept_def filter_id_conv)
  have "length kept = length es \<Longrightarrow> kept = es"
    by (simp add: kept_def) (metis (no_types, lifting) filter_True length_filter_less order_less_irrefl)
  then have "dyn_table (littleEndian s) (overwrite dyn (concat (map enc_Dyn kept) @ replicate ((length es - length kept) * ?z) 0) (contents s)) dyn kept"
    by (intro dyn_table_kept [OF w dyn(3)]) (auto simp: kept_def)
  then show ?thesis using run libs dyn(1,2) str changed by (simp add: removeNeeded_def)
qed

theorem removeNeeded_witness:
  "\<exists>s'. removeNeeded [[97]] ex_elf = Inr s' \<and> changed s' \<and> dyn_table True (contents s') 64 (tl ex_dyns)"
proof -
  let ?nm = "\<lambda>d :: 32 Elf_Dyn. [97 :: byte]"
  have le: "littleEndian ex_elf" and c: "\<not> changed ex_elf" by (simp_all add: ex_elf_def)
  have dyn: "dynamic_hdr ex_elf = Inr (shdrs ex_elf ! 3)" "64 = rdn ex_elf (sh_offset (shdrs ex_elf ! 3))"
    and str: "dynstr_hdr ex_elf = Inr (shdrs ex_elf ! 2)"
    by code_simp+
  have off: "rdn ex_elf (sh_offset (shdrs ex_elf ! 2)) = 55" and one: "rdn ex_elf (1 :: 32 word) = 1"
    and nm: "cstr_at ex_elf 56 = Inr [97]" by code_simp+
  have "\<exists>s'. removeNeeded [[97]] ex_elf = Inr s' \<and>
      dyn_table (littleEndian ex_elf) (contents s') 64
        (filter (\<lambda>d. \<not> (rdi (littleEndian ex_elf) (d_tag d) = DT_NEEDED \<and> ?nm d \<in> set [[97]])) ex_dyns) \<and>
      s' = ex_elf\<lparr>contents := contents s', changed := changed ex_elf \<or>
        filter (\<lambda>d. \<not> (rdi (littleEndian ex_elf) (d_tag d) = DT_NEEDED \<and> ?nm d \<in> set [[97]])) ex_dyns \<noteq> ex_dyns\<rparr>"
    using removeNeeded_filters [OF _ _ dyn(1,2) _ str, of "[[97]]" ex_dyns ?nm] ex_table
    by (force simp: le off one nm ex_dyns_def)
  then obtain s' where s': "removeNeeded [[97]] ex_elf = Inr s'" "dyn_table True (contents s') 64 (tl ex_dyns)"
    "s' = ex_elf\<lparr>contents := contents s', changed := True\<rparr>"
    by (auto simp: le c ex_dyns_def)
  from arg_cong [OF s'(3), of changed] have "changed s'" by simp
  with s'(1,2) show ?thesis by blast
qed

end
