(* ===== verification/ElfOps.thy ===== *)
theory ElfOps
  imports ElfFacts
begin

text \<open>
  What every operation of \<open>patchelf\<close> keeps before the sections are rewritten: the size of the
  file, the header tables and the parse results (\<open>keeps\<close>), and that a modification is always
  flagged (\<open>quiet\<close>: without the flag the contents and the replaced sections are as before).
\<close>

definition keeps :: "'a::len ElfFile \<Rightarrow> 'a ElfFile \<Rightarrow> bool" where
  "keeps s s' \<longleftrightarrow>
     fileSize s' = fileSize s \<and> phdrs s' = phdrs s \<and> shdrs s' = shdrs s \<and>
     littleEndian s' = littleEndian s \<and> isExecutable s' = isExecutable s \<and>
     sectionNames s' = sectionNames s \<and> sectionsByOldIndex s' = sectionsByOldIndex s \<and>
     pageSize s' = pageSize s \<and> maxSize s' = maxSize s \<and> forceRPath s' = forceRPath s \<and>
     (changed s \<longrightarrow> changed s') \<and> (map_inv (replacedSections s) \<longrightarrow> map_inv (replacedSections s'))"

definition quiet :: "'a::len ElfFile \<Rightarrow> 'a ElfFile \<Rightarrow> bool" where
  "quiet s s' \<longleftrightarrow> changed s' \<or> (contents s' = contents s \<and> replacedSections s' = replacedSections s)"

lemma keeps_refl [simp]: "keeps s s"
  by (simp add: keeps_def)

lemma keeps_trans: "keeps s t \<Longrightarrow> keeps t u \<Longrightarrow> keeps s u"
  by (simp add: keeps_def)

lemma quiet_refl [simp]: "quiet s s"
  by (simp add: quiet_def)

lemma quiet_trans: "quiet s t \<Longrightarrow> quiet t u \<Longrightarrow> keeps t u \<Longrightarrow> quiet s u"
  by (auto simp: quiet_def keeps_def)

lemma keeps_update [simp]:
  "keeps s t \<Longrightarrow> keeps s (t\<lparr>stdout := a\<rparr>)" "keeps s t \<Longrightarrow> keeps s (t\<lparr>rpathLibs := b\<rparr>)"
  "keeps s t \<Longrightarrow> keeps s (t\<lparr>sonameLibs := b\<rparr>)"
  by (simp_all add: keeps_def)

lemma keeps_changed: "keeps s t \<Longrightarrow> keeps s (t\<lparr>changed := True\<rparr>)"
  by (simp add: keeps_def fileSize_def)

lemma keeps_wr: "wr s off bs = Inr s' \<Longrightarrow> keeps s s'"
  by (auto simp: wr_Inr keeps_def fileSize_def)

lemma keeps_set_d_un: "set_d_un off w s = Inr s' \<Longrightarrow> keeps s s'"
  by (simp add: set_d_un_def keeps_wr)

lemma keeps_replaceSection: "replaceSection nm sz s = Inr s' \<Longrightarrow> keeps s s'"
  by (auto simp: replaceSection_def ebind_simps keeps_def fileSize_def map_inv_put)

lemma keeps_set_replaced: "set_replaced nm pos u s = Inr s' \<Longrightarrow> keeps s s'"
  by (auto simp: set_replaced_def ebind_simps keeps_def fileSize_def map_inv_put)

lemma keeps_print_line: "keeps s t \<Longrightarrow> keeps s (print_line x t)"
  by (simp add: print_line_def)

lemma keeps_grow_dynamic: "grow_dynamic k sh s = Inr s' \<Longrightarrow> keeps s s'"
  unfolding grow_dynamic_def
  by (auto simp: ebind_simps Let_def dest!: keeps_replaceSection keeps_set_replaced intro: keeps_trans)

lemma keeps_add_dyn: "add_dyn d sh s = Inr s' \<Longrightarrow> keeps s s'"
  unfolding add_dyn_def
  by (auto simp: ebind_simps dest!: keeps_grow_dynamic keeps_set_replaced intro: keeps_trans)

lemma keeps_add_string: "add_string t sh s = Inr s' \<Longrightarrow> keeps s s'"
  unfolding add_string_def
  by (auto simp: ebind_simps dest!: keeps_replaceSection keeps_set_replaced intro: keeps_trans)

lemma keeps_ebind:
  assumes "ebind m f = Inr s'" and "\<And>t. m = Inr t \<Longrightarrow> keeps s t" and "\<And>t. m = Inr t \<Longrightarrow> f t = Inr s' \<Longrightarrow> keeps t s'"
  shows "keeps s s'"
  using assms by (cases m) (auto intro: keeps_trans)

lemma keeps_efold:
  assumes "efold f s xs = Inr s'" and "\<And>t x t'. x \<in> set xs \<Longrightarrow> f t x = Inr t' \<Longrightarrow> keeps (g t) (g t')"
  shows "keeps (g s) (g s')"
  by (rule efold_inv [OF assms(1)]) (auto intro: keeps_trans assms(2))

text \<open>The invariant rule of the loops over dynamic entries.\<close>

lemma dyn_for_inv:
  fixes conv :: "'a::len word \<Rightarrow> 'a word"
  assumes "dyn_for le conv img body off n st = Inr (off', st')" and "P off st"
    and "\<And>off tag st st'. P off st \<Longrightarrow> body off tag st = Inr st' \<Longrightarrow> P (off + sizeof_Dyn TYPE('a)) st'"
  shows "P off' st'"
  using assms(1,2)
proof (induction n arbitrary: off st)
  case (Suc n)
  show ?case
  proof (cases "conv (dyn_tag le (img st) off) = 0")
    case True
    with Suc.prems show ?thesis by simp
  next
    case False
    with Suc.prems obtain t where t: "body off (conv (dyn_tag le (img st) off)) st = Inr t"
      "dyn_for le conv img body (off + sizeof_Dyn TYPE('a)) n t = Inr (off', st')"
      by (auto simp: Let_def ebind_simps)
    from t(1) Suc.prems(2) have "P (off + sizeof_Dyn TYPE('a)) t" by (rule assms(3) [rotated])
    with t(2) show ?thesis by (rule Suc.IH)
  qed
qed simp

section \<open>The operations\<close>

lemma setInterpreter_keeps: "setInterpreter p s = Inr s' \<Longrightarrow> keeps s s' \<and> quiet s s'"
  unfolding setInterpreter_def
  by (auto simp: ebind_simps quiet_def dest!: keeps_replaceSection keeps_set_replaced intro!: keeps_changed intro: keeps_trans)

lemma print_interp_keeps: "print_interp s = Inr s' \<Longrightarrow> keeps s s' \<and> quiet s s'"
  by (auto simp: print_interp_def ebind_simps keeps_print_line quiet_def print_line_def)

lemma keeps_soname_libs: "keeps (s\<lparr>sonameLibs := libs\<rparr>) t \<Longrightarrow> keeps s t"
  and quiet_soname_libs: "quiet (s\<lparr>sonameLibs := libs\<rparr>) t \<Longrightarrow> quiet s t"
  by (simp_all add: keeps_def quiet_def fileSize_def)

lemma keeps_rpath_libs: "keeps (s\<lparr>rpathLibs := libs\<rparr>) t \<Longrightarrow> keeps s t"
  and quiet_rpath_libs: "quiet (s\<lparr>rpathLibs := libs\<rparr>) t \<Longrightarrow> quiet s t"
  by (simp_all add: keeps_def quiet_def fileSize_def)

lemma set_soname_keeps:
  assumes "set_soname nm old found dynsh strsh s = Inr s'"
  shows "keeps s s' \<and> changed s'"
proof -
  from assms obtain t u v where t: "(case found of None \<Rightarrow> Inr s | Some (_, pos) \<Rightarrow> wr s pos (replicate (length old) 88)) = Inr t"
    and u: "add_string nm strsh t = Inr u"
    and v: "(case found of Some (off, _) \<Rightarrow> set_d_un off (sh_size strsh) u
       | None \<Rightarrow> add_dyn \<lparr>d_tag = wri (littleEndian u) (DT_SONAME :: 'a word), d_un = sh_size strsh\<rparr> dynsh u) = Inr v"
    and s': "s' = v\<lparr>changed := True\<rparr>"
    unfolding set_soname_def ebind_eq_Inr by blast
  have "keeps s t" using t by (auto split: option.splits dest: keeps_wr)
  moreover have "keeps t u" using u by (rule keeps_add_string)
  moreover have "keeps u v" using v by (auto split: option.splits dest: keeps_set_d_un keeps_add_dyn)
  ultimately have "keeps s v" by (blast intro: keeps_trans)
  then show ?thesis by (simp add: s' keeps_changed)
qed

lemma modifySoname_keeps:
  assumes "modifySoname op nm s = Inr s'"
  shows "keeps s s' \<and> quiet s s'"
proof (cases "rdi (littleEndian s) (e_type (hdr s)) = ET_DYN")
  case False
  with assms show ?thesis by (simp add: modifySoname_def)
next
  case True
  let ?s = "\<lambda>libs. s\<lparr>sonameLibs := libs\<rparr>"
  from assms True obtain dynsh strsh found libs soname where
    rest: "(if op = printSoname then Inr (if soname = [] then ?s libs else print_line soname (?s libs))
        else if soname = nm then Inr (?s libs)
        else set_soname nm soname found dynsh strsh (?s libs)) = Inr s'"
    by (auto simp: modifySoname_def Let_def ebind_eq_Inr)
  have "keeps (?s libs) s' \<and> quiet (?s libs) s'"
    using rest by (auto simp: quiet_def print_line_def keeps_def fileSize_def split: if_splits dest: set_soname_keeps)
  then show ?thesis by (auto dest: keeps_soname_libs quiet_soname_libs)
qed

text \<open>The in-place removal: without a removal every entry is written where it was read.\<close>

lemma compact_dynamic_keeps:
  assumes "compact_dynamic goes dyn s = Inr s'"
  shows "keeps s s' \<and> quiet s s'"
proof -
  let ?P = "\<lambda>off (u, dst). keeps s u \<and> (changed u \<or> contents u = contents s \<and> replacedSections u = replacedSections s \<and> dst = off)"
  from assms obtain off u dst where loop: "dyn_for (littleEndian s) (\<lambda>t. t) (\<lambda>p. contents (fst p)) (compact_step goes) dyn
      (dyn_count TYPE('a) (contents s) dyn) (s, dyn) = Inr (off, u, dst)"
    and w: "wr u dst (replicate (off - dst) 0) = Inr s'"
    by (auto simp: compact_dynamic_def ebind_eq_Inr)
  have "?P off (u, dst)"
  proof (rule dyn_for_inv [OF loop, where P = ?P])
    fix off tag st st'
    assume P: "?P off st" and step: "compact_step goes off tag st = Inr st'"
    obtain u dst where st: "st = (u, dst)" by fastforce
    from step st obtain b where b: "goes off tag u = Inr b"
      and c: "if b then st' = (u\<lparr>changed := True\<rparr>, dst)
              else \<exists>t. wr u dst (chunk off (sizeof_Dyn TYPE('a)) (contents u)) = Inr t \<and> off + sizeof_Dyn TYPE('a) \<le> fileSize u \<and>
                st' = (t, dst + sizeof_Dyn TYPE('a))"
      by (auto simp: compact_step_def ebind_eq_Inr rd_Inr split: if_splits)
    show "?P (off + sizeof_Dyn TYPE('a)) st'"
    proof (cases b)
      case True
      with c P st show ?thesis by (simp add: keeps_changed)
    next
      case False
      with c obtain t where t: "wr u dst (chunk off (sizeof_Dyn TYPE('a)) (contents u)) = Inr t"
        and le: "off + sizeof_Dyn TYPE('a) \<le> fileSize u" and st': "st' = (t, dst + sizeof_Dyn TYPE('a))" by auto
      have "keeps s t" using P st keeps_wr [OF t] by (auto intro: keeps_trans)
      moreover have "changed t = changed u" "replacedSections t = replacedSections u" using t by (auto simp: wr_Inr)
      moreover have "contents t = contents u" if "dst = off"
        using t that le by (auto simp: wr_Inr overwrite_id fileSize_def)
      ultimately show ?thesis using P st st' by auto
    qed
  qed simp
  then have k: "keeps s u" and q: "changed u \<or> contents u = contents s \<and> replacedSections u = replacedSections s \<and> dst = off" by simp_all
  have "keeps s s'" using k keeps_wr [OF w] by (rule keeps_trans)
  moreover have "quiet s s'" using q w by (auto simp: quiet_def wr_Inr overwrite_def)
  ultimately show ?thesis by simp
qed

lemma removeNeeded_keeps: "removeNeeded libs s = Inr s' \<Longrightarrow> keeps s s' \<and> quiet s s'"
  by (auto simp: removeNeeded_def ebind_eq_Inr split: if_splits dest: compact_dynamic_keeps)

lemma convert_rpath_keeps: "convert_rpath r s = Inr (s', p, q) \<Longrightarrow> keeps s s' \<and> (changed s \<longrightarrow> changed s')"
  unfolding convert_rpath_def
  by (auto simp: ebind_eq_Inr split: option.splits if_splits dest!: keeps_wr intro: keeps_trans) (simp_all add: keeps_def)

lemma set_rpath_keeps:
  assumes "set_rpath nw old r dynsh strsh s = Inr s'"
  shows "keeps s s' \<and> changed s'"
proof -
  let ?s = "s\<lparr>changed := True\<rparr>"
  from assms obtain t u rp rup where t: "(case rpath_pos r of None \<Rightarrow> Inr ?s | Some pos \<Rightarrow> wr ?s pos (replicate (length old) 88)) = Inr t"
    and u: "convert_rpath r t = Inr (u, rp, rup)"
    and v: "(case rpath_pos r of
        Some pos \<Rightarrow>
          if length nw \<le> length old then wr u pos (nw @ [0])
          else
            ebind (add_string nw strsh u) (\<lambda>s.
            ebind (case rup of None \<Rightarrow> Inr s | Some q \<Rightarrow> set_d_un q (sh_size strsh) s) (\<lambda>s.
            case rp of None \<Rightarrow> Inr s | Some p \<Rightarrow> set_d_un p (sh_size strsh) s))
      | None \<Rightarrow>
          ebind (add_string nw strsh u) (\<lambda>s.
          add_dyn \<lparr>d_tag = wri (littleEndian s) (if forceRPath s then DT_RPATH else DT_RUNPATH :: 'a word),
                   d_un = sh_size strsh\<rparr> dynsh s)) = Inr s'"
    unfolding set_rpath_def Let_def by (auto simp: ebind_eq_Inr)
  have s: "keeps s ?s" by (simp add: keeps_changed)
  have t': "keeps ?s t" using t by (auto split: option.splits dest: keeps_wr)
  have u': "keeps t u" using convert_rpath_keeps [OF u] by simp
  have v': "keeps u s'"
  proof (cases "rpath_pos r")
    case None
    with v have "ebind (add_string nw strsh u) (\<lambda>s. add_dyn \<lparr>d_tag = wri (littleEndian s) (if forceRPath s then DT_RPATH else DT_RUNPATH :: 'a word),
         d_un = sh_size strsh\<rparr> dynsh s) = Inr s'" by simp
    then show ?thesis by (rule keeps_ebind) (auto dest: keeps_add_string keeps_add_dyn)
  next
    case (Some pos)
    show ?thesis
    proof (cases "length nw \<le> length old")
      case True
      with Some v show ?thesis by (auto dest: keeps_wr)
    next
      case False
      with Some v have "ebind (add_string nw strsh u) (\<lambda>s.
            ebind (case rup of None \<Rightarrow> Inr s | Some q \<Rightarrow> set_d_un q (sh_size strsh) s) (\<lambda>s.
            case rp of None \<Rightarrow> Inr s | Some p \<Rightarrow> set_d_un p (sh_size strsh) s)) = Inr s'" by simp
      then show ?thesis
      proof (rule keeps_ebind)
        fix t
        assume "ebind (case rup of None \<Rightarrow> Inr t | Some q \<Rightarrow> set_d_un q (sh_size strsh) t) (\<lambda>s.
            case rp of None \<Rightarrow> Inr s | Some p \<Rightarrow> set_d_un p (sh_size strsh) s) = Inr s'"
        then show "keeps t s'"
          by (rule keeps_ebind) (auto split: option.splits dest: keeps_set_d_un)
      qed (rule keeps_add_string)
    qed
  qed
  have "changed s'" using keeps_trans [OF t' keeps_trans [OF u' v']] by (simp add: keeps_def)
  with keeps_trans [OF s keeps_trans [OF t' keeps_trans [OF u' v']]] show ?thesis by simp
qed

lemma modifyRPath_keeps:
  assumes "modifyRPath ex op nw s = Inr s'"
  shows "keeps s s' \<and> quiet s s'"
proof -
  let ?s = "\<lambda>libs. s\<lparr>rpathLibs := libs\<rparr>"
  from assms obtain dynsh strsh r where
    rest: "(case op of
       rpPrint \<Rightarrow> ebind (case rpath_pos r of None \<Rightarrow> Inr [] | Some pos \<Rightarrow> cstr_at (?s (needed r)) pos) (\<lambda>rpath. Inr (print_line rpath (?s (needed r))))
     | rpRemove \<Rightarrow> if rpath_pos r = None then Inr (?s (needed r)) else compact_dynamic is_rpath (rdn s (sh_offset dynsh)) (?s (needed r))
     | _ \<Rightarrow>
         if op = rpShrink \<and> rpath_pos r = None then Inr (?s (needed r))
         else
           ebind (case rpath_pos r of None \<Rightarrow> Inr [] | Some pos \<Rightarrow> cstr_at (?s (needed r)) pos) (\<lambda>rpath.
           let newRPath = (if op = rpShrink then shrink_path ex (map (\<lambda>l. (l, False)) (rpathLibs (?s (needed r)))) rpath [] else nw) in
           if rpath = newRPath then Inr (?s (needed r)) else set_rpath newRPath rpath r dynsh strsh (?s (needed r)))) = Inr s'"
    unfolding modifyRPath_def Let_def ebind_eq_Inr by blast
  have "keeps (?s (needed r)) s' \<and> quiet (?s (needed r)) s'"
    using rest
    by (auto simp: ebind_eq_Inr Let_def quiet_def keeps_print_line print_line_def split: RPathOp.splits if_splits
        dest!: set_rpath_keeps compact_dynamic_keeps)
  then show ?thesis by (auto dest: keeps_rpath_libs quiet_rpath_libs)
qed

lemma replaceNeeded_keeps:
  fixes s :: "'a::len ElfFile"
  assumes "replaceNeeded libs s = Inr s'"
  shows "keeps s s' \<and> quiet s s'"
proof (cases "libs = []")
  case True
  with assms show ?thesis by (simp add: replaceNeeded_def)
next
  case False
  let ?P = "\<lambda>(off :: nat) (u, added :: 32 word). keeps s u \<and> quiet s u"
  from assms False obtain dynsh strsh :: "'a Elf_Shdr" and off k where
    loop: "dyn_for (littleEndian s) (\<lambda>t. t) (\<lambda>p. contents (fst p)) (replace_step libs strsh) (rdn s (sh_offset dynsh))
             (dyn_count TYPE('a) (contents s) (rdn s (sh_offset dynsh))) (s, 0) = Inr (off, s', k)"
    by (auto simp: replaceNeeded_def Let_def ebind_eq_Inr)
  have "?P off (s', k)"
  proof (rule dyn_for_inv [OF loop, where P = ?P])
    fix off tag st st'
    assume P: "?P off st" and step: "replace_step libs strsh off tag st = Inr st'"
    obtain u k where st: "st = (u, k)" by fastforce
    have "\<exists>t. fst st' = t \<and> (st' = st \<or> keeps u t \<and> changed t)"
      using step unfolding replace_step_def st
      by (auto simp: ebind_eq_Inr Let_def split: if_splits option.splits
          dest!: keeps_replaceSection keeps_set_replaced keeps_set_d_un intro!: keeps_changed)
         (blast intro: keeps_trans)+
    with P st show "?P (off + sizeof_Dyn TYPE('a)) st'"
      by (cases st') (auto simp: quiet_def intro: keeps_trans)
  qed simp
  then show ?thesis by simp
qed

lemma add_lib_string_keeps: "add_lib_string strsh p lib = Inr p' \<Longrightarrow> keeps (fst p) (fst p')"
  by (cases p) (auto simp: add_lib_string_def Let_def ebind_eq_Inr dest: keeps_set_replaced)

lemma add_lib_entry_keeps: "add_lib_entry p v = Inr p' \<Longrightarrow> keeps (fst p) (fst p')"
  by (cases p) (auto simp: add_lib_entry_def Let_def ebind_eq_Inr dest: keeps_set_replaced)

lemma addNeeded_keeps:
  assumes "addNeeded libs s = Inr s'"
  shows "keeps s s' \<and> quiet s s'"
proof (cases "libs = []")
  case True
  with assms show ?thesis by (simp add: addNeeded_def)
next
  case False
  from assms False obtain dynsh strsh len t u ls pos v w k where
    t: "replaceSection (str ''.dynstr'') len s = Inr t"
    and u: "efold (add_lib_string strsh) (t, [], 0) libs = Inr (u, ls, pos)"
    and v: "grow_dynamic (length libs) dynsh u = Inr v"
    and w: "efold add_lib_entry (v, 0) ls = Inr (w, k)" and s': "s' = w\<lparr>changed := True\<rparr>"
    by (auto simp: addNeeded_def Let_def ebind_eq_Inr)
  have "keeps s t" using t by (rule keeps_replaceSection)
  moreover have "keeps (fst (t, ([] :: 64 word list), 0 :: 32 word)) (fst (u, ls, pos))"
    by (rule keeps_efold [OF u]) (rule add_lib_string_keeps)
  moreover have "keeps u v" using v by (rule keeps_grow_dynamic)
  moreover have "keeps (fst (v, 0 :: nat)) (fst (w, k))"
    by (rule keeps_efold [OF w]) (rule add_lib_entry_keeps)
  ultimately have "keeps s w" by (simp, blast intro: keeps_trans)
  then show ?thesis by (simp add: s' keeps_changed quiet_def)
qed

lemma printNeededLibs_keeps:
  assumes "printNeededLibs s = Inr s'"
  shows "keeps s s' \<and> contents s' = contents s \<and> replacedSections s' = replacedSections s \<and> changed s' = changed s"
proof -
  let ?P = "\<lambda>(off :: nat) u. keeps s u \<and> contents u = contents s \<and> replacedSections u = replacedSections s \<and> changed u = changed s"
  from assms obtain dyn strTab off where
    loop: "dyn_for (littleEndian s) (\<lambda>t. t) contents (print_step strTab) dyn (dyn_count TYPE('a) (contents s) dyn) s = Inr (off, s')"
    by (auto simp: printNeededLibs_def dyn_loop_def ebind_eq_Inr)
  have "?P off s'"
    by (rule dyn_for_inv [OF loop, where P = ?P])
       (auto simp: print_step_def ebind_eq_Inr print_line_def split: if_splits)
  then show ?thesis .
qed

lemma noDefaultLib_keeps:
  assumes "noDefaultLib s = Inr s'"
  shows "keeps s s' \<and> quiet s s'"
  using assms
  by (auto simp: noDefaultLib_def Let_def ebind_eq_Inr quiet_def split: option.splits if_splits
      dest!: keeps_set_d_un keeps_add_dyn intro!: keeps_changed)

lemma rpath_ops_keeps: "rpath_ops ex opt s = Inr s' \<Longrightarrow> keeps s s' \<and> quiet s s'"
  by (auto simp: rpath_ops_def split: if_splits dest: modifyRPath_keeps)

lemma if_set_keeps:
  "if_set b f s = Inr s' \<Longrightarrow> (\<And>s s'. f s = Inr s' \<Longrightarrow> keeps s s' \<and> quiet s s') \<Longrightarrow> keeps s s' \<and> quiet s s'"
  by (auto simp: if_set_def split: if_splits)

lemma keeps_quiet_ebind:
  assumes "ebind m f = Inr s'" and "\<And>t. m = Inr t \<Longrightarrow> keeps s t \<and> quiet s t"
    and "\<And>t. f t = Inr s' \<Longrightarrow> keeps t s' \<and> quiet t s'"
  shows "keeps s s' \<and> quiet s s'"
proof -
  from assms(1) obtain t where t: "m = Inr t" "f t = Inr s'" by (rule ebindE)
  with assms(2,3) have "keeps s t" "quiet s t" "keeps t s'" "quiet t s'" by blast+
  then show ?thesis by (blast intro: keeps_trans quiet_trans)
qed

lemma printNeededLibs_quiet: "printNeededLibs s = Inr s' \<Longrightarrow> keeps s s' \<and> quiet s s'"
  using printNeededLibs_keeps [of s s'] by (simp add: quiet_def)

lemma apply_options_keeps:
  assumes "apply_options ex opt s = Inr s'"
  shows "keeps s s' \<and> quiet s s'"
  using assms unfolding apply_options_def
  by (elim keeps_quiet_ebind)
     ((erule if_set_keeps, erule print_interp_keeps modifySoname_keeps setInterpreter_keeps modifyRPath_keeps
         printNeededLibs_quiet noDefaultLib_keeps) |
      erule rpath_ops_keeps removeNeeded_keeps replaceNeeded_keeps addNeeded_keeps)+

text \<open>The operations that only print.\<close>

lemma modifySoname_print: "modifySoname printSoname nm s = Inr s' \<Longrightarrow> changed s' = changed s"
  by (auto simp: modifySoname_def Let_def ebind_eq_Inr print_line_def split: if_splits)

lemma modifyRPath_print: "modifyRPath ex rpPrint nw s = Inr s' \<Longrightarrow> changed s' = changed s"
  by (auto simp: modifyRPath_def Let_def ebind_eq_Inr print_line_def)

lemma print_only_changed:
  assumes "apply_options ex opt s = Inr s'"
    and "\<not> setSoname opt" "newInterpreter opt = []" "\<not> shrinkRPath opt" "\<not> removeRPath opt" "\<not> setRPath opt"
      "neededLibsToRemove opt = []" "neededLibsToReplace opt = []" "neededLibsToAdd opt = []" "\<not> optNoDefaultLib opt"
  shows "changed s' = changed s"
proof -
  have eq: "if_set b f t = Inr t' \<Longrightarrow> (\<And>t t'. f t = Inr t' \<Longrightarrow> changed t' = changed t) \<Longrightarrow> changed t' = changed t"
    for b f and t t' :: "'a ElfFile"
    by (auto simp: if_set_def split: if_splits)
  have pi: "print_interp t = Inr t' \<Longrightarrow> changed t' = changed t" for t t' :: "'a ElfFile"
    by (auto simp: print_interp_def ebind_eq_Inr print_line_def)
  have pn: "printNeededLibs t = Inr t' \<Longrightarrow> changed t' = changed t" for t t' :: "'a ElfFile"
    using printNeededLibs_keeps by blast
  from assms obtain a b c where a: "if_set (printInterpreter opt) print_interp s = Inr a"
    and b: "if_set (optPrintSoname opt) (modifySoname printSoname []) a = Inr b"
    and c: "if_set (printRPath opt) (modifyRPath ex rpPrint []) b = Inr c"
    and d: "if_set (printNeeded opt) printNeededLibs c = Inr s'"
    by (auto simp: apply_options_def ebind_eq_Inr rpath_ops_def removeNeeded_def replaceNeeded_def addNeeded_def
        if_set_def [of False])
  have "changed a = changed s" using a pi by (rule eq)
  moreover have "changed b = changed a" using b modifySoname_print by (rule eq)
  moreover have "changed c = changed b" using c modifyRPath_print by (rule eq)
  moreover have "changed s' = changed c" using d pn by (rule eq)
  ultimately show ?thesis by simp
qed

section \<open>Parsing\<close>

lemma push_phdr_Inr:
  "push_phdr s i = Inr s' \<longleftrightarrow> (\<exists>p. load_phdr s i = Inr p \<and> s' = s\<lparr>phdrs := phdrs s @ [p],
     isExecutable := isExecutable s \<or> rdi (littleEndian s) (p_type p) = PT_INTERP\<rparr>)"
  by (auto simp: push_phdr_def ebind_eq_Inr)

lemma push_shdr_Inr:
  "push_shdr s i = Inr s' \<longleftrightarrow> (\<exists>h. load_shdr s i = Inr h \<and> s' = s\<lparr>shdrs := shdrs s @ [h]\<rparr>)"
  by (auto simp: push_shdr_def ebind_eq_Inr)

lemma load_phdr_cong: "contents s' = contents s \<Longrightarrow> littleEndian s' = littleEndian s \<Longrightarrow> load_phdr s' i = load_phdr s i"
  by (simp add: load_phdr_def rd_def rdn_def hdr_def)

lemma load_shdr_cong: "contents s' = contents s \<Longrightarrow> littleEndian s' = littleEndian s \<Longrightarrow> load_shdr s' i = load_shdr s i"
  by (simp add: load_shdr_def rd_def rdn_def hdr_def)

text \<open>The loop that copies the program headers.\<close>

lemma push_phdrs:
  assumes "efold push_phdr s is = Inr s'"
  shows "\<exists>ps. s' = s\<lparr>phdrs := phdrs s @ ps, isExecutable := isExecutable s'\<rparr> \<and> emap (load_phdr s) is = Inr ps \<and>
     (isExecutable s' \<longleftrightarrow> isExecutable s \<or> (\<exists>p \<in> set ps. rdi (littleEndian s) (p_type p) = PT_INTERP))"
  using assms
proof (induction "is" arbitrary: s)
  case Nil
  then show ?case by simp
next
  case (Cons i js)
  let ?s = "\<lambda>p. s\<lparr>phdrs := phdrs s @ [p], isExecutable := isExecutable s \<or> rdi (littleEndian s) (p_type p) = PT_INTERP\<rparr>"
  from Cons.prems obtain p where p: "load_phdr s i = Inr p" "efold push_phdr (?s p) js = Inr s'"
    by (auto simp: ebind_eq_Inr push_phdr_Inr)
  from Cons.IH [OF p(2)] obtain ps where ps: "s' = (?s p)\<lparr>phdrs := phdrs (?s p) @ ps, isExecutable := isExecutable s'\<rparr> \<and>
    emap (load_phdr (?s p)) js = Inr ps \<and>
    (isExecutable s' \<longleftrightarrow> isExecutable (?s p) \<or> (\<exists>q \<in> set ps. rdi (littleEndian (?s p)) (p_type q) = PT_INTERP))" ..
  have "load_phdr (?s p) = load_phdr s" by (rule ext, rule load_phdr_cong) simp_all
  with ps p(1) show ?case
  proof (intro exI [of _ "p # ps"] conjI)
    show "s' = s\<lparr>phdrs := phdrs s @ p # ps, isExecutable := isExecutable s'\<rparr>"
      by (rule trans [OF conjunct1 [OF ps]]) simp
  qed auto
qed

lemma push_shdrs:
  assumes "efold push_shdr s is = Inr s'"
  shows "\<exists>hs. s' = s\<lparr>shdrs := shdrs s @ hs\<rparr> \<and> emap (load_shdr s) is = Inr hs"
  using assms
proof (induction "is" arbitrary: s)
  case Nil
  then show ?case by simp
next
  case (Cons i js)
  let ?s = "\<lambda>p. s\<lparr>shdrs := shdrs s @ [p]\<rparr>"
  from Cons.prems obtain p where p: "load_shdr s i = Inr p" "efold push_shdr (?s p) js = Inr s'"
    by (auto simp: ebind_eq_Inr push_shdr_Inr)
  from Cons.IH [OF p(2)] obtain ps where ps: "s' = (?s p)\<lparr>shdrs := shdrs (?s p) @ ps\<rparr>"
    "emap (load_shdr (?s p)) js = Inr ps" by blast
  have "load_shdr (?s p) = load_shdr s" by (rule ext, rule load_shdr_cong) simp_all
  with ps p(1) show ?case by (intro exI [of _ "p # ps"]) auto
qed

text \<open>The loop that records the section names.\<close>

lemma record_name_Inr:
  "record_name s i = Inr s' \<longleftrightarrow> (\<exists>nm. sectionName s i = Inr nm \<and> i < length (sectionsByOldIndex s) \<and>
     s' = s\<lparr>sectionsByOldIndex := (sectionsByOldIndex s)[i := nm]\<rparr>)"
  by (auto simp: record_name_def ebind_simps)

lemma record_names:
  assumes "efold record_name s is = Inr s'" and "distinct is"
  shows "\<exists>v. s' = s\<lparr>sectionsByOldIndex := v\<rparr> \<and> length v = length (sectionsByOldIndex s) \<and>
     (\<forall>i \<in> set is. i < length v \<and> sectionName s i = Inr (v ! i)) \<and>
     (\<forall>i. i \<notin> set is \<longrightarrow> v ! i = sectionsByOldIndex s ! i)"
  using assms
proof (induction "is" arbitrary: s)
  case Nil
  then show ?case by (intro exI [of _ "sectionsByOldIndex s"]) simp
next
  case (Cons i js)
  from Cons.prems(1) obtain nm where nm: "sectionName s i = Inr nm" "i < length (sectionsByOldIndex s)"
    and rest: "efold record_name (s\<lparr>sectionsByOldIndex := (sectionsByOldIndex s)[i := nm]\<rparr>) js = Inr s'"
    by (auto simp: ebind_eq_Inr record_name_Inr)
  let ?s = "s\<lparr>sectionsByOldIndex := (sectionsByOldIndex s)[i := nm]\<rparr>"
  have view: "name_view ?s = name_view s" by (simp add: name_view_def shnum_def rdn_def hdr_def)
  from Cons.IH [OF rest] Cons.prems(2) obtain v where v: "s' = ?s\<lparr>sectionsByOldIndex := v\<rparr>"
    "length v = length (sectionsByOldIndex s)"
    "\<forall>j \<in> set js. j < length v \<and> sectionName s j = Inr (v ! j)"
    "\<forall>j. j \<notin> set js \<longrightarrow> v ! j = (sectionsByOldIndex s)[i := nm] ! j"
    by (auto simp: sectionName_view [OF view])
  have "v ! i = nm" using v(4) Cons.prems(2) nm(2) by simp
  moreover have "\<forall>j. j \<notin> set (i # js) \<longrightarrow> v ! j = sectionsByOldIndex s ! j" using v(4) by simp
  ultimately show ?case using v nm by (intro exI [of _ v]) simp
qed

lemma parse_names_Inr:
  assumes "parse_names s = Inr s'"
  obtains tab v where "s' = s\<lparr>sectionNames := tab, sectionsByOldIndex := v\<rparr>" and "tab \<noteq> []" and "last tab = 0"
    and "\<And>i. 0 < i \<Longrightarrow> i < shnum s \<Longrightarrow> i < length v \<and> sectionName s' i = Inr (v ! i)"
proof -
  let ?sh = "shdrs s ! rdn s (e_shstrndx (hdr s))"
  define sz where "sz = (ucast (rdi (littleEndian s) (sh_size ?sh)) :: 32 word)"
  define tab where "tab = chunk (rdn s (sh_offset ?sh)) (unat sz) (contents s)"
  let ?s = "s\<lparr>sectionNames := tab, sectionsByOldIndex := replicate (unat (e_shnum (hdr s))) []\<rparr>"
  from assms have p: "sz > 0" "last tab = 0" "rdn s (sh_offset ?sh) + unat sz \<le> fileSize s"
    "efold record_name ?s [1 ..< shnum s] = Inr s'"
    by (auto simp: parse_names_def Let_def ebind_simps sz_def tab_def shnum_def rdn_def hdr_def)
  from record_names [OF p(4)] obtain v where v: "s' = ?s\<lparr>sectionsByOldIndex := v\<rparr>"
    "\<forall>i \<in> set [1 ..< shnum s]. i < length v \<and> sectionName ?s i = Inr (v ! i)" by auto
  have view: "name_view s' = name_view ?s" by (simp add: v(1) name_view_def shnum_def rdn_def hdr_def)
  have "length tab = unat sz" using p(3) by (simp add: tab_def fileSize_def)
  with p(1) have "tab \<noteq> []" by (auto simp: word_less_nat_alt)
  moreover have "s' = s\<lparr>sectionNames := tab, sectionsByOldIndex := v\<rparr>" by (simp add: v(1))
  moreover have "i < length v \<and> sectionName s' i = Inr (v ! i)" if "0 < i" "i < shnum s" for i
    using v(2) that unfolding sectionName_view [OF view] by auto
  ultimately show ?thesis using that [where tab = tab and v = v] p(2) by blast
qed

text \<open>The table of section names is the contents of the section \<open>e_shstrndx\<close>, and every name is a string in it.\<close>

lemma parse_names_table:
  assumes "parse_names s = Inr s'"
  defines "sh \<equiv> shdrs s' ! rdn s' (e_shstrndx (hdr s'))"
  defines "sz \<equiv> unat (ucast (rdi (littleEndian s') (sh_size sh)) :: 32 word)"
  shows "rdn s' (e_shstrndx (hdr s')) < length (shdrs s')" and "0 < sz" and "rdn s' (sh_offset sh) + sz \<le> fileSize s'"
    and "sectionNames s' = chunk (rdn s' (sh_offset sh)) sz (contents s')" and "last (sectionNames s') = 0"
proof -
  obtain tab v where s': "s' = s\<lparr>sectionNames := tab, sectionsByOldIndex := v\<rparr>" by (rule parse_names_Inr [OF assms(1)])
  then have same: "hdr s' = hdr s" "shdrs s' = shdrs s" "littleEndian s' = littleEndian s" "contents s' = contents s"
    by (simp_all add: hdr_def)
  let ?s = "s\<lparr>sectionNames := chunk (rdn s (sh_offset sh)) sz (contents s), sectionsByOldIndex := replicate (unat (e_shnum (hdr s))) []\<rparr>"
  have p: "rdn s (e_shstrndx (hdr s)) < length (shdrs s)" "0 < sz" "rdn s (sh_offset sh) + sz \<le> fileSize s"
      "last (sectionNames ?s) = 0" "efold record_name ?s [1 ..< shnum s] = Inr s'"
    using assms(1) unfolding sz_def sh_def same
    by (auto simp: parse_names_def Let_def ebind_simps shnum_def rdn_def hdr_def word_less_nat_alt same)
  from record_names [OF p(5)] have "sectionNames s' = sectionNames ?s" by auto
  with p(4) show "sectionNames s' = chunk (rdn s' (sh_offset sh)) sz (contents s')" "last (sectionNames s') = 0"
    by (simp_all add: same rdn_def)
  show "rdn s' (e_shstrndx (hdr s')) < length (shdrs s')" "0 < sz" "rdn s' (sh_offset sh) + sz \<le> fileSize s'"
    using p(1-3) by (simp_all add: same rdn_def fileSize_def)
qed

lemma takeWhile_end: "takeWhile (\<lambda>b. b \<noteq> 0) (xs @ drop k [0 :: byte]) = takeWhile (\<lambda>b. b \<noteq> 0) xs"
  by (induction xs) (cases k; simp)+

lemma sectionName_string:
  assumes "sectionName s i = Inr nm"
  shows "nm = takeWhile (\<lambda>b. b \<noteq> 0) (drop (rdn s (sh_name (shdrs s ! i))) (sectionNames s))"
proof -
  let ?n = "rdn s (sh_name (shdrs s ! i))" and ?tab = "sectionNames s"
  have "cstr (drop ?n (?tab @ [0])) = Some nm"
    using assms by (auto simp: sectionName_def getSectionName_def ebind_simps split: option.splits)
  then obtain rest where "0 \<notin> set nm" "drop ?n (?tab @ [0]) = nm @ 0 # rest" by (auto simp: cstr_Some_iff)
  moreover from this(1) have "takeWhile (\<lambda>b. b \<noteq> 0) (nm @ 0 # rest) = nm" by (subst takeWhile_append2) auto
  ultimately have "nm = takeWhile (\<lambda>b. b \<noteq> 0) (drop ?n (?tab @ [0]))" by simp
  also have "\<dots> = takeWhile (\<lambda>b. b \<noteq> 0) (drop ?n ?tab)"
    by (simp add: takeWhile_end)
  finally show ?thesis .
qed

end
