(* ===== verification/ElfOpsProps.thy ===== *)
theory ElfOpsProps
  imports ElfOps ElfExample
begin

text \<open>
  The properties of parsing a file and of the operations as a whole: what the state says after
  \<open>parse\<close>, that operations before the rewriting change neither the size of the file nor the
  header tables, and that a file which is not written was not modified.
\<close>

section \<open>Parsing\<close>

text \<open>The part of \<open>parse\<close> before the section names.\<close>

lemma parse_headers:
  fixes s :: "'a::len ElfFile"
  assumes run: "parse s = Inr s'" and fresh: "phdrs s = []" "shdrs s = []"
  obtains u where "parse_names u = Inr s'" and "shnum u = shnum s'" and "contents s' = contents s" and "changed s' = changed s" and "replacedSections s' = replacedSections s"
    and "sizeof_Ehdr TYPE('a) \<le> fileSize s'" and "take 4 (e_ident (hdr s')) = ELFMAG"
    and "littleEndian s' \<longleftrightarrow> contents s' ! EI_DATA = ELFDATA2LSB" and "rdi (littleEndian s') (e_type (hdr s')) \<in> {ET_EXEC, ET_DYN}"
    and "table_end (rdi (littleEndian s') (e_phoff (hdr s'))) (rdi (littleEndian s') (e_phnum (hdr s')))
      (rdi (littleEndian s') (e_phentsize (hdr s'))) \<le> int (fileSize s')"
    and "table_end (rdi (littleEndian s') (e_shoff (hdr s'))) (rdi (littleEndian s') (e_shnum (hdr s')))
      (rdi (littleEndian s') (e_shentsize (hdr s'))) \<le> int (fileSize s')"
    and "rdn s' (e_phentsize (hdr s')) = sizeof_Phdr TYPE('a)"
    and "length (phdrs s') = phnum s'" and "\<forall>i < phnum s'. load_phdr s' i = Inr (phdrs s' ! i)"
    and "length (shdrs s') = shnum s'" and "\<forall>i < shnum s'. load_shdr s' i = Inr (shdrs s' ! i)"
    and "isExecutable s' \<longleftrightarrow> (\<exists>p \<in> set (phdrs s'). rdi (littleEndian s') (p_type p) = PT_INTERP)"
proof -
  let ?le = "contents s ! EI_DATA = ELFDATA2LSB"
  let ?s = "s\<lparr>isExecutable := False, littleEndian := ?le\<rparr>"
  have hdr0: "hdr (s\<lparr>isExecutable := False\<rparr>) = hdr s" "hdr ?s = hdr s" by (simp_all add: hdr_def)
  from run obtain t u where basic: "sizeof_Ehdr TYPE('a) \<le> fileSize s" "take 4 (e_ident (hdr s)) = ELFMAG"
      "rdi ?le (e_type (hdr s)) = ET_EXEC \<or> rdi ?le (e_type (hdr s)) = ET_DYN"
    and ends: "table_end (rdi ?le (e_phoff (hdr s))) (rdi ?le (e_phnum (hdr s))) (rdi ?le (e_phentsize (hdr s))) \<le> int (fileSize s)"
      "table_end (rdi ?le (e_shoff (hdr s))) (rdi ?le (e_shnum (hdr s))) (rdi ?le (e_shentsize (hdr s))) \<le> int (fileSize s)"
      "rdn ?s (e_phentsize (hdr s)) = sizeof_Phdr TYPE('a)"
    and t: "efold push_phdr ?s [0 ..< phnum ?s] = Inr t" and u: "efold push_shdr t [0 ..< shnum t] = Inr u"
    and v: "parse_names u = Inr s'"
    by (auto simp: parse_def Let_def ebind_eq_Inr hdr0 fileSize_def)
  obtain ps where "t = ?s\<lparr>phdrs := phdrs ?s @ ps, isExecutable := isExecutable t\<rparr>" and ps: "emap (load_phdr ?s) [0 ..< phnum ?s] = Inr ps"
      and ie: "isExecutable t \<longleftrightarrow> isExecutable ?s \<or> (\<exists>p \<in> set ps. rdi (littleEndian ?s) (p_type p) = PT_INTERP)"
    using push_phdrs [OF t] by blast
  then have t': "t = ?s\<lparr>phdrs := ps, isExecutable := isExecutable t\<rparr>" using fresh by simp
  obtain hs where hs: "u = t\<lparr>shdrs := shdrs t @ hs\<rparr>" "emap (load_shdr t) [0 ..< shnum t] = Inr hs"
    using push_shdrs [OF u] by blast
  obtain tab w where s': "s' = u\<lparr>sectionNames := tab, sectionsByOldIndex := w\<rparr>"
    using parse_names_Inr [OF v] by metis
  define ex where "ex = isExecutable t"
  have st: "s' = ?s\<lparr>phdrs := ps, isExecutable := ex, shdrs := hs, sectionNames := tab, sectionsByOldIndex := w\<rparr>"
    unfolding s' hs(1) ex_def by (subst t') (simp add: fresh t' [THEN arg_cong [where f = shdrs]])
  have f: "contents s' = contents s" "littleEndian s' = ?le" "hdr s' = hdr s" "phdrs s' = ps" "shdrs s' = hs"
      "isExecutable s' = ex" "sectionsByOldIndex s' = w" "changed s' = changed s" "replacedSections s' = replacedSections s"
    by (simp_all add: st hdr_def)
  have tu: "contents t = contents s" "littleEndian t = ?le" "contents u = contents s" "littleEndian u = ?le"
    by (simp_all add: hs(1)) (subst t', simp)+
  have num: "phnum s' = phnum ?s" "shnum s' = shnum t" "shnum s' = shnum u"
    by (simp_all add: phnum_def shnum_def rdn_def f hdr_def tu)
  have load: "load_phdr s' = load_phdr ?s" "load_shdr s' = load_shdr t"
    by (rule ext, rule load_phdr_cong load_shdr_cong; simp add: f tu)+
  have pl: "length ps = phnum s'" "\<forall>i < phnum s'. load_phdr s' i = Inr (ps ! i)"
    using emap_length [OF ps] emap_nth [OF ps] by (simp_all add: num(1) load(1))
  have hl: "length hs = shnum s'" "\<forall>i < shnum s'. load_shdr s' i = Inr (hs ! i)"
    using emap_length [OF hs(2)] emap_nth [OF hs(2)] by (simp_all add: num(2) load(2))
  have ends': "table_end (rdi (littleEndian s') (e_phoff (hdr s'))) (rdi (littleEndian s') (e_phnum (hdr s')))
      (rdi (littleEndian s') (e_phentsize (hdr s'))) \<le> int (fileSize s')"
    "table_end (rdi (littleEndian s') (e_shoff (hdr s'))) (rdi (littleEndian s') (e_shnum (hdr s')))
      (rdi (littleEndian s') (e_shentsize (hdr s'))) \<le> int (fileSize s')"
    "rdn s' (e_phentsize (hdr s')) = sizeof_Phdr TYPE('a)"
    using ends by (simp_all add: f rdn_def fileSize_def)
  have rest: "contents s' = contents s" "changed s' = changed s" "replacedSections s' = replacedSections s"
    "sizeof_Ehdr TYPE('a) \<le> fileSize s'" "take 4 (e_ident (hdr s')) = ELFMAG"
    "littleEndian s' \<longleftrightarrow> contents s' ! EI_DATA = ELFDATA2LSB" "rdi (littleEndian s') (e_type (hdr s')) \<in> {ET_EXEC, ET_DYN}"
    "length (phdrs s') = phnum s'" "\<forall>i < phnum s'. load_phdr s' i = Inr (phdrs s' ! i)"
    "\<forall>i < shnum s'. load_shdr s' i = Inr (shdrs s' ! i)"
    "isExecutable s' \<longleftrightarrow> (\<exists>p \<in> set (phdrs s'). rdi (littleEndian s') (p_type p) = PT_INTERP)"
    using basic ie pl hl unfolding f by (auto simp: fileSize_def f ex_def)
  have tables: "length (shdrs s') = shnum s'" using hl(1) f(5) by simp
  show ?thesis by (rule that [OF v num(3) [symmetric] rest(1-7) ends' rest(8,9) tables rest(10,11)])
qed

text \<open>
  Property C20. A file that \<open>parse\<close> accepts has the magic bytes, a supported type and program headers of the size of
  the structure, and the ends of both header tables, computed as the code does, lie in it; the state then
  holds its header tables entry by entry, as they are in the file, in the byte order that the header
  gives; it is taken for an executable exactly if one of the program headers names an interpreter. The table of section
  names is the contents of the section that \<open>e_shstrndx\<close> names, which exists, lies in the file and ends with a NUL; and
  the vector of section names has the name of every section but the first, the string at its \<open>sh_name\<close> in that
  table. The file is not changed.
\<close>

theorem parse_loads_tables:
  fixes s :: "'a::len ElfFile"
  assumes run: "parse s = Inr s'" and fresh: "phdrs s = []" "shdrs s = []"
  shows "contents s' = contents s \<and> changed s' = changed s \<and> replacedSections s' = replacedSections s \<and>
    sizeof_Ehdr TYPE('a) \<le> fileSize s' \<and> take 4 (e_ident (hdr s')) = ELFMAG \<and>
    (littleEndian s' \<longleftrightarrow> contents s' ! EI_DATA = ELFDATA2LSB) \<and>
    rdi (littleEndian s') (e_type (hdr s')) \<in> {ET_EXEC, ET_DYN} \<and>
    table_end (rdi (littleEndian s') (e_phoff (hdr s'))) (rdi (littleEndian s') (e_phnum (hdr s')))
      (rdi (littleEndian s') (e_phentsize (hdr s'))) \<le> int (fileSize s') \<and>
    table_end (rdi (littleEndian s') (e_shoff (hdr s'))) (rdi (littleEndian s') (e_shnum (hdr s')))
      (rdi (littleEndian s') (e_shentsize (hdr s'))) \<le> int (fileSize s') \<and>
    rdn s' (e_phentsize (hdr s')) = sizeof_Phdr TYPE('a) \<and>
    length (phdrs s') = phnum s' \<and> (\<forall>i < phnum s'. load_phdr s' i = Inr (phdrs s' ! i)) \<and>
    length (shdrs s') = shnum s' \<and> (\<forall>i < shnum s'. load_shdr s' i = Inr (shdrs s' ! i)) \<and>
    (isExecutable s' \<longleftrightarrow> (\<exists>p \<in> set (phdrs s'). rdi (littleEndian s') (p_type p) = PT_INTERP)) \<and>
    rdn s' (e_shstrndx (hdr s')) < shnum s' \<and>
    (let sh = shdrs s' ! rdn s' (e_shstrndx (hdr s')); off = rdn s' (sh_offset sh);
         len = unat (ucast (rdi (littleEndian s') (sh_size sh)) :: 32 word); table = chunk off len (contents s') in
     0 < len \<and> off + len \<le> fileSize s' \<and> sectionNames s' = table \<and> last table = 0 \<and>
     (\<forall>i. 0 < i \<and> i < shnum s' \<longrightarrow> i < length (sectionsByOldIndex s') \<and> sectionName s' i = Inr (sectionsByOldIndex s' ! i) \<and>
        sectionsByOldIndex s' ! i = takeWhile (\<lambda>b. b \<noteq> 0) (drop (rdn s' (sh_name (shdrs s' ! i))) table)))"
proof -
  obtain u where v: "parse_names u = Inr s'" and n: "shnum u = shnum s'" and facts: "contents s' = contents s" "changed s' = changed s" "replacedSections s' = replacedSections s"
    "sizeof_Ehdr TYPE('a) \<le> fileSize s'" "take 4 (e_ident (hdr s')) = ELFMAG"
    "littleEndian s' \<longleftrightarrow> contents s' ! EI_DATA = ELFDATA2LSB" "rdi (littleEndian s') (e_type (hdr s')) \<in> {ET_EXEC, ET_DYN}"
    "table_end (rdi (littleEndian s') (e_phoff (hdr s'))) (rdi (littleEndian s') (e_phnum (hdr s')))
      (rdi (littleEndian s') (e_phentsize (hdr s'))) \<le> int (fileSize s')"
    "table_end (rdi (littleEndian s') (e_shoff (hdr s'))) (rdi (littleEndian s') (e_shnum (hdr s')))
      (rdi (littleEndian s') (e_shentsize (hdr s'))) \<le> int (fileSize s')"
    "rdn s' (e_phentsize (hdr s')) = sizeof_Phdr TYPE('a)"
    "length (phdrs s') = phnum s'" "\<forall>i < phnum s'. load_phdr s' i = Inr (phdrs s' ! i)"
    "length (shdrs s') = shnum s'" "\<forall>i < shnum s'. load_shdr s' i = Inr (shdrs s' ! i)"
    "isExecutable s' \<longleftrightarrow> (\<exists>p \<in> set (phdrs s'). rdi (littleEndian s') (p_type p) = PT_INTERP)"
    by (rule parse_headers [OF run fresh])
  have names: "i < length (sectionsByOldIndex s') \<and> sectionName s' i = Inr (sectionsByOldIndex s' ! i)"
    if "0 < i" "i < shnum s'" for i
    by (rule parse_names_Inr [OF v]) (use that n in simp)
  have strings: "sectionsByOldIndex s' ! i = takeWhile (\<lambda>b. b \<noteq> 0) (drop (rdn s' (sh_name (shdrs s' ! i))) (sectionNames s'))"
    if "0 < i" "i < shnum s'" for i
    by (rule sectionName_string) (use names that in simp)
  note table = parse_names_table [OF v]
  show ?thesis
    unfolding Let_def
    using facts table [unfolded facts(13)] names strings [unfolded table(4)]
    by (intro conjI allI impI) (simp_all only: simp_thms)
qed

theorem parse_loads_tables_witness:
  "\<exists>s'. parse (readFile 4096 False ex_file :: 32 ElfFile) = Inr s' \<and> length (phdrs s') = phnum s' \<and>
     length (shdrs s') = shnum s' \<and> contents s' = ex_file \<and>
     sectionNames s' = chunk (rdn s' (sh_offset (shdrs s' ! rdn s' (e_shstrndx (hdr s')))))
       (unat (ucast (rdi (littleEndian s') (sh_size (shdrs s' ! rdn s' (e_shstrndx (hdr s'))))) :: 32 word)) ex_file"
proof -
  obtain s' where run: "parse (readFile 4096 False ex_file :: 32 ElfFile) = Inr s'"
    using not_isl [OF ex_file_parses] ..
  have fresh: "phdrs (readFile 4096 False ex_file :: 32 ElfFile) = []" "shdrs (readFile 4096 False ex_file :: 32 ElfFile) = []"
    and c: "contents (readFile 4096 False ex_file :: 32 ElfFile) = ex_file"
    by (simp_all add: readFile_def)
  show ?thesis
    using parse_loads_tables [OF run fresh, unfolded Let_def c] run
    by (elim conjE, intro exI [of _ s'] conjI) (assumption | simp only:)+
qed

section \<open>The operations as a whole\<close>

text \<open>
  Property C21. Whatever options are given, the operations that come before the rewriting change neither the
  size of the file nor the program and section headers nor what was parsed of the file, they never
  take back the mark that the file changed, and without that mark the contents and the replaced
  sections are those before.
\<close>

theorem operations_frame:
  assumes "apply_options exists_file opt s = Inr s'"
  shows "fileSize s' = fileSize s \<and> phdrs s' = phdrs s \<and> shdrs s' = shdrs s \<and> littleEndian s' = littleEndian s \<and>
    sectionNames s' = sectionNames s \<and> sectionsByOldIndex s' = sectionsByOldIndex s \<and>
    (map_inv (replacedSections s) \<longrightarrow> map_inv (replacedSections s')) \<and> (changed s \<longrightarrow> changed s') \<and>
    (\<not> changed s' \<longrightarrow> contents s' = contents s \<and> replacedSections s' = replacedSections s)"
  using apply_options_keeps [OF assms] by (auto simp: keeps_def quiet_def)

theorem operations_frame_witness:
  "\<exists>s'. apply_options (\<lambda>_. False) ((default_options 4096 False)\<lparr>newInterpreter := [47, 122], removeRPath := True\<rparr>) ex_elf = Inr s' \<and>
     fileSize s' = 96 \<and> shdrs s' = shdrs ex_elf"
proof -
  have "\<not> isl (apply_options (\<lambda>_. False) ((default_options 4096 False)\<lparr>newInterpreter := [47, 122], removeRPath := True\<rparr>) ex_elf)"
    by code_simp
  then obtain s' where run: "apply_options (\<lambda>_. False) ((default_options 4096 False)\<lparr>newInterpreter := [47, 122], removeRPath := True\<rparr>) ex_elf = Inr s'"
    using not_isl by blast
  have "fileSize ex_elf = 96" by code_simp
  with operations_frame [OF run] run show ?thesis by auto
qed

text \<open>
  Property C22. A file that is not written was not modified: when \<open>patchElf2\<close> ends without new contents, the image after
  all operations is the file that was read, byte for byte, and no section waits to be rewritten.
\<close>

theorem unwritten_is_unmodified:
  assumes s: "s = (readFile page force input :: 'a::len ElfFile)"
    and "patchElf2 exists_file opt s = Inr (out, None)"
  shows "\<exists>p t. parse s = Inr p \<and> apply_options exists_file opt p = Inr t \<and> out = stdout t \<and>
    contents t = input \<and> replacedSections t = []"
proof -
  from assms(2) obtain p t where p: "parse s = Inr p" and t: "apply_options exists_file opt p = Inr t"
    and out: "\<not> changed t" "out = stdout t"
    by (auto simp: patchElf2_def ebind_eq_Inr split: if_splits)
  have "contents p = input \<and> replacedSections p = []"
    using p unfolding parse_def Let_def ebind_eq_Inr s
    by (auto simp: readFile_def dest!: push_phdrs push_shdrs elim!: parse_names_Inr)
  with apply_options_keeps [OF t] out p t show ?thesis by (auto simp: quiet_def)
qed

theorem unwritten_is_unmodified_witness:
  "\<exists>p t. parse (readFile 4096 False ex_file :: 32 ElfFile) = Inr p \<and>
     apply_options (\<lambda>_. False) (default_options 4096 False) p = Inr t \<and> contents t = ex_file"
proof -
  obtain p where p: "parse (readFile 4096 False ex_file :: 32 ElfFile) = Inr p"
    using not_isl [OF ex_file_parses] ..
  have c: "changed p = changed (readFile 4096 False ex_file :: 32 ElfFile)"
    using p unfolding parse_def Let_def ebind_eq_Inr
    by (auto simp: readFile_def dest!: push_phdrs push_shdrs elim!: parse_names_Inr)
  have "apply_options (\<lambda>_. False) (default_options 4096 False) p = Inr p"
    by (simp add: apply_options_def if_set_def rpath_ops_def default_options_def removeNeeded_def replaceNeeded_def addNeeded_def)
  with p c have "patchElf2 (\<lambda>_. False) (default_options 4096 False) (readFile 4096 False ex_file :: 32 ElfFile) = Inr (stdout p, None)"
    by (simp add: patchElf2_def readFile_def)
  from unwritten_is_unmodified [OF refl this] show ?thesis by blast
qed

text \<open>
  Property C23. The options that only print never cause the file to be written, in either class and byte order.
\<close>

theorem printing_does_not_write:
  assumes run: "patchElf exists_file opt file = Inr (out, new)"
    and opts: "\<not> setSoname opt" "newInterpreter opt = []" "\<not> shrinkRPath opt" "\<not> removeRPath opt" "\<not> setRPath opt"
      "neededLibsToRemove opt = []" "neededLibsToReplace opt = []" "neededLibsToAdd opt = []" "\<not> optNoDefaultLib opt"
  shows "new = None"
proof -
  have quiet2: "new' = None" if run2: "patchElf2 exists_file opt (readFile page force file :: 'a::len ElfFile) = Inr (out', new')"
    for page force out' new'
  proof -
    from run2 obtain p t where p: "parse (readFile page force file :: 'a ElfFile) = Inr p"
      and t: "apply_options exists_file opt p = Inr t" and w: "\<not> changed t \<longrightarrow> new' = None"
      unfolding patchElf2_def ebind_eq_Inr by (auto split: if_splits)
    have "\<not> changed p"
      using p unfolding parse_def Let_def ebind_eq_Inr
      by (auto simp: readFile_def dest!: push_phdrs push_shdrs elim!: parse_names_Inr)
    moreover have "changed t = changed p"
      using t print_only_changed [OF t] opts by simp
    ultimately show ?thesis using w by simp
  qed
  from run show ?thesis
    by (auto simp: patchElf_def ebind_eq_Inr Let_def split: if_splits dest: quiet2)
qed

theorem printing_does_not_write_witness:
  "\<exists>out. patchElf (\<lambda>_. False) (default_options 4096 False) ex_file = Inr (out, None)"
proof -
  have "\<not> isl (patchElf (\<lambda>_. False) (default_options 4096 False) ex_file)" by code_simp
  then obtain out new where run: "patchElf (\<lambda>_. False) (default_options 4096 False) ex_file = Inr (out, new)"
    by (metis not_isl surj_pair)
  have "new = None"
    by (rule printing_does_not_write [OF run]) (simp_all add: default_options_def)
  with run show ?thesis by blast
qed

end
