(* ===== verification/ElfSort.thy ===== *)
theory ElfSort
  imports ElfFacts
begin

text \<open>
  Sorting the section headers: what the recorded names of linked sections say, what restoring
  the links does, the permutation that the sort applies, and what the whole of \<open>sortShdrs\<close> leaves alone.
\<close>

section \<open>The first element of a sort\<close>

lemma last_insert_back:
  "zs \<noteq> [] \<Longrightarrow> \<not> lt y (last zs) \<Longrightarrow> last (insert_back lt y zs) = last zs \<and> insert_back lt y zs \<noteq> []"
proof (induction zs)
  case (Cons z zs)
  then show ?case by (cases zs) auto
qed simp

lemma hd_std_insert:
  assumes "ys \<noteq> []" and "\<not> lt y (hd ys)"
  shows "std_insert lt y ys \<noteq> [] \<and> hd (std_insert lt y ys) = hd ys"
proof -
  have "last (insert_back lt y (rev ys)) = last (rev ys) \<and> insert_back lt y (rev ys) \<noteq> []"
    by (rule last_insert_back) (use assms in \<open>simp_all add: last_rev\<close>)
  then show ?thesis using assms by (simp add: std_insert_def hd_rev last_rev)
qed

text \<open>An element that nothing is below stays in front.\<close>

lemma hd_std_sort:
  assumes "\<And>y. \<not> lt y x"
  shows "std_sort lt (x # xs) = x # tl (std_sort lt (x # xs))"
proof -
  have "ys \<noteq> [] \<Longrightarrow> hd ys = x \<Longrightarrow> foldl (\<lambda>ys y. std_insert lt y ys) ys xs \<noteq> [] \<and> hd (foldl (\<lambda>ys y. std_insert lt y ys) ys xs) = x" for ys
  proof (induction xs arbitrary: ys)
    case (Cons y xs)
    have "std_insert lt y ys \<noteq> [] \<and> hd (std_insert lt y ys) = hd ys"
      by (rule hd_std_insert) (use Cons.prems assms in auto)
    with Cons show ?case by simp
  qed simp
  from this [of "[x]"] have "std_sort lt (x # xs) \<noteq> []" "hd (std_sort lt (x # xs)) = x"
    by (simp_all add: std_sort_def std_insert_def)
  then show ?thesis by (cases "std_sort lt (x # xs)") simp_all
qed

section \<open>Recorded names\<close>

lemma link_names_fold:
  assumes "efold (\<lambda>m i.
       ebind (at (shdrs s) i) (\<lambda>sh.
       if has sh then
         ebind (getSectionName s sh) (\<lambda>nm.
         ebind (sectionName s (rdn s (fld sh))) (\<lambda>target.
         Inr (map_put nm target m)))
       else Inr m)) m is = Inr m'"
    and "map_inv m" and "distinct is"
    and "\<And>i. i \<in> set is \<Longrightarrow> sectionName s i = Inr (N i)" and "inj_on N (set is)"
  shows "map_inv m' \<and> (\<forall>k. k \<notin> N ` set is \<longrightarrow> map_of m' k = map_of m k) \<and>
    (\<forall>i \<in> set is. i < length (shdrs s)) \<and>
    (\<forall>i \<in> set is. has (shdrs s ! i) \<longrightarrow>
       (\<exists>t. sectionName s (rdn s (fld (shdrs s ! i))) = Inr t \<and> map_of m' (N i) = Some t))"
  using assms
proof (induction "is" arbitrary: m)
  case Nil
  then show ?case by simp
next
  case (Cons i js)
  let ?f = "\<lambda>m i. ebind (at (shdrs s) i) (\<lambda>sh. if has sh then ebind (getSectionName s sh) (\<lambda>nm.
      ebind (sectionName s (rdn s (fld sh))) (\<lambda>target. Inr (map_put nm target m))) else Inr m)"
  have Ni: "sectionName s i = Inr (N i)" using Cons.prems(4) by simp
  then have il: "i < length (shdrs s)" by (rule sectionName_Inr)
  with Ni have gi: "getSectionName s (shdrs s ! i) = Inr (N i)" by (simp add: sectionName_def at_def)
  from Cons.prems(1) obtain m1 where m1: "?f m i = Inr m1" "efold ?f m1 js = Inr m'"
    by (simp only: efold.simps) (erule ebindE, blast)
  have "i \<notin> set js" using Cons.prems(3) by simp
  then have new: "N i \<notin> N ` set js" using Cons.prems(5) by (auto dest: inj_onD)
  have inv1: "map_inv m1" and keep: "\<And>k. k \<noteq> N i \<Longrightarrow> map_of m1 k = map_of m k"
    and put: "has (shdrs s ! i) \<Longrightarrow> \<exists>t. sectionName s (rdn s (fld (shdrs s ! i))) = Inr t \<and> map_of m1 (N i) = Some t"
    using m1(1) il gi Cons.prems(2) by (auto simp: at_def ebind_eq_Inr map_inv_put map_of_put split: if_splits)
  have IH: "map_inv m' \<and> (\<forall>k. k \<notin> N ` set js \<longrightarrow> map_of m' k = map_of m1 k) \<and> (\<forall>i \<in> set js. i < length (shdrs s)) \<and>
    (\<forall>i \<in> set js. has (shdrs s ! i) \<longrightarrow>
       (\<exists>t. sectionName s (rdn s (fld (shdrs s ! i))) = Inr t \<and> map_of m' (N i) = Some t))"
    by (rule Cons.IH [OF m1(2) inv1]) (use Cons.prems(3-5) in \<open>auto intro: inj_on_subset\<close>)
  with new keep put il show ?case by auto
qed

lemma link_names_spec:
  assumes run: "link_names has fld s = Inr m"
    and names: "\<And>i. 0 < i \<Longrightarrow> i < shnum s \<Longrightarrow> sectionName s i = Inr (N i)" and inj: "inj_on N {1 ..< shnum s}"
    and i: "0 < i" "i < shnum s" "has (shdrs s ! i)"
  obtains t where "sectionName s (rdn s (fld (shdrs s ! i))) = Inr t" and "map_get m (N i) = t"
proof -
  have "\<forall>i \<in> set [1 ..< shnum s]. has (shdrs s ! i) \<longrightarrow>
       (\<exists>t. sectionName s (rdn s (fld (shdrs s ! i))) = Inr t \<and> map_of m (N i) = Some t)"
    using link_names_fold [OF run [unfolded link_names_def], of N] names inj by simp
  with i that show ?thesis by (fastforce simp: map_get_def)
qed

section \<open>Restoring links\<close>

lemma name_view_update:
  assumes "i < length (shdrs s)" and "sh_name h = sh_name (shdrs s ! i)"
  shows "name_view (s\<lparr>shdrs := (shdrs s)[i := h]\<rparr>) = name_view s"
proof -
  have "map sh_name ((shdrs s)[i := h]) = map sh_name (shdrs s)"
    by (rule nth_equalityI) (use assms in \<open>auto simp: nth_list_update\<close>)
  then show ?thesis by (simp add: name_view_def shnum_def rdn_def)
qed

lemma restore_fold:
  fixes s :: "'a::len ElfFile" and set_fld :: "Elf_Word \<Rightarrow> 'a Elf_Shdr \<Rightarrow> 'a Elf_Shdr"
  assumes "efold (\<lambda>s i.
       ebind (at (shdrs s) i) (\<lambda>sh.
       if has sh then
         ebind (getSectionName s sh) (\<lambda>nm.
         ebind (findSection3 s (map_get m nm)) (\<lambda>j.
         ebind (upd_at (shdrs s) i (set_fld (wrn s j))) (\<lambda>v. Inr (s\<lparr>shdrs := v\<rparr>))))
       else Inr s)) s is = Inr s'"
    and "\<And>w h. sh_name (set_fld w h) = sh_name h" and "distinct is"
  shows "s' = s\<lparr>shdrs := shdrs s'\<rparr> \<and> name_view s' = name_view s \<and> (\<forall>i. i \<notin> set is \<longrightarrow> shdrs s' ! i = shdrs s ! i) \<and>
    (\<forall>i \<in> set is. if has (shdrs s ! i)
       then \<exists>nm j. sectionName s i = Inr nm \<and> findSection3 s (map_get m nm) = Inr j \<and> shdrs s' ! i = set_fld (wrn s j) (shdrs s ! i)
       else shdrs s' ! i = shdrs s ! i)"
  using assms(1,3)
proof (induction "is" arbitrary: s)
  case Nil
  then show ?case by simp
next
  case (Cons i js)
  let ?f = "\<lambda>s i. ebind (at (shdrs s) i) (\<lambda>sh. if has sh then ebind (getSectionName s sh) (\<lambda>nm.
         ebind (findSection3 s (map_get m nm)) (\<lambda>j. ebind (upd_at (shdrs s) i (set_fld (wrn s j))) (\<lambda>v. Inr (s\<lparr>shdrs := v\<rparr>)))) else Inr s)"
  from Cons.prems(1) obtain u where u: "?f s i = Inr u" "efold ?f u js = Inr s'"
    by (simp only: efold.simps) (erule ebindE, blast)
  have step: "i < length (shdrs s) \<and> (if has (shdrs s ! i)
       then \<exists>nm j. sectionName s i = Inr nm \<and> findSection3 s (map_get m nm) = Inr j \<and>
              u = s\<lparr>shdrs := (shdrs s)[i := set_fld (wrn s j) (shdrs s ! i)]\<rparr>
       else u = s)"
    using u(1) by (auto simp: ebind_simps sectionName_def split: if_splits)
  then have il: "i < length (shdrs s)" by simp
  have "\<exists>h. u = s\<lparr>shdrs := (shdrs s)[i := h]\<rparr> \<and> sh_name h = sh_name (shdrs s ! i)"
  proof (cases "has (shdrs s ! i)")
    case True
    with step assms(2) show ?thesis by auto
  next
    case False
    with step have "u = s\<lparr>shdrs := (shdrs s)[i := shdrs s ! i]\<rparr>" by simp
    then show ?thesis by blast
  qed
  then obtain h where h: "u = s\<lparr>shdrs := (shdrs s)[i := h]\<rparr>" "sh_name h = sh_name (shdrs s ! i)" by blast
  have view: "name_view u = name_view s" unfolding h(1) by (rule name_view_update [OF il h(2)])
  have le: "wrn u j = (wrn s j :: Elf_Word)" for j by (simp add: h(1) wrn_def)
  have other: "shdrs u ! k = shdrs s ! k" if "k \<noteq> i" for k using that by (simp add: h(1))
  have ni: "i \<notin> set js" and d: "distinct js" using Cons.prems(2) by simp_all
  from Cons.IH [OF u(2) d] have IH: "s' = u\<lparr>shdrs := shdrs s'\<rparr>" "name_view s' = name_view u"
    "\<forall>k. k \<notin> set js \<longrightarrow> shdrs s' ! k = shdrs u ! k"
    "\<forall>k \<in> set js. if has (shdrs u ! k)
       then \<exists>nm j. sectionName u k = Inr nm \<and> findSection3 u (map_get m nm) = Inr j \<and> shdrs s' ! k = set_fld (wrn u j) (shdrs u ! k)
       else shdrs s' ! k = shdrs u ! k" by blast+
  show ?case
  proof (intro conjI allI impI ballI)
    show "s' = s\<lparr>shdrs := shdrs s'\<rparr>" by (rule trans [OF IH(1)]) (simp add: h(1))
    show "name_view s' = name_view s" using IH(2) view by simp
    show "shdrs s' ! k = shdrs s ! k" if "k \<notin> set (i # js)" for k using that IH(3) other by simp
    fix k
    assume "k \<in> set (i # js)"
    then consider "k = i" | "k \<noteq> i" "k \<in> set js" by auto
    then show "if has (shdrs s ! k)
       then \<exists>nm j. sectionName s k = Inr nm \<and> findSection3 s (map_get m nm) = Inr j \<and> shdrs s' ! k = set_fld (wrn s j) (shdrs s ! k)
       else shdrs s' ! k = shdrs s ! k"
    proof cases
      case 1
      have "shdrs s' ! i = shdrs u ! i" using IH(3) ni by simp
      with step il 1 show ?thesis by auto
    next
      case 2
      with IH(4) have "if has (shdrs u ! k)
         then \<exists>nm j. sectionName u k = Inr nm \<and> findSection3 u (map_get m nm) = Inr j \<and> shdrs s' ! k = set_fld (wrn u j) (shdrs u ! k)
         else shdrs s' ! k = shdrs u ! k" by blast
      then show ?thesis unfolding other [OF 2(1)] sectionName_view [OF view] findSection_view(1) [OF view] le .
    qed
  qed
qed

lemma restore_links_spec:
  fixes s :: "'a::len ElfFile" and set_fld :: "Elf_Word \<Rightarrow> 'a Elf_Shdr \<Rightarrow> 'a Elf_Shdr"
  assumes run: "restore_links has set_fld m s = Inr s'" and name: "\<And>w h. sh_name (set_fld w h) = sh_name h"
  shows "s' = s\<lparr>shdrs := shdrs s'\<rparr>" and "name_view s' = name_view s" and "shdrs s' ! 0 = shdrs s ! 0"
    and "\<And>i. 0 < i \<Longrightarrow> i < shnum s \<Longrightarrow> if has (shdrs s ! i)
       then \<exists>nm j. sectionName s i = Inr nm \<and> findSection3 s (map_get m nm) = Inr j \<and> shdrs s' ! i = set_fld (wrn s j) (shdrs s ! i)
       else shdrs s' ! i = shdrs s ! i"
proof -
  note R = restore_fold [OF run [unfolded restore_links_def] name distinct_upt]
  from R show "s' = s\<lparr>shdrs := shdrs s'\<rparr>" and "name_view s' = name_view s" by blast+
  from R have "\<forall>i. i \<notin> set [1 ..< shnum s] \<longrightarrow> shdrs s' ! i = shdrs s ! i" by blast
  then show "shdrs s' ! 0 = shdrs s ! 0" by simp
  from R have all: "\<forall>i \<in> set [1 ..< shnum s]. if has (shdrs s ! i)
       then \<exists>nm j. sectionName s i = Inr nm \<and> findSection3 s (map_get m nm) = Inr j \<and> shdrs s' ! i = set_fld (wrn s j) (shdrs s ! i)
       else shdrs s' ! i = shdrs s ! i" by blast
  fix i
  assume "0 < i" "i < shnum s"
  then have "i \<in> set [1 ..< shnum s]" by simp
  with all show "if has (shdrs s ! i)
       then \<exists>nm j. sectionName s i = Inr nm \<and> findSection3 s (map_get m nm) = Inr j \<and> shdrs s' ! i = set_fld (wrn s j) (shdrs s ! i)
       else shdrs s' ! i = shdrs s ! i" by (rule bspec)
qed

section \<open>The permutation\<close>

text \<open>A sort that leaves the first element in front permutes the others, which their names tell apart.\<close>

lemma sort_permutation:
  assumes pos: "0 < length xs" and least: "\<And>y. \<not> lt y (xs ! 0)" and inj: "inj_on (\<lambda>i. G (xs ! i)) {1 ..< length xs}"
  obtains p where "p 0 = (0 :: nat)" and "bij_betw p {..< length xs} {..< length xs}"
    and "\<And>i. i < length xs \<Longrightarrow> std_sort lt xs ! p i = xs ! i"
proof -
  let ?S = "std_sort lt xs" and ?n = "length xs"
  obtain x ys where xs: "xs = x # ys" using pos by (cases xs) auto
  have S: "?S = x # tl ?S" unfolding xs by (rule hd_std_sort) (use least xs in auto)
  have "mset (x # tl ?S) = mset ?S" by (rule arg_cong [OF S [symmetric]])
  also have "\<dots> = mset (x # ys)" by (simp only: std.mset_srt xs)
  finally have "mset (x # tl ?S) = mset (x # ys)" .
  then have "mset (tl ?S) = mset ys" by simp
  then have tl: "set (tl ?S) = set ys" by (rule mset_eq_setD)
  have len: "length ?S = ?n" by simp
  have "\<exists>j. 0 < j \<and> j < ?n \<and> ?S ! j = xs ! i" if "0 < i" "i < ?n" for i
  proof -
    have "xs ! i \<in> set ys" using that by (auto simp: xs nth_Cons')
    then have "xs ! i \<in> set (tl ?S)" by (simp only: tl)
    then obtain k where "k < length (tl ?S)" "tl ?S ! k = xs ! i" by (metis in_set_conv_nth)
    moreover have "length (tl ?S) = ?n - 1" by simp
    ultimately have "Suc k < ?n" by linarith
    moreover have "?S ! Suc k = tl ?S ! k" using \<open>k < length (tl ?S)\<close> by (simp add: nth_tl)
    ultimately show ?thesis using \<open>tl ?S ! k = xs ! i\<close> by (intro exI [of _ "Suc k"]) simp
  qed
  then have "\<forall>i \<in> {1 ..< ?n}. \<exists>j. 0 < j \<and> j < ?n \<and> ?S ! j = xs ! i" by simp
  then obtain f where "\<forall>i \<in> {1 ..< ?n}. 0 < f i \<and> f i < ?n \<and> ?S ! f i = xs ! i"
    by (rule bchoice [THEN exE])
  then have f: "\<And>i. 0 < i \<Longrightarrow> i < ?n \<Longrightarrow> 0 < f i \<and> f i < ?n \<and> ?S ! f i = xs ! i" by simp
  define p where "p = f(0 := 0)"
  have p: "0 < i \<Longrightarrow> i < ?n \<Longrightarrow> 0 < p i \<and> p i < ?n \<and> ?S ! p i = xs ! i" for i using f by (simp add: p_def)
  have p0: "p 0 = 0" by (simp add: p_def)
  have "?S ! 0 = (x # tl ?S) ! 0" by (rule arg_cong [OF S, of "\<lambda>l. l ! 0"])
  then have S0: "?S ! 0 = xs ! 0" by (simp add: xs)
  have "inj_on p {..< ?n}"
  proof (rule inj_onI)
    fix i j
    assume ij: "i \<in> {..< ?n}" "j \<in> {..< ?n}" "p i = p j"
    show "i = j"
    proof (cases "i = 0 \<or> j = 0")
      case True
      with ij p [of i] p [of j] p0 show ?thesis by (cases i; cases j) auto
    next
      case False
      with ij p [of i] p [of j] have "xs ! i = xs ! j" by auto
      then have "G (xs ! i) = G (xs ! j)" by simp
      with False ij show ?thesis using inj by (auto dest: inj_onD)
    qed
  qed
  moreover have "p ` {..< ?n} \<subseteq> {..< ?n}"
  proof (rule image_subsetI)
    fix i
    assume "i \<in> {..< ?n}"
    then show "p i \<in> {..< ?n}" using p [of i] p0 pos by (cases i) auto
  qed
  ultimately have "bij_betw p {..< ?n} {..< ?n}"
    by (simp add: bij_betw_def endo_inj_surj)
  moreover have "?S ! p i = xs ! i" if "i < ?n" for i using p p0 S0 that by (cases i) auto
  ultimately show ?thesis using that [of p] p0 by blast
qed

text \<open>Looking up a name that only one section has.\<close>

lemma findSection3_unique:
  assumes "findSection3 s nm = Inr j" and "0 < k" "k < shnum s" "sectionName s k = Inr nm"
    and "\<And>i. 0 < i \<Longrightarrow> i < shnum s \<Longrightarrow> sectionName s i = Inr nm \<Longrightarrow> i = k"
  shows "j = k"
proof (cases "j = 0")
  case True
  with assms(1) have "find_index s nm [1 ..< shnum s] = Inr 0" by (simp add: findSection3_def)
  from find_index_not_found [OF this, of k] assms(2-4) show ?thesis by auto
next
  case False
  from find_index_found [OF assms(1) [unfolded findSection3_def] False] have "0 < j" "j < shnum s" "sectionName s j = Inr nm"
    by auto
  then show ?thesis by (rule assms(5))
qed

lemma shnum_less: "shnum s < 2 ^ 16"
  using unsigned_less [of "rdi (littleEndian s) (e_shnum (hdr s))"] by (simp add: shnum_def rdn_def)

lemma rdn_wrn_index:
  assumes "8 dvd LENGTH('b::len)" and "16 \<le> LENGTH('b)" and "littleEndian s' = littleEndian s" and "n < 2 ^ 16"
  shows "rdn s' (wrn s n :: 'b word) = n"
proof -
  have "n < 2 ^ LENGTH('b)" using assms(2,4) power_increasing [OF assms(2), of "2::nat"] by linarith
  moreover have "n < 2 ^ 64" using assms(4) by simp
  ultimately have "rdn s (wrn s n :: 'b word) = n" by (rule rdn_wrn [OF assms(1)])
  then show ?thesis by (simp add: rdn_def assms(3))
qed

section \<open>Sorting the section headers\<close>

lemma sortShdrs_steps:
  assumes "sortShdrs s = Inr s'"
  obtains linkage info nm u v j where "link_names (has_link s) sh_link s = Inr linkage"
    and "link_names (has_info s) sh_info s = Inr info" and "sectionName s (rdn s (e_shstrndx (hdr s))) = Inr nm"
    and "restore_links (has_link s) (\<lambda>w. sh_link_update (\<lambda>_. w)) linkage
           (s\<lparr>shdrs := std_sort (CompShdr (littleEndian s)) (shdrs s)\<rparr>) = Inr u"
    and "restore_links (has_info u) (\<lambda>w. sh_info_update (\<lambda>_. w)) info u = Inr v"
    and "findSection3 v nm = Inr j" and "s' = upd_hdr (e_shstrndx_update (\<lambda>_. wrn v j)) v"
proof -
  have eq: "has_link (s\<lparr>shdrs := S\<rparr>) = has_link s" for S by (simp add: has_link_def fun_eq_iff)
  from assms that show ?thesis
    by (auto simp: sortShdrs_def Let_def ebind_eq_Inr eq)
qed

text \<open>What sorting leaves alone.\<close>

lemma sortShdrs_frame:
  fixes s :: "'a::len ElfFile"
  assumes w: "elf_width TYPE('a)" and size: "sizeof_Ehdr TYPE('a) \<le> fileSize s" and run: "sortShdrs s = Inr s'"
  shows "phdrs s' = phdrs s" and "littleEndian s' = littleEndian s" and "fileSize s' = fileSize s"
    and "e_phoff (hdr s') = e_phoff (hdr s)" and "e_shoff (hdr s') = e_shoff (hdr s)" and "shnum s' = shnum s"
    and "\<And>a n. sizeof_Ehdr TYPE('a) \<le> a \<Longrightarrow> chunk a n (contents s') = chunk a n (contents s)"
    and "s' = s\<lparr>shdrs := shdrs s', contents := contents s'\<rparr>"
    and "hdr s' = (hdr s)\<lparr>e_shstrndx := e_shstrndx (hdr s')\<rparr>"
proof -
  obtain linkage info nm u v j where
    link: "restore_links (has_link s) (\<lambda>w. sh_link_update (\<lambda>_. w)) linkage (s\<lparr>shdrs := std_sort (CompShdr (littleEndian s)) (shdrs s)\<rparr>) = Inr u"
    and info: "restore_links (has_info u) (\<lambda>w. sh_info_update (\<lambda>_. w)) info u = Inr v"
    and s': "s' = upd_hdr (e_shstrndx_update (\<lambda>_. wrn v j)) v"
    by (rule sortShdrs_steps [OF run])
  note U = restore_links_spec(1) [OF link, simplified]
  note V = restore_links_spec(1) [OF info, simplified]
  have v: "contents v = contents s" "littleEndian v = littleEndian s" "phdrs v = phdrs s"
    using arg_cong [OF U, of contents] arg_cong [OF V, of contents] arg_cong [OF U, of littleEndian]
      arg_cong [OF V, of littleEndian] arg_cong [OF U, of phdrs] arg_cong [OF V, of phdrs] by simp_all
  have h: "hdr v = hdr s" "fileSize v = fileSize s" by (simp_all add: hdr_def fileSize_def v)
  have id: "length (e_ident (e_shstrndx_update (\<lambda>_. wrn v j) (hdr v))) = EI_NIDENT"
    using length_e_ident [OF size] by (simp add: h)
  have h': "hdr s' = e_shstrndx_update (\<lambda>_. wrn v j) (hdr s)" 
    using hdr_upd_hdr [OF w, of "e_shstrndx_update (\<lambda>_. wrn v j)" v] id by (simp add: s' h)
  have "v = s\<lparr>shdrs := shdrs v\<rparr>"
    using U V by (cases v, cases u, cases s) simp
  then show "s' = s\<lparr>shdrs := shdrs s', contents := contents s'\<rparr>"
    by (cases v, cases s) (simp add: s' upd_hdr_def)
  show "hdr s' = (hdr s)\<lparr>e_shstrndx := e_shstrndx (hdr s')\<rparr>" by (simp add: h')
  show "phdrs s' = phdrs s" "littleEndian s' = littleEndian s" by (simp_all add: s' v)
  show "fileSize s' = fileSize s" 
    using fileSize_upd_hdr [OF w, of "e_shstrndx_update (\<lambda>_. wrn v j)" v] id size by (simp add: s' h)
  show "e_phoff (hdr s') = e_phoff (hdr s)" "e_shoff (hdr s') = e_shoff (hdr s)" by (simp_all add: h')
  have "littleEndian s' = littleEndian s" by (simp add: s' v)
  then show "shnum s' = shnum s" by (simp add: shnum_def rdn_def h')
  show "chunk a n (contents s') = chunk a n (contents s)" if "sizeof_Ehdr TYPE('a) \<le> a" for a n
  proof -
    have l: "length (enc_Ehdr (e_shstrndx_update (\<lambda>_. wrn v j) (hdr v))) = sizeof_Ehdr TYPE('a)"
      by (rule length_enc_Ehdr [OF w id])
    show ?thesis unfolding s' upd_hdr_def
      using that size chunk_overwrite_after [of 0 "enc_Ehdr (e_shstrndx_update (\<lambda>_. wrn v j) (hdr v))" a "contents v" n]
      by (simp add: l v fileSize_def)
  qed
qed

end
