(* ===== verification/ElfSortProps.thy ===== *)
theory ElfSortProps
  imports ElfSort ElfExample
begin

text \<open>
  The property of sorting the section headers: the table is permuted and every reference between
  sections follows the permutation.
\<close>

section \<open>Names and lookups after the sort\<close>

lemma getSectionName_shdrs: "getSectionName (s\<lparr>shdrs := S\<rparr>) = getSectionName s"
  by (simp add: getSectionName_def rdn_def fun_eq_iff)

lemma name_view_length: "name_view s' = name_view s \<Longrightarrow> length (shdrs s') = length (shdrs s)"
  by (drule arg_cong [where f = "\<lambda>v. length (snd (snd (snd v)))"]) (simp add: name_view_def)

lemma shdrs_only:
  assumes "s' = s\<lparr>shdrs := S\<rparr>"
  shows "littleEndian s' = littleEndian s" and "contents s' = contents s"
  using assms by simp_all

lemma shnum_shdrs: "shnum (s\<lparr>shdrs := S\<rparr>) = shnum s"
  by (simp add: shnum_def rdn_def)

text \<open>
  When a permutation moves the headers and names tell them apart, looking up the name of the old
  index gives the new one.
\<close>

lemma findSection3_permuted:
  assumes n: "shnum t = n" and bij: "bij_betw p {..< n} {..< n}" "p 0 = 0"
    and names: "\<And>i. 0 < i \<Longrightarrow> i < n \<Longrightarrow> sectionName t (p i) = Inr (N i)" and inj: "inj_on N {1 ..< n}"
    and l: "0 < l" "l < n" and find: "findSection3 t (N l) = Inr j"
  shows "j = p l"
proof (rule findSection3_unique [OF find])
  have inj_p: "inj_on p {..< n}" and im: "p ` {..< n} = {..< n}" using bij(1) by (auto simp: bij_betw_def)
  have "p l \<noteq> p 0" using inj_onD [OF inj_p, of l 0] l by auto
  then show "0 < p l" by (simp add: bij(2))
  show "p l < shnum t" using im l n by auto
  show "sectionName t (p l) = Inr (N l)" by (rule names [OF l])
  fix k
  assume k: "0 < k" "k < shnum t" "sectionName t k = Inr (N l)"
  then have "k \<in> p ` {..< n}" by (simp add: im n)
  then obtain i where i: "i < n" "k = p i" by auto
  with k bij(2) have "0 < i" by (cases i) auto
  with i k names have "N i = N l" by fastforce
  with inj \<open>0 < i\<close> i l have "i = l" by (auto dest: inj_onD)
  with i show "k = p l" by simp
qed

text \<open>A recorded and restored field of the section headers follows the permutation.\<close>

lemma restored_field:
  fixes t :: "'a::len ElfFile" and set_fld :: "Elf_Word \<Rightarrow> 'a Elf_Shdr \<Rightarrow> 'a Elf_Shdr"
  assumes names_run: "link_names has fld s = Inr m" and run: "restore_links has' set_fld m t = Inr u"
    and set_name: "\<And>w h. sh_name (set_fld w h) = sh_name h"
    and n: "shnum s = n" "shnum t = n"
    and bij: "bij_betw p {..< n} {..< n}" "p 0 = 0" and inj: "inj_on N {1 ..< n}"
    and names: "\<And>i. 0 < i \<Longrightarrow> i < n \<Longrightarrow> sectionName s i = Inr (N i)"
      "\<And>i. 0 < i \<Longrightarrow> i < n \<Longrightarrow> sectionName t (p i) = Inr (N i)"
    and has: "has' (shdrs t ! p i) = has (shdrs s ! i)" "has (shdrs s ! i) \<Longrightarrow> 0 < rdn s (fld (shdrs s ! i))"
    and len: "length (shdrs s) = n" and i: "0 < i" "i < n"
  shows "shdrs u ! p i = (if has (shdrs s ! i) then set_fld (wrn t (p (rdn s (fld (shdrs s ! i))))) (shdrs t ! p i)
      else shdrs t ! p i) \<and> (has (shdrs s ! i) \<longrightarrow> rdn s (fld (shdrs s ! i)) < n)"
proof -
  have inj_p: "inj_on p {..< n}" and im: "p ` {..< n} = {..< n}" using bij(1) by (auto simp: bij_betw_def)
  have "p i \<noteq> p 0" using inj_onD [OF inj_p, of i 0] i by auto
  then have pi: "0 < p i" "p i < shnum t" using im i n bij(2) by auto
  note R = restore_links_spec(4) [OF run set_name pi]
  show ?thesis
  proof (cases "has (shdrs s ! i)")
    case False
    with R has(1) show ?thesis by simp
  next
    case True
    let ?l = "rdn s (fld (shdrs s ! i))"
    obtain tn where tn: "sectionName s ?l = Inr tn" "map_get m (N i) = tn"
      by (rule link_names_spec [OF names_run, of N i]) (use names(1) inj i True in \<open>simp_all add: n\<close>)
    have l: "0 < ?l" "?l < n" using has(2) [OF True] sectionName_Inr [OF tn(1)] len by simp_all
    with tn names(1) have "tn = N ?l" by simp
    moreover from R True has(1) obtain j where
      "findSection3 t (map_get m (N i)) = Inr j" "shdrs u ! p i = set_fld (wrn t j) (shdrs t ! p i)"
      using names(2) [OF i] by auto
    ultimately show ?thesis
      using findSection3_permuted [OF n(2) bij names(2) inj l] True l tn(2) by auto
  qed
qed

section \<open>Sorting the section headers\<close>

text \<open>The permutation of the sort, with the names of the entries under their new indices.\<close>

lemma sort_moves:
  fixes s :: "'a::len ElfFile"
  assumes n: "length (shdrs s) = n" "0 < n" and first: "rdn s (sh_offset (shdrs s ! 0)) = 0"
    and names: "\<And>i. 0 < i \<Longrightarrow> i < n \<Longrightarrow> sectionName s i = Inr (N i)" "inj_on N {1 ..< n}"
  obtains p where "p 0 = (0 :: nat)" and "bij_betw p {..< n} {..< n}"
    and "\<And>i. i < n \<Longrightarrow> std_sort (CompShdr (littleEndian s)) (shdrs s) ! p i = shdrs s ! i"
    and "\<And>i. 0 < i \<Longrightarrow> i < n \<Longrightarrow>
      sectionName (s\<lparr>shdrs := std_sort (CompShdr (littleEndian s)) (shdrs s)\<rparr>) (p i) = Inr (N i)"
proof -
  let ?lt = "CompShdr (littleEndian s)"
  have G: "getSectionName s (shdrs s ! i) = Inr (N i)" if "0 < i" "i < n" for i
    using names(1) [OF that] that n(1) by (simp add: sectionName_def at_def)
  have "inj_on (\<lambda>i. getSectionName s (shdrs s ! i)) {1 ..< length (shdrs s)}"
  proof (rule inj_onI)
    fix i k
    assume "i \<in> {1 ..< length (shdrs s)}" "k \<in> {1 ..< length (shdrs s)}"
      "getSectionName s (shdrs s ! i) = getSectionName s (shdrs s ! k)"
    with n(1) G names(2) show "i = k" by (auto dest: inj_onD)
  qed
  moreover have "\<not> ?lt y (shdrs s ! 0)" for y
    using first by (simp add: CompShdr_def rdn_def word_less_nat_alt)
  ultimately obtain p where p: "p 0 = 0" "bij_betw p {..< n} {..< n}" "\<And>i. i < n \<Longrightarrow> std_sort ?lt (shdrs s) ! p i = shdrs s ! i"
    using sort_permutation [of "shdrs s" ?lt "getSectionName s"] n by auto
  have "p i < n" if "i < n" for i using that p(2) by (auto simp: bij_betw_def)
  then have "sectionName (s\<lparr>shdrs := std_sort ?lt (shdrs s)\<rparr>) (p i) = Inr (N i)" if "0 < i" "i < n" for i
    using G [OF that] p(3) that n(1) by (simp add: sectionName_def at_def getSectionName_shdrs)
  with p that show ?thesis by blast
qed

lemma sorted_offsets: "sorted (map (\<lambda>sh. rdn s (sh_offset sh)) (std_sort (CompShdr (littleEndian s)) xs))"
proof -
  let ?key = "\<lambda>sh :: 'a Elf_Shdr. rdn s (sh_offset sh) :: nat"
  have "CompShdr (littleEndian s) = (\<lambda>x y. ?key x < ?key y)" by (simp add: CompShdr_def rdn_def word_less_nat_alt fun_eq_iff)
  then show ?thesis by (simp only: std.sorted_srt)
qed

text \<open>Two tables of which one is a permutation of the other up to references have the same keys in the same order.\<close>

lemma same_keys:
  assumes "bij_betw p {..< n} {..< n}" and "length xs = n" "length ys = n" and "\<And>i. i < n \<Longrightarrow> f (xs ! p i) = f (ys ! p i)"
  shows "map f xs = map f ys"
proof (rule nth_equalityI)
  show "length (map f xs) = length (map f ys)" using assms by simp
  fix k
  assume "k < length (map f xs)"
  then have "k < n" by (simp add: assms(2))
  moreover then obtain i where "i < n" "k = p i" using assms(1) by (auto simp: bij_betw_def)
  ultimately show "map f xs ! k = map f ys ! k" using assms by simp
qed

text \<open>The two steps that set the references, entry by entry.\<close>

lemma sorted_entries:
  fixes s :: "'a::len ElfFile"
  assumes n: "length (shdrs s) = n" "shnum s = n" "0 < n"
    and names: "\<And>i. 0 < i \<Longrightarrow> i < n \<Longrightarrow> sectionName s i = Inr (N i)" "inj_on N {1 ..< n}"
    and p: "p 0 = 0" "bij_betw p {..< n} {..< n}" "\<And>i. i < n \<Longrightarrow> S ! p i = shdrs s ! i"
      "\<And>i. 0 < i \<Longrightarrow> i < n \<Longrightarrow> sectionName (s\<lparr>shdrs := S\<rparr>) (p i) = Inr (N i)"
    and recorded: "link_names (has_link s) sh_link s = Inr linkage" "link_names (has_info s) sh_info s = Inr info"
    and link: "restore_links (has_link s) (\<lambda>w. sh_link_update (\<lambda>_. w)) linkage (s\<lparr>shdrs := S\<rparr>) = Inr u"
    and info: "restore_links (has_info u) (\<lambda>w. sh_info_update (\<lambda>_. w)) info u = Inr v"
  shows "shdrs v ! 0 = shdrs s ! 0"
    and "\<And>i. 0 < i \<Longrightarrow> i < n \<Longrightarrow> \<exists>a b. shdrs v ! p i = (shdrs s ! i)\<lparr>sh_link := a, sh_info := b\<rparr> \<and>
      rdn s a = p (rdn s (sh_link (shdrs s ! i))) \<and>
      (if has_info s (shdrs s ! i) then rdn s b = p (rdn s (sh_info (shdrs s ! i))) else b = sh_info (shdrs s ! i))"
proof -
  let ?t = "s\<lparr>shdrs := S\<rparr>"
  note U = restore_links_spec(1-3) [OF link, simplified]
  note V = restore_links_spec(1-3) [OF info, simplified]
  have le: "littleEndian u = littleEndian s"
    using shdrs_only(1) [OF U(1)] by simp
  show "shdrs v ! 0 = shdrs s ! 0" using U(3) V(3) p(1) p(3) [OF n(3)] by simp
  have nt: "shnum ?t = n" by (simp add: shnum_shdrs n(2))
  have nu: "shnum u = n" using U(2) nt by (simp add: name_view_def)
  have pn: "p i < n" if "i < n" for i using that p(2) by (auto simp: bij_betw_def)
  have idx: "rdn s (wrn x (p i) :: Elf_Word) = p i" if "i < n" "littleEndian x = littleEndian s" for x :: "'a ElfFile" and i
    by (rule rdn_wrn_index) (use pn [OF that(1)] shnum_less [of s] n(2) that in simp_all)
  have nameU: "sectionName u (p i) = Inr (N i)" if "0 < i" "i < n" for i
    using p(4) [OF that] sectionName_view [OF U(2)] by simp
  fix i
  assume i: "0 < i" "i < n"
  let ?h = "shdrs s ! i" and ?l = "p (rdn s (sh_link (shdrs s ! i)))" and ?k = "p (rdn s (sh_info (shdrs s ! i)))"
  have L: "shdrs u ! p i = (if has_link s ?h then ?h\<lparr>sh_link := wrn ?t ?l\<rparr> else ?h) \<and>
      (has_link s ?h \<longrightarrow> rdn s (sh_link ?h) < n)"
    using restored_field [OF recorded(1) link _ n(2) nt p(2,1) names(2,1) p(4) _ _ n(1) i] p(3) i
    by (simp add: has_link_def rdn_def unat_gt_0)
  then have same: "has_info u (shdrs u ! p i) = has_info s ?h" "sh_info (shdrs u ! p i) = sh_info ?h"
    by (auto simp: has_info_def le)
  have I: "shdrs v ! p i = (if has_info s ?h then (shdrs u ! p i)\<lparr>sh_info := wrn u ?k\<rparr> else shdrs u ! p i) \<and>
      (has_info s ?h \<longrightarrow> rdn s (sh_info ?h) < n)"
    using restored_field [OF recorded(2) info _ n(2) nu p(2,1) names(2,1) nameU _ _ n(1) i] same(1)
    by (simp add: has_info_def rdn_def unat_gt_0)
  define a where "a = (if has_link s ?h then wrn ?t ?l else sh_link ?h)"
  define b where "b = (if has_info s ?h then wrn u ?k else sh_info ?h)"
  have "shdrs v ! p i = ?h\<lparr>sh_link := a, sh_info := b\<rparr>"
    using L I by (cases "has_link s ?h"; cases "has_info s ?h") (simp_all add: a_def b_def)
  moreover have "rdn s a = ?l"
    using L idx [of "rdn s (sh_link ?h)" ?t] p(1) by (auto simp: a_def has_link_def rdn_def)
  moreover have "if has_info s ?h then rdn s b = ?k else b = sh_info ?h"
    using I idx [OF _ le] by (simp add: b_def)
  ultimately show "\<exists>a b. shdrs v ! p i = ?h\<lparr>sh_link := a, sh_info := b\<rparr> \<and> rdn s a = ?l \<and>
      (if has_info s ?h then rdn s b = ?k else b = sh_info ?h)" by blast
qed

text \<open>The index of the section name table follows the permutation.\<close>

lemma shstrndx_follows:
  fixes v :: "'a::len ElfFile"
  assumes w: "elf_width TYPE('a)" and size: "sizeof_Ehdr TYPE('a) \<le> fileSize v"
    and n: "shnum v = n" and p: "bij_betw p {..< n} {..< n}" "p 0 = 0"
    and names: "\<And>i. 0 < i \<Longrightarrow> i < n \<Longrightarrow> sectionName v (p i) = Inr (N i)" "inj_on N {1 ..< n}"
    and k: "0 < k" "k < n" and find: "findSection3 v (N k) = Inr j"
  shows "rdn v (e_shstrndx (hdr (upd_hdr (e_shstrndx_update (\<lambda>_. wrn v j)) v))) = p k"
proof -
  have "j = p k" by (rule findSection3_permuted [OF n p names k find])
  moreover have "p k < n" using k p(1) by (auto simp: bij_betw_def)
  then have "p k < 2 ^ 16" using shnum_less [of v] n by simp
  then have "rdn v (wrn v (p k) :: Elf_Half) = p k" by (intro rdn_wrn_index) simp_all
  ultimately show ?thesis by (simp add: hdr_upd_hdr [OF w] length_e_ident [OF size])
qed

text \<open>
  Property C1. \<open>sortShdrs\<close> orders the section header table by offset and keeps the file consistent: the table is
  permuted, with entry 0 staying first, and in every entry nothing but the two references to other entries changes;
  \<open>sh_link\<close> and, in relocation sections, \<open>sh_info\<close> name the same sections as before under their new
  indices, and so does \<open>e_shstrndx\<close>. The names of the sections are those that the code itself goes by, so they have to
  differ, and entry 0 has offset 0. Nothing else changes: of the state only the section headers and the image, of the
  ELF header in the image only \<open>e_shstrndx\<close>, and after it no byte.
\<close>

theorem sortShdrs_permutes:
  fixes s :: "'a::len ElfFile"
  assumes w: "elf_width TYPE('a)" and run: "sortShdrs s = Inr s'"
    and n: "length (shdrs s) = n" "shnum s = n" "0 < n" and size: "sizeof_Ehdr TYPE('a) \<le> fileSize s"
    and first: "rdn s (sh_offset (shdrs s ! 0)) = 0"
    and names: "\<forall>i. 0 < i \<and> i < n \<longrightarrow> sectionName s i = Inr (N i)" "inj_on N {1 ..< n}"
  shows "\<exists>p. p 0 = 0 \<and> bij_betw p {..< n} {..< n} \<and> length (shdrs s') = n \<and>
    sorted (map (\<lambda>sh. rdn s (sh_offset sh)) (shdrs s')) \<and> shdrs s' ! 0 = shdrs s ! 0 \<and>
    (\<forall>i. 0 < i \<and> i < n \<longrightarrow> (\<exists>link info. shdrs s' ! p i = (shdrs s ! i)\<lparr>sh_link := link, sh_info := info\<rparr> \<and>
       rdn s link = p (rdn s (sh_link (shdrs s ! i))) \<and>
       (if has_info s (shdrs s ! i) then rdn s info = p (rdn s (sh_info (shdrs s ! i))) else info = sh_info (shdrs s ! i)))) \<and>
    (0 < rdn s (e_shstrndx (hdr s)) \<longrightarrow> rdn s (e_shstrndx (hdr s')) = p (rdn s (e_shstrndx (hdr s)))) \<and>
    s' = s\<lparr>shdrs := shdrs s', contents := contents s'\<rparr> \<and>
    hdr s' = (hdr s)\<lparr>e_shstrndx := e_shstrndx (hdr s')\<rparr> \<and> fileSize s' = fileSize s \<and>
    (\<forall>a m. sizeof_Ehdr TYPE('a) \<le> a \<longrightarrow> chunk a m (contents s') = chunk a m (contents s))"
proof -
  let ?S = "std_sort (CompShdr (littleEndian s)) (shdrs s)" and ?k = "rdn s (e_shstrndx (hdr s))"
  obtain linkage info nm u v j where steps: "link_names (has_link s) sh_link s = Inr linkage"
      "link_names (has_info s) sh_info s = Inr info" "sectionName s ?k = Inr nm"
    and link: "restore_links (has_link s) (\<lambda>w. sh_link_update (\<lambda>_. w)) linkage (s\<lparr>shdrs := ?S\<rparr>) = Inr u"
    and info: "restore_links (has_info u) (\<lambda>w. sh_info_update (\<lambda>_. w)) info u = Inr v"
    and find: "findSection3 v nm = Inr j" and s': "s' = upd_hdr (e_shstrndx_update (\<lambda>_. wrn v j)) v"
    by (rule sortShdrs_steps [OF run])
  have nameI: "sectionName s i = Inr (N i)" if "0 < i" "i < n" for i using names(1) that by blast
  obtain p where p: "p 0 = 0" "bij_betw p {..< n} {..< n}" "\<And>i. i < n \<Longrightarrow> ?S ! p i = shdrs s ! i"
      "\<And>i. 0 < i \<Longrightarrow> i < n \<Longrightarrow> sectionName (s\<lparr>shdrs := ?S\<rparr>) (p i) = Inr (N i)"
    using sort_moves [OF n(1,3) first nameI names(2)] by blast
  note E = sorted_entries [OF n nameI names(2) p steps(1,2) link info]
  note U = restore_links_spec(1-2) [OF link, simplified]
  note V = restore_links_spec(1-2) [OF info, simplified]
  have v: "littleEndian v = littleEndian s" "contents v = contents s"
    using shdrs_only [OF U(1)] shdrs_only [OF V(1)] by simp_all
  have view: "name_view v = name_view (s\<lparr>shdrs := ?S\<rparr>)" using U(2) V(2) by simp
  have len: "length (shdrs v) = n" using name_view_length [OF view] n(1) by simp
  have "sh_offset (shdrs v ! p i) = sh_offset (?S ! p i)" if "i < n" for i
  proof (cases "i = 0")
    case True
    then show ?thesis using E(1) p(1) p(3) [OF n(3)] by simp
  next
    case False
    with that obtain a b where "shdrs v ! p i = (shdrs s ! i)\<lparr>sh_link := a, sh_info := b\<rparr>" using E(2) by blast
    then show ?thesis using p(3) [OF that] by simp
  qed
  then have "map (\<lambda>sh. rdn s (sh_offset sh)) (shdrs v) = map (\<lambda>sh. rdn s (sh_offset sh)) ?S"
    by (intro same_keys [OF p(2) len]) (simp_all add: n(1))
  then have sorted: "sorted (map (\<lambda>sh. rdn s (sh_offset sh)) (shdrs v))" by (simp only: sorted_offsets)
  have "rdn s (e_shstrndx (hdr s')) = p ?k" if pos: "0 < ?k"
  proof -
    have k: "?k < n" using sectionName_Inr [OF steps(3)] n(1) by simp
    with steps(3) nameI pos have nm: "nm = N ?k" by simp
    have "shnum v = n" using view by (simp add: name_view_def shnum_shdrs n(2))
    moreover have "sizeof_Ehdr TYPE('a) \<le> fileSize v" using size by (simp add: fileSize_def v)
    ultimately have "rdn v (e_shstrndx (hdr s')) = p ?k"
      using shstrndx_follows [OF w _ _ p(2,1) _ names(2) pos k find [unfolded nm]] sectionName_view [OF view] p(4)
      by (simp add: s')
    then show ?thesis by (simp add: rdn_def v(1))
  qed
  note refs = this
  note frame = sortShdrs_frame(8,9,3,7) [OF w size run]
  show ?thesis
  proof (intro exI [of _ p] conjI)
    show "s' = s\<lparr>shdrs := shdrs s', contents := contents s'\<rparr>" by (rule frame(1))
    show "hdr s' = (hdr s)\<lparr>e_shstrndx := e_shstrndx (hdr s')\<rparr>" by (rule frame(2))
    show "\<forall>a m. sizeof_Ehdr TYPE('a) \<le> a \<longrightarrow> chunk a m (contents s') = chunk a m (contents s)"
      using frame(4) by blast
  qed (use p(1,2) len sorted E refs frame(3) in \<open>simp_all add: s'\<close>)
qed

definition ex_shuffled :: "32 ElfFile" where
  "ex_shuffled = ex_elf\<lparr>shdrs := [shdrs ex_elf ! 0, (shdrs ex_elf ! 3)\<lparr>sh_link := 3\<rparr>, shdrs ex_elf ! 1, shdrs ex_elf ! 2]\<rparr>"

theorem sortShdrs_permutes_witness:
  "\<exists>s' p. sortShdrs ex_shuffled = Inr s' \<and> p (0 :: nat) = 0 \<and> bij_betw p {..< 4} {..< 4} \<and>
     rdn ex_shuffled (sh_link (shdrs s' ! p 1)) = p 3 \<and> rdn ex_shuffled (e_shstrndx (hdr s')) = p 1 \<and>
     phdrs s' = phdrs ex_shuffled"
proof -
  let ?N = "\<lambda>i. [[], str ''.dynamic'', str ''.interp'', str ''.dynstr''] ! i"
  have "\<not> isl (sortShdrs ex_shuffled)" by code_simp
  then obtain s' where run: "sortShdrs ex_shuffled = Inr s'" using not_isl by blast
  have facts: "length (shdrs ex_shuffled) = 4" "shnum ex_shuffled = 4" "sizeof_Ehdr TYPE(32) \<le> fileSize ex_shuffled"
    "rdn ex_shuffled (sh_offset (shdrs ex_shuffled ! 0)) = 0" "rdn ex_shuffled (e_shstrndx (hdr ex_shuffled)) = 1"
    "rdn ex_shuffled (sh_link (shdrs ex_shuffled ! 1)) = 3"
    by code_simp+
  have "\<forall>i \<in> set [1 ..< 4]. sectionName ex_shuffled i = Inr (?N i)" by code_simp
  then have names: "\<forall>i. 0 < i \<and> i < 4 \<longrightarrow> sectionName ex_shuffled i = Inr (?N i)" by simp
  have "distinct (map ?N [1 ..< 4])" by code_simp
  then have inj: "inj_on ?N {1 ..< 4}" by (simp only: distinct_map set_upt)
  have side: "elf_width TYPE(32)" "(0 :: nat) < 4" by simp_all
  from sortShdrs_permutes [OF side(1) run facts(1,2) side(2) facts(3,4) names inj] show ?thesis
  proof (elim exE conjE, goal_cases)
    case (1 p)
    from 1(6) [rule_format, of 1] obtain link where
      "sh_link (shdrs s' ! p 1) = link" "rdn ex_shuffled link = p (rdn ex_shuffled (sh_link (shdrs ex_shuffled ! 1)))"
      by auto
    with facts(6) have "rdn ex_shuffled (sh_link (shdrs s' ! p 1)) = p 3" by simp
    moreover have "rdn ex_shuffled (e_shstrndx (hdr s')) = p 1" using 1(7) facts(5) by simp
    moreover have "phdrs s' = phdrs ex_shuffled" by (subst 1(8)) simp
    ultimately show ?case using run 1(1,2) by blast
  qed
qed

end
