(* ===== verification/ElfProcessor.thy ===== *)
theory ElfProcessor
  imports ElfConstants
begin

text \<open>
  The processor-specific part of \<open>patchelf-0.9/src/elf.h\<close>: the MIPS structures and move records,
  the macros, and the named numbers as tables. The relocations are in their own theory.
\<close>

section \<open>Structures\<close>

text \<open>Move records; the first field has 64 bits in both classes. The padding at the end has no name.\<close>

record (overloaded) 'a Elf_Move =
  m_value :: "64 word"
  m_info :: "'a::len word"
  m_poffset :: "'a::len word"
  m_repeat :: Elf_Half
  m_stride :: Elf_Half

text \<open>The union: the first entry of the section is the header, the others are entries.\<close>

datatype Elf32_gptab = gt_header (gt_current_g_value: Elf_Word) (gt_unused: Elf_Word)
  | gt_entry (gt_g_value: Elf_Word) (gt_bytes: Elf_Word)

fun enc_gptab :: "Elf32_gptab \<Rightarrow> bstring" where
  "enc_gptab (gt_header g u) = wbytes g @ wbytes u"
| "enc_gptab (gt_entry g b) = wbytes g @ wbytes b"

definition dec_gptab :: "nat \<Rightarrow> bstring \<Rightarrow> Elf32_gptab" where
  "dec_gptab i bs =
     (let (v0, bs) = rdw bs; (v1, bs) = rdw bs
      in if i = 0 then gt_header v0 v1 else gt_entry v0 v1)"

record Elf32_RegInfo =
  ri_gprmask :: Elf_Word
  ri_cprmask :: "Elf_Word \<times> Elf_Word \<times> Elf_Word \<times> Elf_Word"
  ri_gp_value :: Elf_Word

definition enc_RegInfo :: "Elf32_RegInfo \<Rightarrow> bstring" where
  "enc_RegInfo s = (let (a, b, c, d) = ri_cprmask s in
     wbytes (ri_gprmask s) @ wbytes a @ wbytes b @ wbytes c @ wbytes d @ wbytes (ri_gp_value s))"

definition dec_RegInfo :: "bstring \<Rightarrow> Elf32_RegInfo" where
  "dec_RegInfo bs =
     (let (v0, bs) = rdw bs; (a, bs) = rdw bs; (b, bs) = rdw bs; (c, bs) = rdw bs; (d, bs) = rdw bs; (v1, bs) = rdw bs
      in \<lparr>ri_gprmask = v0, ri_cprmask = (a, b, c, d), ri_gp_value = v1\<rparr>)"

interpretation RegInfo: layout enc_RegInfo dec_RegInfo 24 "\<lambda>_. True"
  by unfold_locales
    (simp_all add: enc_RegInfo_def dec_RegInfo_def Let_def rdw_wbytes rdw_def take_add_drop split: prod.splits flip: append_assoc)

record Elf_Options =
  opt_kind :: byte
  opt_size :: byte
  opt_section :: Elf_Section
  opt_info :: Elf_Word

definition enc_Options :: "Elf_Options \<Rightarrow> bstring" where
  "enc_Options s = wbytes (opt_kind s) @ wbytes (opt_size s) @ wbytes (opt_section s) @ wbytes (opt_info s)"

definition dec_Options :: "bstring \<Rightarrow> Elf_Options" where
  "dec_Options bs =
     (let (v0, bs) = rdw bs; (v1, bs) = rdw bs; (v2, bs) = rdw bs; (v3, bs) = rdw bs
      in \<lparr>opt_kind = v0, opt_size = v1, opt_section = v2, opt_info = v3\<rparr>)"

interpretation Options: layout enc_Options dec_Options 8 "\<lambda>_. True"
  by unfold_locales (simp_all add: enc_Options_def dec_Options_def rdw_wbytes rdw_def take_add_drop flip: append_assoc)

record Elf_Options_Hw =
  hwp_flags1 :: Elf_Word
  hwp_flags2 :: Elf_Word

definition enc_Options_Hw :: "Elf_Options_Hw \<Rightarrow> bstring" where
  "enc_Options_Hw s = wbytes (hwp_flags1 s) @ wbytes (hwp_flags2 s)"

definition dec_Options_Hw :: "bstring \<Rightarrow> Elf_Options_Hw" where
  "dec_Options_Hw bs =
     (let (v0, bs) = rdw bs; (v1, bs) = rdw bs
      in \<lparr>hwp_flags1 = v0, hwp_flags2 = v1\<rparr>)"

interpretation Options_Hw: layout enc_Options_Hw dec_Options_Hw 8 "\<lambda>_. True"
  by unfold_locales (simp_all add: enc_Options_Hw_def dec_Options_Hw_def rdw_wbytes rdw_def take_add_drop flip: append_assoc)

text \<open>\<open>Elf32_Lib\<close> and \<open>Elf64_Lib\<close> have the same fields.\<close>

record Elf_Lib =
  l_name :: Elf_Word
  l_time_stamp :: Elf_Word
  l_checksum :: Elf_Word
  l_version :: Elf_Word
  l_flags :: Elf_Word

definition enc_Lib :: "Elf_Lib \<Rightarrow> bstring" where
  "enc_Lib s = wbytes (l_name s) @ wbytes (l_time_stamp s) @ wbytes (l_checksum s) @ wbytes (l_version s) @ wbytes (l_flags s)"

definition dec_Lib :: "bstring \<Rightarrow> Elf_Lib" where
  "dec_Lib bs =
     (let (v0, bs) = rdw bs; (v1, bs) = rdw bs; (v2, bs) = rdw bs; (v3, bs) = rdw bs; (v4, bs) = rdw bs
      in \<lparr>l_name = v0, l_time_stamp = v1, l_checksum = v2, l_version = v3, l_flags = v4\<rparr>)"

interpretation Lib: layout enc_Lib dec_Lib 20 "\<lambda>_. True"
  by unfold_locales (simp_all add: enc_Lib_def dec_Lib_def rdw_wbytes rdw_def take_add_drop flip: append_assoc)

type_synonym Elf32_Conflict = "32 Elf_Addr"

section \<open>Macros\<close>

definition ELF64_M_SYM :: "'a::len word \<Rightarrow> 'a word" where
  "ELF64_M_SYM info = ELF32_M_SYM info"

definition ELF64_M_SIZE :: "'a::len word \<Rightarrow> byte" where
  "ELF64_M_SIZE info = ELF32_M_SIZE info"

definition ELF64_M_INFO :: "'a::len word \<Rightarrow> 'a word \<Rightarrow> 'a word" where
  "ELF64_M_INFO sy sz = ELF32_M_INFO sy sz"

text \<open>The three bits of \<open>st_other\<close> that give the distance from the global to the local entry point of a function.\<close>

definition PPC64_LOCAL_ENTRY_OFFSET :: "32 word \<Rightarrow> 32 word" where
  "PPC64_LOCAL_ENTRY_OFFSET other = push_bit 2 (drop_bit 2 (push_bit (unat (drop_bit 5 (other AND push_bit 5 7))) 1))"

definition EF_ARM_EABI_VERSION :: "32 word \<Rightarrow> 32 word" where
  "EF_ARM_EABI_VERSION flags = flags AND 0xff000000"

section \<open>Named numbers\<close>

text \<open>Flags of the m68k header.\<close>

definition EF_CPU32_table :: "(string \<times> int) list" where
  "EF_CPU32_table = [(''EF_CPU32'', 8454144)]"

text \<open>SPARC symbol types.\<close>

definition STT_SPARC_table :: "(string \<times> int) list" where
  "STT_SPARC_table = [(''STT_SPARC_REGISTER'', 13)]"

text \<open>Flags of the SPARC header.\<close>

definition EF_SPARC_table :: "(string \<times> int) list" where
  "EF_SPARC_table = [(''EF_SPARCV9_MM'', 3), (''EF_SPARCV9_TSO'', 0), (''EF_SPARCV9_PSO'', 1),
     (''EF_SPARCV9_RMO'', 2), (''EF_SPARC_LEDATA'', 8388608), (''EF_SPARC_EXT_MASK'', 16776960),
     (''EF_SPARC_32PLUS'', 256), (''EF_SPARC_SUN_US1'', 512), (''EF_SPARC_HAL_R1'', 1024),
     (''EF_SPARC_SUN_US3'', 2048)]"

text \<open>SPARC dynamic tags.\<close>

definition DT_SPARC_table :: "(string \<times> int) list" where
  "DT_SPARC_table = [(''DT_SPARC_REGISTER'', 1879048193), (''DT_SPARC_NUM'', 2)]"

text \<open>Flags of the MIPS header.\<close>

definition EF_MIPS_table :: "(string \<times> int) list" where
  "EF_MIPS_table = [(''EF_MIPS_NOREORDER'', 1), (''EF_MIPS_PIC'', 2), (''EF_MIPS_CPIC'', 4),
     (''EF_MIPS_XGOT'', 8), (''EF_MIPS_64BIT_WHIRL'', 16), (''EF_MIPS_ABI2'', 32),
     (''EF_MIPS_ABI_ON32'', 64), (''EF_MIPS_NAN2008'', 1024), (''EF_MIPS_ARCH'', 4026531840),
     (''EF_MIPS_ARCH_1'', 0), (''EF_MIPS_ARCH_2'', 268435456), (''EF_MIPS_ARCH_3'', 536870912),
     (''EF_MIPS_ARCH_4'', 805306368), (''EF_MIPS_ARCH_5'', 1073741824),
     (''EF_MIPS_ARCH_32'', 1342177280), (''EF_MIPS_ARCH_64'', 1610612736),
     (''EF_MIPS_ARCH_32R2'', 1879048192), (''EF_MIPS_ARCH_64R2'', 2147483648)]"

text \<open>Unofficial names of the MIPS levels.\<close>

definition E_MIPS_table :: "(string \<times> int) list" where
  "E_MIPS_table = [(''E_MIPS_ARCH_1'', 0), (''E_MIPS_ARCH_2'', 268435456), (''E_MIPS_ARCH_3'', 536870912),
     (''E_MIPS_ARCH_4'', 805306368), (''E_MIPS_ARCH_5'', 1073741824),
     (''E_MIPS_ARCH_32'', 1342177280), (''E_MIPS_ARCH_64'', 1610612736)]"

text \<open>MIPS section indices.\<close>

definition SHN_MIPS_table :: "(string \<times> int) list" where
  "SHN_MIPS_table = [(''SHN_MIPS_ACOMMON'', 65280), (''SHN_MIPS_TEXT'', 65281), (''SHN_MIPS_DATA'', 65282),
     (''SHN_MIPS_SCOMMON'', 65283), (''SHN_MIPS_SUNDEFINED'', 65284)]"

text \<open>MIPS section types.\<close>

definition SHT_MIPS_table :: "(string \<times> int) list" where
  "SHT_MIPS_table = [(''SHT_MIPS_LIBLIST'', 1879048192), (''SHT_MIPS_MSYM'', 1879048193),
     (''SHT_MIPS_CONFLICT'', 1879048194), (''SHT_MIPS_GPTAB'', 1879048195),
     (''SHT_MIPS_UCODE'', 1879048196), (''SHT_MIPS_DEBUG'', 1879048197),
     (''SHT_MIPS_REGINFO'', 1879048198), (''SHT_MIPS_PACKAGE'', 1879048199),
     (''SHT_MIPS_PACKSYM'', 1879048200), (''SHT_MIPS_RELD'', 1879048201),
     (''SHT_MIPS_IFACE'', 1879048203), (''SHT_MIPS_CONTENT'', 1879048204),
     (''SHT_MIPS_OPTIONS'', 1879048205), (''SHT_MIPS_SHDR'', 1879048208),
     (''SHT_MIPS_FDESC'', 1879048209), (''SHT_MIPS_EXTSYM'', 1879048210),
     (''SHT_MIPS_DENSE'', 1879048211), (''SHT_MIPS_PDESC'', 1879048212),
     (''SHT_MIPS_LOCSYM'', 1879048213), (''SHT_MIPS_AUXSYM'', 1879048214),
     (''SHT_MIPS_OPTSYM'', 1879048215), (''SHT_MIPS_LOCSTR'', 1879048216),
     (''SHT_MIPS_LINE'', 1879048217), (''SHT_MIPS_RFDESC'', 1879048218),
     (''SHT_MIPS_DELTASYM'', 1879048219), (''SHT_MIPS_DELTAINST'', 1879048220),
     (''SHT_MIPS_DELTACLASS'', 1879048221), (''SHT_MIPS_DWARF'', 1879048222),
     (''SHT_MIPS_DELTADECL'', 1879048223), (''SHT_MIPS_SYMBOL_LIB'', 1879048224),
     (''SHT_MIPS_EVENTS'', 1879048225), (''SHT_MIPS_TRANSLATE'', 1879048226),
     (''SHT_MIPS_PIXIE'', 1879048227), (''SHT_MIPS_XLATE'', 1879048228),
     (''SHT_MIPS_XLATE_DEBUG'', 1879048229), (''SHT_MIPS_WHIRL'', 1879048230),
     (''SHT_MIPS_EH_REGION'', 1879048231), (''SHT_MIPS_XLATE_OLD'', 1879048232),
     (''SHT_MIPS_PDR_EXCEPTION'', 1879048233)]"

text \<open>MIPS section flags.\<close>

definition SHF_MIPS_table :: "(string \<times> int) list" where
  "SHF_MIPS_table = [(''SHF_MIPS_GPREL'', 268435456), (''SHF_MIPS_MERGE'', 536870912),
     (''SHF_MIPS_ADDR'', 1073741824), (''SHF_MIPS_STRINGS'', 2147483648),
     (''SHF_MIPS_NOSTRIP'', 134217728), (''SHF_MIPS_LOCAL'', 67108864),
     (''SHF_MIPS_NAMES'', 33554432), (''SHF_MIPS_NODUPE'', 16777216)]"

text \<open>MIPS symbol values.\<close>

definition STO_MIPS_table :: "(string \<times> int) list" where
  "STO_MIPS_table = [(''STO_MIPS_DEFAULT'', 0), (''STO_MIPS_INTERNAL'', 1), (''STO_MIPS_HIDDEN'', 2),
     (''STO_MIPS_PROTECTED'', 3), (''STO_MIPS_PLT'', 8), (''STO_MIPS_SC_ALIGN_UNUSED'', 255),
     (''STB_MIPS_SPLIT_COMMON'', 13)]"

text \<open>Kinds of MIPS options.\<close>

definition ODK_table :: "(string \<times> int) list" where
  "ODK_table = [(''ODK_NULL'', 0), (''ODK_REGINFO'', 1), (''ODK_EXCEPTIONS'', 2), (''ODK_PAD'', 3),
     (''ODK_HWPATCH'', 4), (''ODK_FILL'', 5), (''ODK_TAGS'', 6), (''ODK_HWAND'', 7),
     (''ODK_HWOR'', 8)]"

text \<open>MIPS exception options.\<close>

definition OEX_table :: "(string \<times> int) list" where
  "OEX_table = [(''OEX_FPU_MIN'', 31), (''OEX_FPU_MAX'', 7936), (''OEX_PAGE0'', 65536),
     (''OEX_SMM'', 131072), (''OEX_FPDBUG'', 262144), (''OEX_PRECISEFP'', 262144),
     (''OEX_DISMISS'', 524288), (''OEX_FPU_INVAL'', 16), (''OEX_FPU_DIV0'', 8),
     (''OEX_FPU_OFLO'', 4), (''OEX_FPU_UFLO'', 2), (''OEX_FPU_INEX'', 1)]"

text \<open>MIPS hardware and padding options.\<close>

definition OHW_table :: "(string \<times> int) list" where
  "OHW_table = [(''OHW_R4KEOP'', 1), (''OHW_R8KPFETCH'', 2), (''OHW_R5KEOP'', 4), (''OHW_R5KCVTL'', 8),
     (''OPAD_PREFIX'', 1), (''OPAD_POSTFIX'', 2), (''OPAD_SYMBOL'', 4)]"

text \<open>MIPS hardware option masks.\<close>

definition OHWA_table :: "(string \<times> int) list" where
  "OHWA_table = [(''OHWA0_R4KEOP_CHECKED'', 1), (''OHWA1_R4KEOP_CLEAN'', 2)]"

text \<open>MIPS segment types and flags.\<close>

definition PT_MIPS_table :: "(string \<times> int) list" where
  "PT_MIPS_table = [(''PT_MIPS_REGINFO'', 1879048192), (''PT_MIPS_RTPROC'', 1879048193),
     (''PT_MIPS_OPTIONS'', 1879048194), (''PF_MIPS_LOCAL'', 268435456)]"

text \<open>MIPS dynamic tags.\<close>

definition DT_MIPS_table :: "(string \<times> int) list" where
  "DT_MIPS_table = [(''DT_MIPS_RLD_VERSION'', 1879048193), (''DT_MIPS_TIME_STAMP'', 1879048194),
     (''DT_MIPS_ICHECKSUM'', 1879048195), (''DT_MIPS_IVERSION'', 1879048196),
     (''DT_MIPS_FLAGS'', 1879048197), (''DT_MIPS_BASE_ADDRESS'', 1879048198),
     (''DT_MIPS_MSYM'', 1879048199), (''DT_MIPS_CONFLICT'', 1879048200),
     (''DT_MIPS_LIBLIST'', 1879048201), (''DT_MIPS_LOCAL_GOTNO'', 1879048202),
     (''DT_MIPS_CONFLICTNO'', 1879048203), (''DT_MIPS_LIBLISTNO'', 1879048208),
     (''DT_MIPS_SYMTABNO'', 1879048209), (''DT_MIPS_UNREFEXTNO'', 1879048210),
     (''DT_MIPS_GOTSYM'', 1879048211), (''DT_MIPS_HIPAGENO'', 1879048212),
     (''DT_MIPS_RLD_MAP'', 1879048214), (''DT_MIPS_DELTA_CLASS'', 1879048215),
     (''DT_MIPS_DELTA_CLASS_NO'', 1879048216), (''DT_MIPS_DELTA_INSTANCE'', 1879048217),
     (''DT_MIPS_DELTA_INSTANCE_NO'', 1879048218), (''DT_MIPS_DELTA_RELOC'', 1879048219),
     (''DT_MIPS_DELTA_RELOC_NO'', 1879048220), (''DT_MIPS_DELTA_SYM'', 1879048221),
     (''DT_MIPS_DELTA_SYM_NO'', 1879048222), (''DT_MIPS_DELTA_CLASSSYM'', 1879048224),
     (''DT_MIPS_DELTA_CLASSSYM_NO'', 1879048225), (''DT_MIPS_CXX_FLAGS'', 1879048226),
     (''DT_MIPS_PIXIE_INIT'', 1879048227), (''DT_MIPS_SYMBOL_LIB'', 1879048228),
     (''DT_MIPS_LOCALPAGE_GOTIDX'', 1879048229), (''DT_MIPS_LOCAL_GOTIDX'', 1879048230),
     (''DT_MIPS_HIDDEN_GOTIDX'', 1879048231), (''DT_MIPS_PROTECTED_GOTIDX'', 1879048232),
     (''DT_MIPS_OPTIONS'', 1879048233), (''DT_MIPS_INTERFACE'', 1879048234),
     (''DT_MIPS_DYNSTR_ALIGN'', 1879048235), (''DT_MIPS_INTERFACE_SIZE'', 1879048236),
     (''DT_MIPS_RLD_TEXT_RESOLVE_ADDR'', 1879048237), (''DT_MIPS_PERF_SUFFIX'', 1879048238),
     (''DT_MIPS_COMPACT_SIZE'', 1879048239), (''DT_MIPS_GP_VALUE'', 1879048240),
     (''DT_MIPS_AUX_DYNAMIC'', 1879048241), (''DT_MIPS_PLTGOT'', 1879048242),
     (''DT_MIPS_RWPLT'', 1879048244), (''DT_MIPS_NUM'', 53)]"

text \<open>Values of the MIPS dynamic flags.\<close>

definition RHF_table :: "(string \<times> int) list" where
  "RHF_table = [(''RHF_NONE'', 0), (''RHF_QUICKSTART'', 1), (''RHF_NOTPOT'', 2),
     (''RHF_NO_LIBRARY_REPLACEMENT'', 4), (''RHF_NO_MOVE'', 8), (''RHF_SGI_ONLY'', 16),
     (''RHF_GUARANTEE_INIT'', 32), (''RHF_DELTA_C_PLUS_PLUS'', 64),
     (''RHF_GUARANTEE_START_INIT'', 128), (''RHF_PIXIE'', 256),
     (''RHF_DEFAULT_DELAY_LOAD'', 512), (''RHF_REQUICKSTART'', 1024),
     (''RHF_REQUICKSTARTED'', 2048), (''RHF_CORD'', 4096), (''RHF_NO_UNRES_UNDEF'', 8192),
     (''RHF_RLD_ORDER_SAFE'', 16384)]"

text \<open>Flags of a library entry.\<close>

definition LL_table :: "(string \<times> int) list" where
  "LL_table = [(''LL_NONE'', 0), (''LL_EXACT_MATCH'', 1), (''LL_IGNORE_INT_VER'', 2),
     (''LL_REQUIRE_MINOR'', 4), (''LL_EXPORTS'', 8), (''LL_DELAY_LOAD'', 16), (''LL_DELTA'', 32)]"

text \<open>Flags of the HPPA header.\<close>

definition EF_PARISC_table :: "(string \<times> int) list" where
  "EF_PARISC_table = [(''EF_PARISC_TRAPNIL'', 65536), (''EF_PARISC_EXT'', 131072), (''EF_PARISC_LSB'', 262144),
     (''EF_PARISC_WIDE'', 524288), (''EF_PARISC_NO_KABP'', 1048576),
     (''EF_PARISC_LAZYSWAP'', 4194304), (''EF_PARISC_ARCH'', 65535), (''EFA_PARISC_1_0'', 523),
     (''EFA_PARISC_1_1'', 528), (''EFA_PARISC_2_0'', 532)]"

text \<open>HPPA section indices, types and flags.\<close>

definition SHN_PARISC_table :: "(string \<times> int) list" where
  "SHN_PARISC_table = [(''SHN_PARISC_ANSI_COMMON'', 65280), (''SHN_PARISC_HUGE_COMMON'', 65281),
     (''SHT_PARISC_EXT'', 1879048192), (''SHT_PARISC_UNWIND'', 1879048193),
     (''SHT_PARISC_DOC'', 1879048194), (''SHF_PARISC_SHORT'', 536870912),
     (''SHF_PARISC_HUGE'', 1073741824), (''SHF_PARISC_SBP'', 2147483648)]"

text \<open>HPPA symbol types.\<close>

definition STT_PARISC_table :: "(string \<times> int) list" where
  "STT_PARISC_table = [(''STT_PARISC_MILLICODE'', 13), (''STT_HP_OPAQUE'', 11), (''STT_HP_STUB'', 12)]"

text \<open>HPPA segment types.\<close>

definition PT_HP_table :: "(string \<times> int) list" where
  "PT_HP_table = [(''PT_HP_TLS'', 1610612736), (''PT_HP_CORE_NONE'', 1610612737),
     (''PT_HP_CORE_VERSION'', 1610612738), (''PT_HP_CORE_KERNEL'', 1610612739),
     (''PT_HP_CORE_COMM'', 1610612740), (''PT_HP_CORE_PROC'', 1610612741),
     (''PT_HP_CORE_LOADABLE'', 1610612742), (''PT_HP_CORE_STACK'', 1610612743),
     (''PT_HP_CORE_SHM'', 1610612744), (''PT_HP_CORE_MMF'', 1610612745),
     (''PT_HP_PARALLEL'', 1610612752), (''PT_HP_FASTBIND'', 1610612753),
     (''PT_HP_OPT_ANNOT'', 1610612754), (''PT_HP_HSL_ANNOT'', 1610612755),
     (''PT_HP_STACK'', 1610612756), (''PT_PARISC_ARCHEXT'', 1879048192),
     (''PT_PARISC_UNWIND'', 1879048193)]"

text \<open>HPPA segment flags.\<close>

definition PF_HP_table :: "(string \<times> int) list" where
  "PF_HP_table = [(''PF_PARISC_SBP'', 134217728), (''PF_HP_PAGE_SIZE'', 1048576),
     (''PF_HP_FAR_SHARED'', 2097152), (''PF_HP_NEAR_SHARED'', 4194304),
     (''PF_HP_CODE'', 16777216), (''PF_HP_MODIFY'', 33554432), (''PF_HP_LAZYSWAP'', 67108864),
     (''PF_HP_SBP'', 134217728)]"

text \<open>Alpha header flags, section types and flags, symbol values.\<close>

definition EF_ALPHA_table :: "(string \<times> int) list" where
  "EF_ALPHA_table = [(''EF_ALPHA_32BIT'', 1), (''EF_ALPHA_CANRELAX'', 2), (''SHT_ALPHA_DEBUG'', 1879048193),
     (''SHT_ALPHA_REGINFO'', 1879048194), (''SHF_ALPHA_GPREL'', 268435456),
     (''STO_ALPHA_NOPV'', 128), (''STO_ALPHA_STD_GPLOAD'', 136)]"

text \<open>Addends of Alpha literal uses.\<close>

definition LITUSE_ALPHA_table :: "(string \<times> int) list" where
  "LITUSE_ALPHA_table = [(''LITUSE_ALPHA_ADDR'', 0), (''LITUSE_ALPHA_BASE'', 1), (''LITUSE_ALPHA_BYTOFF'', 2),
     (''LITUSE_ALPHA_JSR'', 3), (''LITUSE_ALPHA_TLS_GD'', 4), (''LITUSE_ALPHA_TLS_LDM'', 5)]"

text \<open>Alpha dynamic tags.\<close>

definition DT_ALPHA_table :: "(string \<times> int) list" where
  "DT_ALPHA_table = [(''DT_ALPHA_PLTRO'', 1879048192), (''DT_ALPHA_NUM'', 1)]"

text \<open>Flags of the PowerPC header.\<close>

definition EF_PPC_table :: "(string \<times> int) list" where
  "EF_PPC_table = [(''EF_PPC_EMB'', 2147483648), (''EF_PPC_RELOCATABLE'', 65536),
     (''EF_PPC_RELOCATABLE_LIB'', 32768)]"

text \<open>PowerPC dynamic tags.\<close>

definition DT_PPC_table :: "(string \<times> int) list" where
  "DT_PPC_table = [(''DT_PPC_GOT'', 1879048192), (''DT_PPC_NUM'', 1)]"

text \<open>PowerPC64 header flags, dynamic tags and options.\<close>

definition DT_PPC64_table :: "(string \<times> int) list" where
  "DT_PPC64_table = [(''EF_PPC64_ABI'', 3), (''DT_PPC64_GLINK'', 1879048192), (''DT_PPC64_OPD'', 1879048193),
     (''DT_PPC64_OPDSZ'', 1879048194), (''DT_PPC64_OPT'', 1879048195), (''DT_PPC64_NUM'', 3),
     (''PPC64_OPT_TLS'', 1), (''PPC64_OPT_MULTI_TOC'', 2)]"

text \<open>PowerPC64 symbol values.\<close>

definition STO_PPC64_table :: "(string \<times> int) list" where
  "STO_PPC64_table = [(''STO_PPC64_LOCAL_BIT'', 5), (''STO_PPC64_LOCAL_MASK'', 224)]"

text \<open>Flags of the ARM header.\<close>

definition EF_ARM_table :: "(string \<times> int) list" where
  "EF_ARM_table = [(''EF_ARM_RELEXEC'', 1), (''EF_ARM_HASENTRY'', 2), (''EF_ARM_INTERWORK'', 4),
     (''EF_ARM_APCS_26'', 8), (''EF_ARM_APCS_FLOAT'', 16), (''EF_ARM_PIC'', 32),
     (''EF_ARM_ALIGN8'', 64), (''EF_ARM_NEW_ABI'', 128), (''EF_ARM_OLD_ABI'', 256),
     (''EF_ARM_SOFT_FLOAT'', 512), (''EF_ARM_VFP_FLOAT'', 1024),
     (''EF_ARM_MAVERICK_FLOAT'', 2048), (''EF_ARM_ABI_FLOAT_SOFT'', 512),
     (''EF_ARM_ABI_FLOAT_HARD'', 1024), (''EF_ARM_SYMSARESORTED'', 4),
     (''EF_ARM_DYNSYMSUSESEGIDX'', 8), (''EF_ARM_MAPSYMSFIRST'', 16),
     (''EF_ARM_EABIMASK'', 4278190080), (''EF_ARM_BE8'', 8388608), (''EF_ARM_LE8'', 4194304),
     (''EF_ARM_EABI_UNKNOWN'', 0), (''EF_ARM_EABI_VER1'', 16777216),
     (''EF_ARM_EABI_VER2'', 33554432), (''EF_ARM_EABI_VER3'', 50331648),
     (''EF_ARM_EABI_VER4'', 67108864), (''EF_ARM_EABI_VER5'', 83886080)]"

text \<open>ARM symbol types.\<close>

definition STT_ARM_table :: "(string \<times> int) list" where
  "STT_ARM_table = [(''STT_ARM_TFUNC'', 13), (''STT_ARM_16BIT'', 15)]"

text \<open>ARM section and segment values.\<close>

definition SHF_ARM_table :: "(string \<times> int) list" where
  "SHF_ARM_table = [(''SHF_ARM_ENTRYSECT'', 268435456), (''SHF_ARM_COMDEF'', 2147483648),
     (''PF_ARM_SB'', 268435456), (''PF_ARM_PI'', 536870912), (''PF_ARM_ABS'', 1073741824),
     (''PT_ARM_EXIDX'', 1879048193), (''SHT_ARM_EXIDX'', 1879048193),
     (''SHT_ARM_PREEMPTMAP'', 1879048194), (''SHT_ARM_ATTRIBUTES'', 1879048195)]"

text \<open>Flags of the IA-64 header.\<close>

definition EF_IA_64_table :: "(string \<times> int) list" where
  "EF_IA_64_table = [(''EF_IA_64_MASKOS'', 15), (''EF_IA_64_ABI64'', 16), (''EF_IA_64_ARCH'', 4278190080)]"

text \<open>IA-64 segment, section and dynamic values.\<close>

definition PT_IA_64_table :: "(string \<times> int) list" where
  "PT_IA_64_table = [(''PT_IA_64_ARCHEXT'', 1879048192), (''PT_IA_64_UNWIND'', 1879048193),
     (''PT_IA_64_HP_OPT_ANOT'', 1610612754), (''PT_IA_64_HP_HSL_ANOT'', 1610612755),
     (''PT_IA_64_HP_STACK'', 1610612756), (''PF_IA_64_NORECOV'', 2147483648),
     (''SHT_IA_64_EXT'', 1879048192), (''SHT_IA_64_UNWIND'', 1879048193),
     (''SHF_IA_64_SHORT'', 268435456), (''SHF_IA_64_NORECOV'', 536870912),
     (''DT_IA_64_PLT_RESERVE'', 1879048192), (''DT_IA_64_NUM'', 1)]"

text \<open>Flags of the SH header.\<close>

definition EF_SH_table :: "(string \<times> int) list" where
  "EF_SH_table = [(''EF_SH_MACH_MASK'', 31), (''EF_SH_UNKNOWN'', 0), (''EF_SH1'', 1), (''EF_SH2'', 2),
     (''EF_SH3'', 3), (''EF_SH_DSP'', 4), (''EF_SH3_DSP'', 5), (''EF_SH4AL_DSP'', 6),
     (''EF_SH3E'', 8), (''EF_SH4'', 9), (''EF_SH2E'', 11), (''EF_SH4A'', 12), (''EF_SH2A'', 13),
     (''EF_SH4_NOFPU'', 16), (''EF_SH4A_NOFPU'', 17), (''EF_SH4_NOMMU_NOFPU'', 18),
     (''EF_SH2A_NOFPU'', 19), (''EF_SH3_NOMMU'', 20), (''EF_SH2A_SH4_NOFPU'', 21),
     (''EF_SH2A_SH3_NOFPU'', 22), (''EF_SH2A_SH4'', 23), (''EF_SH2A_SH3E'', 24)]"

text \<open>Flags of the S390 header.\<close>

definition EF_S390_table :: "(string \<times> int) list" where
  "EF_S390_table = [(''EF_S390_HIGH_GPRS'', 1)]"

end
