(* ===== verification/ElfRelocations.thy ===== *)
theory ElfRelocations
  imports ElfProcessor
begin

text \<open>
  The relocation numbers of the processors in \<open>patchelf-0.9/src/elf.h\<close> as tables, and that they
  fit the field of a relocation entry that holds them.
\<close>

section \<open>The tables\<close>

text \<open>MIPS relocations.\<close>

definition R_MIPS_table :: "(string \<times> int) list" where
  "R_MIPS_table = [(''R_MIPS_NONE'', 0), (''R_MIPS_16'', 1), (''R_MIPS_32'', 2), (''R_MIPS_REL32'', 3),
     (''R_MIPS_26'', 4), (''R_MIPS_HI16'', 5), (''R_MIPS_LO16'', 6), (''R_MIPS_GPREL16'', 7),
     (''R_MIPS_LITERAL'', 8), (''R_MIPS_GOT16'', 9), (''R_MIPS_PC16'', 10),
     (''R_MIPS_CALL16'', 11), (''R_MIPS_GPREL32'', 12), (''R_MIPS_SHIFT5'', 16),
     (''R_MIPS_SHIFT6'', 17), (''R_MIPS_64'', 18), (''R_MIPS_GOT_DISP'', 19),
     (''R_MIPS_GOT_PAGE'', 20), (''R_MIPS_GOT_OFST'', 21), (''R_MIPS_GOT_HI16'', 22),
     (''R_MIPS_GOT_LO16'', 23), (''R_MIPS_SUB'', 24), (''R_MIPS_INSERT_A'', 25),
     (''R_MIPS_INSERT_B'', 26), (''R_MIPS_DELETE'', 27), (''R_MIPS_HIGHER'', 28),
     (''R_MIPS_HIGHEST'', 29), (''R_MIPS_CALL_HI16'', 30), (''R_MIPS_CALL_LO16'', 31),
     (''R_MIPS_SCN_DISP'', 32), (''R_MIPS_REL16'', 33), (''R_MIPS_ADD_IMMEDIATE'', 34),
     (''R_MIPS_PJUMP'', 35), (''R_MIPS_RELGOT'', 36), (''R_MIPS_JALR'', 37),
     (''R_MIPS_TLS_DTPMOD32'', 38), (''R_MIPS_TLS_DTPREL32'', 39),
     (''R_MIPS_TLS_DTPMOD64'', 40), (''R_MIPS_TLS_DTPREL64'', 41), (''R_MIPS_TLS_GD'', 42),
     (''R_MIPS_TLS_LDM'', 43), (''R_MIPS_TLS_DTPREL_HI16'', 44),
     (''R_MIPS_TLS_DTPREL_LO16'', 45), (''R_MIPS_TLS_GOTTPREL'', 46),
     (''R_MIPS_TLS_TPREL32'', 47), (''R_MIPS_TLS_TPREL64'', 48),
     (''R_MIPS_TLS_TPREL_HI16'', 49), (''R_MIPS_TLS_TPREL_LO16'', 50),
     (''R_MIPS_GLOB_DAT'', 51), (''R_MIPS_COPY'', 126), (''R_MIPS_JUMP_SLOT'', 127),
     (''R_MIPS_NUM'', 128)]"

text \<open>HPPA relocations.\<close>

definition R_PARISC_table :: "(string \<times> int) list" where
  "R_PARISC_table = [(''R_PARISC_NONE'', 0), (''R_PARISC_DIR32'', 1), (''R_PARISC_DIR21L'', 2),
     (''R_PARISC_DIR17R'', 3), (''R_PARISC_DIR17F'', 4), (''R_PARISC_DIR14R'', 6),
     (''R_PARISC_PCREL32'', 9), (''R_PARISC_PCREL21L'', 10), (''R_PARISC_PCREL17R'', 11),
     (''R_PARISC_PCREL17F'', 12), (''R_PARISC_PCREL14R'', 14), (''R_PARISC_DPREL21L'', 18),
     (''R_PARISC_DPREL14R'', 22), (''R_PARISC_GPREL21L'', 26), (''R_PARISC_GPREL14R'', 30),
     (''R_PARISC_LTOFF21L'', 34), (''R_PARISC_LTOFF14R'', 38), (''R_PARISC_SECREL32'', 41),
     (''R_PARISC_SEGBASE'', 48), (''R_PARISC_SEGREL32'', 49), (''R_PARISC_PLTOFF21L'', 50),
     (''R_PARISC_PLTOFF14R'', 54), (''R_PARISC_LTOFF_FPTR32'', 57),
     (''R_PARISC_LTOFF_FPTR21L'', 58), (''R_PARISC_LTOFF_FPTR14R'', 62),
     (''R_PARISC_FPTR64'', 64), (''R_PARISC_PLABEL32'', 65), (''R_PARISC_PLABEL21L'', 66),
     (''R_PARISC_PLABEL14R'', 70), (''R_PARISC_PCREL64'', 72), (''R_PARISC_PCREL22F'', 74),
     (''R_PARISC_PCREL14WR'', 75), (''R_PARISC_PCREL14DR'', 76), (''R_PARISC_PCREL16F'', 77),
     (''R_PARISC_PCREL16WF'', 78), (''R_PARISC_PCREL16DF'', 79), (''R_PARISC_DIR64'', 80),
     (''R_PARISC_DIR14WR'', 83), (''R_PARISC_DIR14DR'', 84), (''R_PARISC_DIR16F'', 85),
     (''R_PARISC_DIR16WF'', 86), (''R_PARISC_DIR16DF'', 87), (''R_PARISC_GPREL64'', 88),
     (''R_PARISC_GPREL14WR'', 91), (''R_PARISC_GPREL14DR'', 92), (''R_PARISC_GPREL16F'', 93),
     (''R_PARISC_GPREL16WF'', 94), (''R_PARISC_GPREL16DF'', 95), (''R_PARISC_LTOFF64'', 96),
     (''R_PARISC_LTOFF14WR'', 99), (''R_PARISC_LTOFF14DR'', 100), (''R_PARISC_LTOFF16F'', 101),
     (''R_PARISC_LTOFF16WF'', 102), (''R_PARISC_LTOFF16DF'', 103), (''R_PARISC_SECREL64'', 104),
     (''R_PARISC_SEGREL64'', 112), (''R_PARISC_PLTOFF14WR'', 115),
     (''R_PARISC_PLTOFF14DR'', 116), (''R_PARISC_PLTOFF16F'', 117),
     (''R_PARISC_PLTOFF16WF'', 118), (''R_PARISC_PLTOFF16DF'', 119),
     (''R_PARISC_LTOFF_FPTR64'', 120), (''R_PARISC_LTOFF_FPTR14WR'', 123),
     (''R_PARISC_LTOFF_FPTR14DR'', 124), (''R_PARISC_LTOFF_FPTR16F'', 125),
     (''R_PARISC_LTOFF_FPTR16WF'', 126), (''R_PARISC_LTOFF_FPTR16DF'', 127),
     (''R_PARISC_LORESERVE'', 128), (''R_PARISC_COPY'', 128), (''R_PARISC_IPLT'', 129),
     (''R_PARISC_EPLT'', 130), (''R_PARISC_TPREL32'', 153), (''R_PARISC_TPREL21L'', 154),
     (''R_PARISC_TPREL14R'', 158), (''R_PARISC_LTOFF_TP21L'', 162),
     (''R_PARISC_LTOFF_TP14R'', 166), (''R_PARISC_LTOFF_TP14F'', 167),
     (''R_PARISC_TPREL64'', 216), (''R_PARISC_TPREL14WR'', 219), (''R_PARISC_TPREL14DR'', 220),
     (''R_PARISC_TPREL16F'', 221), (''R_PARISC_TPREL16WF'', 222), (''R_PARISC_TPREL16DF'', 223),
     (''R_PARISC_LTOFF_TP64'', 224), (''R_PARISC_LTOFF_TP14WR'', 227),
     (''R_PARISC_LTOFF_TP14DR'', 228), (''R_PARISC_LTOFF_TP16F'', 229),
     (''R_PARISC_LTOFF_TP16WF'', 230), (''R_PARISC_LTOFF_TP16DF'', 231),
     (''R_PARISC_GNU_VTENTRY'', 232), (''R_PARISC_GNU_VTINHERIT'', 233),
     (''R_PARISC_TLS_GD21L'', 234), (''R_PARISC_TLS_GD14R'', 235),
     (''R_PARISC_TLS_GDCALL'', 236), (''R_PARISC_TLS_LDM21L'', 237),
     (''R_PARISC_TLS_LDM14R'', 238), (''R_PARISC_TLS_LDMCALL'', 239),
     (''R_PARISC_TLS_LDO21L'', 240), (''R_PARISC_TLS_LDO14R'', 241),
     (''R_PARISC_TLS_DTPMOD32'', 242), (''R_PARISC_TLS_DTPMOD64'', 243),
     (''R_PARISC_TLS_DTPOFF32'', 244), (''R_PARISC_TLS_DTPOFF64'', 245),
     (''R_PARISC_TLS_LE21L'', 154), (''R_PARISC_TLS_LE14R'', 158),
     (''R_PARISC_TLS_IE21L'', 162), (''R_PARISC_TLS_IE14R'', 166),
     (''R_PARISC_TLS_TPREL32'', 153), (''R_PARISC_TLS_TPREL64'', 216),
     (''R_PARISC_HIRESERVE'', 255)]"

text \<open>Alpha relocations.\<close>

definition R_ALPHA_table :: "(string \<times> int) list" where
  "R_ALPHA_table = [(''R_ALPHA_NONE'', 0), (''R_ALPHA_REFLONG'', 1), (''R_ALPHA_REFQUAD'', 2),
     (''R_ALPHA_GPREL32'', 3), (''R_ALPHA_LITERAL'', 4), (''R_ALPHA_LITUSE'', 5),
     (''R_ALPHA_GPDISP'', 6), (''R_ALPHA_BRADDR'', 7), (''R_ALPHA_HINT'', 8),
     (''R_ALPHA_SREL16'', 9), (''R_ALPHA_SREL32'', 10), (''R_ALPHA_SREL64'', 11),
     (''R_ALPHA_GPRELHIGH'', 17), (''R_ALPHA_GPRELLOW'', 18), (''R_ALPHA_GPREL16'', 19),
     (''R_ALPHA_COPY'', 24), (''R_ALPHA_GLOB_DAT'', 25), (''R_ALPHA_JMP_SLOT'', 26),
     (''R_ALPHA_RELATIVE'', 27), (''R_ALPHA_TLS_GD_HI'', 28), (''R_ALPHA_TLSGD'', 29),
     (''R_ALPHA_TLS_LDM'', 30), (''R_ALPHA_DTPMOD64'', 31), (''R_ALPHA_GOTDTPREL'', 32),
     (''R_ALPHA_DTPREL64'', 33), (''R_ALPHA_DTPRELHI'', 34), (''R_ALPHA_DTPRELLO'', 35),
     (''R_ALPHA_DTPREL16'', 36), (''R_ALPHA_GOTTPREL'', 37), (''R_ALPHA_TPREL64'', 38),
     (''R_ALPHA_TPRELHI'', 39), (''R_ALPHA_TPRELLO'', 40), (''R_ALPHA_TPREL16'', 41),
     (''R_ALPHA_NUM'', 46)]"

text \<open>PowerPC relocations.\<close>

definition R_PPC_table :: "(string \<times> int) list" where
  "R_PPC_table = [(''R_PPC_NONE'', 0), (''R_PPC_ADDR32'', 1), (''R_PPC_ADDR24'', 2), (''R_PPC_ADDR16'', 3),
     (''R_PPC_ADDR16_LO'', 4), (''R_PPC_ADDR16_HI'', 5), (''R_PPC_ADDR16_HA'', 6),
     (''R_PPC_ADDR14'', 7), (''R_PPC_ADDR14_BRTAKEN'', 8), (''R_PPC_ADDR14_BRNTAKEN'', 9),
     (''R_PPC_REL24'', 10), (''R_PPC_REL14'', 11), (''R_PPC_REL14_BRTAKEN'', 12),
     (''R_PPC_REL14_BRNTAKEN'', 13), (''R_PPC_GOT16'', 14), (''R_PPC_GOT16_LO'', 15),
     (''R_PPC_GOT16_HI'', 16), (''R_PPC_GOT16_HA'', 17), (''R_PPC_PLTREL24'', 18),
     (''R_PPC_COPY'', 19), (''R_PPC_GLOB_DAT'', 20), (''R_PPC_JMP_SLOT'', 21),
     (''R_PPC_RELATIVE'', 22), (''R_PPC_LOCAL24PC'', 23), (''R_PPC_UADDR32'', 24),
     (''R_PPC_UADDR16'', 25), (''R_PPC_REL32'', 26), (''R_PPC_PLT32'', 27),
     (''R_PPC_PLTREL32'', 28), (''R_PPC_PLT16_LO'', 29), (''R_PPC_PLT16_HI'', 30),
     (''R_PPC_PLT16_HA'', 31), (''R_PPC_SDAREL16'', 32), (''R_PPC_SECTOFF'', 33),
     (''R_PPC_SECTOFF_LO'', 34), (''R_PPC_SECTOFF_HI'', 35), (''R_PPC_SECTOFF_HA'', 36),
     (''R_PPC_TLS'', 67), (''R_PPC_DTPMOD32'', 68), (''R_PPC_TPREL16'', 69),
     (''R_PPC_TPREL16_LO'', 70), (''R_PPC_TPREL16_HI'', 71), (''R_PPC_TPREL16_HA'', 72),
     (''R_PPC_TPREL32'', 73), (''R_PPC_DTPREL16'', 74), (''R_PPC_DTPREL16_LO'', 75),
     (''R_PPC_DTPREL16_HI'', 76), (''R_PPC_DTPREL16_HA'', 77), (''R_PPC_DTPREL32'', 78),
     (''R_PPC_GOT_TLSGD16'', 79), (''R_PPC_GOT_TLSGD16_LO'', 80),
     (''R_PPC_GOT_TLSGD16_HI'', 81), (''R_PPC_GOT_TLSGD16_HA'', 82),
     (''R_PPC_GOT_TLSLD16'', 83), (''R_PPC_GOT_TLSLD16_LO'', 84),
     (''R_PPC_GOT_TLSLD16_HI'', 85), (''R_PPC_GOT_TLSLD16_HA'', 86),
     (''R_PPC_GOT_TPREL16'', 87), (''R_PPC_GOT_TPREL16_LO'', 88),
     (''R_PPC_GOT_TPREL16_HI'', 89), (''R_PPC_GOT_TPREL16_HA'', 90),
     (''R_PPC_GOT_DTPREL16'', 91), (''R_PPC_GOT_DTPREL16_LO'', 92),
     (''R_PPC_GOT_DTPREL16_HI'', 93), (''R_PPC_GOT_DTPREL16_HA'', 94),
     (''R_PPC_EMB_NADDR32'', 101), (''R_PPC_EMB_NADDR16'', 102),
     (''R_PPC_EMB_NADDR16_LO'', 103), (''R_PPC_EMB_NADDR16_HI'', 104),
     (''R_PPC_EMB_NADDR16_HA'', 105), (''R_PPC_EMB_SDAI16'', 106), (''R_PPC_EMB_SDA2I16'', 107),
     (''R_PPC_EMB_SDA2REL'', 108), (''R_PPC_EMB_SDA21'', 109), (''R_PPC_EMB_MRKREF'', 110),
     (''R_PPC_EMB_RELSEC16'', 111), (''R_PPC_EMB_RELST_LO'', 112),
     (''R_PPC_EMB_RELST_HI'', 113), (''R_PPC_EMB_RELST_HA'', 114), (''R_PPC_EMB_BIT_FLD'', 115),
     (''R_PPC_EMB_RELSDA'', 116), (''R_PPC_DIAB_SDA21_LO'', 180),
     (''R_PPC_DIAB_SDA21_HI'', 181), (''R_PPC_DIAB_SDA21_HA'', 182),
     (''R_PPC_DIAB_RELSDA_LO'', 183), (''R_PPC_DIAB_RELSDA_HI'', 184),
     (''R_PPC_DIAB_RELSDA_HA'', 185), (''R_PPC_IRELATIVE'', 248), (''R_PPC_REL16'', 249),
     (''R_PPC_REL16_LO'', 250), (''R_PPC_REL16_HI'', 251), (''R_PPC_REL16_HA'', 252),
     (''R_PPC_TOC16'', 255)]"

text \<open>PowerPC64 relocations.\<close>

definition R_PPC64_table :: "(string \<times> int) list" where
  "R_PPC64_table = [(''R_PPC64_NONE'', 0), (''R_PPC64_ADDR32'', 1), (''R_PPC64_ADDR24'', 2),
     (''R_PPC64_ADDR16'', 3), (''R_PPC64_ADDR16_LO'', 4), (''R_PPC64_ADDR16_HI'', 5),
     (''R_PPC64_ADDR16_HA'', 6), (''R_PPC64_ADDR14'', 7), (''R_PPC64_ADDR14_BRTAKEN'', 8),
     (''R_PPC64_ADDR14_BRNTAKEN'', 9), (''R_PPC64_REL24'', 10), (''R_PPC64_REL14'', 11),
     (''R_PPC64_REL14_BRTAKEN'', 12), (''R_PPC64_REL14_BRNTAKEN'', 13), (''R_PPC64_GOT16'', 14),
     (''R_PPC64_GOT16_LO'', 15), (''R_PPC64_GOT16_HI'', 16), (''R_PPC64_GOT16_HA'', 17),
     (''R_PPC64_COPY'', 19), (''R_PPC64_GLOB_DAT'', 20), (''R_PPC64_JMP_SLOT'', 21),
     (''R_PPC64_RELATIVE'', 22), (''R_PPC64_UADDR32'', 24), (''R_PPC64_UADDR16'', 25),
     (''R_PPC64_REL32'', 26), (''R_PPC64_PLT32'', 27), (''R_PPC64_PLTREL32'', 28),
     (''R_PPC64_PLT16_LO'', 29), (''R_PPC64_PLT16_HI'', 30), (''R_PPC64_PLT16_HA'', 31),
     (''R_PPC64_SECTOFF'', 33), (''R_PPC64_SECTOFF_LO'', 34), (''R_PPC64_SECTOFF_HI'', 35),
     (''R_PPC64_SECTOFF_HA'', 36), (''R_PPC64_ADDR30'', 37), (''R_PPC64_ADDR64'', 38),
     (''R_PPC64_ADDR16_HIGHER'', 39), (''R_PPC64_ADDR16_HIGHERA'', 40),
     (''R_PPC64_ADDR16_HIGHEST'', 41), (''R_PPC64_ADDR16_HIGHESTA'', 42),
     (''R_PPC64_UADDR64'', 43), (''R_PPC64_REL64'', 44), (''R_PPC64_PLT64'', 45),
     (''R_PPC64_PLTREL64'', 46), (''R_PPC64_TOC16'', 47), (''R_PPC64_TOC16_LO'', 48),
     (''R_PPC64_TOC16_HI'', 49), (''R_PPC64_TOC16_HA'', 50), (''R_PPC64_TOC'', 51),
     (''R_PPC64_PLTGOT16'', 52), (''R_PPC64_PLTGOT16_LO'', 53), (''R_PPC64_PLTGOT16_HI'', 54),
     (''R_PPC64_PLTGOT16_HA'', 55), (''R_PPC64_ADDR16_DS'', 56), (''R_PPC64_ADDR16_LO_DS'', 57),
     (''R_PPC64_GOT16_DS'', 58), (''R_PPC64_GOT16_LO_DS'', 59), (''R_PPC64_PLT16_LO_DS'', 60),
     (''R_PPC64_SECTOFF_DS'', 61), (''R_PPC64_SECTOFF_LO_DS'', 62), (''R_PPC64_TOC16_DS'', 63),
     (''R_PPC64_TOC16_LO_DS'', 64), (''R_PPC64_PLTGOT16_DS'', 65),
     (''R_PPC64_PLTGOT16_LO_DS'', 66), (''R_PPC64_TLS'', 67), (''R_PPC64_DTPMOD64'', 68),
     (''R_PPC64_TPREL16'', 69), (''R_PPC64_TPREL16_LO'', 70), (''R_PPC64_TPREL16_HI'', 71),
     (''R_PPC64_TPREL16_HA'', 72), (''R_PPC64_TPREL64'', 73), (''R_PPC64_DTPREL16'', 74),
     (''R_PPC64_DTPREL16_LO'', 75), (''R_PPC64_DTPREL16_HI'', 76),
     (''R_PPC64_DTPREL16_HA'', 77), (''R_PPC64_DTPREL64'', 78), (''R_PPC64_GOT_TLSGD16'', 79),
     (''R_PPC64_GOT_TLSGD16_LO'', 80), (''R_PPC64_GOT_TLSGD16_HI'', 81),
     (''R_PPC64_GOT_TLSGD16_HA'', 82), (''R_PPC64_GOT_TLSLD16'', 83),
     (''R_PPC64_GOT_TLSLD16_LO'', 84), (''R_PPC64_GOT_TLSLD16_HI'', 85),
     (''R_PPC64_GOT_TLSLD16_HA'', 86), (''R_PPC64_GOT_TPREL16_DS'', 87),
     (''R_PPC64_GOT_TPREL16_LO_DS'', 88), (''R_PPC64_GOT_TPREL16_HI'', 89),
     (''R_PPC64_GOT_TPREL16_HA'', 90), (''R_PPC64_GOT_DTPREL16_DS'', 91),
     (''R_PPC64_GOT_DTPREL16_LO_DS'', 92), (''R_PPC64_GOT_DTPREL16_HI'', 93),
     (''R_PPC64_GOT_DTPREL16_HA'', 94), (''R_PPC64_TPREL16_DS'', 95),
     (''R_PPC64_TPREL16_LO_DS'', 96), (''R_PPC64_TPREL16_HIGHER'', 97),
     (''R_PPC64_TPREL16_HIGHERA'', 98), (''R_PPC64_TPREL16_HIGHEST'', 99),
     (''R_PPC64_TPREL16_HIGHESTA'', 100), (''R_PPC64_DTPREL16_DS'', 101),
     (''R_PPC64_DTPREL16_LO_DS'', 102), (''R_PPC64_DTPREL16_HIGHER'', 103),
     (''R_PPC64_DTPREL16_HIGHERA'', 104), (''R_PPC64_DTPREL16_HIGHEST'', 105),
     (''R_PPC64_DTPREL16_HIGHESTA'', 106), (''R_PPC64_TLSGD'', 107), (''R_PPC64_TLSLD'', 108),
     (''R_PPC64_TOCSAVE'', 109), (''R_PPC64_ADDR16_HIGH'', 110),
     (''R_PPC64_ADDR16_HIGHA'', 111), (''R_PPC64_TPREL16_HIGH'', 112),
     (''R_PPC64_TPREL16_HIGHA'', 113), (''R_PPC64_DTPREL16_HIGH'', 114),
     (''R_PPC64_DTPREL16_HIGHA'', 115), (''R_PPC64_JMP_IREL'', 247),
     (''R_PPC64_IRELATIVE'', 248), (''R_PPC64_REL16'', 249), (''R_PPC64_REL16_LO'', 250),
     (''R_PPC64_REL16_HI'', 251), (''R_PPC64_REL16_HA'', 252)]"

text \<open>AArch64 relocations.\<close>

definition R_AARCH64_table :: "(string \<times> int) list" where
  "R_AARCH64_table = [(''R_AARCH64_NONE'', 0), (''R_AARCH64_ABS64'', 257), (''R_AARCH64_ABS32'', 258),
     (''R_AARCH64_ABS16'', 259), (''R_AARCH64_PREL64'', 260), (''R_AARCH64_PREL32'', 261),
     (''R_AARCH64_PREL16'', 262), (''R_AARCH64_MOVW_UABS_G0'', 263),
     (''R_AARCH64_MOVW_UABS_G0_NC'', 264), (''R_AARCH64_MOVW_UABS_G1'', 265),
     (''R_AARCH64_MOVW_UABS_G1_NC'', 266), (''R_AARCH64_MOVW_UABS_G2'', 267),
     (''R_AARCH64_MOVW_UABS_G2_NC'', 268), (''R_AARCH64_MOVW_UABS_G3'', 269),
     (''R_AARCH64_MOVW_SABS_G0'', 270), (''R_AARCH64_MOVW_SABS_G1'', 271),
     (''R_AARCH64_MOVW_SABS_G2'', 272), (''R_AARCH64_LD_PREL_LO19'', 273),
     (''R_AARCH64_ADR_PREL_LO21'', 274), (''R_AARCH64_ADR_PREL_PG_HI21'', 275),
     (''R_AARCH64_ADR_PREL_PG_HI21_NC'', 276), (''R_AARCH64_ADD_ABS_LO12_NC'', 277),
     (''R_AARCH64_LDST8_ABS_LO12_NC'', 278), (''R_AARCH64_TSTBR14'', 279),
     (''R_AARCH64_CONDBR19'', 280), (''R_AARCH64_JUMP26'', 282), (''R_AARCH64_CALL26'', 283),
     (''R_AARCH64_LDST16_ABS_LO12_NC'', 284), (''R_AARCH64_LDST32_ABS_LO12_NC'', 285),
     (''R_AARCH64_LDST64_ABS_LO12_NC'', 286), (''R_AARCH64_MOVW_PREL_G0'', 287),
     (''R_AARCH64_MOVW_PREL_G0_NC'', 288), (''R_AARCH64_MOVW_PREL_G1'', 289),
     (''R_AARCH64_MOVW_PREL_G1_NC'', 290), (''R_AARCH64_MOVW_PREL_G2'', 291),
     (''R_AARCH64_MOVW_PREL_G2_NC'', 292), (''R_AARCH64_MOVW_PREL_G3'', 293),
     (''R_AARCH64_LDST128_ABS_LO12_NC'', 299), (''R_AARCH64_MOVW_GOTOFF_G0'', 300),
     (''R_AARCH64_MOVW_GOTOFF_G0_NC'', 301), (''R_AARCH64_MOVW_GOTOFF_G1'', 302),
     (''R_AARCH64_MOVW_GOTOFF_G1_NC'', 303), (''R_AARCH64_MOVW_GOTOFF_G2'', 304),
     (''R_AARCH64_MOVW_GOTOFF_G2_NC'', 305), (''R_AARCH64_MOVW_GOTOFF_G3'', 306),
     (''R_AARCH64_GOTREL64'', 307), (''R_AARCH64_GOTREL32'', 308),
     (''R_AARCH64_GOT_LD_PREL19'', 309), (''R_AARCH64_LD64_GOTOFF_LO15'', 310),
     (''R_AARCH64_ADR_GOT_PAGE'', 311), (''R_AARCH64_LD64_GOT_LO12_NC'', 312),
     (''R_AARCH64_LD64_GOTPAGE_LO15'', 313), (''R_AARCH64_TLSGD_ADR_PREL21'', 512),
     (''R_AARCH64_TLSGD_ADR_PAGE21'', 513), (''R_AARCH64_TLSGD_ADD_LO12_NC'', 514),
     (''R_AARCH64_TLSGD_MOVW_G1'', 515), (''R_AARCH64_TLSGD_MOVW_G0_NC'', 516),
     (''R_AARCH64_TLSLD_ADR_PREL21'', 517), (''R_AARCH64_TLSLD_ADR_PAGE21'', 518),
     (''R_AARCH64_TLSLD_ADD_LO12_NC'', 519), (''R_AARCH64_TLSLD_MOVW_G1'', 520),
     (''R_AARCH64_TLSLD_MOVW_G0_NC'', 521), (''R_AARCH64_TLSLD_LD_PREL19'', 522),
     (''R_AARCH64_TLSLD_MOVW_DTPREL_G2'', 523), (''R_AARCH64_TLSLD_MOVW_DTPREL_G1'', 524),
     (''R_AARCH64_TLSLD_MOVW_DTPREL_G1_NC'', 525), (''R_AARCH64_TLSLD_MOVW_DTPREL_G0'', 526),
     (''R_AARCH64_TLSLD_MOVW_DTPREL_G0_NC'', 527), (''R_AARCH64_TLSLD_ADD_DTPREL_HI12'', 528),
     (''R_AARCH64_TLSLD_ADD_DTPREL_LO12'', 529), (''R_AARCH64_TLSLD_ADD_DTPREL_LO12_NC'', 530),
     (''R_AARCH64_TLSLD_LDST8_DTPREL_LO12'', 531),
     (''R_AARCH64_TLSLD_LDST8_DTPREL_LO12_NC'', 532),
     (''R_AARCH64_TLSLD_LDST16_DTPREL_LO12'', 533),
     (''R_AARCH64_TLSLD_LDST16_DTPREL_LO12_NC'', 534),
     (''R_AARCH64_TLSLD_LDST32_DTPREL_LO12'', 535),
     (''R_AARCH64_TLSLD_LDST32_DTPREL_LO12_NC'', 536),
     (''R_AARCH64_TLSLD_LDST64_DTPREL_LO12'', 537),
     (''R_AARCH64_TLSLD_LDST64_DTPREL_LO12_NC'', 538),
     (''R_AARCH64_TLSIE_MOVW_GOTTPREL_G1'', 539),
     (''R_AARCH64_TLSIE_MOVW_GOTTPREL_G0_NC'', 540),
     (''R_AARCH64_TLSIE_ADR_GOTTPREL_PAGE21'', 541),
     (''R_AARCH64_TLSIE_LD64_GOTTPREL_LO12_NC'', 542),
     (''R_AARCH64_TLSIE_LD_GOTTPREL_PREL19'', 543), (''R_AARCH64_TLSLE_MOVW_TPREL_G2'', 544),
     (''R_AARCH64_TLSLE_MOVW_TPREL_G1'', 545), (''R_AARCH64_TLSLE_MOVW_TPREL_G1_NC'', 546),
     (''R_AARCH64_TLSLE_MOVW_TPREL_G0'', 547), (''R_AARCH64_TLSLE_MOVW_TPREL_G0_NC'', 548),
     (''R_AARCH64_TLSLE_ADD_TPREL_HI12'', 549), (''R_AARCH64_TLSLE_ADD_TPREL_LO12'', 550),
     (''R_AARCH64_TLSLE_ADD_TPREL_LO12_NC'', 551), (''R_AARCH64_TLSLE_LDST8_TPREL_LO12'', 552),
     (''R_AARCH64_TLSLE_LDST8_TPREL_LO12_NC'', 553),
     (''R_AARCH64_TLSLE_LDST16_TPREL_LO12'', 554),
     (''R_AARCH64_TLSLE_LDST16_TPREL_LO12_NC'', 555),
     (''R_AARCH64_TLSLE_LDST32_TPREL_LO12'', 556),
     (''R_AARCH64_TLSLE_LDST32_TPREL_LO12_NC'', 557),
     (''R_AARCH64_TLSLE_LDST64_TPREL_LO12'', 558),
     (''R_AARCH64_TLSLE_LDST64_TPREL_LO12_NC'', 559), (''R_AARCH64_TLSDESC_LD_PREL19'', 560),
     (''R_AARCH64_TLSDESC_ADR_PREL21'', 561), (''R_AARCH64_TLSDESC_ADR_PAGE21'', 562),
     (''R_AARCH64_TLSDESC_LD64_LO12'', 563), (''R_AARCH64_TLSDESC_ADD_LO12'', 564),
     (''R_AARCH64_TLSDESC_OFF_G1'', 565), (''R_AARCH64_TLSDESC_OFF_G0_NC'', 566),
     (''R_AARCH64_TLSDESC_LDR'', 567), (''R_AARCH64_TLSDESC_ADD'', 568),
     (''R_AARCH64_TLSDESC_CALL'', 569), (''R_AARCH64_TLSLE_LDST128_TPREL_LO12'', 570),
     (''R_AARCH64_TLSLE_LDST128_TPREL_LO12_NC'', 571),
     (''R_AARCH64_TLSLD_LDST128_DTPREL_LO12'', 572),
     (''R_AARCH64_TLSLD_LDST128_DTPREL_LO12_NC'', 573), (''R_AARCH64_COPY'', 1024),
     (''R_AARCH64_GLOB_DAT'', 1025), (''R_AARCH64_JUMP_SLOT'', 1026),
     (''R_AARCH64_RELATIVE'', 1027), (''R_AARCH64_TLS_DTPMOD64'', 1028),
     (''R_AARCH64_TLS_DTPREL64'', 1029), (''R_AARCH64_TLS_TPREL64'', 1030),
     (''R_AARCH64_TLSDESC'', 1031), (''R_AARCH64_IRELATIVE'', 1032)]"

text \<open>ARM relocations.\<close>

definition R_ARM_table :: "(string \<times> int) list" where
  "R_ARM_table = [(''R_ARM_NONE'', 0), (''R_ARM_PC24'', 1), (''R_ARM_ABS32'', 2), (''R_ARM_REL32'', 3),
     (''R_ARM_PC13'', 4), (''R_ARM_ABS16'', 5), (''R_ARM_ABS12'', 6), (''R_ARM_THM_ABS5'', 7),
     (''R_ARM_ABS8'', 8), (''R_ARM_SBREL32'', 9), (''R_ARM_THM_PC22'', 10),
     (''R_ARM_THM_PC8'', 11), (''R_ARM_AMP_VCALL9'', 12), (''R_ARM_SWI24'', 13),
     (''R_ARM_TLS_DESC'', 13), (''R_ARM_THM_SWI8'', 14), (''R_ARM_XPC25'', 15),
     (''R_ARM_THM_XPC22'', 16), (''R_ARM_TLS_DTPMOD32'', 17), (''R_ARM_TLS_DTPOFF32'', 18),
     (''R_ARM_TLS_TPOFF32'', 19), (''R_ARM_COPY'', 20), (''R_ARM_GLOB_DAT'', 21),
     (''R_ARM_JUMP_SLOT'', 22), (''R_ARM_RELATIVE'', 23), (''R_ARM_GOTOFF'', 24),
     (''R_ARM_GOTPC'', 25), (''R_ARM_GOT32'', 26), (''R_ARM_PLT32'', 27), (''R_ARM_CALL'', 28),
     (''R_ARM_JUMP24'', 29), (''R_ARM_THM_JUMP24'', 30), (''R_ARM_BASE_ABS'', 31),
     (''R_ARM_ALU_PCREL_7_0'', 32), (''R_ARM_ALU_PCREL_15_8'', 33),
     (''R_ARM_ALU_PCREL_23_15'', 34), (''R_ARM_LDR_SBREL_11_0'', 35),
     (''R_ARM_ALU_SBREL_19_12'', 36), (''R_ARM_ALU_SBREL_27_20'', 37), (''R_ARM_TARGET1'', 38),
     (''R_ARM_SBREL31'', 39), (''R_ARM_V4BX'', 40), (''R_ARM_TARGET2'', 41),
     (''R_ARM_PREL31'', 42), (''R_ARM_MOVW_ABS_NC'', 43), (''R_ARM_MOVT_ABS'', 44),
     (''R_ARM_MOVW_PREL_NC'', 45), (''R_ARM_MOVT_PREL'', 46), (''R_ARM_THM_MOVW_ABS_NC'', 47),
     (''R_ARM_THM_MOVT_ABS'', 48), (''R_ARM_THM_MOVW_PREL_NC'', 49),
     (''R_ARM_THM_MOVT_PREL'', 50), (''R_ARM_THM_JUMP19'', 51), (''R_ARM_THM_JUMP6'', 52),
     (''R_ARM_THM_ALU_PREL_11_0'', 53), (''R_ARM_THM_PC12'', 54), (''R_ARM_ABS32_NOI'', 55),
     (''R_ARM_REL32_NOI'', 56), (''R_ARM_ALU_PC_G0_NC'', 57), (''R_ARM_ALU_PC_G0'', 58),
     (''R_ARM_ALU_PC_G1_NC'', 59), (''R_ARM_ALU_PC_G1'', 60), (''R_ARM_ALU_PC_G2'', 61),
     (''R_ARM_LDR_PC_G1'', 62), (''R_ARM_LDR_PC_G2'', 63), (''R_ARM_LDRS_PC_G0'', 64),
     (''R_ARM_LDRS_PC_G1'', 65), (''R_ARM_LDRS_PC_G2'', 66), (''R_ARM_LDC_PC_G0'', 67),
     (''R_ARM_LDC_PC_G1'', 68), (''R_ARM_LDC_PC_G2'', 69), (''R_ARM_ALU_SB_G0_NC'', 70),
     (''R_ARM_ALU_SB_G0'', 71), (''R_ARM_ALU_SB_G1_NC'', 72), (''R_ARM_ALU_SB_G1'', 73),
     (''R_ARM_ALU_SB_G2'', 74), (''R_ARM_LDR_SB_G0'', 75), (''R_ARM_LDR_SB_G1'', 76),
     (''R_ARM_LDR_SB_G2'', 77), (''R_ARM_LDRS_SB_G0'', 78), (''R_ARM_LDRS_SB_G1'', 79),
     (''R_ARM_LDRS_SB_G2'', 80), (''R_ARM_LDC_SB_G0'', 81), (''R_ARM_LDC_SB_G1'', 82),
     (''R_ARM_LDC_SB_G2'', 83), (''R_ARM_MOVW_BREL_NC'', 84), (''R_ARM_MOVT_BREL'', 85),
     (''R_ARM_MOVW_BREL'', 86), (''R_ARM_THM_MOVW_BREL_NC'', 87), (''R_ARM_THM_MOVT_BREL'', 88),
     (''R_ARM_THM_MOVW_BREL'', 89), (''R_ARM_TLS_GOTDESC'', 90), (''R_ARM_TLS_CALL'', 91),
     (''R_ARM_TLS_DESCSEQ'', 92), (''R_ARM_THM_TLS_CALL'', 93), (''R_ARM_PLT32_ABS'', 94),
     (''R_ARM_GOT_ABS'', 95), (''R_ARM_GOT_PREL'', 96), (''R_ARM_GOT_BREL12'', 97),
     (''R_ARM_GOTOFF12'', 98), (''R_ARM_GOTRELAX'', 99), (''R_ARM_GNU_VTENTRY'', 100),
     (''R_ARM_GNU_VTINHERIT'', 101), (''R_ARM_THM_PC11'', 102), (''R_ARM_THM_PC9'', 103),
     (''R_ARM_TLS_GD32'', 104), (''R_ARM_TLS_LDM32'', 105), (''R_ARM_TLS_LDO32'', 106),
     (''R_ARM_TLS_IE32'', 107), (''R_ARM_TLS_LE32'', 108), (''R_ARM_TLS_LDO12'', 109),
     (''R_ARM_TLS_LE12'', 110), (''R_ARM_TLS_IE12GP'', 111), (''R_ARM_ME_TOO'', 128),
     (''R_ARM_THM_TLS_DESCSEQ'', 129), (''R_ARM_THM_TLS_DESCSEQ16'', 129),
     (''R_ARM_THM_TLS_DESCSEQ32'', 130), (''R_ARM_THM_GOT_BREL12'', 131),
     (''R_ARM_IRELATIVE'', 160), (''R_ARM_RXPC25'', 249), (''R_ARM_RSBREL32'', 250),
     (''R_ARM_THM_RPC22'', 251), (''R_ARM_RREL32'', 252), (''R_ARM_RABS22'', 253),
     (''R_ARM_RPC24'', 254), (''R_ARM_RBASE'', 255), (''R_ARM_NUM'', 256)]"

text \<open>IA-64 relocations.\<close>

definition R_IA64_table :: "(string \<times> int) list" where
  "R_IA64_table = [(''R_IA64_NONE'', 0), (''R_IA64_IMM14'', 33), (''R_IA64_IMM22'', 34),
     (''R_IA64_IMM64'', 35), (''R_IA64_DIR32MSB'', 36), (''R_IA64_DIR32LSB'', 37),
     (''R_IA64_DIR64MSB'', 38), (''R_IA64_DIR64LSB'', 39), (''R_IA64_GPREL22'', 42),
     (''R_IA64_GPREL64I'', 43), (''R_IA64_GPREL32MSB'', 44), (''R_IA64_GPREL32LSB'', 45),
     (''R_IA64_GPREL64MSB'', 46), (''R_IA64_GPREL64LSB'', 47), (''R_IA64_LTOFF22'', 50),
     (''R_IA64_LTOFF64I'', 51), (''R_IA64_PLTOFF22'', 58), (''R_IA64_PLTOFF64I'', 59),
     (''R_IA64_PLTOFF64MSB'', 62), (''R_IA64_PLTOFF64LSB'', 63), (''R_IA64_FPTR64I'', 67),
     (''R_IA64_FPTR32MSB'', 68), (''R_IA64_FPTR32LSB'', 69), (''R_IA64_FPTR64MSB'', 70),
     (''R_IA64_FPTR64LSB'', 71), (''R_IA64_PCREL60B'', 72), (''R_IA64_PCREL21B'', 73),
     (''R_IA64_PCREL21M'', 74), (''R_IA64_PCREL21F'', 75), (''R_IA64_PCREL32MSB'', 76),
     (''R_IA64_PCREL32LSB'', 77), (''R_IA64_PCREL64MSB'', 78), (''R_IA64_PCREL64LSB'', 79),
     (''R_IA64_LTOFF_FPTR22'', 82), (''R_IA64_LTOFF_FPTR64I'', 83),
     (''R_IA64_LTOFF_FPTR32MSB'', 84), (''R_IA64_LTOFF_FPTR32LSB'', 85),
     (''R_IA64_LTOFF_FPTR64MSB'', 86), (''R_IA64_LTOFF_FPTR64LSB'', 87),
     (''R_IA64_SEGREL32MSB'', 92), (''R_IA64_SEGREL32LSB'', 93), (''R_IA64_SEGREL64MSB'', 94),
     (''R_IA64_SEGREL64LSB'', 95), (''R_IA64_SECREL32MSB'', 100), (''R_IA64_SECREL32LSB'', 101),
     (''R_IA64_SECREL64MSB'', 102), (''R_IA64_SECREL64LSB'', 103), (''R_IA64_REL32MSB'', 108),
     (''R_IA64_REL32LSB'', 109), (''R_IA64_REL64MSB'', 110), (''R_IA64_REL64LSB'', 111),
     (''R_IA64_LTV32MSB'', 116), (''R_IA64_LTV32LSB'', 117), (''R_IA64_LTV64MSB'', 118),
     (''R_IA64_LTV64LSB'', 119), (''R_IA64_PCREL21BI'', 121), (''R_IA64_PCREL22'', 122),
     (''R_IA64_PCREL64I'', 123), (''R_IA64_IPLTMSB'', 128), (''R_IA64_IPLTLSB'', 129),
     (''R_IA64_COPY'', 132), (''R_IA64_SUB'', 133), (''R_IA64_LTOFF22X'', 134),
     (''R_IA64_LDXMOV'', 135), (''R_IA64_TPREL14'', 145), (''R_IA64_TPREL22'', 146),
     (''R_IA64_TPREL64I'', 147), (''R_IA64_TPREL64MSB'', 150), (''R_IA64_TPREL64LSB'', 151),
     (''R_IA64_LTOFF_TPREL22'', 154), (''R_IA64_DTPMOD64MSB'', 166),
     (''R_IA64_DTPMOD64LSB'', 167), (''R_IA64_LTOFF_DTPMOD22'', 170),
     (''R_IA64_DTPREL14'', 177), (''R_IA64_DTPREL22'', 178), (''R_IA64_DTPREL64I'', 179),
     (''R_IA64_DTPREL32MSB'', 180), (''R_IA64_DTPREL32LSB'', 181),
     (''R_IA64_DTPREL64MSB'', 182), (''R_IA64_DTPREL64LSB'', 183),
     (''R_IA64_LTOFF_DTPREL22'', 186)]"

text \<open>SH relocations.\<close>

definition R_SH_table :: "(string \<times> int) list" where
  "R_SH_table = [(''R_SH_NONE'', 0), (''R_SH_DIR32'', 1), (''R_SH_REL32'', 2), (''R_SH_DIR8WPN'', 3),
     (''R_SH_IND12W'', 4), (''R_SH_DIR8WPL'', 5), (''R_SH_DIR8WPZ'', 6), (''R_SH_DIR8BP'', 7),
     (''R_SH_DIR8W'', 8), (''R_SH_DIR8L'', 9), (''R_SH_SWITCH16'', 25), (''R_SH_SWITCH32'', 26),
     (''R_SH_USES'', 27), (''R_SH_COUNT'', 28), (''R_SH_ALIGN'', 29), (''R_SH_CODE'', 30),
     (''R_SH_DATA'', 31), (''R_SH_LABEL'', 32), (''R_SH_SWITCH8'', 33),
     (''R_SH_GNU_VTINHERIT'', 34), (''R_SH_GNU_VTENTRY'', 35), (''R_SH_TLS_GD_32'', 144),
     (''R_SH_TLS_LD_32'', 145), (''R_SH_TLS_LDO_32'', 146), (''R_SH_TLS_IE_32'', 147),
     (''R_SH_TLS_LE_32'', 148), (''R_SH_TLS_DTPMOD32'', 149), (''R_SH_TLS_DTPOFF32'', 150),
     (''R_SH_TLS_TPOFF32'', 151), (''R_SH_GOT32'', 160), (''R_SH_PLT32'', 161),
     (''R_SH_COPY'', 162), (''R_SH_GLOB_DAT'', 163), (''R_SH_JMP_SLOT'', 164),
     (''R_SH_RELATIVE'', 165), (''R_SH_GOTOFF'', 166), (''R_SH_GOTPC'', 167), (''R_SH_NUM'', 256)]"

text \<open>S390 relocations.\<close>

definition R_390_table :: "(string \<times> int) list" where
  "R_390_table = [(''R_390_NONE'', 0), (''R_390_8'', 1), (''R_390_12'', 2), (''R_390_16'', 3),
     (''R_390_32'', 4), (''R_390_PC32'', 5), (''R_390_GOT12'', 6), (''R_390_GOT32'', 7),
     (''R_390_PLT32'', 8), (''R_390_COPY'', 9), (''R_390_GLOB_DAT'', 10),
     (''R_390_JMP_SLOT'', 11), (''R_390_RELATIVE'', 12), (''R_390_GOTOFF32'', 13),
     (''R_390_GOTPC'', 14), (''R_390_GOT16'', 15), (''R_390_PC16'', 16),
     (''R_390_PC16DBL'', 17), (''R_390_PLT16DBL'', 18), (''R_390_PC32DBL'', 19),
     (''R_390_PLT32DBL'', 20), (''R_390_GOTPCDBL'', 21), (''R_390_64'', 22),
     (''R_390_PC64'', 23), (''R_390_GOT64'', 24), (''R_390_PLT64'', 25), (''R_390_GOTENT'', 26),
     (''R_390_GOTOFF16'', 27), (''R_390_GOTOFF64'', 28), (''R_390_GOTPLT12'', 29),
     (''R_390_GOTPLT16'', 30), (''R_390_GOTPLT32'', 31), (''R_390_GOTPLT64'', 32),
     (''R_390_GOTPLTENT'', 33), (''R_390_PLTOFF16'', 34), (''R_390_PLTOFF32'', 35),
     (''R_390_PLTOFF64'', 36), (''R_390_TLS_LOAD'', 37), (''R_390_TLS_GDCALL'', 38),
     (''R_390_TLS_LDCALL'', 39), (''R_390_TLS_GD32'', 40), (''R_390_TLS_GD64'', 41),
     (''R_390_TLS_GOTIE12'', 42), (''R_390_TLS_GOTIE32'', 43), (''R_390_TLS_GOTIE64'', 44),
     (''R_390_TLS_LDM32'', 45), (''R_390_TLS_LDM64'', 46), (''R_390_TLS_IE32'', 47),
     (''R_390_TLS_IE64'', 48), (''R_390_TLS_IEENT'', 49), (''R_390_TLS_LE32'', 50),
     (''R_390_TLS_LE64'', 51), (''R_390_TLS_LDO32'', 52), (''R_390_TLS_LDO64'', 53),
     (''R_390_TLS_DTPMOD'', 54), (''R_390_TLS_DTPOFF'', 55), (''R_390_TLS_TPOFF'', 56),
     (''R_390_20'', 57), (''R_390_GOT20'', 58), (''R_390_GOTPLT20'', 59),
     (''R_390_TLS_GOTIE20'', 60), (''R_390_IRELATIVE'', 61), (''R_390_NUM'', 62)]"

text \<open>CRIS relocations.\<close>

definition R_CRIS_table :: "(string \<times> int) list" where
  "R_CRIS_table = [(''R_CRIS_NONE'', 0), (''R_CRIS_8'', 1), (''R_CRIS_16'', 2), (''R_CRIS_32'', 3),
     (''R_CRIS_8_PCREL'', 4), (''R_CRIS_16_PCREL'', 5), (''R_CRIS_32_PCREL'', 6),
     (''R_CRIS_GNU_VTINHERIT'', 7), (''R_CRIS_GNU_VTENTRY'', 8), (''R_CRIS_COPY'', 9),
     (''R_CRIS_GLOB_DAT'', 10), (''R_CRIS_JUMP_SLOT'', 11), (''R_CRIS_RELATIVE'', 12),
     (''R_CRIS_16_GOT'', 13), (''R_CRIS_32_GOT'', 14), (''R_CRIS_16_GOTPLT'', 15),
     (''R_CRIS_32_GOTPLT'', 16), (''R_CRIS_32_GOTREL'', 17), (''R_CRIS_32_PLT_GOTREL'', 18),
     (''R_CRIS_32_PLT_PCREL'', 19), (''R_CRIS_NUM'', 20)]"

text \<open>x86-64 relocations.\<close>

definition R_X86_64_table :: "(string \<times> int) list" where
  "R_X86_64_table = [(''R_X86_64_NONE'', 0), (''R_X86_64_64'', 1), (''R_X86_64_PC32'', 2),
     (''R_X86_64_GOT32'', 3), (''R_X86_64_PLT32'', 4), (''R_X86_64_COPY'', 5),
     (''R_X86_64_GLOB_DAT'', 6), (''R_X86_64_JUMP_SLOT'', 7), (''R_X86_64_RELATIVE'', 8),
     (''R_X86_64_GOTPCREL'', 9), (''R_X86_64_32'', 10), (''R_X86_64_32S'', 11),
     (''R_X86_64_16'', 12), (''R_X86_64_PC16'', 13), (''R_X86_64_8'', 14),
     (''R_X86_64_PC8'', 15), (''R_X86_64_DTPMOD64'', 16), (''R_X86_64_DTPOFF64'', 17),
     (''R_X86_64_TPOFF64'', 18), (''R_X86_64_TLSGD'', 19), (''R_X86_64_TLSLD'', 20),
     (''R_X86_64_DTPOFF32'', 21), (''R_X86_64_GOTTPOFF'', 22), (''R_X86_64_TPOFF32'', 23),
     (''R_X86_64_PC64'', 24), (''R_X86_64_GOTOFF64'', 25), (''R_X86_64_GOTPC32'', 26),
     (''R_X86_64_GOT64'', 27), (''R_X86_64_GOTPCREL64'', 28), (''R_X86_64_GOTPC64'', 29),
     (''R_X86_64_GOTPLT64'', 30), (''R_X86_64_PLTOFF64'', 31), (''R_X86_64_SIZE32'', 32),
     (''R_X86_64_SIZE64'', 33), (''R_X86_64_GOTPC32_TLSDESC'', 34),
     (''R_X86_64_TLSDESC_CALL'', 35), (''R_X86_64_TLSDESC'', 36), (''R_X86_64_IRELATIVE'', 37),
     (''R_X86_64_RELATIVE64'', 38), (''R_X86_64_NUM'', 39)]"

text \<open>MN10300 relocations.\<close>

definition R_MN10300_table :: "(string \<times> int) list" where
  "R_MN10300_table = [(''R_MN10300_NONE'', 0), (''R_MN10300_32'', 1), (''R_MN10300_16'', 2),
     (''R_MN10300_8'', 3), (''R_MN10300_PCREL32'', 4), (''R_MN10300_PCREL16'', 5),
     (''R_MN10300_PCREL8'', 6), (''R_MN10300_GNU_VTINHERIT'', 7),
     (''R_MN10300_GNU_VTENTRY'', 8), (''R_MN10300_24'', 9), (''R_MN10300_GOTPC32'', 10),
     (''R_MN10300_GOTPC16'', 11), (''R_MN10300_GOTOFF32'', 12), (''R_MN10300_GOTOFF24'', 13),
     (''R_MN10300_GOTOFF16'', 14), (''R_MN10300_PLT32'', 15), (''R_MN10300_PLT16'', 16),
     (''R_MN10300_GOT32'', 17), (''R_MN10300_GOT24'', 18), (''R_MN10300_GOT16'', 19),
     (''R_MN10300_COPY'', 20), (''R_MN10300_GLOB_DAT'', 21), (''R_MN10300_JMP_SLOT'', 22),
     (''R_MN10300_RELATIVE'', 23), (''R_MN10300_TLS_GD'', 24), (''R_MN10300_TLS_LD'', 25),
     (''R_MN10300_TLS_LDO'', 26), (''R_MN10300_TLS_GOTIE'', 27), (''R_MN10300_TLS_IE'', 28),
     (''R_MN10300_TLS_LE'', 29), (''R_MN10300_TLS_DTPMOD'', 30), (''R_MN10300_TLS_DTPOFF'', 31),
     (''R_MN10300_TLS_TPOFF'', 32), (''R_MN10300_SYM_DIFF'', 33), (''R_MN10300_ALIGN'', 34),
     (''R_MN10300_NUM'', 35)]"

text \<open>M32R relocations.\<close>

definition R_M32R_table :: "(string \<times> int) list" where
  "R_M32R_table = [(''R_M32R_NONE'', 0), (''R_M32R_16'', 1), (''R_M32R_32'', 2), (''R_M32R_24'', 3),
     (''R_M32R_10_PCREL'', 4), (''R_M32R_18_PCREL'', 5), (''R_M32R_26_PCREL'', 6),
     (''R_M32R_HI16_ULO'', 7), (''R_M32R_HI16_SLO'', 8), (''R_M32R_LO16'', 9),
     (''R_M32R_SDA16'', 10), (''R_M32R_GNU_VTINHERIT'', 11), (''R_M32R_GNU_VTENTRY'', 12),
     (''R_M32R_16_RELA'', 33), (''R_M32R_32_RELA'', 34), (''R_M32R_24_RELA'', 35),
     (''R_M32R_10_PCREL_RELA'', 36), (''R_M32R_18_PCREL_RELA'', 37),
     (''R_M32R_26_PCREL_RELA'', 38), (''R_M32R_HI16_ULO_RELA'', 39),
     (''R_M32R_HI16_SLO_RELA'', 40), (''R_M32R_LO16_RELA'', 41), (''R_M32R_SDA16_RELA'', 42),
     (''R_M32R_RELA_GNU_VTINHERIT'', 43), (''R_M32R_RELA_GNU_VTENTRY'', 44),
     (''R_M32R_REL32'', 45), (''R_M32R_GOT24'', 48), (''R_M32R_26_PLTREL'', 49),
     (''R_M32R_COPY'', 50), (''R_M32R_GLOB_DAT'', 51), (''R_M32R_JMP_SLOT'', 52),
     (''R_M32R_RELATIVE'', 53), (''R_M32R_GOTOFF'', 54), (''R_M32R_GOTPC24'', 55),
     (''R_M32R_GOT16_HI_ULO'', 56), (''R_M32R_GOT16_HI_SLO'', 57), (''R_M32R_GOT16_LO'', 58),
     (''R_M32R_GOTPC_HI_ULO'', 59), (''R_M32R_GOTPC_HI_SLO'', 60), (''R_M32R_GOTPC_LO'', 61),
     (''R_M32R_GOTOFF_HI_ULO'', 62), (''R_M32R_GOTOFF_HI_SLO'', 63), (''R_M32R_GOTOFF_LO'', 64),
     (''R_M32R_NUM'', 256)]"

text \<open>MicroBlaze relocations.\<close>

definition R_MICROBLAZE_table :: "(string \<times> int) list" where
  "R_MICROBLAZE_table = [(''R_MICROBLAZE_NONE'', 0), (''R_MICROBLAZE_32'', 1), (''R_MICROBLAZE_32_PCREL'', 2),
     (''R_MICROBLAZE_64_PCREL'', 3), (''R_MICROBLAZE_32_PCREL_LO'', 4),
     (''R_MICROBLAZE_64'', 5), (''R_MICROBLAZE_32_LO'', 6), (''R_MICROBLAZE_SRO32'', 7),
     (''R_MICROBLAZE_SRW32'', 8), (''R_MICROBLAZE_64_NONE'', 9),
     (''R_MICROBLAZE_32_SYM_OP_SYM'', 10), (''R_MICROBLAZE_GNU_VTINHERIT'', 11),
     (''R_MICROBLAZE_GNU_VTENTRY'', 12), (''R_MICROBLAZE_GOTPC_64'', 13),
     (''R_MICROBLAZE_GOT_64'', 14), (''R_MICROBLAZE_PLT_64'', 15), (''R_MICROBLAZE_REL'', 16),
     (''R_MICROBLAZE_JUMP_SLOT'', 17), (''R_MICROBLAZE_GLOB_DAT'', 18),
     (''R_MICROBLAZE_GOTOFF_64'', 19), (''R_MICROBLAZE_GOTOFF_32'', 20),
     (''R_MICROBLAZE_COPY'', 21), (''R_MICROBLAZE_TLS'', 22), (''R_MICROBLAZE_TLSGD'', 23),
     (''R_MICROBLAZE_TLSLD'', 24), (''R_MICROBLAZE_TLSDTPMOD32'', 25),
     (''R_MICROBLAZE_TLSDTPREL32'', 26), (''R_MICROBLAZE_TLSDTPREL64'', 27),
     (''R_MICROBLAZE_TLSGOTTPREL32'', 28), (''R_MICROBLAZE_TLSTPREL32'', 29)]"

text \<open>TILEPro relocations.\<close>

definition R_TILEPRO_table :: "(string \<times> int) list" where
  "R_TILEPRO_table = [(''R_TILEPRO_NONE'', 0), (''R_TILEPRO_32'', 1), (''R_TILEPRO_16'', 2),
     (''R_TILEPRO_8'', 3), (''R_TILEPRO_32_PCREL'', 4), (''R_TILEPRO_16_PCREL'', 5),
     (''R_TILEPRO_8_PCREL'', 6), (''R_TILEPRO_LO16'', 7), (''R_TILEPRO_HI16'', 8),
     (''R_TILEPRO_HA16'', 9), (''R_TILEPRO_COPY'', 10), (''R_TILEPRO_GLOB_DAT'', 11),
     (''R_TILEPRO_JMP_SLOT'', 12), (''R_TILEPRO_RELATIVE'', 13), (''R_TILEPRO_BROFF_X1'', 14),
     (''R_TILEPRO_JOFFLONG_X1'', 15), (''R_TILEPRO_JOFFLONG_X1_PLT'', 16),
     (''R_TILEPRO_IMM8_X0'', 17), (''R_TILEPRO_IMM8_Y0'', 18), (''R_TILEPRO_IMM8_X1'', 19),
     (''R_TILEPRO_IMM8_Y1'', 20), (''R_TILEPRO_MT_IMM15_X1'', 21),
     (''R_TILEPRO_MF_IMM15_X1'', 22), (''R_TILEPRO_IMM16_X0'', 23),
     (''R_TILEPRO_IMM16_X1'', 24), (''R_TILEPRO_IMM16_X0_LO'', 25),
     (''R_TILEPRO_IMM16_X1_LO'', 26), (''R_TILEPRO_IMM16_X0_HI'', 27),
     (''R_TILEPRO_IMM16_X1_HI'', 28), (''R_TILEPRO_IMM16_X0_HA'', 29),
     (''R_TILEPRO_IMM16_X1_HA'', 30), (''R_TILEPRO_IMM16_X0_PCREL'', 31),
     (''R_TILEPRO_IMM16_X1_PCREL'', 32), (''R_TILEPRO_IMM16_X0_LO_PCREL'', 33),
     (''R_TILEPRO_IMM16_X1_LO_PCREL'', 34), (''R_TILEPRO_IMM16_X0_HI_PCREL'', 35),
     (''R_TILEPRO_IMM16_X1_HI_PCREL'', 36), (''R_TILEPRO_IMM16_X0_HA_PCREL'', 37),
     (''R_TILEPRO_IMM16_X1_HA_PCREL'', 38), (''R_TILEPRO_IMM16_X0_GOT'', 39),
     (''R_TILEPRO_IMM16_X1_GOT'', 40), (''R_TILEPRO_IMM16_X0_GOT_LO'', 41),
     (''R_TILEPRO_IMM16_X1_GOT_LO'', 42), (''R_TILEPRO_IMM16_X0_GOT_HI'', 43),
     (''R_TILEPRO_IMM16_X1_GOT_HI'', 44), (''R_TILEPRO_IMM16_X0_GOT_HA'', 45),
     (''R_TILEPRO_IMM16_X1_GOT_HA'', 46), (''R_TILEPRO_MMSTART_X0'', 47),
     (''R_TILEPRO_MMEND_X0'', 48), (''R_TILEPRO_MMSTART_X1'', 49), (''R_TILEPRO_MMEND_X1'', 50),
     (''R_TILEPRO_SHAMT_X0'', 51), (''R_TILEPRO_SHAMT_X1'', 52), (''R_TILEPRO_SHAMT_Y0'', 53),
     (''R_TILEPRO_SHAMT_Y1'', 54), (''R_TILEPRO_DEST_IMM8_X1'', 55),
     (''R_TILEPRO_TLS_GD_CALL'', 60), (''R_TILEPRO_IMM8_X0_TLS_GD_ADD'', 61),
     (''R_TILEPRO_IMM8_X1_TLS_GD_ADD'', 62), (''R_TILEPRO_IMM8_Y0_TLS_GD_ADD'', 63),
     (''R_TILEPRO_IMM8_Y1_TLS_GD_ADD'', 64), (''R_TILEPRO_TLS_IE_LOAD'', 65),
     (''R_TILEPRO_IMM16_X0_TLS_GD'', 66), (''R_TILEPRO_IMM16_X1_TLS_GD'', 67),
     (''R_TILEPRO_IMM16_X0_TLS_GD_LO'', 68), (''R_TILEPRO_IMM16_X1_TLS_GD_LO'', 69),
     (''R_TILEPRO_IMM16_X0_TLS_GD_HI'', 70), (''R_TILEPRO_IMM16_X1_TLS_GD_HI'', 71),
     (''R_TILEPRO_IMM16_X0_TLS_GD_HA'', 72), (''R_TILEPRO_IMM16_X1_TLS_GD_HA'', 73),
     (''R_TILEPRO_IMM16_X0_TLS_IE'', 74), (''R_TILEPRO_IMM16_X1_TLS_IE'', 75),
     (''R_TILEPRO_IMM16_X0_TLS_IE_LO'', 76), (''R_TILEPRO_IMM16_X1_TLS_IE_LO'', 77),
     (''R_TILEPRO_IMM16_X0_TLS_IE_HI'', 78), (''R_TILEPRO_IMM16_X1_TLS_IE_HI'', 79),
     (''R_TILEPRO_IMM16_X0_TLS_IE_HA'', 80), (''R_TILEPRO_IMM16_X1_TLS_IE_HA'', 81),
     (''R_TILEPRO_TLS_DTPMOD32'', 82), (''R_TILEPRO_TLS_DTPOFF32'', 83),
     (''R_TILEPRO_TLS_TPOFF32'', 84), (''R_TILEPRO_IMM16_X0_TLS_LE'', 85),
     (''R_TILEPRO_IMM16_X1_TLS_LE'', 86), (''R_TILEPRO_IMM16_X0_TLS_LE_LO'', 87),
     (''R_TILEPRO_IMM16_X1_TLS_LE_LO'', 88), (''R_TILEPRO_IMM16_X0_TLS_LE_HI'', 89),
     (''R_TILEPRO_IMM16_X1_TLS_LE_HI'', 90), (''R_TILEPRO_IMM16_X0_TLS_LE_HA'', 91),
     (''R_TILEPRO_IMM16_X1_TLS_LE_HA'', 92), (''R_TILEPRO_GNU_VTINHERIT'', 128),
     (''R_TILEPRO_GNU_VTENTRY'', 129), (''R_TILEPRO_NUM'', 130)]"

text \<open>TILE-Gx relocations.\<close>

definition R_TILEGX_table :: "(string \<times> int) list" where
  "R_TILEGX_table = [(''R_TILEGX_NONE'', 0), (''R_TILEGX_64'', 1), (''R_TILEGX_32'', 2), (''R_TILEGX_16'', 3),
     (''R_TILEGX_8'', 4), (''R_TILEGX_64_PCREL'', 5), (''R_TILEGX_32_PCREL'', 6),
     (''R_TILEGX_16_PCREL'', 7), (''R_TILEGX_8_PCREL'', 8), (''R_TILEGX_HW0'', 9),
     (''R_TILEGX_HW1'', 10), (''R_TILEGX_HW2'', 11), (''R_TILEGX_HW3'', 12),
     (''R_TILEGX_HW0_LAST'', 13), (''R_TILEGX_HW1_LAST'', 14), (''R_TILEGX_HW2_LAST'', 15),
     (''R_TILEGX_COPY'', 16), (''R_TILEGX_GLOB_DAT'', 17), (''R_TILEGX_JMP_SLOT'', 18),
     (''R_TILEGX_RELATIVE'', 19), (''R_TILEGX_BROFF_X1'', 20), (''R_TILEGX_JUMPOFF_X1'', 21),
     (''R_TILEGX_JUMPOFF_X1_PLT'', 22), (''R_TILEGX_IMM8_X0'', 23), (''R_TILEGX_IMM8_Y0'', 24),
     (''R_TILEGX_IMM8_X1'', 25), (''R_TILEGX_IMM8_Y1'', 26), (''R_TILEGX_DEST_IMM8_X1'', 27),
     (''R_TILEGX_MT_IMM14_X1'', 28), (''R_TILEGX_MF_IMM14_X1'', 29),
     (''R_TILEGX_MMSTART_X0'', 30), (''R_TILEGX_MMEND_X0'', 31), (''R_TILEGX_SHAMT_X0'', 32),
     (''R_TILEGX_SHAMT_X1'', 33), (''R_TILEGX_SHAMT_Y0'', 34), (''R_TILEGX_SHAMT_Y1'', 35),
     (''R_TILEGX_IMM16_X0_HW0'', 36), (''R_TILEGX_IMM16_X1_HW0'', 37),
     (''R_TILEGX_IMM16_X0_HW1'', 38), (''R_TILEGX_IMM16_X1_HW1'', 39),
     (''R_TILEGX_IMM16_X0_HW2'', 40), (''R_TILEGX_IMM16_X1_HW2'', 41),
     (''R_TILEGX_IMM16_X0_HW3'', 42), (''R_TILEGX_IMM16_X1_HW3'', 43),
     (''R_TILEGX_IMM16_X0_HW0_LAST'', 44), (''R_TILEGX_IMM16_X1_HW0_LAST'', 45),
     (''R_TILEGX_IMM16_X0_HW1_LAST'', 46), (''R_TILEGX_IMM16_X1_HW1_LAST'', 47),
     (''R_TILEGX_IMM16_X0_HW2_LAST'', 48), (''R_TILEGX_IMM16_X1_HW2_LAST'', 49),
     (''R_TILEGX_IMM16_X0_HW0_PCREL'', 50), (''R_TILEGX_IMM16_X1_HW0_PCREL'', 51),
     (''R_TILEGX_IMM16_X0_HW1_PCREL'', 52), (''R_TILEGX_IMM16_X1_HW1_PCREL'', 53),
     (''R_TILEGX_IMM16_X0_HW2_PCREL'', 54), (''R_TILEGX_IMM16_X1_HW2_PCREL'', 55),
     (''R_TILEGX_IMM16_X0_HW3_PCREL'', 56), (''R_TILEGX_IMM16_X1_HW3_PCREL'', 57),
     (''R_TILEGX_IMM16_X0_HW0_LAST_PCREL'', 58), (''R_TILEGX_IMM16_X1_HW0_LAST_PCREL'', 59),
     (''R_TILEGX_IMM16_X0_HW1_LAST_PCREL'', 60), (''R_TILEGX_IMM16_X1_HW1_LAST_PCREL'', 61),
     (''R_TILEGX_IMM16_X0_HW2_LAST_PCREL'', 62), (''R_TILEGX_IMM16_X1_HW2_LAST_PCREL'', 63),
     (''R_TILEGX_IMM16_X0_HW0_GOT'', 64), (''R_TILEGX_IMM16_X1_HW0_GOT'', 65),
     (''R_TILEGX_IMM16_X0_HW0_PLT_PCREL'', 66), (''R_TILEGX_IMM16_X1_HW0_PLT_PCREL'', 67),
     (''R_TILEGX_IMM16_X0_HW1_PLT_PCREL'', 68), (''R_TILEGX_IMM16_X1_HW1_PLT_PCREL'', 69),
     (''R_TILEGX_IMM16_X0_HW2_PLT_PCREL'', 70), (''R_TILEGX_IMM16_X1_HW2_PLT_PCREL'', 71),
     (''R_TILEGX_IMM16_X0_HW0_LAST_GOT'', 72), (''R_TILEGX_IMM16_X1_HW0_LAST_GOT'', 73),
     (''R_TILEGX_IMM16_X0_HW1_LAST_GOT'', 74), (''R_TILEGX_IMM16_X1_HW1_LAST_GOT'', 75),
     (''R_TILEGX_IMM16_X0_HW3_PLT_PCREL'', 76), (''R_TILEGX_IMM16_X1_HW3_PLT_PCREL'', 77),
     (''R_TILEGX_IMM16_X0_HW0_TLS_GD'', 78), (''R_TILEGX_IMM16_X1_HW0_TLS_GD'', 79),
     (''R_TILEGX_IMM16_X0_HW0_TLS_LE'', 80), (''R_TILEGX_IMM16_X1_HW0_TLS_LE'', 81),
     (''R_TILEGX_IMM16_X0_HW0_LAST_TLS_LE'', 82), (''R_TILEGX_IMM16_X1_HW0_LAST_TLS_LE'', 83),
     (''R_TILEGX_IMM16_X0_HW1_LAST_TLS_LE'', 84), (''R_TILEGX_IMM16_X1_HW1_LAST_TLS_LE'', 85),
     (''R_TILEGX_IMM16_X0_HW0_LAST_TLS_GD'', 86), (''R_TILEGX_IMM16_X1_HW0_LAST_TLS_GD'', 87),
     (''R_TILEGX_IMM16_X0_HW1_LAST_TLS_GD'', 88), (''R_TILEGX_IMM16_X1_HW1_LAST_TLS_GD'', 89),
     (''R_TILEGX_IMM16_X0_HW0_TLS_IE'', 92), (''R_TILEGX_IMM16_X1_HW0_TLS_IE'', 93),
     (''R_TILEGX_IMM16_X0_HW0_LAST_PLT_PCREL'', 94),
     (''R_TILEGX_IMM16_X1_HW0_LAST_PLT_PCREL'', 95),
     (''R_TILEGX_IMM16_X0_HW1_LAST_PLT_PCREL'', 96),
     (''R_TILEGX_IMM16_X1_HW1_LAST_PLT_PCREL'', 97),
     (''R_TILEGX_IMM16_X0_HW2_LAST_PLT_PCREL'', 98),
     (''R_TILEGX_IMM16_X1_HW2_LAST_PLT_PCREL'', 99),
     (''R_TILEGX_IMM16_X0_HW0_LAST_TLS_IE'', 100), (''R_TILEGX_IMM16_X1_HW0_LAST_TLS_IE'', 101),
     (''R_TILEGX_IMM16_X0_HW1_LAST_TLS_IE'', 102), (''R_TILEGX_IMM16_X1_HW1_LAST_TLS_IE'', 103),
     (''R_TILEGX_TLS_DTPMOD64'', 106), (''R_TILEGX_TLS_DTPOFF64'', 107),
     (''R_TILEGX_TLS_TPOFF64'', 108), (''R_TILEGX_TLS_DTPMOD32'', 109),
     (''R_TILEGX_TLS_DTPOFF32'', 110), (''R_TILEGX_TLS_TPOFF32'', 111),
     (''R_TILEGX_TLS_GD_CALL'', 112), (''R_TILEGX_IMM8_X0_TLS_GD_ADD'', 113),
     (''R_TILEGX_IMM8_X1_TLS_GD_ADD'', 114), (''R_TILEGX_IMM8_Y0_TLS_GD_ADD'', 115),
     (''R_TILEGX_IMM8_Y1_TLS_GD_ADD'', 116), (''R_TILEGX_TLS_IE_LOAD'', 117),
     (''R_TILEGX_IMM8_X0_TLS_ADD'', 118), (''R_TILEGX_IMM8_X1_TLS_ADD'', 119),
     (''R_TILEGX_IMM8_Y0_TLS_ADD'', 120), (''R_TILEGX_IMM8_Y1_TLS_ADD'', 121),
     (''R_TILEGX_GNU_VTINHERIT'', 128), (''R_TILEGX_GNU_VTENTRY'', 129), (''R_TILEGX_NUM'', 130)]"

section \<open>Packing and unpacking\<close>

lemma low_byte: "(0xff :: 'a::len word) = mask 8"
  by (simp add: mask_eq_exp_minus_1)

lemma low_word: "(0xffffffff :: 'a::len word) = mask 32"
  by (simp add: mask_eq_exp_minus_1)

lemma ELF32_R_INFO_or: "ELF32_R_INFO sy ty = push_bit 8 sy OR (ty AND mask 8)"
  unfolding ELF32_R_INFO_def low_byte by (rule disjunctive_add) (auto simp: bit_simps)

lemma ELF32_R_TYPE_INFO: "ELF32_R_TYPE (ELF32_R_INFO sy ty) = ty AND mask 8"
  unfolding ELF32_R_TYPE_def ELF32_R_INFO_or low_byte by (rule bit_word_eqI) (auto simp: bit_simps)

lemma small_bits:
  fixes w :: "'a::len word"
  assumes "unat w < 2 ^ n"
  shows "w AND mask n = w" and "bit w i \<Longrightarrow> i < n"
proof -
  have t: "take_bit n w = w" using assms by (simp add: word_unat_eq_iff unsigned_take_bit_eq take_bit_nat_eq_self)
  then show "w AND mask n = w" by (simp add: take_bit_eq_mask)
  show "i < n" if "bit w i" using that t by (metis bit_take_bit_iff)
qed

lemma ELF32_R_SYM_INFO:
  assumes "unat sy < 2 ^ 24"
  shows "ELF32_R_SYM (ELF32_R_INFO sy ty) = sy"
  unfolding ELF32_R_SYM_def ELF32_R_INFO_or
  by (rule bit_word_eqI) (auto simp: bit_simps dest: small_bits(2) [OF assms])

lemma ELF64_R_INFO_or:
  assumes "unat ty < 2 ^ 32"
  shows "ELF64_R_INFO sy ty = push_bit 32 sy OR ty"
  unfolding ELF64_R_INFO_def by (rule disjunctive_add) (auto simp: bit_simps dest: small_bits(2) [OF assms])

lemma ELF64_R_TYPE_INFO: "unat ty < 2 ^ 32 \<Longrightarrow> ELF64_R_TYPE (ELF64_R_INFO sy ty) = ty"
  unfolding ELF64_R_TYPE_def low_word
  by (subst (2) small_bits(1) [symmetric, of _ 32], assumption, simp add: ELF64_R_INFO_or)
    (rule bit_word_eqI, auto simp: bit_simps)

lemma ELF64_R_SYM_INFO:
  assumes "unat sy < 2 ^ 32" and "unat ty < 2 ^ 32"
  shows "ELF64_R_SYM (ELF64_R_INFO sy ty) = sy"
  unfolding ELF64_R_SYM_def ELF64_R_INFO_or [OF assms(2)]
  by (rule bit_word_eqI) (auto simp: bit_simps dest: small_bits(2) [OF assms(1)] small_bits(2) [OF assms(2)])

section \<open>Numbers that fit their field\<close>

text \<open>The tables of the processors with 32-bit files, whose entries have eight bits for the number.\<close>

definition tables32 :: "(string \<times> int) list list" where
  "tables32 = [R_68K_table, R_386_table, R_SPARC_table, R_MIPS_table, R_PARISC_table, R_PPC_table, R_ARM_table,
     R_SH_table, R_390_table, R_CRIS_table, R_MN10300_table, R_M32R_table, R_MICROBLAZE_table, R_TILEPRO_table]"

definition tables64 :: "(string \<times> int) list list" where
  "tables64 = [R_SPARC_table, R_MIPS_table, R_PARISC_table, R_ALPHA_table, R_PPC64_table, R_AARCH64_table,
     R_IA64_table, R_390_table, R_X86_64_table, R_TILEGX_table]"

text \<open>The names that count a table instead of naming a relocation, where the count needs nine bits.\<close>

definition counts :: "string list" where
  "counts = [''R_ARM_NUM'', ''R_SH_NUM'', ''R_M32R_NUM'']"

lemma tables32_range: "list_all (list_all (\<lambda>(nm, t). 0 \<le> t \<and> (t < 256 \<or> nm \<in> set counts))) tables32"
  by code_simp

lemma tables64_range: "list_all (list_all (\<lambda>(nm, t). 0 \<le> t \<and> t < 2048)) tables64"
  by code_simp

lemma fit32:
  assumes "T \<in> set tables32" and "(nm, t) \<in> set T" and "nm \<notin> set counts" and "unat sy < 2 ^ 24"
  shows "ELF32_R_SYM (ELF32_R_INFO sy (of_int t)) = sy" and "uint (ELF32_R_TYPE (ELF32_R_INFO sy (of_int t))) = t"
proof -
  have "list_all (\<lambda>(nm, t). 0 \<le> t \<and> (t < 256 \<or> nm \<in> set counts)) T"
    by (rule bspec [OF tables32_range [unfolded list_all_iff [of _ tables32]] assms(1)])
  with assms(2,3) have t: "0 \<le> t" "t < 256" by (auto simp: list_all_iff)
  then have u: "uint (of_int t :: 32 word) = t" by (simp add: uint_word_of_int)
  then have "unat (of_int t :: 32 word) < 2 ^ 8" using t by (simp add: unat_eq_nat_uint)
  then have "(of_int t :: 32 word) AND mask 8 = of_int t" by (rule small_bits(1))
  with u show "ELF32_R_SYM (ELF32_R_INFO sy (of_int t)) = sy" "uint (ELF32_R_TYPE (ELF32_R_INFO sy (of_int t))) = t"
    by (simp_all only: ELF32_R_SYM_INFO [OF assms(4)] ELF32_R_TYPE_INFO)
qed

lemma fit64:
  assumes "T \<in> set tables64" and "(nm, t) \<in> set T" and "unat sy < 2 ^ 32"
  shows "ELF64_R_SYM (ELF64_R_INFO sy (of_int t)) = sy" and "uint (ELF64_R_TYPE (ELF64_R_INFO sy (of_int t))) = t"
proof -
  have "list_all (\<lambda>(nm, t). 0 \<le> t \<and> t < 2048) T"
    by (rule bspec [OF tables64_range [unfolded list_all_iff [of _ tables64]] assms(1)])
  with assms(2) have t: "0 \<le> t" "t < 2048" by (auto simp: list_all_iff)
  then have u: "uint (of_int t :: 64 word) = t" by (simp add: uint_word_of_int)
  then have "unat (of_int t :: 64 word) < 2 ^ 32" using t by (simp add: unat_eq_nat_uint)
  with u show "ELF64_R_SYM (ELF64_R_INFO sy (of_int t)) = sy" "uint (ELF64_R_TYPE (ELF64_R_INFO sy (of_int t))) = t"
    by (simp_all only: ELF64_R_SYM_INFO [OF assms(3)] ELF64_R_TYPE_INFO)
qed

text \<open>
  Property C40. Every relocation that the header names can be stored: in a 32-bit relocation entry the number fits the eight
  bits beside a symbol index of 24 bits, in a 64-bit entry the 32 bits beside a symbol index of 32 bits, and taking the
  field apart gives both back. Only three counts of tables, which are not relocations, do not fit.
\<close>

theorem relocations_fit:
  "(\<forall>T nm t sy. T \<in> set tables32 \<and> (nm, t) \<in> set T \<and> nm \<notin> set counts \<and> unat sy < 2 ^ 24 \<longrightarrow>
      ELF32_R_SYM (ELF32_R_INFO sy (of_int t)) = sy \<and> uint (ELF32_R_TYPE (ELF32_R_INFO sy (of_int t))) = t) \<and>
   (\<forall>T nm t sy. T \<in> set tables64 \<and> (nm, t) \<in> set T \<and> unat sy < 2 ^ 32 \<longrightarrow>
      ELF64_R_SYM (ELF64_R_INFO sy (of_int t)) = sy \<and> uint (ELF64_R_TYPE (ELF64_R_INFO sy (of_int t))) = t)"
  by (intro conjI allI impI; elim conjE; (rule fit32 fit64, assumption+))

theorem relocations_fit_witness:
  "ELF32_R_SYM (ELF32_R_INFO 5 7) = 5 \<and> uint (ELF32_R_TYPE (ELF32_R_INFO 5 7)) = 7"
proof -
  have "R_386_table \<in> set tables32" by (simp add: tables32_def)
  moreover have "(''R_386_JMP_SLOT'', 7) \<in> set R_386_table" by (simp add: R_386_table_def)
  moreover have "''R_386_JMP_SLOT'' \<notin> set counts" "unat (5 :: 32 word) < 2 ^ 24" by (simp_all add: counts_def)
  ultimately have "ELF32_R_SYM (ELF32_R_INFO 5 (of_int 7)) = 5 \<and> uint (ELF32_R_TYPE (ELF32_R_INFO 5 (of_int 7))) = 7"
    by (intro relocations_fit [THEN conjunct1, rule_format] conjI)
  then show ?thesis by simp
qed

end
