(* ===== verification/ElfStateProps.thy ===== *)
theory ElfStateProps
  imports ElfOps ElfExample
begin

text \<open>
  Properties of the lookup of sections and of the checks of \<open>parse\<close>: the first section with a name
  is found or the lookup fails with a message, and the check of the section header table does
  not cover what is then read.
\<close>

section \<open>Looking up a section\<close>

lemma find_index_zero:
  "(\<And>j. j \<in> set is \<Longrightarrow> \<exists>n. sectionName s j = Inr n \<and> n \<noteq> nm) \<Longrightarrow> find_index s nm is = Inr 0"
  by (induction "is") fastforce+

lemma find_index_least:
  assumes "i \<in> set is" and "sectionName s i = Inr nm" and "sorted is"
    and "\<And>j. j \<in> set is \<Longrightarrow> j < i \<Longrightarrow> \<exists>n. sectionName s j = Inr n \<and> n \<noteq> nm"
  shows "find_index s nm is = Inr i"
  using assms
proof (induction "is")
  case (Cons k ks)
  show ?case
  proof (cases "k = i")
    case True
    with Cons.prems(2) show ?thesis by simp
  next
    case False
    with Cons.prems have "i \<in> set ks" "k < i" by (auto simp: order.strict_iff_order)
    moreover then obtain n where "sectionName s k = Inr n" "n \<noteq> nm" using Cons.prems(4) [of k] by auto
    ultimately show ?thesis using Cons by simp
  qed
qed simp

lemma findSection_unfold:
  "findSection s nm = ebind (find_index s nm [1 ..< shnum s])
     (\<lambda>i. if i = 0 then Inl (Error (str ''cannot find section '' @ nm)) else Inr i)"
  by (cases "find_index s nm [1 ..< shnum s]") (simp_all add: findSection_def findSection2_def findSection3_def)

text \<open>
  Property C24. \<open>findSection\<close> gives the first section with the name, never entry 0, and it reports that it cannot find the
  section exactly if every section has a readable name and none of them is the one sought.
\<close>

theorem findSection_first:
  "(findSection s nm = Inr i \<longleftrightarrow> 0 < i \<and> i < shnum s \<and> sectionName s i = Inr nm \<and>
      (\<forall>j. 0 < j \<and> j < i \<longrightarrow> (\<exists>n. sectionName s j = Inr n \<and> n \<noteq> nm))) \<and>
   (findSection s nm = Inl (Error (str ''cannot find section '' @ nm)) \<longleftrightarrow>
      (\<forall>j. 0 < j \<and> j < shnum s \<longrightarrow> (\<exists>n. sectionName s j = Inr n \<and> n \<noteq> nm)))"
proof
  let ?is = "[1 ..< shnum s]"
  have name_error: "sectionName s j \<noteq> Inl (Error e)" for j e
    by (auto simp: sectionName_def getSectionName_def ebind_eq_Inl at_def split: option.splits if_splits)
  have index_error: "find_index s nm ks \<noteq> Inl (Error e)" for ks e
    by (induction ks) (auto simp: ebind_eq_Inl name_error)
  show "findSection s nm = Inr i \<longleftrightarrow> 0 < i \<and> i < shnum s \<and> sectionName s i = Inr nm \<and>
      (\<forall>j. 0 < j \<and> j < i \<longrightarrow> (\<exists>n. sectionName s j = Inr n \<and> n \<noteq> nm))"
  proof
    assume f: "findSection s nm = Inr i"
    then have "find_index s nm ?is = Inr i" by (auto simp: findSection_unfold ebind_eq_Inr split: if_splits)
    from find_index_first [OF this] findSection_Inr [OF f]
    show "0 < i \<and> i < shnum s \<and> sectionName s i = Inr nm \<and>
      (\<forall>j. 0 < j \<and> j < i \<longrightarrow> (\<exists>n. sectionName s j = Inr n \<and> n \<noteq> nm))" by auto
  next
    assume "0 < i \<and> i < shnum s \<and> sectionName s i = Inr nm \<and>
      (\<forall>j. 0 < j \<and> j < i \<longrightarrow> (\<exists>n. sectionName s j = Inr n \<and> n \<noteq> nm))"
    then have "find_index s nm ?is = Inr i" by (intro find_index_least) auto
    with \<open>0 < i \<and> _\<close> show "findSection s nm = Inr i" by (simp add: findSection_unfold)
  qed
  show "findSection s nm = Inl (Error (str ''cannot find section '' @ nm)) \<longleftrightarrow>
      (\<forall>j. 0 < j \<and> j < shnum s \<longrightarrow> (\<exists>n. sectionName s j = Inr n \<and> n \<noteq> nm))"
  proof
    assume "findSection s nm = Inl (Error (str ''cannot find section '' @ nm))"
    then have "find_index s nm ?is = Inr 0"
      by (auto simp: findSection_unfold ebind_eq_Inl index_error split: if_splits)
    from find_index_not_found [OF this]
    show "\<forall>j. 0 < j \<and> j < shnum s \<longrightarrow> (\<exists>n. sectionName s j = Inr n \<and> n \<noteq> nm)" by auto
  next
    assume "\<forall>j. 0 < j \<and> j < shnum s \<longrightarrow> (\<exists>n. sectionName s j = Inr n \<and> n \<noteq> nm)"
    then have "find_index s nm ?is = Inr 0" by (intro find_index_zero) auto
    then show "findSection s nm = Inl (Error (str ''cannot find section '' @ nm))" by (simp add: findSection_unfold)
  qed
qed

theorem findSection_first_witness:
  "findSection ex_elf (str ''.dynstr'') = Inr 2 \<and>
   findSection ex_elf (str ''.got'') = Inl (Error (str ''cannot find section .got''))"
proof -
  have n: "shnum ex_elf = 4" by code_simp
  have names: "sectionName ex_elf 1 = Inr (str ''.interp'')" "sectionName ex_elf 2 = Inr (str ''.dynstr'')"
    "sectionName ex_elf 3 = Inr (str ''.dynamic'')" by code_simp+
  have less2: "0 < j \<and> j < 2 \<longleftrightarrow> j = 1" and less4: "0 < j \<and> j < 4 \<longleftrightarrow> j = 1 \<or> j = 2 \<or> j = 3" for j :: nat
    by auto
  have "findSection ex_elf (str ''.dynstr'') = Inr 2"
    by (rule findSection_first [THEN conjunct1, THEN iffD2]) (simp only: less2, simp add: n names names(1) [unfolded One_nat_def] del: str_simps)
  moreover have "findSection ex_elf (str ''.got'') = Inl (Error (str ''cannot find section '' @ str ''.got''))"
    by (rule findSection_first [THEN conjunct2, THEN iffD2]) (simp only: n less4, auto simp: names names(1) [unfolded One_nat_def] simp del: str_simps)
  ultimately show ?thesis by simp
qed

section \<open>Checks of the tables\<close>

text \<open>The end of a table is computed in the width of its offset and wraps: a table near the end of the address range ends early in the file.\<close>

lemma table_end_wraps: "table_end (0xfffffff0 :: 32 word) 1 32 = 16"
  by code_simp

lemma load_shdr_past_end:
  fixes s :: "'a::len ElfFile"
  assumes "fileSize s < rdn s (e_shoff (hdr s)) + (i + 1) * sizeof_Shdr TYPE('a)"
  shows "load_shdr s i = Inl OutOfBounds"
  using assms by (simp add: load_shdr_def rd_def mem_read_def fileSize_def algebra_simps)

lemma load_shdr_Inl: "load_shdr s i = Inl e \<Longrightarrow> e = OutOfBounds"
  by (auto simp: load_shdr_def ebind_eq_Inl rd_def mem_read_def split: if_splits)

lemma push_shdrs_past_end:
  fixes s :: "'a::len ElfFile"
  assumes "i \<in> set is" and "fileSize s < rdn s (e_shoff (hdr s)) + (i + 1) * sizeof_Shdr TYPE('a)"
  shows "efold push_shdr s is = Inl OutOfBounds"
  using assms
proof (induction "is" arbitrary: s)
  case (Cons k ks)
  show ?case
  proof (cases "load_shdr s k")
    case (Inl e)
    then show ?thesis using load_shdr_Inl [OF Inl] by (simp add: push_shdr_def)
  next
    case (Inr h)
    with Cons.prems load_shdr_past_end [of s i] have "k \<noteq> i" by auto
    with Cons.prems have "efold push_shdr (s\<lparr>shdrs := shdrs s @ [h]\<rparr>) ks = Inl OutOfBounds"
      by (intro Cons.IH) (simp_all add: rdn_def)
    moreover from Inr have "push_shdr s k = Inr (s\<lparr>shdrs := shdrs s @ [h]\<rparr>)" by (simp add: push_shdr_def)
    ultimately show ?thesis by simp
  qed
qed simp

text \<open>
  Property C26. The check of the section header table does not protect the loop that copies it. \<open>parse\<close> multiplies the number
  of section headers by \<open>e_shentsize\<close> but copies structures of the full size, and nothing compares the two;
  so a file that claims a small \<open>e_shentsize\<close> passes the check and the copy reads past the end of the file.
\<close>

theorem section_table_read_past_end:
  fixes s :: "'a::len ElfFile"
  defines "s0 \<equiv> s\<lparr>isExecutable := False, littleEndian := contents s ! EI_DATA = ELFDATA2LSB\<rparr>"
  assumes "sizeof_Ehdr TYPE('a) \<le> fileSize s" and "take 4 (e_ident (hdr s)) = ELFMAG"
    and "rdi (littleEndian s0) (e_type (hdr s)) \<in> {ET_EXEC, ET_DYN}"
    and "table_end (rdi (littleEndian s0) (e_phoff (hdr s))) (rdi (littleEndian s0) (e_phnum (hdr s)))
           (rdi (littleEndian s0) (e_phentsize (hdr s))) \<le> int (fileSize s)"
    and "table_end (rdi (littleEndian s0) (e_shoff (hdr s))) (rdi (littleEndian s0) (e_shnum (hdr s)))
           (rdi (littleEndian s0) (e_shentsize (hdr s))) \<le> int (fileSize s)"
    and "rdn s0 (e_phentsize (hdr s)) = sizeof_Phdr TYPE('a)" and phdrs: "efold push_phdr s0 [0 ..< phnum s0] = Inr t"
    and past: "0 < shnum s0" "fileSize s < rdn s0 (e_shoff (hdr s)) + shnum s0 * sizeof_Shdr TYPE('a)"
  shows "parse s = Inl OutOfBounds"
proof -
  have hdr0: "hdr s0 = hdr s" "hdr (s\<lparr>isExecutable := False\<rparr>) = hdr s" by (simp_all add: hdr_def s0_def)
  from push_phdrs [OF phdrs] obtain ps where t: "t = s0\<lparr>phdrs := phdrs s0 @ ps, isExecutable := isExecutable t\<rparr>" by blast
  then have eq: "contents t = contents s" "littleEndian t = littleEndian s0"
    by (metis ElfFile.select_convs(1,5) ElfFile.surjective ElfFile.update_convs(3,7) s0_def ElfFile.update_convs(5))+
  have num: "shnum t = shnum s0" "hdr t = hdr s" by (simp_all add: shnum_def rdn_def hdr_def eq hdr0) (simp add: s0_def)
  have "efold push_shdr t [0 ..< shnum t] = Inl OutOfBounds"
    by (rule push_shdrs_past_end [of "shnum t - 1"]) (use past in \<open>simp_all add: num fileSize_def rdn_def eq\<close>)
  with assms(2-9) show ?thesis unfolding parse_def Let_def s0_def [symmetric] hdr0
    by (simp add: hdr0 fileSize_def) (auto simp: s0_def)
qed

text \<open>The example claims three section headers of no size; the table is cut off.\<close>

definition ex_short :: bstring where
  "ex_short = ex_file[46 := 0, 48 := 3]"

theorem section_table_read_past_end_witness:
  "parse (readFile 4096 False ex_short :: 32 ElfFile) = Inl OutOfBounds"
proof -
  let ?s = "readFile 4096 False ex_short :: 32 ElfFile"
  let ?u = "?s\<lparr>isExecutable := False, littleEndian := contents ?s ! EI_DATA = ELFDATA2LSB\<rparr>"
  have "\<not> isl (efold push_phdr ?u [0 ..< phnum ?u])" by code_simp
  then obtain t where t: "efold push_phdr ?u [0 ..< phnum ?u] = Inr t" using not_isl by blast
  have c: "sizeof_Ehdr TYPE(32) \<le> fileSize ?s" "take 4 (e_ident (hdr ?s)) = ELFMAG"
    "rdi (littleEndian ?u) (e_type (hdr ?s)) \<in> {ET_EXEC, ET_DYN}"
    "table_end (rdi (littleEndian ?u) (e_phoff (hdr ?s))) (rdi (littleEndian ?u) (e_phnum (hdr ?s)))
       (rdi (littleEndian ?u) (e_phentsize (hdr ?s))) \<le> int (fileSize ?s)"
    "table_end (rdi (littleEndian ?u) (e_shoff (hdr ?s))) (rdi (littleEndian ?u) (e_shnum (hdr ?s)))
       (rdi (littleEndian ?u) (e_shentsize (hdr ?s))) \<le> int (fileSize ?s)"
    "rdn ?u (e_phentsize (hdr ?s)) = sizeof_Phdr TYPE(32)" "0 < shnum ?u"
    "fileSize ?s < rdn ?u (e_shoff (hdr ?s)) + shnum ?u * sizeof_Shdr TYPE(32)"
    by code_simp+
  show ?thesis by (rule section_table_read_past_end [OF c(1-6) t c(7,8)])
qed

end
