(* ===== verification/ElfPathProps.thy ===== *)
theory ElfPathProps
  imports ElfMain
begin

text \<open>
  Shrinking the run-time search path. A reference definition works on the list of the
  directories; \<open>shrink_path\<close> computes it, and it preserves where each library is found.
\<close>

section \<open>The reference definition\<close>

text \<open>The directories of a path: a colon ends one, and an empty one at the end does not count.\<close>

function path_dirs :: "bstring \<Rightarrow> bstring list" where
  "path_dirs p = (if p = [] then []
     else takeWhile (\<lambda>b. b \<noteq> 58) p # path_dirs (drop (length (takeWhile (\<lambda>b. b \<noteq> 58) p) + 1) p))"
  by pat_completeness auto
termination by (relation "measure length") auto

declare path_dirs.simps [simp del]

lemma path_dirs_Nil [simp]: "path_dirs [] = []"
  by (simp add: path_dirs.simps)

definition absolute :: "bstring \<Rightarrow> bool" where
  "absolute d \<longleftrightarrow> d \<noteq> [] \<and> hd d = 47"

fun kept_dirs :: "(bstring \<Rightarrow> bool) \<Rightarrow> bstring list \<Rightarrow> bstring list \<Rightarrow> bstring list" where
  "kept_dirs ex libs [] = []"
| "kept_dirs ex libs (d # ds) =
     (if \<not> absolute d then d # kept_dirs ex libs ds
      else (if \<exists>l \<in> set libs. ex (d @ [47] @ l) then [d] else []) @
        kept_dirs ex (filter (\<lambda>l. \<not> ex (d @ [47] @ l)) libs) ds)"

definition join_dirs :: "bstring \<Rightarrow> bstring list \<Rightarrow> bstring" where
  "join_dirs = foldl concatToRPath"

text \<open>The loader takes the first directory that has the library.\<close>

definition found_in :: "(bstring \<Rightarrow> bool) \<Rightarrow> bstring \<Rightarrow> bstring \<Rightarrow> bstring option" where
  "found_in ex p lib = find (\<lambda>d. absolute d \<and> ex (d @ [47] @ lib)) (path_dirs p)"

section \<open>The loop computes the reference definition\<close>

lemma mark_found_fst:
  "fst (mark_found ex d flags) = (\<exists>l \<in> set (map fst (filter (\<lambda>p. \<not> snd p) flags)). ex (d @ [47] @ l))"
  by (auto simp: mark_found_def list_ex_iff)

lemma mark_found_snd:
  "map fst (filter (\<lambda>p. \<not> snd p) (snd (mark_found ex d flags))) =
    filter (\<lambda>l. \<not> ex (d @ [47] @ l)) (map fst (filter (\<lambda>p. \<not> snd p) flags))"
  by (induction flags) (auto simp: mark_found_def)

lemma shrink_path_kept:
  "shrink_path ex flags p acc = join_dirs acc (kept_dirs ex (map fst (filter (\<lambda>p. \<not> snd p) flags)) (path_dirs p))"
proof (induction ex flags p acc rule: shrink_path.induct)
  case (1 ex flags p acc)
  let ?d = "takeWhile (\<lambda>b. b \<noteq> 58) p" and ?todo = "\<lambda>fl. map fst (filter (\<lambda>p. \<not> snd p) fl)"
  let ?rest = "drop (length ?d + 1) p" and ?m = "mark_found ex ?d flags"
  show ?case
  proof (cases "p = []")
    case True
    then show ?thesis by (simp add: shrink_path.simps join_dirs_def)
  next
    case ne: False
    then have dirs: "path_dirs p = ?d # path_dirs ?rest" by (subst path_dirs.simps) simp
    show ?thesis
    proof (cases "absolute ?d")
      case False
      then have "?d = [] \<or> hd ?d \<noteq> 47" by (simp add: absolute_def)
      with ne 1(1) [OF ne refl refl] show ?thesis
        by (subst shrink_path.simps) (simp add: Let_def dirs False join_dirs_def)
    next
      case True
      then have a: "\<not> (?d = [] \<or> hd ?d \<noteq> 47)" by (simp add: absolute_def)
      have "shrink_path ex flags p acc = shrink_path ex (snd ?m) ?rest (if fst ?m then concatToRPath acc ?d else acc)"
        using ne a by (subst shrink_path.simps) (simp add: Let_def split: prod.split)
      also have "\<dots> = join_dirs (if fst ?m then concatToRPath acc ?d else acc) (kept_dirs ex (?todo (snd ?m)) (path_dirs ?rest))"
        by (rule 1(2) [OF ne refl refl a _ refl]) (simp add: prod_eq_iff)
      also have "\<dots> = join_dirs acc (kept_dirs ex (?todo flags) (path_dirs p))"
        unfolding mark_found_fst mark_found_snd dirs
        by (cases "\<exists>l \<in> set (?todo flags). ex (?d @ [47] @ l)")
          (simp_all only: kept_dirs.simps True join_dirs_def if_True if_False not_True_eq_False foldl.simps append_Cons append_Nil)
      finally show ?thesis .
    qed
  qed
qed

section \<open>Joining and splitting\<close>

lemma path_dirs_no_colon: "d \<in> set (path_dirs p) \<Longrightarrow> 58 \<notin> set d"
proof (induction p rule: path_dirs.induct)
  case (1 p)
  show ?case
  proof (cases "p = []")
    case False
    then have "path_dirs p = takeWhile (\<lambda>b. b \<noteq> 58) p # path_dirs (drop (length (takeWhile (\<lambda>b. b \<noteq> 58) p) + 1) p)"
      by (subst path_dirs.simps) simp
    with 1 False show ?thesis by (auto dest: set_takeWhileD)
  qed (use 1 in simp)
qed

lemma path_dirs_single: "58 \<notin> set d \<Longrightarrow> path_dirs d = (if d = [] then [] else [d])"
proof -
  assume "58 \<notin> set d"
  then have d: "takeWhile (\<lambda>b. b \<noteq> 58) d = d" by (auto simp: takeWhile_eq_all_conv)
  show ?thesis by (subst path_dirs.simps) (simp only: d, simp)
qed

lemma path_dirs_colon:
  "filter (\<lambda>d. d \<noteq> []) (path_dirs (a @ 58 # b)) = filter (\<lambda>d. d \<noteq> []) (path_dirs a) @ filter (\<lambda>d. d \<noteq> []) (path_dirs b)"
proof (induction a rule: path_dirs.induct)
  case (1 a)
  let ?d = "takeWhile (\<lambda>b. b \<noteq> 58) a"
  show ?case
  proof (cases "58 \<in> set a")
    case True
    then have ne: "a \<noteq> []" and d: "takeWhile (\<lambda>b. b \<noteq> 58) (a @ 58 # b) = ?d" by (auto simp: takeWhile_append)
    have "?d \<noteq> a" using True by (metis (mono_tags) set_takeWhileD)
    then have "length ?d < length a"
      by (metis (no_types) length_takeWhile_le order_le_less takeWhile_eq_take take_all order_refl)
    then have "drop (length ?d + 1) (a @ 58 # b) = drop (length ?d + 1) a @ 58 # b" by simp
    then have "path_dirs (a @ 58 # b) = ?d # path_dirs (drop (length ?d + 1) a @ 58 # b)"
      by (subst path_dirs.simps) (simp add: d)
    moreover have "path_dirs a = ?d # path_dirs (drop (length ?d + 1) a)"
      using ne by (subst path_dirs.simps) simp
    ultimately show ?thesis using 1 [OF ne] by (simp only: filter.simps append_Cons split: if_split) simp
  next
    case False
    then have d: "takeWhile (\<lambda>b. b \<noteq> 58) (a @ 58 # b) = a" by (subst takeWhile_append2) auto
    have "path_dirs (a @ 58 # b) = a # path_dirs b" by (subst path_dirs.simps) (simp add: d)
    with False show ?thesis by (simp add: path_dirs_single)
  qed
qed

lemma path_dirs_join:
  assumes "\<forall>d \<in> set ds. 58 \<notin> set d"
  shows "filter (\<lambda>d. d \<noteq> []) (path_dirs (join_dirs acc ds)) = filter (\<lambda>d. d \<noteq> []) (path_dirs acc) @ filter (\<lambda>d. d \<noteq> []) ds"
  using assms
proof (induction ds arbitrary: acc)
  case Nil
  then show ?case by (simp add: join_dirs_def)
next
  case (Cons d ds)
  then have d: "filter (\<lambda>d. d \<noteq> []) (path_dirs d) = (if d = [] then [] else [d])" by (simp add: path_dirs_single)
  have "join_dirs acc (d # ds) = join_dirs (concatToRPath acc d) ds" by (simp add: join_dirs_def)
  moreover have "filter (\<lambda>d. d \<noteq> []) (path_dirs (concatToRPath acc d)) =
      filter (\<lambda>d. d \<noteq> []) (path_dirs acc) @ (if d = [] then [] else [d])"
    by (simp add: concatToRPath_def path_dirs_colon d)
  ultimately show ?case using Cons by simp
qed

section \<open>What the shrunk path finds\<close>

lemma kept_subset: "set (kept_dirs ex libs ds) \<subseteq> set ds"
  by (induction ds arbitrary: libs) auto

lemma find_filter: "(\<And>x. P x \<Longrightarrow> Q x) \<Longrightarrow> find P (filter Q xs) = find P xs"
  by (induction xs) auto

lemma kept_finds: "lib \<in> set libs \<Longrightarrow>
  find (\<lambda>d. absolute d \<and> ex (d @ [47] @ lib)) (kept_dirs ex libs ds) = find (\<lambda>d. absolute d \<and> ex (d @ [47] @ lib)) ds"
  by (induction ds arbitrary: libs) auto

lemma kept_needed:
  "d \<in> set (kept_dirs ex libs ds) \<Longrightarrow> absolute d \<Longrightarrow>
   \<exists>l \<in> set libs. find (\<lambda>d. absolute d \<and> ex (d @ [47] @ l)) ds = Some d"
proof (induction ds arbitrary: libs)
  case (Cons e ds)
  show ?case
  proof (cases "d = e \<and> absolute e \<and> (\<exists>l \<in> set libs. ex (e @ [47] @ l))")
    case True
    then show ?thesis by auto
  next
    case False
    show ?thesis
    proof (cases "absolute e")
      case True
      with False Cons.prems have "d \<in> set (kept_dirs ex (filter (\<lambda>l. \<not> ex (e @ [47] @ l)) libs) ds)" by (auto split: if_splits)
      from Cons.IH [OF this Cons.prems(2)] show ?thesis using True by auto
    next
      case f: False
      with Cons.prems have "d \<in> set (kept_dirs ex libs ds)" by auto
      from Cons.IH [OF this Cons.prems(2)] f show ?thesis by auto
    qed
  qed
qed simp

lemma kept_relative: "filter (\<lambda>d. d \<noteq> [] \<and> \<not> absolute d) (kept_dirs ex libs ds) = filter (\<lambda>d. d \<noteq> [] \<and> \<not> absolute d) ds"
  by (induction ds arbitrary: libs) auto

lemma shrunk_dirs:
  "filter (\<lambda>d. d \<noteq> []) (path_dirs (shrink_path ex (map (\<lambda>l. (l, False)) libs) p [])) =
    filter (\<lambda>d. d \<noteq> []) (kept_dirs ex libs (path_dirs p))"
proof -
  have "map fst (filter (\<lambda>p. \<not> snd p) (map (\<lambda>l. (l, False)) libs)) = libs"
    by (induction libs) simp_all
  then have "shrink_path ex (map (\<lambda>l. (l, False)) libs) p [] = join_dirs [] (kept_dirs ex libs (path_dirs p))"
    by (simp add: shrink_path_kept)
  moreover have "\<forall>d \<in> set (kept_dirs ex libs (path_dirs p)). 58 \<notin> set d"
    using kept_subset path_dirs_no_colon by blast
  ultimately show ?thesis by (simp add: path_dirs_join)
qed

text \<open>
  Property C13. \<open>--shrink-rpath\<close> does not change what is found and leaves out what is not used: every needed library is found by
  the new path in the directory in which the old path finds it, or by neither; every absolute directory of the
  new path is the one in which some needed library is found; and the relative ones, such as \<open>$ORIGIN\<close>, stay in their order.
\<close>

theorem shrink_rpath_preserves_lookup:
  fixes libs :: "bstring list" and ex :: "bstring \<Rightarrow> bool" and p :: bstring
  defines "new \<equiv> shrink_path ex (map (\<lambda>l. (l, False)) libs) p []"
  shows "(\<forall>lib \<in> set libs. found_in ex new lib = found_in ex p lib) \<and>
    (\<forall>d \<in> set (path_dirs new). absolute d \<longrightarrow> (\<exists>lib \<in> set libs. found_in ex p lib = Some d)) \<and>
    filter (\<lambda>d. d \<noteq> [] \<and> \<not> absolute d) (path_dirs new) = filter (\<lambda>d. d \<noteq> [] \<and> \<not> absolute d) (path_dirs p)"
proof (intro conjI ballI impI)
  have dirs: "filter (\<lambda>d. d \<noteq> []) (path_dirs new) = filter (\<lambda>d. d \<noteq> []) (kept_dirs ex libs (path_dirs p))"
    unfolding new_def by (rule shrunk_dirs)
  fix lib
  assume "lib \<in> set libs"
  have "found_in ex new lib = find (\<lambda>d. absolute d \<and> ex (d @ [47] @ lib)) (filter (\<lambda>d. d \<noteq> []) (path_dirs new))"
    unfolding found_in_def by (rule find_filter [symmetric]) (simp add: absolute_def)
  also have "\<dots> = find (\<lambda>d. absolute d \<and> ex (d @ [47] @ lib)) (kept_dirs ex libs (path_dirs p))"
    unfolding dirs by (rule find_filter) (simp add: absolute_def)
  also have "\<dots> = found_in ex p lib" unfolding found_in_def by (rule kept_finds) fact
  finally show "found_in ex new lib = found_in ex p lib" .
next
  have dirs: "filter (\<lambda>d. d \<noteq> []) (path_dirs new) = filter (\<lambda>d. d \<noteq> []) (kept_dirs ex libs (path_dirs p))"
    unfolding new_def by (rule shrunk_dirs)
  fix d
  assume "d \<in> set (path_dirs new)" "absolute d"
  then have "d \<in> set (filter (\<lambda>d. d \<noteq> []) (path_dirs new))" by (simp add: absolute_def)
  then have "d \<in> set (kept_dirs ex libs (path_dirs p))" unfolding dirs by simp
  then show "\<exists>lib \<in> set libs. found_in ex p lib = Some d"
    unfolding found_in_def using \<open>absolute d\<close> by (rule kept_needed)
next
  have "filter (\<lambda>d. d \<noteq> [] \<and> \<not> absolute d) (path_dirs new) = filter (\<lambda>d. \<not> absolute d) (filter (\<lambda>d. d \<noteq> []) (path_dirs new))"
    by (simp add: conj_commute)
  also have "\<dots> = filter (\<lambda>d. d \<noteq> [] \<and> \<not> absolute d) (kept_dirs ex libs (path_dirs p))"
    unfolding new_def shrunk_dirs by (simp add: conj_commute)
  finally show "filter (\<lambda>d. d \<noteq> [] \<and> \<not> absolute d) (path_dirs new) = filter (\<lambda>d. d \<noteq> [] \<and> \<not> absolute d) (path_dirs p)"
    unfolding kept_relative .
qed

theorem shrink_rpath_preserves_lookup_witness:
  "found_in (\<lambda>f. f = str ''/y/a'') (shrink_path (\<lambda>f. f = str ''/y/a'') [(str ''a'', False)] (str ''/x:/y:$O'') []) (str ''a'') =
     Some (str ''/y'')"
proof -
  have "found_in (\<lambda>f. f = str ''/y/a'') (shrink_path (\<lambda>f. f = str ''/y/a'') (map (\<lambda>l. (l, False)) [str ''a'']) (str ''/x:/y:$O'') []) (str ''a'')
      = found_in (\<lambda>f. f = str ''/y/a'') (str ''/x:/y:$O'') (str ''a'')"
    by (rule shrink_rpath_preserves_lookup [THEN conjunct1, rule_format]) simp
  also have "\<dots> = Some (str ''/y'')" by code_simp
  finally show ?thesis by simp
qed

end
