(* ===== verification/ElfArgProps.thy ===== *)
theory ElfArgProps
  imports ElfMain
begin

text \<open>
  The command line of \<open>patchelf\<close>: what every option is called and what it sets, stated apart from
  the tables of the argument loop, and the loop reading options back as they are written.
\<close>

section \<open>Options and what they set\<close>

datatype setting =
    Print_interpreter | Print_soname | Remove_rpath | Shrink_rpath | Print_rpath | Force_rpath | Print_needed
  | Debug_output | No_default_lib
  | Set_interpreter bstring | Interpreter bstring | Page_size bstring | Set_soname bstring | Set_rpath bstring
  | Add_needed bstring | Remove_needed bstring | Replace_needed bstring bstring

text \<open>The words of the command line, in the order of the tests in \<open>main\<close>.\<close>

fun words :: "setting \<Rightarrow> bstring list" where
  "words Print_interpreter = [str ''--print-interpreter'']"
| "words Print_soname = [str ''--print-soname'']"
| "words Remove_rpath = [str ''--remove-rpath'']"
| "words Shrink_rpath = [str ''--shrink-rpath'']"
| "words Print_rpath = [str ''--print-rpath'']"
| "words Force_rpath = [str ''--force-rpath'']"
| "words Print_needed = [str ''--print-needed'']"
| "words Debug_output = [str ''--debug'']"
| "words No_default_lib = [str ''--no-default-lib'']"
| "words (Set_interpreter v) = [str ''--set-interpreter'', v]"
| "words (Interpreter v) = [str ''--interpreter'', v]"
| "words (Page_size v) = [str ''--page-size'', v]"
| "words (Set_soname v) = [str ''--set-soname'', v]"
| "words (Set_rpath v) = [str ''--set-rpath'', v]"
| "words (Add_needed v) = [str ''--add-needed'', v]"
| "words (Remove_needed v) = [str ''--remove-needed'', v]"
| "words (Replace_needed a b) = [str ''--replace-needed'', a, b]"

fun effect :: "options \<Rightarrow> setting \<Rightarrow> elf_error + options" where
  "effect opt Print_interpreter = Inr (opt\<lparr>printInterpreter := True\<rparr>)"
| "effect opt Print_soname = Inr (opt\<lparr>optPrintSoname := True\<rparr>)"
| "effect opt Remove_rpath = Inr (opt\<lparr>removeRPath := True\<rparr>)"
| "effect opt Shrink_rpath = Inr (opt\<lparr>shrinkRPath := True\<rparr>)"
| "effect opt Print_rpath = Inr (opt\<lparr>printRPath := True\<rparr>)"
| "effect opt Force_rpath = Inr (opt\<lparr>optForceRPath := True\<rparr>)"
| "effect opt Print_needed = Inr (opt\<lparr>printNeeded := True\<rparr>)"
| "effect opt Debug_output = Inr (opt\<lparr>debugMode := True\<rparr>)"
| "effect opt No_default_lib = Inr (opt\<lparr>optNoDefaultLib := True\<rparr>)"
| "effect opt (Set_interpreter v) = Inr (opt\<lparr>newInterpreter := v\<rparr>)"
| "effect opt (Interpreter v) = Inr (opt\<lparr>newInterpreter := v\<rparr>)"
| "effect opt (Page_size v) =
     (if 0 < atoi v then Inr (opt\<lparr>optPageSize := of_int (atoi v)\<rparr>)
      else Inl (Error (str ''invalid argument to --page-size'')))"
| "effect opt (Set_soname v) = Inr (opt\<lparr>setSoname := True, newSoname := v\<rparr>)"
| "effect opt (Set_rpath v) = Inr (opt\<lparr>setRPath := True, newRPath := v\<rparr>)"
| "effect opt (Add_needed v) = Inr (opt\<lparr>neededLibsToAdd := set_put v (neededLibsToAdd opt)\<rparr>)"
| "effect opt (Remove_needed v) = Inr (opt\<lparr>neededLibsToRemove := set_put v (neededLibsToRemove opt)\<rparr>)"
| "effect opt (Replace_needed a b) = Inr (opt\<lparr>neededLibsToReplace := map_put a b (neededLibsToReplace opt)\<rparr>)"

text \<open>The words that take no value, one value, and all of them: any other word is the file name.\<close>

definition flag_words :: "string list" where
  "flag_words = [''--print-interpreter'', ''--print-soname'', ''--remove-rpath'', ''--shrink-rpath'', ''--print-rpath'',
     ''--force-rpath'', ''--print-needed'', ''--debug'', ''--no-default-lib'']"

definition value_words :: "string list" where
  "value_words = [''--set-interpreter'', ''--interpreter'', ''--page-size'', ''--set-soname'', ''--set-rpath'',
     ''--add-needed'', ''--remove-needed'']"

definition option_words :: "string list" where
  "option_words = flag_words @ value_words @ [''--replace-needed'', ''--help'', ''-h'', ''--version'']"

section \<open>The tables of the loop\<close>

lemma lookup_option_str [simp]: "lookup_option tab (str nm) = map_of tab nm"
  by (induction tab) (auto simp: lookup_option_def)

lemma lookup_option_None: "arg \<notin> str ` fst ` set tab \<Longrightarrow> lookup_option tab arg = None"
  by (force simp: lookup_option_def map_of_eq_None_iff)

lemmas option_tables = flag_options_def arg_options_def

lemma table_words: "map fst flag_options = flag_words" "map fst arg_options = value_words"
  by (simp_all add: option_tables flag_words_def value_words_def)

lemma no_table:
  assumes "w \<in> {''--replace-needed'', ''--help'', ''-h'', ''--version''}"
  shows "map_of flag_options w = None" and "map_of arg_options w = None"
  using assms by (auto simp: map_of_eq_None_iff option_tables)

text \<open>One option in front of the rest of the command line.\<close>

lemma parse_one: "parse_args (words x @ rest) opt = ebind (effect opt x) (parse_args rest)"
  by (cases x) (simp_all add: option_tables ebind_def del: str_simps)

lemma parse_all: "parse_args (concat (map words xs) @ rest) opt = ebind (efold effect opt xs) (parse_args rest)"
proof (induction xs arbitrary: opt)
  case (Cons x xs)
  have "parse_args (concat (map words (x # xs)) @ rest) opt = ebind (effect opt x) (parse_args (concat (map words xs) @ rest))"
    using parse_one [of x "concat (map words xs) @ rest" opt] by simp
  also have "\<dots> = ebind (efold effect opt (x # xs)) (parse_args rest)"
    by (cases "effect opt x") (simp_all add: Cons.IH)
  finally show ?case .
qed simp

text \<open>The words that end the reading.\<close>

lemma parse_file: "file \<notin> str ` set option_words \<Longrightarrow> parse_args (file # rest) opt = Inr (Patch opt file)"
  by (simp add: lookup_option_None table_words [symmetric] option_words_def image_Un del: str_simps)

lemma parse_missing: "w \<in> set value_words \<Longrightarrow> parse_args [str w] opt = Inl (Error (str ''missing argument''))"
  by (auto simp: value_words_def option_tables missing_def simp del: str_simps)

text \<open>
  Property C25. Options are read back as they are written: any sequence of options with their values in front of the rest of the
  command line has the effect of each in turn, later ones over earlier ones, before the rest is read, where \<open>effect\<close> says for
  every option which setting it changes and to what, and refuses a page size that is not positive. A word that is no option
  is the file name, after which nothing is read; \<open>--help\<close>, \<open>-h\<close> and \<open>--version\<close> end the reading as well; and an option without
  its value and a command line without a file name are errors.
\<close>

theorem options_roundtrip:
  assumes "file \<notin> str ` set option_words" and "w \<in> set value_words" and "help \<in> {''--help'', ''-h''}"
  shows "parse_args (concat (map words xs) @ rest) opt = ebind (efold effect opt xs) (parse_args rest) \<and>
    parse_args (concat (map words xs) @ file # rest) opt = ebind (efold effect opt xs) (\<lambda>o'. Inr (Patch o' file)) \<and>
    parse_args (concat (map words xs) @ str help # rest) opt = ebind (efold effect opt xs) (\<lambda>_. Inr (ShowHelp 0)) \<and>
    parse_args (concat (map words xs) @ str ''--version'' # rest) opt = ebind (efold effect opt xs) (\<lambda>_. Inr ShowVersion) \<and>
    parse_args (concat (map words xs)) opt = ebind (efold effect opt xs) (\<lambda>_. Inl (Error (str ''missing filename''))) \<and>
    parse_args (concat (map words xs) @ [str w]) opt = ebind (efold effect opt xs) (\<lambda>_. Inl (Error (str ''missing argument''))) \<and>
    parse_args (concat (map words xs) @ [str ''--replace-needed'', v]) opt =
      ebind (efold effect opt xs) (\<lambda>_. Inl (Error (str ''missing argument(s)'')))"
proof -
  have "parse_args (file # rest) = (\<lambda>o'. Inr (Patch o' file))" using parse_file [OF assms(1)] by blast
  moreover have "str help \<noteq> str ''--replace-needed''" "str ''--version'' \<noteq> str ''--replace-needed''"
    "str ''--version'' \<noteq> str ''--help''" "str ''--version'' \<noteq> str ''-h''" using assms(3) by auto
  then have "parse_args (str help # rest) = (\<lambda>_. Inr (ShowHelp 0))" "parse_args (str ''--version'' # rest) = (\<lambda>_. Inr ShowVersion)"
    using assms(3) by (auto simp: no_table fun_eq_iff simp del: str_simps)
  moreover have "parse_args [] = (\<lambda>_. Inl (Error (str ''missing filename'')))" by (simp add: fun_eq_iff)
  moreover have "parse_args [str w] = (\<lambda>_. Inl (Error (str ''missing argument'')))" using parse_missing [OF assms(2)] by blast
  moreover have "parse_args [str ''--replace-needed'', v] = (\<lambda>_. Inl (Error (str ''missing argument(s)'')))"
    by (simp add: no_table fun_eq_iff del: str_simps)
  ultimately show ?thesis
    using parse_all [of xs rest opt] parse_all [of xs "file # rest" opt] parse_all [of xs "str help # rest" opt]
      parse_all [of xs "str ''--version'' # rest" opt] parse_all [of xs "[]" opt] parse_all [of xs "[str w]" opt]
      parse_all [of xs "[str ''--replace-needed'', v]" opt]
    by (simp only: append_Nil2 simp_thms)
qed

theorem options_roundtrip_witness:
  "parse_args [str ''--print-rpath'', str ''--set-rpath'', [47, 97], [98]] (default_options 4096 False) =
     Inr (Patch ((default_options 4096 False)\<lparr>printRPath := True, setRPath := True, newRPath := [47, 97]\<rparr>) [98]) \<and>
   parse_args [str ''--page-size'', [48], [98]] (default_options 4096 False) =
     Inl (Error (str ''invalid argument to --page-size''))"
proof -
  have side: "[98] \<notin> str ` set option_words" "''--set-rpath'' \<in> set value_words" "''-h'' \<in> {''--help'', ''-h''}"
    by (code_simp, code_simp, simp)
  note read = options_roundtrip [OF side, THEN conjunct2, THEN conjunct1]
  have "atoi [48] = 0" by code_simp
  then show ?thesis
    using read [of "[Print_rpath, Set_rpath [47, 97]]" "[]" "default_options 4096 False"]
      read [of "[Page_size [48]]" "[]" "default_options 4096 False"]
    by (simp add: default_options_def del: str_simps parse_args.simps)
qed

end
