(* ===== verification/ElfHeaders.thy ===== *)
theory ElfHeaders
  imports ElfSortProps
begin

text \<open>
  Storing the header tables: after \<open>rewriteHeaders\<close> has stored the program headers and the section
  headers, the tables in the file are the ones the state holds.
\<close>

section \<open>Tables in the image\<close>

lemma wr_mem: "wr s off bs = Inr s' \<longleftrightarrow> (\<exists>c. mem_write OutOfBounds (contents s) off bs = Inr c \<and> s' = s\<lparr>contents := c\<rparr>)"
  by (auto simp: wr_def ebind_eq_Inr)

lemma rd_mem: "rd s off n = mem_read OutOfBounds (contents s) off n"
  by (simp add: rd_def)

text \<open>A loop that stores entries after the header only changes the contents, as the same loop over an image does.\<close>

lemma store_table:
  fixes s :: "'a::len ElfFile"
  assumes "efold f s is = Inr s'"
    and "\<And>u i u'. i \<in> set is \<Longrightarrow> u = s\<lparr>contents := contents u\<rparr> \<Longrightarrow> hdr u = hdr s \<Longrightarrow> f u i = Inr u' \<Longrightarrow>
      wr u (pos i) (enc i) = Inr u'"
    and "\<And>i. i \<in> set is \<Longrightarrow> sizeof_Ehdr TYPE('a) \<le> pos i"
  shows "s' = s\<lparr>contents := contents s'\<rparr> \<and> hdr s' = hdr s \<and>
    efold (\<lambda>m i. mem_write OutOfBounds m (pos i) (enc i)) (contents s) is = Inr (contents s')"
proof -
  have "u = s\<lparr>contents := contents u\<rparr> \<Longrightarrow> hdr u = hdr s \<Longrightarrow> efold f u js = Inr s' \<Longrightarrow> set js \<subseteq> set is \<Longrightarrow>
      s' = s\<lparr>contents := contents s'\<rparr> \<and> hdr s' = hdr s \<and>
      efold (\<lambda>m i. mem_write OutOfBounds m (pos i) (enc i)) (contents u) js = Inr (contents s')" for u js
  proof (induction js arbitrary: u)
    case (Cons i js)
    then obtain v where v: "f u i = Inr v" "efold f v js = Inr s'" by (auto simp: ebind_eq_Inr)
    have i: "i \<in> set is" using Cons.prems(4) by simp
    from assms(2) [OF i Cons.prems(1,2) v(1)] have w: "wr u (pos i) (enc i) = Inr v" .
    then have c: "mem_write OutOfBounds (contents u) (pos i) (enc i) = Inr (contents v)" "v = u\<lparr>contents := contents v\<rparr>"
      by (auto simp: wr_mem)
    have "v = s\<lparr>contents := contents v\<rparr>" by (rule trans [OF c(2)]) (subst Cons.prems(1), simp)
    moreover have "hdr v = hdr s"
      using w hdr_overwrite [OF assms(3) [OF i], of "enc i" u] Cons.prems(2) by (auto simp: wr_Inr)
    ultimately show ?case using Cons.IH v(2) Cons.prems(4) c(1) by simp
  qed simp
  from this [of s "is"] assms(1) show ?thesis by simp
qed

lemma table_chunk:
  assumes "efold (\<lambda>m i. mem_write OutOfBounds m (pos i) (enc i)) c is = Inr c'"
    and "\<And>i. i \<in> set is \<Longrightarrow> a + n \<le> pos i \<or> pos i + length (enc i) \<le> a"
  shows "chunk a n c' = chunk a n c"
  by (rule efold_same [OF assms(1), where g = "chunk a n"])
    (use assms(2) in \<open>auto simp: mem_write_Inr chunk_overwrite_disjoint\<close>)

text \<open>Entries of the same size one after the other do not overlap.\<close>

lemma entries_disjoint: "i \<noteq> j \<Longrightarrow> b + i * z + z \<le> b + j * z \<or> b + j * z + z \<le> b + (i :: nat) * z"
proof (cases "i < j")
  case True
  then have "(i + 1) * z \<le> j * z" by (intro mult_le_mono1) simp
  then show ?thesis by simp
next
  case False
  assume "i \<noteq> j"
  with False have "(j + 1) * z \<le> i * z" by (intro mult_le_mono1) simp
  then show ?thesis by simp
qed

lemma stored_entries:
  assumes tab: "efold (\<lambda>m i. mem_write OutOfBounds m (b + i * z) (enc i)) c [lo ..< n] = Inr c'"
    and len: "\<And>i. length (enc i) = z"
  shows "length c' = length c" and "\<And>i. lo \<le> i \<Longrightarrow> i < n \<Longrightarrow> mem_read OutOfBounds c' (b + i * z) z = Inr (enc i)"
    and "\<And>a k. a + k \<le> b + lo * z \<or> b + n * z \<le> a \<Longrightarrow> chunk a k c' = chunk a k c"
proof -
  show "length c' = length c" by (rule img.table_size [OF tab])
  show "mem_read OutOfBounds c' (b + i * z) z = Inr (enc i)" if "lo \<le> i" "i < n" for i
    using img.table_entry [OF tab, of i] that entries_disjoint by (auto simp: len)
  show "chunk a k c' = chunk a k c" if "a + k \<le> b + lo * z \<or> b + n * z \<le> a" for a k
  proof (rule table_chunk [OF tab])
    fix i
    assume i: "i \<in> set [lo ..< n]"
    have "(i + 1) * z \<le> n * z" by (rule mult_le_mono1) (use i in simp)
    moreover have "lo * z \<le> i * z" by (rule mult_le_mono1) (use i in simp)
    ultimately show "a + k \<le> b + i * z \<or> b + i * z + length (enc i) \<le> a"
      using that unfolding len add_mult_distrib by linarith
  qed
qed

section \<open>Program headers\<close>

lemma length_enc_Phdr: "elf_width TYPE('a::len) \<Longrightarrow> length (enc_Phdr (p :: 'a Elf_Phdr)) = sizeof_Phdr TYPE('a)"
  using layout.length_enc [OF layout_Phdr] by blast

lemma length_enc_Shdr: "elf_width TYPE('a::len) \<Longrightarrow> length (enc_Shdr (p :: 'a Elf_Shdr)) = sizeof_Shdr TYPE('a)"
  using layout.length_enc [OF layout_Shdr] by blast

lemma store_phdrs:
  fixes s :: "'a::len ElfFile"
  defines "z \<equiv> sizeof_Phdr TYPE('a)" and "b \<equiv> rdn s (e_phoff (hdr s))"
  assumes w: "elf_width TYPE('a)" and run: "efold store_phdr s [0 ..< length (phdrs s)] = Inr s'"
    and lo: "sizeof_Ehdr TYPE('a) \<le> b"
  shows "s' = s\<lparr>contents := contents s'\<rparr>" and "hdr s' = hdr s" and "fileSize s' = fileSize s"
    and "\<And>i. i < length (phdrs s) \<Longrightarrow> load_phdr s' i = Inr (phdrs s ! i)"
    and "\<And>a n. a + n \<le> b \<or> b + length (phdrs s) * z \<le> a \<Longrightarrow> chunk a n (contents s') = chunk a n (contents s)"
proof -
  let ?n = "length (phdrs s)" and ?pos = "\<lambda>i. b + i * z" and ?enc = "\<lambda>i. enc_Phdr (phdrs s ! i)"
  have T: "s' = s\<lparr>contents := contents s'\<rparr> \<and> hdr s' = hdr s \<and>
      efold (\<lambda>m i. mem_write OutOfBounds m (?pos i) (?enc i)) (contents s) [0 ..< ?n] = Inr (contents s')"
  proof (rule store_table [OF run])
    fix u i u'
    assume u: "u = s\<lparr>contents := contents u\<rparr>" "hdr u = hdr s" and step: "store_phdr u i = Inr u'"
    from arg_cong [OF u(1), of phdrs] arg_cong [OF u(1), of littleEndian]
    have "phdrs u = phdrs s" "littleEndian u = littleEndian s" by simp_all
    with step u(2) show "wr u (?pos i) (?enc i) = Inr u'"
      by (auto simp: store_phdr_def ebind_eq_Inr at_Inr rdn_def b_def z_def)
  qed (use lo in simp)
  then show s': "s' = s\<lparr>contents := contents s'\<rparr>" and h: "hdr s' = hdr s" by simp_all
  from T have tab: "efold (\<lambda>m i. mem_write OutOfBounds m (?pos i) (?enc i)) (contents s) [0 ..< ?n] = Inr (contents s')" by simp
  have len: "length (?enc i) = z" for i by (simp add: length_enc_Phdr [OF w] z_def)
  note E = stored_entries [OF tab len]
  show "fileSize s' = fileSize s" using E(1) by (simp add: fileSize_def)
  show "load_phdr s' i = Inr (phdrs s ! i)" if "i < ?n" for i
  proof -
    from arg_cong [OF s', of littleEndian] have "littleEndian s' = littleEndian s" by simp
    moreover have "dec_Phdr (?enc i) = phdrs s ! i"
      using layout.dec_enc [OF layout_Phdr [OF w], of "phdrs s ! i" "[]"] by simp
    ultimately show ?thesis using E(2) [of i] that by (simp add: load_phdr_def rd_mem h rdn_def b_def z_def)
  qed
  show "chunk a n (contents s') = chunk a n (contents s)" if "a + n \<le> b \<or> b + length (phdrs s) * z \<le> a" for a n
    by (rule E(3)) (use that in simp)
qed

lemma store_shdrs:
  fixes s :: "'a::len ElfFile"
  defines "z \<equiv> sizeof_Shdr TYPE('a)" and "b \<equiv> rdn s (e_shoff (hdr s))"
  assumes w: "elf_width TYPE('a)" and run: "efold store_shdr s [1 ..< shnum s] = Inr s'"
    and lo: "sizeof_Ehdr TYPE('a) \<le> b"
  shows "s' = s\<lparr>contents := contents s'\<rparr>" and "hdr s' = hdr s" and "fileSize s' = fileSize s"
    and "\<And>i. 0 < i \<Longrightarrow> i < shnum s \<Longrightarrow> load_shdr s' i = Inr (shdrs s ! i)"
    and "\<And>a n. a + n \<le> b + z \<or> b + shnum s * z \<le> a \<Longrightarrow> chunk a n (contents s') = chunk a n (contents s)"
proof -
  let ?n = "shnum s" and ?pos = "\<lambda>i. b + i * z" and ?enc = "\<lambda>i. enc_Shdr (shdrs s ! i)"
  have T: "s' = s\<lparr>contents := contents s'\<rparr> \<and> hdr s' = hdr s \<and>
      efold (\<lambda>m i. mem_write OutOfBounds m (?pos i) (?enc i)) (contents s) [1 ..< ?n] = Inr (contents s')"
  proof (rule store_table [OF run])
    fix u i u'
    assume u: "u = s\<lparr>contents := contents u\<rparr>" "hdr u = hdr s" and step: "store_shdr u i = Inr u'"
    from arg_cong [OF u(1), of shdrs] arg_cong [OF u(1), of littleEndian]
    have "shdrs u = shdrs s" "littleEndian u = littleEndian s" by simp_all
    with step u(2) show "wr u (?pos i) (?enc i) = Inr u'"
      by (auto simp: store_shdr_def ebind_eq_Inr at_Inr rdn_def b_def z_def)
  qed (use lo in simp)
  then show s': "s' = s\<lparr>contents := contents s'\<rparr>" and h: "hdr s' = hdr s" by simp_all
  from T have tab: "efold (\<lambda>m i. mem_write OutOfBounds m (?pos i) (?enc i)) (contents s) [1 ..< ?n] = Inr (contents s')" by simp
  have len: "length (?enc i) = z" for i by (simp add: length_enc_Shdr [OF w] z_def)
  note E = stored_entries [OF tab len]
  show "fileSize s' = fileSize s" using E(1) by (simp add: fileSize_def)
  show "load_shdr s' i = Inr (shdrs s ! i)" if "0 < i" "i < ?n" for i
  proof -
    from arg_cong [OF s', of littleEndian] have "littleEndian s' = littleEndian s" by simp
    moreover have "dec_Shdr (?enc i) = shdrs s ! i"
      using layout.dec_enc [OF layout_Shdr [OF w], of "shdrs s ! i" "[]"] by simp
    ultimately show ?thesis using E(2) [of i] that by (simp add: load_shdr_def rd_mem h rdn_def b_def z_def)
  qed
  show "chunk a n (contents s') = chunk a n (contents s)" if "a + n \<le> b + z \<or> b + shnum s * z \<le> a" for a n
    by (rule E(3)) (use that in simp)
qed

section \<open>Both tables\<close>

text \<open>The program headers that \<open>rewriteHeaders\<close> stores: the table describes itself and is sorted.\<close>

definition final_phdrs :: "'a::len word \<Rightarrow> 'a ElfFile \<Rightarrow> 'a Elf_Phdr list" where
  "final_phdrs addr s = (let len = wrn s (length (phdrs s) * sizeof_Phdr TYPE('a)) in
     std_sort (CompPhdr (littleEndian s)) (sync_pt_phdr (littleEndian s)
       (\<lambda>p. p\<lparr>p_offset := e_phoff (hdr s), p_vaddr := wri (littleEndian s) addr, p_paddr := wri (littleEndian s) addr,
              p_filesz := len, p_memsz := len\<rparr>) (phdrs s)))"

lemma length_sync_pt_phdr [simp]: "length (sync_pt_phdr le f ps) = length ps"
  by (induction ps) simp_all

lemma rewrite_phdrs_store:
  fixes s :: "'a::len ElfFile"
  shows "rewrite_phdrs addr s = efold store_phdr (s\<lparr>phdrs := final_phdrs addr s\<rparr>) [0 ..< length (phdrs (s\<lparr>phdrs := final_phdrs addr s\<rparr>))]"
  by (simp add: rewrite_phdrs_def final_phdrs_def sortPhdrs_def Let_def)

lemma length_final_phdrs [simp]: "length (final_phdrs addr s) = length (phdrs s)"
  by (simp add: final_phdrs_def Let_def)

text \<open>
  Property C9. After \<open>rewriteHeaders\<close> has stored the two header tables, the file and the state agree again: reading any
  program header or any section header (but the empty entry 0) from the file gives the one the state holds; the
  program headers are those from before with the entry for the table itself brought up to date, in sorted order; and outside
  the ELF header and the two tables no byte has changed. The tables must not overlap each other or the ELF header.
\<close>

theorem header_tables_stored:
  fixes s :: "'a::len ElfFile"
  defines "ph \<equiv> rdn s (e_phoff (hdr s))" and "sh \<equiv> rdn s (e_shoff (hdr s))"
    and "pn \<equiv> length (phdrs s) * sizeof_Phdr TYPE('a)" and "sn \<equiv> shnum s * sizeof_Shdr TYPE('a)"
  assumes w: "elf_width TYPE('a)" and run: "ebind (rewrite_phdrs addr s) rewrite_shdrs = Inr s'"
    and header: "sizeof_Ehdr TYPE('a) \<le> fileSize s" "sizeof_Ehdr TYPE('a) \<le> ph" "sizeof_Ehdr TYPE('a) \<le> sh"
    and disjoint: "ph + pn \<le> sh \<or> sh + sn \<le> ph"
  shows "phdrs s' = final_phdrs addr s \<and> (\<forall>i < length (phdrs s'). load_phdr s' i = Inr (phdrs s' ! i)) \<and>
    shnum s' = shnum s \<and> (\<forall>i. 0 < i \<and> i < shnum s' \<longrightarrow> load_shdr s' i = Inr (shdrs s' ! i)) \<and> fileSize s' = fileSize s \<and>
    (\<forall>a n. sizeof_Ehdr TYPE('a) \<le> a \<and> (a + n \<le> ph \<or> ph + pn \<le> a) \<and> (a + n \<le> sh \<or> sh + sn \<le> a) \<longrightarrow>
      chunk a n (contents s') = chunk a n (contents s))"
proof -
  let ?t = "s\<lparr>phdrs := final_phdrs addr s\<rparr>"
  from run obtain u v where u: "efold store_phdr ?t [0 ..< length (phdrs ?t)] = Inr u"
    and v: "sortShdrs u = Inr v" and s': "efold store_shdr v [1 ..< shnum v] = Inr s'"
    unfolding rewrite_phdrs_store by (auto simp: rewrite_shdrs_def ebind_eq_Inr simp del: ElfFile.simps)
  have tlo: "sizeof_Ehdr TYPE('a) \<le> rdn ?t (e_phoff (hdr ?t))" using header(2) by (simp add: ph_def rdn_def)
  note U = store_phdrs [OF w u tlo]
  have hu: "hdr u = hdr s" "fileSize u = fileSize s" "littleEndian u = littleEndian s" "phdrs u = final_phdrs addr s"
    using U(2,3) arg_cong [OF U(1), of littleEndian] arg_cong [OF U(1), of phdrs] by simp_all
  have usize: "sizeof_Ehdr TYPE('a) \<le> fileSize u" using header(1) by (simp add: hu)
  note V = sortShdrs_frame [OF w usize v]
  have nv: "shnum v = shnum s" using V(6) by (simp add: shnum_def rdn_def hu)
  have off: "rdn v (e_shoff (hdr v)) = sh" "rdn v (e_phoff (hdr v)) = ph" by (simp_all add: V(2,4,5) hu rdn_def sh_def ph_def)
  note S = store_shdrs [OF w s' header(3) [folded off(1)], unfolded off(1)]
  have ls: "littleEndian s' = littleEndian s" "phdrs s' = final_phdrs addr s" "shdrs s' = shdrs v"
    using arg_cong [OF S(1), of littleEndian] arg_cong [OF S(1), of phdrs] arg_cong [OF S(1), of shdrs] V(1,2)
    by (simp_all add: hu)
  have ns: "shnum s' = shnum s" using nv V(2) by (simp add: shnum_def rdn_def S(2) ls(1) hu)
  have phs: "chunk a n (contents s') = chunk a n (contents u)"
    if "sizeof_Ehdr TYPE('a) \<le> a" "a + n \<le> sh \<or> sh + sn \<le> a" for a n
  proof -
    have "a + n \<le> sh + sizeof_Shdr TYPE('a) \<or> sh + shnum v * sizeof_Shdr TYPE('a) \<le> a" using that(2) by (auto simp: sn_def nv)
    then show ?thesis using S(5) V(7) [OF that(1)] by simp
  qed
  have loadp: "load_phdr s' i = Inr (phdrs s' ! i)" if i: "i < length (phdrs s')" for i
  proof -
    let ?z = "sizeof_Phdr TYPE('a)"
    have iz: "(i + 1) * ?z \<le> pn" unfolding pn_def by (rule mult_le_mono1) (use i in \<open>simp add: ls(2)\<close>)
    have "chunk (ph + i * ?z) ?z (contents s') = chunk (ph + i * ?z) ?z (contents u)"
      by (rule phs) (use iz disjoint header(2) in auto)
    moreover have "load_phdr u i = Inr (final_phdrs addr s ! i)" using U(4) [of i] i by (simp add: ls(2))
    moreover have "hdr s' = hdr v" "fileSize s' = fileSize u" using S(2,3) V(3) by simp_all
    ultimately show ?thesis
      by (simp add: load_phdr_def rd_def mem_read_def fileSize_def rdn_def ls hu V(4) ph_def split: if_splits)
  qed
  have loads: "load_shdr s' i = Inr (shdrs s' ! i)" if "0 < i" "i < shnum s'" for i
    using S(4) [of i] that by (simp add: ls(3) ns nv)
  have frame: "chunk a n (contents s') = chunk a n (contents s)"
    if "sizeof_Ehdr TYPE('a) \<le> a" "a + n \<le> ph \<or> ph + pn \<le> a" "a + n \<le> sh \<or> sh + sn \<le> a" for a n
    using phs [OF that(1,3)] U(5) [of a n] that(2) by (simp add: ph_def pn_def rdn_def)
  show ?thesis
    using loadp loads frame ns ls(2) S(3) V(3) by (simp add: hu)
qed

text \<open>The example: the library with its section headers after the contents.\<close>

definition ex_store :: "32 ElfFile" where
  "ex_store = ex_elf\<lparr>contents := (contents ex_elf)[28 := 96, 32 := 128] @ replicate 200 0\<rparr>"

theorem header_tables_stored_witness:
  "\<exists>s'. ebind (rewrite_phdrs 0 ex_store) rewrite_shdrs = Inr s' \<and> load_phdr s' 0 = Inr (phdrs s' ! 0) \<and>
     load_shdr s' 3 = Inr (shdrs s' ! 3) \<and> chunk 64 32 (contents s') = chunk 64 32 (contents ex_store)"
proof -
  have "\<not> isl (ebind (rewrite_phdrs 0 ex_store) rewrite_shdrs)" by code_simp
  then obtain s' where run: "ebind (rewrite_phdrs 0 ex_store) rewrite_shdrs = Inr s'" using not_isl by blast
  have f: "sizeof_Ehdr TYPE(32) \<le> fileSize ex_store" "rdn ex_store (e_phoff (hdr ex_store)) = 96" "rdn ex_store (e_shoff (hdr ex_store)) = 128"
    "shnum ex_store = 4" "length (phdrs ex_store) = 1"
    by code_simp+
  have sz: "sizeof_Ehdr TYPE(32) = 52" "sizeof_Phdr TYPE(32) = 32" "sizeof_Shdr TYPE(32) = 40" by code_simp+
  have prems: "sizeof_Ehdr TYPE(32) \<le> rdn ex_store (e_phoff (hdr ex_store))" "sizeof_Ehdr TYPE(32) \<le> rdn ex_store (e_shoff (hdr ex_store))"
    "rdn ex_store (e_phoff (hdr ex_store)) + length (phdrs ex_store) * sizeof_Phdr TYPE(32) \<le> rdn ex_store (e_shoff (hdr ex_store)) \<or>
     rdn ex_store (e_shoff (hdr ex_store)) + shnum ex_store * sizeof_Shdr TYPE(32) \<le> rdn ex_store (e_phoff (hdr ex_store))"
    by (simp_all add: f sz)
  from header_tables_stored [OF elf_width_32 run f(1) prems] run show ?thesis by (auto simp: f sz)
qed

end
