(* ===== verification/ElfLayoutProps.thy ===== *)
theory ElfLayoutProps
  imports ElfFacts ElfExample
begin

text \<open>
  Where a library gets its new segment: after the end of the file and after every other segment in
  memory, at an offset and an address that the loader accepts.
\<close>

section \<open>Growing the file\<close>

lemma growFile_Inr:
  "growFile (int n) s = Inr s' \<longleftrightarrow> int n \<le> maxSize s \<and> s' = s\<lparr>contents := contents s @ replicate (n - fileSize s) 0\<rparr>"
proof -
  have "s\<lparr>contents := contents s @ replicate (n - fileSize s) 0\<rparr> = s" if "n \<le> fileSize s" using that by simp
  then show ?thesis by (cases "n \<le> fileSize s") (auto simp: growFile_def)
qed

section \<open>The last page\<close>

lemma unat_bound: "unat (w :: 'a::len word) < 2 ^ LENGTH('a)"
  by (rule unsigned_less)

definition this_page :: "'a::len ElfFile \<Rightarrow> 'a Elf_Phdr \<Rightarrow> 'a word" where
  "this_page s p = ucast (roundUp (ucast (rdi (littleEndian s) (p_vaddr p) + rdi (littleEndian s) (p_memsz p))) (pageSize s))"

text \<open>The segments whose end, rounded up to a page, is below 4 GiB.\<close>

definition low_segment :: "'a::len ElfFile \<Rightarrow> 'a Elf_Phdr \<Rightarrow> bool" where
  "low_segment s p \<longleftrightarrow> 0 < rdn s (p_vaddr p) + rdn s (p_memsz p) \<and>
     rdn s (p_vaddr p) + rdn s (p_memsz p) + unat (pageSize s) \<le> 2 ^ 32"

lemma this_page_bounds:
  fixes s :: "'a::len ElfFile"
  assumes w: "elf_width TYPE('a)" and page: "0 < pageSize s" and low: "low_segment s p"
  shows "rdn s (p_vaddr p) + rdn s (p_memsz p) \<le> unat (this_page s p)" and "unat (pageSize s) dvd unat (this_page s p)"
    and "unat (this_page s p) < 2 ^ 32"
proof -
  let ?v = "rdi (littleEndian s) (p_vaddr p)" and ?m = "rdi (littleEndian s) (p_memsz p)" and ?P = "pageSize s"
  have sum: "0 < unat ?v + unat ?m" "unat ?v + unat ?m + unat ?P \<le> 2 ^ 32" using low by (simp_all add: low_segment_def rdn_def)
  have P: "0 < unat ?P" using page by (simp add: word_less_nat_alt)
  have pow: "(2 :: nat) ^ 32 \<le> 2 ^ LENGTH('a)" using w by (auto simp: elf_width_def)
  have "unat ?v + unat ?m < 2 ^ LENGTH('a)" using sum P pow by linarith
  then have vm: "unat (?v + ?m) = unat ?v + unat ?m" by (simp add: unat_plus_if')
  define n where "n = (ucast (?v + ?m) :: 32 word)"
  have n: "unat n = unat ?v + unat ?m" using sum P vm by (simp add: n_def unsigned_ucast_eq take_bit_nat_eq_self)
  then have n0: "0 < n" "unat n + unat ?P \<le> 2 ^ 32" using sum by (simp_all add: word_less_nat_alt)
  note r = roundUp_bounds [OF page n0]
  have "unat (roundUp n ?P) < 2 ^ LENGTH('a)" using unat_bound [of "roundUp n ?P"] pow by simp
  then have eq: "unat (this_page s p) = unat (roundUp n ?P)"
    by (simp add: this_page_def n_def [symmetric] unsigned_ucast_eq take_bit_nat_eq_self)
  show "rdn s (p_vaddr p) + rdn s (p_memsz p) \<le> unat (this_page s p)" using r(2) by (simp add: eq n rdn_def)
  show "unat ?P dvd unat (this_page s p)" using r(1) by (simp add: eq)
  show "unat (this_page s p) < 2 ^ 32" unfolding eq using unat_bound [of "roundUp n ?P"] by simp
qed

lemma last_page_eq: "last_page s = foldl max 0 (map (this_page s) (phdrs s))"
proof -
  have max: "(if a < b then b else a) = max a b" for a b :: "'a word" by (auto simp: max_def not_less)
  have "foldl (\<lambda>startPage p. let thisPage = this_page s p in if startPage < thisPage then thisPage else startPage) k ps =
      foldl max k (map (this_page s) ps)" for k ps
    by (induction ps arbitrary: k) (simp_all add: Let_def max)
  then show ?thesis by (simp add: last_page_def this_page_def)
qed

lemma foldl_max_bounds:
  "(k :: 'x::linorder) \<le> foldl max k xs \<and> (\<forall>x \<in> set xs. x \<le> foldl max k xs) \<and> foldl max k xs \<in> insert k (set xs)"
proof (induction xs arbitrary: k)
  case (Cons x xs)
  from Cons.IH [of "max k x"] show ?case by (auto simp: max_def split: if_splits)
qed simp

lemma last_page_bounds:
  fixes s :: "'a::len ElfFile"
  assumes w: "elf_width TYPE('a)" and page: "0 < pageSize s" and low: "\<forall>p \<in> set (phdrs s). low_segment s p"
  shows "\<forall>p \<in> set (phdrs s). rdn s (p_vaddr p) + rdn s (p_memsz p) \<le> unat (last_page s)"
    and "unat (pageSize s) dvd unat (last_page s)" and "unat (last_page s) < 2 ^ 32"
proof -
  note B = foldl_max_bounds [of 0 "map (this_page s) (phdrs s)", folded last_page_eq]
  show "\<forall>p \<in> set (phdrs s). rdn s (p_vaddr p) + rdn s (p_memsz p) \<le> unat (last_page s)"
  proof
    fix p
    assume p: "p \<in> set (phdrs s)"
    then have "this_page s p \<le> last_page s" using B by simp
    with this_page_bounds(1) [OF w page] low p show "rdn s (p_vaddr p) + rdn s (p_memsz p) \<le> unat (last_page s)"
      by (fastforce simp: word_le_nat_alt)
  qed
  from B consider "last_page s = 0" | p where "p \<in> set (phdrs s)" "last_page s = this_page s p" by auto
  then have "unat (pageSize s) dvd unat (last_page s) \<and> unat (last_page s) < 2 ^ 32"
    by cases (use this_page_bounds(2,3) [OF w page] low in auto)
  then show "unat (pageSize s) dvd unat (last_page s)" and "unat (last_page s) < 2 ^ 32" by simp_all
qed

section \<open>The place of the segment\<close>

lemma place_segment_spec:
  fixes s :: "'a::len ElfFile"
  assumes w: "elf_width TYPE('a)" and page: "0 < pageSize s" and low: "\<forall>p \<in> set (phdrs s). low_segment s p"
    and size: "0 < fileSize s" "fileSize s + unat (pageSize s) \<le> 2 ^ 32"
    and run: "place_segment need s = Inr (s', off, addr)"
  shows "s' = s\<lparr>contents := contents s'\<rparr>" and "\<exists>k. contents s' = contents s @ replicate k 0"
    and "fileSize s \<le> off" and "off + need \<le> fileSize s'" and "unat (pageSize s) dvd off" and "unat (pageSize s) dvd unat addr"
    and "\<forall>p \<in> set (phdrs s). rdn s (p_vaddr p) + rdn s (p_memsz p) \<le> unat addr"
    and "isExecutable s \<longrightarrow> unat addr = off" and "off < 2 ^ 32"
proof -
  define start where "start = unat (roundUp (of_nat (fileSize s)) (pageSize s))"
  let ?P = "pageSize s" and ?page = "last_page s"
  have P: "0 < unat ?P" using page by (simp add: word_less_nat_alt)
  have n: "unat (of_nat (fileSize s) :: 32 word) = fileSize s" using size P by (simp add: unat_of_nat)
  have "0 < (of_nat (fileSize s) :: 32 word)" using n size(1) by (simp add: word_less_nat_alt)
  from roundUp_bounds [OF page this] n size(2)
  have r: "unat ?P dvd start" "fileSize s \<le> start" "start < 2 ^ 32"
    using unat_bound [of "roundUp (of_nat (fileSize s)) ?P"] by (simp_all add: start_def)
  have pow: "(2 :: nat) ^ 32 \<le> 2 ^ LENGTH('a)" using w by (auto simp: elf_width_def)
  have a: "unat (of_nat start :: 'a word) = start" using r(3) pow by (simp add: unat_of_nat)
  note L = last_page_bounds [OF w page low]
  from run obtain t where "growFile (int (start + need)) s = Inr t"
    and rest: "(if isExecutable t then
        (if unat ?page \<le> start then Inr (t, start, of_nat start)
         else ebind (check ((unat ?page - start) mod unat (pageSize t) = 0) AssertFailed) (\<lambda>_.
           ebind (growFile (int (fileSize t + (unat ?page - start))) t) (\<lambda>t.
           Inr (t, start + (unat ?page - start), of_nat (start + (unat ?page - start))))))
      else Inr (t, start, ?page)) = Inr (s', off, addr)"
    unfolding place_segment_def Let_def start_def [symmetric] by (elim ebindE)
  then have t: "t = s\<lparr>contents := contents s @ replicate (start + need - fileSize s) 0\<rparr>" by (simp only: growFile_Inr)
  then have ft: "start + need \<le> fileSize t" "isExecutable t = isExecutable s" by (simp_all add: fileSize_def)
  have "s' = s\<lparr>contents := contents s'\<rparr> \<and> (\<exists>k. contents s' = contents s @ replicate k 0) \<and> start \<le> off \<and>
      off + need \<le> fileSize s' \<and> unat ?P dvd off \<and> unat ?P dvd unat addr \<and> unat ?page \<le> unat addr \<and>
      (isExecutable s \<longrightarrow> unat addr = off) \<and> off < 2 ^ 32"
  proof (cases "isExecutable s \<and> start < unat ?page")
    case True
    then have sum: "start + (unat ?page - start) = unat ?page" by simp
    from rest True ft(2) have g: "growFile (int (fileSize t + (unat ?page - start))) t = Inr s'" and o: "off = unat ?page" "addr = ?page"
      by (auto simp: ebind_eq_Inr sum)
    from g have s': "s' = t\<lparr>contents := contents t @ replicate (unat ?page - start) 0\<rparr>" by (simp only: growFile_Inr add_diff_cancel_left')
    then have "contents s' = contents s @ replicate (start + need - fileSize s + (unat ?page - start)) 0"
      by (simp add: t replicate_add)
    moreover have "fileSize s' = fileSize t + (unat ?page - start)" by (simp add: s' fileSize_def)
    ultimately show ?thesis using True ft(1) L(2,3) by (auto simp: o s' t)
  next
    case False
    with rest ft(2) have o: "s' = t" "off = start" "addr = (if isExecutable s then of_nat start else ?page)"
      by (auto split: if_splits)
    then show ?thesis using False ft(1) L(2) r a by (auto simp: t)
  qed
  with r(2) L(1) show "s' = s\<lparr>contents := contents s'\<rparr>" and "\<exists>k. contents s' = contents s @ replicate k 0"
    and "fileSize s \<le> off" and "off + need \<le> fileSize s'" and "unat ?P dvd off" and "unat ?P dvd unat addr"
    and "\<forall>p \<in> set (phdrs s). rdn s (p_vaddr p) + rdn s (p_memsz p) \<le> unat addr"
    and "isExecutable s \<longrightarrow> unat addr = off" and "off < 2 ^ 32"
    by (auto intro: order_trans)
qed

text \<open>The new program header, and the header that counts it.\<close>

lemma add_segment_spec:
  fixes s :: "'a::len ElfFile"
  assumes w: "elf_width TYPE('a)" and size: "sizeof_Ehdr TYPE('a) \<le> fileSize s"
    and n: "length (phdrs s) = phnum s" "phnum s + 1 < 2 ^ 16"
    and run: "add_segment off addr len s = Inr s'"
  shows "phdrs s' = phdrs s @ [\<lparr>p_type = wri (littleEndian s) PT_LOAD, p_offset = wrn s off, p_vaddr = wri (littleEndian s) addr,
      p_paddr = wri (littleEndian s) addr, p_filesz = wrn s len, p_memsz = wrn s len,
      p_flags = wri (littleEndian s) (PF_R OR PF_W), p_align = wri (littleEndian s) (pageSize s)\<rparr>]"
    and "phnum s' = phnum s + 1" and "fileSize s' = fileSize s" and "littleEndian s' = littleEndian s"
    and "\<And>a k. sizeof_Ehdr TYPE('a) \<le> a \<Longrightarrow> chunk a k (contents s') = chunk a k (contents s)"
proof -
  let ?f = "e_phnum_update (\<lambda>_. wrn s (phnum s + 1))" and ?z = "dec_Phdr (replicate (sizeof_Phdr TYPE('a)) 0) :: 'a Elf_Phdr"
  let ?p = "\<lparr>p_type = wri (littleEndian s) PT_LOAD, p_offset = wrn s off, p_vaddr = wri (littleEndian s) addr,
      p_paddr = wri (littleEndian s) addr, p_filesz = wrn s len, p_memsz = wrn s len,
      p_flags = wri (littleEndian s) (PF_R OR PF_W), p_align = wri (littleEndian s) (pageSize s)\<rparr>"
  define t where "t = upd_hdr ?f (s\<lparr>phdrs := phdrs s @ [?z]\<rparr>)"
  have id: "length (e_ident (?f (hdr s))) = EI_NIDENT" using length_e_ident [OF size] by simp
  have h: "hdr t = ?f (hdr s)"
    unfolding t_def using hdr_upd_hdr [OF w, of ?f "s\<lparr>phdrs := phdrs s @ [?z]\<rparr>"] id by simp
  have t: "phdrs t = phdrs s @ [?z]" "littleEndian t = littleEndian s" "pageSize t = pageSize s"
    "contents t = overwrite 0 (enc_Ehdr (?f (hdr s))) (contents s)" by (simp_all add: t_def) (simp add: upd_hdr_def)
  have "rdn s (wrn s (phnum s + 1) :: 16 word) = phnum s + 1" by (rule rdn_wrn) (use n(2) in simp_all)
  then have num: "phnum t = phnum s + 1" by (simp only: phnum_def [of t] rdn_def h t Elf_Ehdr.simps) simp
  have resized: "take (phnum s + 1) (phdrs s) @ replicate (phnum s + 1 - length (phdrs s)) ?z = phdrs s @ [?z]" using n(1) by simp
  have last: "(phdrs s @ [x])[phnum s := y] = phdrs s @ [y]" for x y by (simp flip: n(1))
  have wr: "wrn (s\<lparr>phdrs := x\<rparr>) k = wrn s k" "wrn t k = wrn s k" for x k by (simp_all add: wrn_def t)
  from run have s': "s' = t\<lparr>phdrs := phdrs s @ [?p]\<rparr>"
    unfolding add_segment_def Let_def resized wr(1) t_def [symmetric]
    by (auto simp: ebind_eq_Inr upd_at_Inr num t wr(2) [unfolded wrn_def] wrn_def n(1) last)
  then show "phdrs s' = phdrs s @ [?p]" "littleEndian s' = littleEndian s" by (simp_all add: t)
  have "phnum s' = phnum t" by (simp add: s' phnum_def rdn_def)
  with num show "phnum s' = phnum s + 1" by simp
  have l: "length (enc_Ehdr (?f (hdr s))) = sizeof_Ehdr TYPE('a)" by (rule length_enc_Ehdr [OF w id])
  then show "fileSize s' = fileSize s" using size by (simp add: s' fileSize_def t)
  show "chunk a k (contents s') = chunk a k (contents s)" if "sizeof_Ehdr TYPE('a) \<le> a" for a k
  proof -
    have "contents s' = overwrite 0 (enc_Ehdr (?f (hdr s))) (contents s)" by (simp add: s' t)
    moreover have "0 + length (enc_Ehdr (?f (hdr s))) \<le> a" "0 + length (enc_Ehdr (?f (hdr s))) \<le> length (contents s)"
      using that size by (simp_all only: l add_0 fileSize_def)
    ultimately show ?thesis by (simp only: chunk_overwrite_after)
  qed
qed

text \<open>
  Property C10. The segment that \<open>rewriteSectionsLibrary\<close> adds can be loaded: it lies in the file after everything the file
  had, which is unchanged apart from the bytes of the ELF header, and in memory above every other segment; its offset and address are both multiples of the page size,
  and equal in an executable; it is as long as the space asked for and the file is long enough. The segments have to end below
  4 GiB, as \<open>roundUp\<close> keeps only 32 bits.
\<close>

theorem new_segment_is_loadable:
  fixes s :: "'a::len ElfFile"
  assumes w: "elf_width TYPE('a)" and page: "0 < pageSize s" and low: "\<forall>p \<in> set (phdrs s). low_segment s p"
    and size: "sizeof_Ehdr TYPE('a) \<le> fileSize s" "fileSize s + unat (pageSize s) \<le> 2 ^ 32" "need < 2 ^ 32"
    and n: "length (phdrs s) = phnum s" "phnum s + 1 < 2 ^ 16"
    and run: "ebind (place_segment need s) (\<lambda>(t, off, addr). add_segment off addr need t) = Inr s'"
  shows "\<exists>p. phdrs s' = phdrs s @ [p] \<and> phnum s' = phnum s + 1 \<and> rdi (littleEndian s) (p_type p) = PT_LOAD \<and>
    fileSize s \<le> rdn s (p_offset p) \<and> rdn s (p_offset p) + need \<le> fileSize s' \<and>
    rdn s (p_filesz p) = need \<and> rdn s (p_memsz p) = need \<and>
    unat (pageSize s) dvd rdn s (p_offset p) \<and> unat (pageSize s) dvd rdn s (p_vaddr p) \<and>
    (\<forall>q \<in> set (phdrs s). rdn s (p_vaddr q) + rdn s (p_memsz q) \<le> rdn s (p_vaddr p)) \<and>
    (isExecutable s \<longrightarrow> rdn s (p_vaddr p) = rdn s (p_offset p)) \<and>
    (\<forall>a k. sizeof_Ehdr TYPE('a) \<le> a \<and> a + k \<le> fileSize s \<longrightarrow> chunk a k (contents s') = chunk a k (contents s))"
proof -
  note d = elf_width_dvd [OF w]
  from run obtain t off addr where place: "place_segment need s = Inr (t, off, addr)" and add: "add_segment off addr need t = Inr s'"
    by (auto simp: ebind_eq_Inr)
  have pos: "0 < fileSize s" using size(1) by (simp add: sizeof_Ehdr_def EI_NIDENT_def)
  note P = place_segment_spec [OF w page low pos size(2) place]
  obtain k0 where c: "contents t = contents s @ replicate k0 0" using P(2) by blast
  have t: "littleEndian t = littleEndian s" "phdrs t = phdrs s" "pageSize t = pageSize s" "fileSize s \<le> fileSize t"
    using arg_cong [OF P(1), of littleEndian] arg_cong [OF P(1), of phdrs] arg_cong [OF P(1), of pageSize]
    by (simp_all add: fileSize_def c)
  have "dec_Ehdr (contents t) = (dec_Ehdr (contents s) :: 'a Elf_Ehdr)"
    using dec_Ehdr_take [where 'a = 'a, of "contents t"] dec_Ehdr_take [where 'a = 'a, of "contents s"] size(1)
    by (simp add: c fileSize_def)
  then have h: "phnum t = phnum s" by (simp add: phnum_def hdr_def rdn_def t)
  have st: "sizeof_Ehdr TYPE('a) \<le> fileSize t" using size(1) t(4) by linarith
  note A = add_segment_spec [OF w st n [folded h t(2)] add]
  obtain p :: "'a Elf_Phdr" where p: "p = \<lparr>p_type = wri (littleEndian t) PT_LOAD, p_offset = wrn t off, p_vaddr = wri (littleEndian t) addr,
      p_paddr = wri (littleEndian t) addr, p_filesz = wrn t need, p_memsz = wrn t need,
      p_flags = wri (littleEndian t) (PF_R OR PF_W), p_align = wri (littleEndian t) (pageSize t)\<rparr>" by blast
  have small: "rdn s (wrn t x :: 'a word) = x" if "x < 2 ^ 32" for x
  proof -
    have "x < 2 ^ LENGTH('a)" "x < 2 ^ 64" using that w by (auto simp: elf_width_def)
    from rdn_wrn [OF d this, of t] show ?thesis by (simp add: rdn_def t)
  qed
  have f: "rdi (littleEndian s) (p_type p) = PT_LOAD" "rdn s (p_offset p) = off" "rdn s (p_vaddr p) = unat addr"
      "rdn s (p_filesz p) = need" "rdn s (p_memsz p) = need"
    using small [OF P(9)] small [OF size(3)] d by (simp_all add: p rdn_def t)
  have "chunk a k (contents s') = chunk a k (contents s)" if "sizeof_Ehdr TYPE('a) \<le> a" "a + k \<le> fileSize s" for a k
    using A(5) [OF that(1)] that(2) by (simp add: c chunk_def fileSize_def)
  then show ?thesis
    using A(1) [folded p] A(2,3) h P(3-8) t(2) by (intro exI [of _ p]) (simp add: f)
qed

definition ex_small_page :: "32 ElfFile" where
  "ex_small_page = ex_elf\<lparr>pageSize := 16\<rparr>"

theorem new_segment_is_loadable_witness:
  "\<exists>s' p. ebind (place_segment 100 ex_small_page) (\<lambda>(t, off, addr). add_segment off addr 100 t) = Inr s' \<and>
     phdrs s' = phdrs ex_small_page @ [p] \<and> 16 dvd rdn ex_small_page (p_vaddr p) \<and> 96 \<le> rdn ex_small_page (p_vaddr p)"
proof -
  let ?s = "ex_small_page"
  have v: "fileSize ?s = 96" "unat (pageSize ?s) = 16" "sizeof_Ehdr TYPE(32) = 52" "length (phdrs ?s) = 1" "phnum ?s = 1"
    "map (\<lambda>q. (rdn ?s (p_vaddr q), rdn ?s (p_memsz q))) (phdrs ?s) = [(0, 96)]"
    by code_simp+
  then have q: "\<forall>q \<in> set (phdrs ?s). rdn ?s (p_vaddr q) = 0 \<and> rdn ?s (p_memsz q) = 96" by auto
  have c: "0 < pageSize ?s" "\<forall>p \<in> set (phdrs ?s). low_segment ?s p" "sizeof_Ehdr TYPE(32) \<le> fileSize ?s"
    "fileSize ?s + unat (pageSize ?s) \<le> 2 ^ 32" "(100 :: nat) < 2 ^ 32" "length (phdrs ?s) = phnum ?s" "phnum ?s + 1 < 2 ^ 16"
    using q by (simp_all add: low_segment_def v) (simp add: ex_small_page_def)
  have ne: "phdrs ?s \<noteq> []" by (simp add: ex_small_page_def ex_elf_def)
  have "roundUp (of_nat (fileSize ?s)) (pageSize ?s) = 96" "last_page ?s = 96" "\<not> isExecutable ?s" "196 \<le> maxSize ?s"
    by (simp only: v, code_simp) code_simp+
  moreover from this(4) have "growFile 196 ?s = Inr (?s\<lparr>contents := contents ?s @ replicate 100 0\<rparr>)"
    by (simp add: growFile_def v(1))
  ultimately have "place_segment 100 ?s = Inr (?s\<lparr>contents := contents ?s @ replicate 100 0\<rparr>, 96, 96)"
    using v(1) by (simp add: place_segment_def)
  moreover have "\<not> isl (add_segment 96 96 100 (?s\<lparr>contents := contents ?s @ replicate 100 0\<rparr>))" by code_simp
  ultimately have "\<not> isl (ebind (place_segment 100 ?s) (\<lambda>(t, off, addr). add_segment off addr 100 t))" by simp
  then obtain s' where run: "ebind (place_segment 100 ?s) (\<lambda>(t, off, addr). add_segment off addr 100 t) = Inr s'"
    using not_isl by blast
  from new_segment_is_loadable [OF elf_width_32 c(1-7) run] show ?thesis
  proof (elim exE conjE, goal_cases)
    case (1 p)
    obtain q where "q \<in> set (phdrs ?s)" using ne by (cases "phdrs ?s") auto
    with 1(10) q have "96 \<le> rdn ?s (p_vaddr p)" by fastforce
    with run 1(1,9) v(2) show ?case by auto
  qed
qed

end
