(* ===== verification/ElfGrow.thy ===== *)
theory ElfGrow
  imports ElfTable
begin

text \<open>
  Sections that grow: the copy of a section in \<open>replacedSections\<close>, new entries at the start of a copy
  of the dynamic section, and new strings at the end of a copy of the string table.
\<close>

section \<open>Copies of sections\<close>

text \<open>The contents that \<open>replaceSection\<close> starts from: the copy, or else the section in the file.\<close>

definition current :: "'a::len ElfFile \<Rightarrow> bstring \<Rightarrow> elf_error + bstring" where
  "current s nm = (case map_of (replacedSections s) nm of
     Some t \<Rightarrow> Inr t
   | None \<Rightarrow> ebind (section_hdr s nm) (\<lambda>sh. rd s (rdn s (sh_offset sh)) (rdn s (sh_size sh))))"

definition put_copy :: "bstring \<Rightarrow> bstring \<Rightarrow> 'a::len ElfFile \<Rightarrow> 'a ElfFile" where
  "put_copy nm t s = s\<lparr>replacedSections := map_put nm t (replacedSections s)\<rparr>"

lemma replaceSection_current:
  "replaceSection nm sz s = ebind (current s nm) (\<lambda>t. Inr (put_copy nm (resize (unat sz) t) s))"
  by (simp add: replaceSection_def current_def put_copy_def)

lemma map_put_put: "map_put k v (map_put k v' m) = map_put k v m"
  by (induction m) auto

lemma put_copy_fields [simp]:
  "littleEndian (put_copy nm t s) = littleEndian s" "contents (put_copy nm t s) = contents s"
  "shdrs (put_copy nm t s) = shdrs s" "changed (put_copy nm t s) = changed s" "sectionNames (put_copy nm t s) = sectionNames s"
  "put_copy nm t (put_copy nm t' s) = put_copy nm t s" "rdn (put_copy nm t s) w = rdn s w" "hdr (put_copy nm t s) = hdr s"
  by (simp_all add: put_copy_def map_put_put rdn_def)

lemma put_copy_inv [simp]: "map_inv (replacedSections s) \<Longrightarrow> map_inv (replacedSections (put_copy nm t s))"
  by (simp add: put_copy_def map_inv_put)

lemma map_of_copy: "map_inv (replacedSections s) \<Longrightarrow>
  map_of (replacedSections (put_copy nm t s)) = (map_of (replacedSections s))(nm \<mapsto> t)"
  by (simp add: put_copy_def map_of_put)

lemma map_get_copy [simp]: "map_inv (replacedSections s) \<Longrightarrow> map_get (replacedSections (put_copy nm t s)) nm = t"
  by (simp add: map_get_def map_of_copy)

lemma set_replaced_copy:
  "map_inv (replacedSections s) \<Longrightarrow> set_replaced nm pos u (put_copy nm t s) =
     (if unat pos + length u \<le> length t then Inr (put_copy nm (overwrite (unat pos) u t) s) else Inl AssertFailed)"
  by (simp add: set_replaced_def setSubstr_def) (simp add: put_copy_def map_put_put)

text \<open>The name lookups do not see the copies.\<close>

lemma name_view_copy [simp]: "name_view (put_copy nm t s) = name_view s"
  by (simp add: name_view_def shnum_def)

lemma current_copy_other: "map_inv (replacedSections s) \<Longrightarrow> nm' \<noteq> nm \<Longrightarrow> current (put_copy nm t s) nm' = current s nm'"
  by (simp add: current_def map_of_copy section_hdr_def findSection_view(3) [OF name_view_copy] rd_def split: option.split)

lemma length_resize [simp]: "length (resize n t) = n"
  by (simp add: resize_def)

lemma resize_prefix: "length t \<le> n \<Longrightarrow> resize n t = t @ replicate (n - length t) 0"
  by (simp add: resize_def)

section \<open>Tables in a copy\<close>

lemma chunk_overwrite_inside:
  assumes "a + m \<le> length bs" and "off + length bs \<le> length c"
  shows "chunk (off + a) m (overwrite off bs c) = chunk a m bs"
  using chunk_chunk [OF assms(1), of off "overwrite off bs c"] chunk_overwrite_same [OF assms(2)] by simp

lemma chunk_append: "off + n \<le> length c \<Longrightarrow> chunk off n (c @ d) = chunk off n c"
  by (simp add: chunk_def)

lemma dyn_table_chunks:
  fixes es :: "'a::len Elf_Dyn list"
  assumes "dyn_table le c off es" and "off' + length es * sizeof_Dyn TYPE('a) + wsize TYPE('a) \<le> length c'"
    and "chunk off' (length es * sizeof_Dyn TYPE('a) + wsize TYPE('a)) c' = chunk off (length es * sizeof_Dyn TYPE('a) + wsize TYPE('a)) c"
  shows "dyn_table le c' off' es"
proof -
  let ?n = "length es * sizeof_Dyn TYPE('a)" and ?w = "wsize TYPE('a)"
  have "chunk off' ?n c' = chunk off ?n c"
    using assms(3) by (metis chunk_chunk add_0 add.right_neutral le_add1)
  moreover have "chunk (off' + ?n) ?w c' = chunk (off + ?n) ?w c"
    using assms(3) by (metis chunk_chunk order_refl)
  ultimately show ?thesis using assms(1,2) by (simp add: dyn_table_def dyn_tag_def)
qed

lemma dyn_table_append:
  assumes tab: "dyn_table le c off (es :: 'a::len Elf_Dyn list)"
  shows "dyn_table le (c @ d) off es"
proof -
  from tab have "off + length es * sizeof_Dyn TYPE('a) + wsize TYPE('a) \<le> length c" by (simp add: dyn_table_def)
  then show ?thesis by (intro dyn_table_chunks [OF tab]) (simp_all add: chunk_append)
qed

text \<open>Entries in front of a table.\<close>

lemma dyn_table_prepend:
  fixes es :: "'a::len Elf_Dyn list"
  assumes "dyn_table le c (off + length ds * sizeof_Dyn TYPE('a)) es"
    and "chunk off (length ds * sizeof_Dyn TYPE('a)) c = concat (map enc_Dyn ds)"
    and "\<forall>d \<in> set ds. rdi le (d_tag d) \<noteq> 0"
  shows "dyn_table le c off (ds @ es)"
proof -
  let ?z = "sizeof_Dyn TYPE('a)"
  have "chunk off (length (ds @ es) * ?z) c = chunk off (length ds * ?z) c @ chunk (off + length ds * ?z) (length es * ?z) c"
    using chunk_split [of "length ds * ?z" "length (ds @ es) * ?z" off c] by (simp add: add_mult_distrib)
  with assms show ?thesis by (auto simp: dyn_table_def add_mult_distrib add.assoc)
qed

lemma count_entries: "efold (\<lambda>i (p, d). Inr (Suc i)) k (positions T off es) = Inr (k + length es)"
  by (induction es arbitrary: k off) auto

lemma null_index_table:
  fixes es :: "'a::len Elf_Dyn list"
  assumes "elf_width TYPE('a)" and "dyn_table le t 0 es"
  shows "null_index TYPE('a) le t = Inr (length es)"
proof -
  have tab: "dyn_table le (t @ [0]) 0 es" using assms(2) by (rule dyn_table_append)
  show ?thesis unfolding null_index_def dyn_for_scan [OF assms(1) tab dyn_count_table [OF assms(1) tab]]
    by (simp add: count_entries)
qed

lemma of_nat_unat32: "n < 2 ^ 32 \<Longrightarrow> unat (of_nat n :: 32 word) = n"
  by (simp add: unat_of_nat)

section \<open>Growing the dynamic section\<close>

lemma grow_dynamic_spec:
  fixes s :: "'a::len ElfFile" and es :: "'a Elf_Dyn list"
  defines "z \<equiv> sizeof_Dyn TYPE('a)"
  assumes w: "elf_width TYPE('a)" and inv: "map_inv (replacedSections s)" and cur: "current s (str ''.dynamic'') = Inr t"
    and N: "N = rdn s (sh_size dynsh) + z * k" "N < 2 ^ 32" and tab: "dyn_table (littleEndian s) (resize N t) 0 es" and k: "0 < k"
  shows "z * (length es + 1) \<le> rdn s (sh_size dynsh) \<Longrightarrow>
      \<exists>t'. grow_dynamic k dynsh s = Inr (put_copy (str ''.dynamic'') t' s) \<and> length t' = N \<and> dyn_table (littleEndian s) t' (z * k) es"
    and "rdn s (sh_size dynsh) < z * (length es + 1) \<Longrightarrow> grow_dynamic k dynsh s = Inl AssertFailed"
proof -
  let ?n = "length es" and ?r = "resize N t"
  have zpos: "0 < z" and zw: "z = 2 * wsize TYPE('a)" using w by (auto simp: z_def sizeof_Dyn_def wsize_elf_width)
  have size: "unat (of_nat N :: 32 word) = N" "unat (of_nat (z * k) :: 32 word) = z * k"
    by (rule of_nat_unat32; use N in simp)+
  have idx: "null_index TYPE('a) (littleEndian s) ?r = Inr ?n" by (rule null_index_table [OF w tab])
  have run: "grow_dynamic k dynsh s =
      (if z * k + length (take (z * (?n + 1)) ?r) \<le> N
       then Inr (put_copy (str ''.dynamic'') (overwrite (z * k) (take (z * (?n + 1)) ?r) ?r) s) else Inl AssertFailed)"
    unfolding grow_dynamic_def replaceSection_current cur z_def [symmetric] N(1) [symmetric]
    by (simp add: Let_def size(1) inv idx set_replaced_copy size(2) del: of_nat_add of_nat_mult str_simps)
  show "\<exists>t'. grow_dynamic k dynsh s = Inr (put_copy (str ''.dynamic'') t' s) \<and> length t' = N \<and> dyn_table (littleEndian s) t' (z * k) es"
    if room: "z * (?n + 1) \<le> rdn s (sh_size dynsh)"
  proof -
    have len: "length (take (z * (?n + 1)) ?r) = z * (?n + 1)" using room N(1) by simp
    have fits: "z * k + length (take (z * (?n + 1)) ?r) \<le> length ?r" using room N(1) by (simp add: len)
    let ?t = "overwrite (z * k) (take (z * (?n + 1)) ?r) ?r"
    have lt: "length ?t = N" using fits by simp
    have m: "?n * z + wsize TYPE('a) \<le> z * (?n + 1)" by (simp add: zw algebra_simps)
    have inN: "?n * z + wsize TYPE('a) \<le> N" using m room N(1) by linarith
    have same: "chunk (z * k + 0) (?n * z + wsize TYPE('a)) ?t = chunk 0 (?n * z + wsize TYPE('a)) (take (z * (?n + 1)) ?r)"
      by (rule chunk_overwrite_inside [OF _ fits]) (use m len in linarith)
    have pre: "chunk 0 (?n * z + wsize TYPE('a)) (take (z * (?n + 1)) ?r) = chunk 0 (?n * z + wsize TYPE('a)) ?r"
      unfolding chunk_def using m by (simp del: mult_Suc_right)
    have "z * k + ?n * z + wsize TYPE('a) \<le> length ?t" unfolding lt using m fits unfolding len by (simp add: algebra_simps)
    then have "dyn_table (littleEndian s) ?t (z * k) es"
      using dyn_table_chunks [OF tab, of "z * k" ?t] same pre unfolding z_def [symmetric] by simp
    with run fits lt show ?thesis by auto
  qed
  show "grow_dynamic k dynsh s = Inl AssertFailed" if "rdn s (sh_size dynsh) < z * (?n + 1)"
  proof -
    have "N < z * k + min (z * (?n + 1)) N" using that N(1) k zpos by (auto simp: min_def)
    then show ?thesis using run by (simp add: min.commute)
  qed
qed

text \<open>One entry put in front of a copy of the dynamic section.\<close>

lemma add_dyn_spec:
  fixes s :: "'a::len ElfFile" and es :: "'a Elf_Dyn list"
  defines "z \<equiv> sizeof_Dyn TYPE('a)"
  assumes w: "elf_width TYPE('a)" and inv: "map_inv (replacedSections s)" and cur: "current s (str ''.dynamic'') = Inr t"
    and N: "N = rdn s (sh_size dynsh) + z" "N < 2 ^ 32" and tab: "dyn_table (littleEndian s) (resize N t) 0 es"
    and d: "rdi (littleEndian s) (d_tag d) \<noteq> 0"
  shows "z * (length es + 1) \<le> rdn s (sh_size dynsh) \<Longrightarrow>
      \<exists>t'. add_dyn d dynsh s = Inr (put_copy (str ''.dynamic'') t' s) \<and> length t' = N \<and> dyn_table (littleEndian s) t' 0 (d # es)"
    and "rdn s (sh_size dynsh) < z * (length es + 1) \<Longrightarrow> add_dyn d dynsh s = Inl AssertFailed"
proof -
  have N1: "N = rdn s (sh_size dynsh) + sizeof_Dyn TYPE('a) * 1" using N(1) by (simp add: z_def)
  note spec = grow_dynamic_spec [OF w inv cur N1 N(2) tab zero_less_one, folded z_def]
  have len: "length (enc_Dyn d) = z" by (simp add: z_def)
  show "\<exists>t'. add_dyn d dynsh s = Inr (put_copy (str ''.dynamic'') t' s) \<and> length t' = N \<and> dyn_table (littleEndian s) t' 0 (d # es)"
    if room: "z * (length es + 1) \<le> rdn s (sh_size dynsh)"
  proof -
    obtain t' where g: "grow_dynamic 1 dynsh s = Inr (put_copy (str ''.dynamic'') t' s)" "length t' = N"
        "dyn_table (littleEndian s) t' (z * 1) es" using spec(1) [OF room] by blast
    let ?t = "overwrite 0 (enc_Dyn d) t'"
    have zN: "z \<le> N" using N(1) by simp
    have fits: "z + length es * z + wsize TYPE('a) \<le> N" using g(3) by (simp add: dyn_table_def z_def g(2))
    have "dyn_table (littleEndian s) ?t z es"
      using dyn_table_chunks [OF g(3), of z ?t] fits by (simp add: len g(2) zN chunk_overwrite_after flip: z_def)
    then have "dyn_table (littleEndian s) ?t 0 ([d] @ es)"
      by (intro dyn_table_prepend) (use d zN in \<open>simp_all add: overwrite_def len g(2) flip: z_def\<close>)
    moreover have "add_dyn d dynsh s = Inr (put_copy (str ''.dynamic'') ?t s)"
      unfolding add_dyn_def g(1) by (simp add: set_replaced_copy inv g(2) zN [unfolded z_def] del: str_simps)
    ultimately show ?thesis by (intro exI [of _ ?t]) (simp add: g(2) zN [unfolded z_def])
  qed
  show "add_dyn d dynsh s = Inl AssertFailed" if "rdn s (sh_size dynsh) < z * (length es + 1)"
    unfolding add_dyn_def spec(2) [OF that] by simp
qed

end
