(* ===== verification/ElfSearch.thy ===== *)
theory ElfSearch
  imports ElfGrow
begin

text \<open>
  The search path of a dynamic section: which entry counts, what the walk of \<open>modifyRPath\<close> over the entries
  finds, and how single entries and strings are changed in place.
\<close>

section \<open>The last entry with a tag\<close>

fun last_idx :: "'x \<Rightarrow> 'x list \<Rightarrow> nat option" where
  "last_idx x [] = None"
| "last_idx x (y # ys) =
     (case last_idx x ys of Some k \<Rightarrow> Some (Suc k) | None \<Rightarrow> if y = x then Some 0 else None)"

lemma last_idx_None: "last_idx x ys = None \<longleftrightarrow> x \<notin> set ys"
  by (induction ys) (auto split: option.splits)

lemma last_idx_Some: "last_idx x ys = Some k \<Longrightarrow> k < length ys \<and> ys ! k = x"
  by (induction ys arbitrary: k) (auto split: option.splits if_splits)

text \<open>The entry that the dynamic linker takes: \<open>DT_RUNPATH\<close> before \<open>DT_RPATH\<close>, of each the last one.\<close>

definition path_idx :: "'a::len word list \<Rightarrow> nat option" where
  "path_idx ts = (case last_idx DT_RUNPATH ts of None \<Rightarrow> last_idx DT_RPATH ts | r \<Rightarrow> r)"

definition tags :: "bool \<Rightarrow> 'a::len Elf_Dyn list \<Rightarrow> 'a word list" where
  "tags le es = map (\<lambda>d. rdi le (d_tag d)) es"

lemma tags_simps [simp]: "tags le [] = []" "tags le (d # es) = rdi le (d_tag d) # tags le es"
  "length (tags le es) = length es"
  by (simp_all add: tags_def)

lemma tags_nth: "k < length es \<Longrightarrow> tags le es ! k = rdi le (d_tag (es ! k))"
  by (simp add: tags_def)

lemma small_tags:
  assumes "elf_width TYPE('a::len)"
  shows "(DT_RUNPATH :: 'a word) \<noteq> DT_RPATH" "(DT_RPATH :: 'a word) \<noteq> DT_RUNPATH" "(DT_RPATH :: 'a word) \<noteq> DT_NEEDED"
    "(DT_RUNPATH :: 'a word) \<noteq> DT_NEEDED" "(DT_RUNPATH :: 'a word) \<noteq> 0" "(DT_RPATH :: 'a word) \<noteq> 0"
  using assms by (auto simp: elf_width_def word_uint_eq_iff)

section \<open>The walk over the entries\<close>

definition search_string :: "bool \<Rightarrow> bstring \<Rightarrow> 'a::len Elf_Dyn list \<Rightarrow> bstring option" where
  "search_string le u es =
     (case path_idx (tags le es) of None \<Rightarrow> None | Some k \<Rightarrow> cstr (drop (unat (rdi le (d_un (es ! k)))) u))"

lemma path_idx_Some: "path_idx (tags le es) = Some k \<Longrightarrow> k < length es"
  by (auto simp: path_idx_def split: option.splits dest: last_idx_Some)

definition entry_at :: "'a::len itself \<Rightarrow> nat \<Rightarrow> nat option \<Rightarrow> nat option \<Rightarrow> nat option" where
  "entry_at T off idx other = (case idx of Some k \<Rightarrow> Some (off + k * sizeof_Dyn TYPE('a)) | None \<Rightarrow> other)"

definition string_at :: "'a::len ElfFile \<Rightarrow> nat \<Rightarrow> 'a Elf_Dyn list \<Rightarrow> nat option \<Rightarrow> nat option \<Rightarrow> nat option" where
  "string_at s strTab es idx other = (case idx of Some k \<Rightarrow> Some (strTab + rdn s (d_un (es ! k))) | None \<Rightarrow> other)"

lemma entry_at_Cons [simp]:
  "entry_at (T :: 'a::len itself) (off + sizeof_Dyn TYPE('a)) idx other = entry_at T off (map_option Suc idx) other"
  by (simp add: entry_at_def split: option.split)

lemma string_at_Cons [simp]: "string_at s strTab (d # es) (map_option Suc idx) other = string_at s strTab es idx other"
  by (simp add: string_at_def split: option.split)

text \<open>What the loop of \<open>modifyRPath\<close> has found when it ends.\<close>

lemma rpath_fold:
  fixes s :: "'a::len ElfFile" and es :: "'a Elf_Dyn list"
  defines "A \<equiv> DT_RPATH" and "B \<equiv> DT_RUNPATH"
  assumes w: "elf_width TYPE('a)"
    and "dyn_table (littleEndian s) (contents s) off es"
    and "\<forall>d \<in> set es. rdi (littleEndian s) (d_tag d) = DT_NEEDED \<longrightarrow> \<not> isl (cstr_at s (strTab + rdn s (d_un d)))"
  shows "\<exists>r'. efold (\<lambda>r (p, d). rpath_step s strTab p (rdi (littleEndian s) (d_tag d)) r) r (positions TYPE('a) off es) = Inr r' \<and>
    dynRPath r' = entry_at TYPE('a) off (last_idx A (tags (littleEndian s) es)) (dynRPath r) \<and>
    dynRunPath r' = entry_at TYPE('a) off (last_idx B (tags (littleEndian s) es)) (dynRunPath r) \<and>
    rpath_pos r' = string_at s strTab es (last_idx B (tags (littleEndian s) es))
      (if dynRunPath r \<noteq> None then rpath_pos r
       else string_at s strTab es (last_idx A (tags (littleEndian s) es)) (rpath_pos r))"
proof -
  define C :: "'a word" where "C = DT_NEEDED"
  note fold_tags = A_def [symmetric] B_def [symmetric] C_def [symmetric]
  note ne = small_tags [OF w, unfolded fold_tags]
  note step = rpath_step_def [of s strTab, unfolded fold_tags]
  have "\<forall>d \<in> set es. rdi (littleEndian s) (d_tag d) = C \<longrightarrow> \<not> isl (cstr_at s (strTab + rdn s (d_un d)))"
    using assms(5) by (simp only: C_def)
  with assms(4) show ?thesis
  proof (induction es arbitrary: off r)
    case Nil
    then show ?case by (simp add: entry_at_def string_at_def)
  next
    case (Cons d es)
    let ?tag = "rdi (littleEndian s) (d_tag d)" and ?pos = "strTab + rdn s (d_un d)"
    have e: "off + sizeof_Dyn TYPE('a) \<le> fileSize s" "chunk off (sizeof_Dyn TYPE('a)) (contents s) = enc_Dyn d"
      and t: "dyn_table (littleEndian s) (contents s) (off + sizeof_Dyn TYPE('a)) es"
      using Cons.prems(1) by (auto simp: dyn_table_Cons fileSize_def)
    have pos: "dyn_str_pos s strTab off = Inr ?pos" by (simp add: dyn_str_pos_def d_un_entry [OF w e])
    have str: "\<not> isl (dyn_str s strTab off)" if "?tag = C" using Cons.prems(2) that by (simp add: dyn_str_def pos)
    have more: "\<forall>d \<in> set es. rdi (littleEndian s) (d_tag d) = C \<longrightarrow> \<not> isl (cstr_at s (strTab + rdn s (d_un d)))"
      using Cons.prems(2) by simp
    note IH = Cons.IH [OF t more] and found = entry_at_def string_at_def
    obtain r1 where r1: "rpath_step s strTab off ?tag r = Inr r1"
      "dynRPath r1 = (if ?tag = A then Some off else dynRPath r)" "dynRunPath r1 = (if ?tag = B then Some off else dynRunPath r)"
      "rpath_pos r1 = (if ?tag = B \<or> ?tag = A \<and> dynRunPath r = None then Some ?pos else rpath_pos r)"
    proof (cases "?tag = C")
      case True
      then obtain nm where "dyn_str s strTab off = Inr nm" using str by (cases "dyn_str s strTab off") auto
      with True ne that [of "r\<lparr>needed := needed r @ [nm]\<rparr>"] show ?thesis by (simp add: step)
    next
      case False
      then have "\<not> isl (rpath_step s strTab off ?tag r)" by (simp add: step pos)
      then obtain r1 where "rpath_step s strTab off ?tag r = Inr r1" by (cases "rpath_step s strTab off ?tag r") auto
      with False ne that show ?thesis by (auto simp: step pos split: if_splits)
    qed
    obtain r' where r': "efold (\<lambda>r (p, d). rpath_step s strTab p (rdi (littleEndian s) (d_tag d)) r) r1
        (positions TYPE('a) (off + sizeof_Dyn TYPE('a)) es) = Inr r'"
      "dynRPath r' = entry_at TYPE('a) (off + sizeof_Dyn TYPE('a)) (last_idx A (tags (littleEndian s) es)) (dynRPath r1)"
      "dynRunPath r' = entry_at TYPE('a) (off + sizeof_Dyn TYPE('a)) (last_idx B (tags (littleEndian s) es)) (dynRunPath r1)"
      "rpath_pos r' = string_at s strTab es (last_idx B (tags (littleEndian s) es))
        (if dynRunPath r1 \<noteq> None then rpath_pos r1
         else string_at s strTab es (last_idx A (tags (littleEndian s) es)) (rpath_pos r1))"
      using IH [of r1] by blast
    have run: "efold (\<lambda>r (p, d). rpath_step s strTab p (rdi (littleEndian s) (d_tag d)) r) r (positions TYPE('a) off (d # es)) = Inr r'"
      by (simp add: r1(1) r'(1))
    let ?A = "last_idx A (tags (littleEndian s) es)" and ?B = "last_idx B (tags (littleEndian s) es)"
    have "dynRPath r' = entry_at TYPE('a) off (last_idx A (tags (littleEndian s) (d # es))) (dynRPath r)"
      unfolding r'(2) r1(2) found by (cases ?A) simp_all
    moreover have "dynRunPath r' = entry_at TYPE('a) off (last_idx B (tags (littleEndian s) (d # es))) (dynRunPath r)"
      unfolding r'(3) r1(3) found by (cases ?B) simp_all
    moreover have "rpath_pos r' = string_at s strTab (d # es) (last_idx B (tags (littleEndian s) (d # es)))
        (if dynRunPath r \<noteq> None then rpath_pos r
         else string_at s strTab (d # es) (last_idx A (tags (littleEndian s) (d # es))) (rpath_pos r))"
    proof (cases ?B)
      case None
      then show ?thesis unfolding r'(4) r1(3,4) found using ne(1) by (cases ?A) auto
    next
      case (Some k)
      then show ?thesis unfolding r'(4) r1(3,4) found by simp
    qed
    ultimately show ?case using run by blast
  qed
qed

section \<open>Changing an entry in place\<close>

lemma dyn_table_update:
  fixes es :: "'a::len Elf_Dyn list"
  assumes "dyn_table le c off es" and "k < length es" and "rdi le (d_tag d) \<noteq> 0"
  shows "dyn_table le (overwrite (off + k * sizeof_Dyn TYPE('a)) (enc_Dyn d) c) off (es[k := d])"
  using assms(1,2)
proof (induction es arbitrary: off k)
  case (Cons e es)
  let ?z = "sizeof_Dyn TYPE('a)"
  have b: "off + ?z \<le> length c" "dyn_table le c (off + ?z) es" using Cons.prems(1) by (auto simp: dyn_table_Cons)
  show ?case
  proof (cases k)
    case 0
    let ?c = "overwrite off (enc_Dyn d) c"
    have "dyn_table le ?c (off + ?z) es"
      by (rule dyn_table_cong [OF b(2)]) (use b(1) in \<open>simp_all add: chunk_overwrite_after\<close>)
    moreover have "chunk off ?z ?c = enc_Dyn d" using chunk_overwrite_same [of off "enc_Dyn d" c] b(1) by simp
    ultimately show ?thesis using b(1) assms(3) 0 by (simp add: dyn_table_Cons)
  next
    case (Suc j)
    have pos: "off + k * ?z = off + ?z + j * ?z" by (simp add: Suc)
    have j: "j < length es" using Cons.prems(2) Suc by simp
    let ?c = "overwrite (off + ?z + j * ?z) (enc_Dyn d) c"
    have "off + ?z + j * ?z + ?z \<le> length c" by (rule dyn_table_nth(2) [OF b(2) j])
    then have "chunk off ?z ?c = chunk off ?z c" "length ?c = length c" by (simp_all add: chunk_overwrite_before)
    then show ?thesis using Cons.IH [OF b(2) j] Cons.prems(1) unfolding pos by (simp add: Suc dyn_table_Cons)
  qed
qed simp

lemma overwrite_inside:
  assumes "chunk o' (length a + length b + length r) c = a @ b @ r" and "o' + length a + length b + length r \<le> length c" and "length b' = length b"
  shows "overwrite (o' + length a) b' c = overwrite o' (a @ b' @ r) c"
proof -
  have "overwrite (o' + length a) b' c = overwrite (o' + length a) b' (overwrite o' (a @ b @ r) c)"
    using overwrite_id [of o' "length a + length b + length r" c] assms(1,2) by (simp add: add.assoc)
  also have "\<dots> = overwrite o' (a @ b' @ r) c"
    using assms(2,3) by (simp add: overwrite_def add.assoc flip: drop_drop)
  finally show ?thesis .
qed

lemma overwrite_tag:
  fixes d :: "'a::len Elf_Dyn"
  assumes "chunk o' (sizeof_Dyn TYPE('a)) c = enc_Dyn d" and "o' + sizeof_Dyn TYPE('a) \<le> length c"
  shows "overwrite o' (wbytes t) c = overwrite o' (enc_Dyn (d\<lparr>d_tag := t\<rparr>)) c"
    and "overwrite (o' + wsize TYPE('a)) (wbytes v) c = overwrite o' (enc_Dyn (d\<lparr>d_un := v\<rparr>)) c"
  using overwrite_inside [of o' "[]" "wbytes (d_tag d)" "wbytes (d_un d)" c "wbytes t"]
    overwrite_inside [of o' "wbytes (d_tag d)" "wbytes (d_un d)" "[]" c "wbytes v"] assms
  by (simp_all add: enc_Dyn_def sizeof_Dyn_def mult_2)

section \<open>The two sections in the file\<close>

text \<open>
  The dynamic section lies at \<open>dyn\<close>, \<open>dsz\<close> bytes long, and holds the entries \<open>es\<close>; the string table \<open>u\<close> lies at
  \<open>strTab\<close>; the two do not overlap each other or the ELF header.
\<close>

definition sections_at :: "'a::len ElfFile \<Rightarrow> nat \<Rightarrow> nat \<Rightarrow> nat \<Rightarrow> bstring \<Rightarrow> 'a Elf_Dyn list \<Rightarrow> bool" where
  "sections_at s dyn dsz strTab u es \<longleftrightarrow>
     sizeof_Ehdr TYPE('a) \<le> dyn \<and> sizeof_Ehdr TYPE('a) \<le> strTab \<and>
     dyn + dsz \<le> fileSize s \<and> strTab + length u \<le> fileSize s \<and>
     (dyn + dsz \<le> strTab \<or> strTab + length u \<le> dyn) \<and>
     length es * sizeof_Dyn TYPE('a) + wsize TYPE('a) \<le> dsz \<and>
     chunk strTab (length u) (contents s) = u \<and> dyn_table (littleEndian s) (contents s) dyn es"

lemma sections_at_cong:
  "contents s' = contents s \<Longrightarrow> littleEndian s' = littleEndian s \<Longrightarrow> sections_at s' dyn dsz strTab u es = sections_at s dyn dsz strTab u es"
  by (simp add: sections_at_def fileSize_def)

lemma entry_in_section: "k < length es \<Longrightarrow> k * sizeof_Dyn (T :: 'a::len itself) + sizeof_Dyn T \<le> length es * sizeof_Dyn T"
  by (metis Suc_leI add.commute mult_Suc mult_le_mono1)

lemma set_entry:
  fixes s :: "'a::len ElfFile" and es :: "'a Elf_Dyn list"
  assumes at: "sections_at s dyn dsz strTab u es" and k: "k < length es" and tag: "rdi (littleEndian s) (d_tag d) \<noteq> 0"
  defines "c \<equiv> overwrite (dyn + k * sizeof_Dyn TYPE('a)) (enc_Dyn d) (contents s)"
  shows "sections_at (s\<lparr>contents := c\<rparr>) dyn dsz strTab u (es[k := d])" and "hdr (s\<lparr>contents := c\<rparr>) = hdr s"
proof -
  let ?z = "sizeof_Dyn TYPE('a)"
  have in_dyn: "k * ?z + ?z \<le> dsz" using entry_in_section [OF k, of "TYPE('a)"] at by (simp add: sections_at_def)
  then have fits: "dyn + k * ?z + length (enc_Dyn d) \<le> length (contents s)"
    using at by (simp add: sections_at_def fileSize_def)
  have "chunk strTab (length u) c = chunk strTab (length u) (contents s)"
    unfolding c_def by (rule chunk_overwrite_disjoint [OF _ fits]) (use at in_dyn in \<open>auto simp: sections_at_def\<close>)
  moreover have "length c = length (contents s)" using fits by (simp add: c_def)
  moreover have "dyn_table (littleEndian s) c dyn (es[k := d])"
    unfolding c_def using at by (intro dyn_table_update [OF _ k tag]) (simp add: sections_at_def)
  ultimately show "sections_at (s\<lparr>contents := c\<rparr>) dyn dsz strTab u (es[k := d])"
    using at by (simp add: sections_at_def fileSize_def)
  show "hdr (s\<lparr>contents := c\<rparr>) = hdr s"
    unfolding c_def using at fits by (intro hdr_overwrite) (simp_all add: sections_at_def fileSize_def)
qed

lemma set_tag:
  fixes s :: "'a::len ElfFile" and es :: "'a Elf_Dyn list"
  assumes at: "sections_at s dyn dsz strTab u es" and k: "k < length es" and tag: "rdi (littleEndian s) t \<noteq> 0"
  shows "\<exists>c. wr s (dyn + k * sizeof_Dyn TYPE('a)) (wbytes t) = Inr (s\<lparr>contents := c\<rparr>) \<and> hdr (s\<lparr>contents := c\<rparr>) = hdr s \<and>
    sections_at (s\<lparr>contents := c\<rparr>) dyn dsz strTab u (es[k := (es ! k)\<lparr>d_tag := t\<rparr>])"
proof -
  have tab: "dyn_table (littleEndian s) (contents s) dyn es" using at by (simp add: sections_at_def)
  note e = dyn_table_nth [OF tab k]
  have "dyn + k * sizeof_Dyn TYPE('a) + length (wbytes t) \<le> length (contents s)" using e(2) by (simp add: sizeof_Dyn_def)
  then have "wr s (dyn + k * sizeof_Dyn TYPE('a)) (wbytes t) =
      Inr (s\<lparr>contents := overwrite (dyn + k * sizeof_Dyn TYPE('a)) (enc_Dyn ((es ! k)\<lparr>d_tag := t\<rparr>)) (contents s)\<rparr>)"
    by (simp add: wr_Inr fileSize_def overwrite_tag(1) [OF e])
  then show ?thesis using set_entry [OF at k, of "(es ! k)\<lparr>d_tag := t\<rparr>"] tag by auto
qed

lemma set_value:
  fixes s :: "'a::len ElfFile" and es :: "'a Elf_Dyn list"
  assumes at: "sections_at s dyn dsz strTab u es" and k: "k < length es"
  shows "\<exists>c. set_d_un (dyn + k * sizeof_Dyn TYPE('a)) v s = Inr (s\<lparr>contents := c\<rparr>) \<and> hdr (s\<lparr>contents := c\<rparr>) = hdr s \<and>
    sections_at (s\<lparr>contents := c\<rparr>) dyn dsz strTab u (es[k := (es ! k)\<lparr>d_un := v\<rparr>])"
proof -
  have tab: "dyn_table (littleEndian s) (contents s) dyn es" using at by (simp add: sections_at_def)
  note e = dyn_table_nth [OF tab k]
  have tag: "rdi (littleEndian s) (d_tag (es ! k)) \<noteq> 0" using tab k by (simp add: dyn_table_def)
  have "dyn + k * sizeof_Dyn TYPE('a) + wsize TYPE('a) + length (wbytes v) \<le> length (contents s)"
    using e(2) by (simp add: sizeof_Dyn_def)
  then have "set_d_un (dyn + k * sizeof_Dyn TYPE('a)) v s =
      Inr (s\<lparr>contents := overwrite (dyn + k * sizeof_Dyn TYPE('a)) (enc_Dyn ((es ! k)\<lparr>d_un := v\<rparr>)) (contents s)\<rparr>)"
    by (simp add: set_d_un_def wr_Inr fileSize_def overwrite_tag(2) [OF e])
  then show ?thesis using set_entry [OF at k, of "(es ! k)\<lparr>d_un := v\<rparr>"] tag by auto
qed

lemma chunk_overwrite_within:
  assumes "v + length bs \<le> n" and "off + n \<le> length c"
  shows "chunk off n (overwrite (off + v) bs c) = overwrite v bs (chunk off n c)"
proof (rule nth_equalityI)
  show "length (chunk off n (overwrite (off + v) bs c)) = length (overwrite v bs (chunk off n c))" using assms by simp
  fix i
  assume "i < length (chunk off n (overwrite (off + v) bs c))"
  then have "i < n" using assms by simp
  with assms show "chunk off n (overwrite (off + v) bs c) ! i = overwrite v bs (chunk off n c) ! i"
    by (simp add: nth_overwrite chunk_def)
qed

lemma set_string:
  fixes s :: "'a::len ElfFile"
  assumes at: "sections_at s dyn dsz strTab u es" and fits: "v + length bs \<le> length u"
  shows "\<exists>c. wr s (strTab + v) bs = Inr (s\<lparr>contents := c\<rparr>) \<and> hdr (s\<lparr>contents := c\<rparr>) = hdr s \<and>
    sections_at (s\<lparr>contents := c\<rparr>) dyn dsz strTab (overwrite v bs u) es"
proof -
  let ?c = "overwrite (strTab + v) bs (contents s)" and ?n = "length es * sizeof_Dyn TYPE('a) + wsize TYPE('a)"
  have b: "strTab + v + length bs \<le> length (contents s)" using at fits by (simp add: sections_at_def fileSize_def)
  have same: "chunk dyn ?n ?c = chunk dyn ?n (contents s)"
    by (rule chunk_overwrite_disjoint [OF _ b]) (use at fits in \<open>auto simp: sections_at_def\<close>)
  have "dyn_table (littleEndian s) (contents s) dyn es" "length ?c = length (contents s)"
    using at b by (simp_all add: sections_at_def)
  from dyn_table_cong [OF this same] have tab: "dyn_table (littleEndian s) ?c dyn es" .
  have str: "chunk strTab (length u) ?c = overwrite v bs u"
  proof -
    have "chunk strTab (length u) ?c = overwrite v bs (chunk strTab (length u) (contents s))"
      by (rule chunk_overwrite_within [OF fits]) (use at in \<open>simp add: sections_at_def fileSize_def\<close>)
    then show ?thesis using at by (simp add: sections_at_def)
  qed
  have hdr: "hdr (s\<lparr>contents := ?c\<rparr>) = hdr s"
    using at b by (intro hdr_overwrite) (simp_all add: sections_at_def fileSize_def)
  have len: "length ?c = length (contents s)" "length (overwrite v bs u) = length u" using b fits by simp_all
  have "sections_at (s\<lparr>contents := ?c\<rparr>) dyn dsz strTab (overwrite v bs u) es"
    using at tab str len unfolding sections_at_def by (simp add: fileSize_def)
  moreover have "wr s (strTab + v) bs = Inr (s\<lparr>contents := ?c\<rparr>)" using b by (simp add: wr_Inr fileSize_def)
  ultimately show ?thesis using hdr by blast
qed

text \<open>A string of the table, read from the file.\<close>

lemma string_in_table:
  assumes "sections_at s dyn dsz strTab u es" and t: "cstr (drop n u) = Some t"
  shows "cstr_at s (strTab + n) = Inr t"
proof -
  have u: "chunk strTab (length u) (contents s) = u" using assms(1) unfolding sections_at_def by blast
  have "n \<le> length u" using cstr_length [OF t] by simp
  moreover have "drop n (drop strTab (contents s)) = drop n (chunk strTab (length u) (contents s) @ drop (length u) (drop strTab (contents s)))"
    by (simp only: chunk_def append_take_drop_id)
  ultimately have "drop (strTab + n) (contents s) = drop n u @ drop (length u) (drop strTab (contents s))"
    unfolding u by (simp add: add.commute)
  then show ?thesis using cstr_prefix [OF t] by (simp add: cstr_at_Inr)
qed

end
