(* ===== verification/ElfGrowProps.thy ===== *)
theory ElfGrowProps
  imports ElfGrow ElfExample
begin

text \<open>
  Adding libraries refines a list operation: read as a list of names, the dynamic section gets
  the new libraries in front of the ones it had.
\<close>

section \<open>Strings added to a copy of the string table\<close>

definition names :: "bstring list \<Rightarrow> bstring" where
  "names libs = concat (map (\<lambda>l. l @ [0]) libs)"

fun offsets :: "nat \<Rightarrow> bstring list \<Rightarrow> nat list" where
  "offsets p [] = []"
| "offsets p (l # ls) = p # offsets (p + length l + 1) ls"

lemma names_simps [simp]: "names [] = []" "names (l # ls) = l @ 0 # names ls"
  by (simp_all add: names_def)

lemma offsets_ge: "q \<in> set (offsets p libs) \<Longrightarrow> p \<le> q"
  by (induction libs arbitrary: p) fastforce+

lemma offsets_lt: "q \<in> set (offsets p libs) \<Longrightarrow> q < p + length (names libs)"
  by (induction libs arbitrary: p) fastforce+

lemma length_offsets [simp]: "length (offsets p libs) = length libs"
  by (induction libs arbitrary: p) auto

lemma strings_at_offsets:
  "\<forall>l \<in> set libs. 0 \<notin> set l \<Longrightarrow>
   map (\<lambda>p. cstr (drop p (pre @ names libs @ rest))) (offsets (length pre) libs) = map Some libs"
proof (induction libs arbitrary: pre)
  case (Cons l libs)
  have "map (\<lambda>p. cstr (drop p ((pre @ l @ [0]) @ names libs @ rest))) (offsets (length (pre @ l @ [0])) libs) = map Some libs"
    using Cons.prems by (intro Cons.IH) simp
  then show ?case using Cons.prems by (simp add: cstr_append add.assoc)
qed simp

lemma total_length:
  "foldl (\<lambda>n lib. n + of_nat (length lib + 1)) (k :: 32 word) libs = k + of_nat (length (names libs))"
  by (induction libs arbitrary: k) (simp_all add: algebra_simps)

lemma set_put_above: "\<forall>x \<in> set ks. x < k \<Longrightarrow> set_put k ks = ks @ [k]"
  by (induction ks) (auto dest: order.asym)

lemma of_nat_unat64: "n < 2 ^ 64 \<Longrightarrow> unat (of_nat n :: 64 word) = n"
  by (simp add: unat_of_nat)

lemma of_nat_less64: "m < n \<Longrightarrow> n < 2 ^ 64 \<Longrightarrow> (of_nat m :: 64 word) < of_nat n"
  by (simp add: word_less_nat_alt of_nat_unat64)

text \<open>The offsets of a loop step, as machine integers.\<close>

lemma ucast_of_nat: "n < 2 ^ LENGTH('a) \<Longrightarrow> (ucast (of_nat n :: 'a::len word) :: 'b::len word) = of_nat n"
  by (simp add: unsigned_of_nat take_bit_nat_eq_self)

lemma string_offset:
  fixes x :: "'a::len word"
  assumes "unat x + p < 2 ^ 32" and "32 \<le> LENGTH('a)"
  shows "(ucast (x + ucast (of_nat p :: 32 word)) :: 'b::len word) = of_nat (unat x + p)"
proof -
  have lt: "unat x + p < 2 ^ LENGTH('a)"
    using assms power_increasing [of 32 "LENGTH('a)" "2::nat"] by simp
  have "x + ucast (of_nat p :: 32 word) = (of_nat (unat x + p) :: 'a word)"
    using assms(1) by (simp add: ucast_of_nat)
  then show ?thesis by (simp only: ucast_of_nat [OF lt])
qed

lemma add_strings:
  fixes s :: "'a::len ElfFile"
  defines "sz strsh \<equiv> rdn s (sh_size strsh)"
  assumes w: "32 \<le> LENGTH('a)" and inv: "map_inv (replacedSections s)" and t: "length t < 2 ^ 32"
  shows "sz strsh + p + length (names libs) \<le> length t \<Longrightarrow> \<forall>x \<in> set offs. x < of_nat (sz strsh + p) \<Longrightarrow>
    efold (add_lib_string strsh) (put_copy (str ''.dynstr'') t s, offs, of_nat p) libs =
      Inr (put_copy (str ''.dynstr'') (overwrite (sz strsh + p) (names libs) t) s,
           offs @ map of_nat (offsets (sz strsh + p) libs), of_nat (p + length (names libs)))"
  using t
proof (induction libs arbitrary: offs p t)
  case Nil
  then show ?case by simp
next
  case (Cons l libs)
  let ?o = "sz strsh + p" and ?t = "overwrite (sz strsh + p) (l @ [0]) t"
  have o: "?o < 2 ^ 32" and fits: "?o + length (l @ [0]) \<le> length t" using Cons.prems by simp_all
  have w32: "unat (of_nat ?o :: 32 word) = ?o" using of_nat_unat32 [OF o] .
  have off: "ucast (rdi (littleEndian s) (sh_size strsh) + ucast (of_nat p :: 32 word)) = (of_nat ?o :: 32 word)"
    "ucast (rdi (littleEndian s) (sh_size strsh) + ucast (of_nat p :: 32 word)) = (of_nat ?o :: 64 word)"
    unfolding sz_def rdn_def by (rule string_offset; use o w in \<open>simp add: sz_def rdn_def\<close>)+
  have pos: "of_nat p + of_nat (length l + 1) = (of_nat (p + length l + 1) :: 32 word)" by simp
  have step: "add_lib_string strsh (put_copy (str ''.dynstr'') t s, offs, of_nat p) l =
      Inr (put_copy (str ''.dynstr'') ?t s, offs @ [of_nat ?o], of_nat (p + length l + 1))"
    using fits unfolding add_lib_string_def Let_def put_copy_fields off prod.case
    by (simp only: set_replaced_copy [OF inv] w32 if_True ebind_Inr set_put_above [OF Cons.prems(2)] pos)
  have above: "\<forall>x \<in> set (offs @ [of_nat ?o]). x < (of_nat (sz strsh + (p + length l + 1)) :: 64 word)"
  proof -
    have "(of_nat ?o :: 64 word) < of_nat (sz strsh + (p + length l + 1))"
      using Cons.prems(1,3) by (intro of_nat_less64) simp_all
    then show ?thesis using Cons.prems(2) by (auto intro: less_trans)
  qed
  have "efold (add_lib_string strsh) (put_copy (str ''.dynstr'') ?t s, offs @ [of_nat ?o], of_nat (p + length l + 1)) libs =
      Inr (put_copy (str ''.dynstr'') (overwrite (sz strsh + (p + length l + 1)) (names libs) ?t) s,
        (offs @ [of_nat ?o]) @ map of_nat (offsets (sz strsh + (p + length l + 1)) libs), of_nat (p + length l + 1 + length (names libs)))"
    using Cons.prems(1,3) fits above by (intro Cons.IH) simp_all
  moreover have "overwrite (sz strsh + (p + length l + 1)) (names libs) ?t = overwrite ?o (names (l # libs)) t"
    using overwrite_adjacent [of ?o "l @ [0]" "names libs" t] Cons.prems(1) by (simp add: add.assoc)
  ultimately show ?case by (simp add: step add.assoc del: of_nat_add str_simps)
qed

section \<open>Entries added to a copy of the dynamic section\<close>

definition needed_entry :: "bool \<Rightarrow> 64 word \<Rightarrow> 'a::len Elf_Dyn" where
  "needed_entry le v = \<lparr>d_tag = wri le (DT_NEEDED :: 'a word), d_un = wri le v\<rparr>"

lemma add_entries:
  fixes s :: "'a::len ElfFile"
  defines "z \<equiv> sizeof_Dyn TYPE('a)"
  assumes inv: "map_inv (replacedSections s)" and t: "length t < 2 ^ 32"
  shows "(i + length vs) * z \<le> length t \<Longrightarrow>
    efold add_lib_entry (put_copy (str ''.dynamic'') t s, i) vs =
      Inr (put_copy (str ''.dynamic'') (overwrite (i * z) (concat (map (\<lambda>v. enc_Dyn (needed_entry (littleEndian s) v :: 'a Elf_Dyn)) vs)) t) s,
           i + length vs)"
  using t
proof (induction vs arbitrary: i t)
  case Nil
  then show ?case by simp
next
  case (Cons v vs)
  let ?d = "needed_entry (littleEndian s) v :: 'a Elf_Dyn"
  let ?t = "overwrite (i * z) (enc_Dyn ?d) t"
  have fits: "i * z + z \<le> length t" using Cons.prems(1) by (simp add: add_mult_distrib)
  then have o: "i * z < 2 ^ 32" using Cons.prems(2) by simp
  have step: "add_lib_entry (put_copy (str ''.dynamic'') t s, i) v = Inr (put_copy (str ''.dynamic'') ?t s, i + 1)"
    using fits unfolding add_lib_entry_def Let_def put_copy_fields prod.case needed_entry_def z_def
    by (simp only: set_replaced_copy [OF inv] of_nat_unat32 [OF o [unfolded z_def]] length_enc_Dyn if_True ebind_Inr)
  have "efold add_lib_entry (put_copy (str ''.dynamic'') ?t s, i + 1) vs =
      Inr (put_copy (str ''.dynamic'') (overwrite ((i + 1) * z) (concat (map (\<lambda>v. enc_Dyn (needed_entry (littleEndian s) v :: 'a Elf_Dyn)) vs)) ?t) s,
        i + 1 + length vs)"
    using Cons.prems fits by (intro Cons.IH) (simp_all add: z_def)
  moreover have "overwrite ((i + 1) * z) (concat (map (\<lambda>v. enc_Dyn (needed_entry (littleEndian s) v :: 'a Elf_Dyn)) vs)) ?t =
      overwrite (i * z) (concat (map (\<lambda>v. enc_Dyn (needed_entry (littleEndian s) v :: 'a Elf_Dyn)) (v # vs))) t"
    using overwrite_adjacent [of "i * z" "enc_Dyn ?d" "concat (map (\<lambda>v. enc_Dyn (needed_entry (littleEndian s) v :: 'a Elf_Dyn)) vs)" t] Cons.prems(1)
      length_enc_Dyns [of "map (needed_entry (littleEndian s)) vs :: 'a Elf_Dyn list"]
    by (simp add: z_def o_def add_mult_distrib add.commute)
  ultimately show ?case by (simp add: step del: str_simps)
qed

section \<open>The libraries a dynamic section names\<close>

text \<open>
  The abstraction: the names in a string table \<open>u\<close> that the \<open>DT_NEEDED\<close> entries refer to, in the
  order of the entries.
\<close>

definition needed_names :: "bool \<Rightarrow> bstring \<Rightarrow> 'a::len Elf_Dyn list \<Rightarrow> bstring option list" where
  "needed_names le u es =
     map (\<lambda>d. cstr (drop (unat (rdi le (d_un d))) u)) (filter (\<lambda>d. rdi le (d_tag d) = DT_NEEDED) es)"

definition others :: "bool \<Rightarrow> 'a::len Elf_Dyn list \<Rightarrow> 'a Elf_Dyn list" where
  "others le es = filter (\<lambda>d. rdi le (d_tag d) \<noteq> DT_NEEDED) es"

lemma needed_names_append: "needed_names le u (ds @ es) = needed_names le u ds @ needed_names le u es"
  by (simp add: needed_names_def)

lemma needed_names_longer:
  assumes "None \<notin> set (needed_names le u es)"
  shows "needed_names le (u @ rest) es = needed_names le u es"
proof -
  have "cstr (drop (unat (rdi le (d_un d))) (u @ rest)) = cstr (drop (unat (rdi le (d_un d))) u)"
    if "d \<in> set es" "rdi le (d_tag d) = DT_NEEDED" for d
  proof -
    from assms that have "cstr (drop (unat (rdi le (d_un d))) u) \<noteq> None" by (force simp: needed_names_def)
    then obtain n where "cstr (drop (unat (rdi le (d_un d))) u) = Some n" by blast
    with cstr_prefix [OF this] show ?thesis by simp
  qed
  then show ?thesis by (simp add: needed_names_def)
qed

lemma needed_names_new:
  assumes w: "elf_width TYPE('a::len)" and nul: "\<forall>l \<in> set libs. 0 \<notin> set l" and lt: "length u + length (names libs) < 2 ^ 32"
  shows "needed_names le (u @ names libs @ rest) (map (\<lambda>q. needed_entry le (of_nat q) :: 'a Elf_Dyn) (offsets (length u) libs)) = map Some libs"
proof -
  have w32: "32 \<le> LENGTH('a)" using w by (auto simp: elf_width_def)
  have "unat (rdi le (d_un (needed_entry le (of_nat q) :: 'a Elf_Dyn))) = q" if "q \<in> set (offsets (length u) libs)" for q
  proof -
    have "q < 2 ^ 32" using offsets_lt [OF that] lt by simp
    then have "q < 2 ^ LENGTH('a)" "q < 2 ^ LENGTH(64)" using power_increasing [OF w32, of "2::nat"] by simp_all
    then show ?thesis
      by (simp add: needed_entry_def elf_width_dvd [OF w] ucast_of_nat unat_of_nat)
  qed
  then have "needed_names le (u @ names libs @ rest) (map (\<lambda>q. needed_entry le (of_nat q) :: 'a Elf_Dyn) (offsets (length u) libs)) =
      map (\<lambda>p. cstr (drop p (u @ names libs @ rest))) (offsets (length u) libs)"
    by (simp add: needed_names_def needed_entry_def o_def elf_width_dvd [OF w] cong: map_cong)
  then show ?thesis by (simp only: strings_at_offsets [OF nul])
qed

lemma others_new: "elf_width TYPE('a::len) \<Longrightarrow>
  others le (map (\<lambda>q. needed_entry le (f q) :: 'a Elf_Dyn) qs @ es) = others le es"
  by (simp add: others_def needed_entry_def elf_width_dvd o_def)

section \<open>Adding libraries\<close>

lemma addNeeded_run:
  fixes s :: "'a::len ElfFile" and es :: "'a Elf_Dyn list"
  defines "z \<equiv> sizeof_Dyn TYPE('a)" and "dsz dynsh \<equiv> rdn s (sh_size dynsh)"
  assumes w: "elf_width TYPE('a)" and inv: "map_inv (replacedSections s)"
    and hs: "dynamic_hdr s = Inr dynsh" "dynstr_hdr s = Inr strsh"
    and u: "current s (str ''.dynstr'') = Inr u" "length u = rdn s (sh_size strsh)"
    and t: "current s (str ''.dynamic'') = Inr t" "length t \<le> dsz dynsh"
    and tab: "dyn_table (littleEndian s) t 0 es" and room: "z * (length es + 1) \<le> dsz dynsh"
    and small: "length u + length (names libs) + 1 < 2 ^ 32" "dsz dynsh + z * length libs < 2 ^ 32"
    and libs: "libs \<noteq> []"
  shows "\<exists>t'. addNeeded libs s = Inr ((put_copy (str ''.dynamic'') t' (put_copy (str ''.dynstr'') (u @ names libs @ [0]) s))\<lparr>changed := True\<rparr>) \<and>
    dyn_table (littleEndian s) t' 0 (map (\<lambda>q. needed_entry (littleEndian s) (of_nat q)) (offsets (length u) libs) @ es)"
proof -
  let ?le = "littleEndian s" and ?sz = "length u" and ?L = "length (names libs)"
  let ?u = "u @ names libs @ [0]" and ?k = "length libs"
  let ?s = "put_copy (str ''.dynstr'') ?u s" and ?N = "dsz dynsh + z * length libs"
  have w32: "32 \<le> LENGTH('a)" using w by (auto simp: elf_width_def)
  have size: "of_nat (rdn s (sh_size strsh)) + foldl (\<lambda>n lib. n + of_nat (length lib + 1)) 0 libs + 1 = (of_nat (?sz + ?L + 1) :: 32 word)"
    unfolding total_length by (simp add: u(2))
  have str: "replaceSection (str ''.dynstr'') (of_nat (?sz + ?L + 1)) s = Inr (put_copy (str ''.dynstr'') (u @ replicate (?L + 1) 0) s)"
    unfolding replaceSection_current u(1) of_nat_unat32 [OF small(1)] by (simp add: resize_prefix del: str_simps replicate_Suc)
  have "overwrite ?sz (names libs) (u @ replicate (?L + 1) 0) = ?u" by (simp add: overwrite_def flip: replicate_append_same)
  then have strs: "efold (add_lib_string strsh) (put_copy (str ''.dynstr'') (u @ replicate (?L + 1) 0) s, [], 0) libs =
      Inr (?s, map of_nat (offsets ?sz libs), of_nat ?L)"
    using add_strings [OF w32 inv, of "u @ replicate (?L + 1) 0" strsh 0 libs "[]"] small(1)
    by (simp add: u(2) [symmetric] del: str_simps replicate_Suc)
  have inv': "map_inv (replacedSections ?s)" using inv by simp
  have cur: "current ?s (str ''.dynamic'') = Inr t" using t(1) by (subst current_copy_other [OF inv]) simp_all
  have tabN: "dyn_table (littleEndian ?s) (resize ?N t) 0 es"
    using t(2) dyn_table_append [OF tab] by (simp add: resize_prefix)
  have N: "?N = rdn ?s (sh_size dynsh) + z * ?k" by (simp add: dsz_def)
  obtain t1 where grow: "grow_dynamic ?k dynsh ?s = Inr (put_copy (str ''.dynamic'') t1 ?s)" and t1: "length t1 = ?N"
      and tab1: "dyn_table ?le t1 (z * ?k) es"
    using grow_dynamic_spec(1) [OF w inv' cur N [unfolded z_def] small(2) [unfolded z_def] tabN [unfolded z_def]] room libs
    by (auto simp: z_def dsz_def simp del: str_simps)
  let ?vs = "map of_nat (offsets ?sz libs) :: 64 word list"
  let ?ds = "map (needed_entry ?le) ?vs :: 'a Elf_Dyn list"
  let ?t = "overwrite 0 (concat (map enc_Dyn ?ds)) t1"
  have ds: "length (concat (map enc_Dyn ?ds)) = z * ?k" by (simp add: z_def mult.commute del: map_map)
  have entries: "efold add_lib_entry (put_copy (str ''.dynamic'') t1 ?s, 0) ?vs = Inr (put_copy (str ''.dynamic'') ?t ?s, ?k)"
    using add_entries [OF inv', of t1 0 ?vs] small(2) t1 by (simp add: z_def mult.commute o_def del: str_simps)
  have end1: "z * ?k + length es * z + wsize TYPE('a) \<le> ?N" using tab1 by (simp add: dyn_table_def z_def t1)
  have "dyn_table ?le ?t (z * ?k) es"
    using end1 ds t1 by (intro dyn_table_chunks [OF tab1]) (simp_all add: chunk_overwrite_after flip: z_def)
  then have "dyn_table ?le ?t 0 (?ds @ es)"
    using ds t1 by (intro dyn_table_prepend)
      (simp_all add: z_def mult.commute overwrite_def needed_entry_def wri_def elf_width_dvd [OF w] del: map_map)
  moreover have "addNeeded libs s = Inr ((put_copy (str ''.dynamic'') ?t ?s)\<lparr>changed := True\<rparr>)"
    unfolding addNeeded_def hs ebind_Inr Let_def size str strs prod.case grow entries using libs by simp
  ultimately show ?thesis by (auto simp: o_def)
qed

text \<open>
  Property C5. Adding libraries refines putting names in front of a list. Let \<open>u\<close> and \<open>t\<close> be the
  contents of \<open>.dynstr\<close> and \<open>.dynamic\<close>, the latter a table \<open>es\<close> with room for its end mark, in which
  every \<open>DT_NEEDED\<close> entry refers to a string of \<open>u\<close>. Then \<open>addNeeded\<close> succeeds; its new \<open>.dynstr\<close>
  extends \<open>u\<close>, its new \<open>.dynamic\<close> is again a table, the libraries it names are the new ones followed
  by those named before, in their orders, its other entries are those it had, and nothing else of
  the state changes but the flag.
\<close>

theorem addNeeded_refines:
  fixes s :: "'a::len ElfFile" and es :: "'a Elf_Dyn list"
  assumes "elf_width TYPE('a)" and "map_inv (replacedSections s)"
    and "dynamic_hdr s = Inr dynsh" and "dynstr_hdr s = Inr strsh"
    and "current s (str ''.dynstr'') = Inr u" and "length u = rdn s (sh_size strsh)"
    and "current s (str ''.dynamic'') = Inr t" and "length t \<le> rdn s (sh_size dynsh)"
    and "dyn_table (littleEndian s) t 0 es" and "sizeof_Dyn TYPE('a) * (length es + 1) \<le> rdn s (sh_size dynsh)"
    and "None \<notin> set (needed_names (littleEndian s) u es)"
    and "length u + length (names libs) + 1 < 2 ^ 32"
    and "rdn s (sh_size dynsh) + sizeof_Dyn TYPE('a) * length libs < 2 ^ 32"
    and "libs \<noteq> []" and "\<forall>l \<in> set libs. 0 \<notin> set l"
  shows "\<exists>u' t' es'. addNeeded libs s = Inr ((put_copy (str ''.dynamic'') t' (put_copy (str ''.dynstr'') u' s))\<lparr>changed := True\<rparr>) \<and>
    dyn_table (littleEndian s) t' 0 es' \<and> take (length u) u' = u \<and>
    needed_names (littleEndian s) u' es' = map Some libs @ needed_names (littleEndian s) u es \<and>
    others (littleEndian s) es' = others (littleEndian s) es"
proof -
  let ?ds = "map (\<lambda>q. needed_entry (littleEndian s) (of_nat q) :: 'a Elf_Dyn) (offsets (length u) libs)"
  let ?u = "u @ names libs @ [0]"
  obtain t' where run: "addNeeded libs s = Inr ((put_copy (str ''.dynamic'') t' (put_copy (str ''.dynstr'') ?u s))\<lparr>changed := True\<rparr>)"
      and tab: "dyn_table (littleEndian s) t' 0 (?ds @ es)"
    using addNeeded_run [OF assms(1-10,12-14)] by blast
  have "length u + length (names libs) < 2 ^ 32" using assms(12) by simp
  then have "needed_names (littleEndian s) ?u (?ds @ es) = map Some libs @ needed_names (littleEndian s) u es"
    using needed_names_new [OF assms(1,15)] needed_names_longer [OF assms(11)] by (simp only: needed_names_append)
  with run tab others_new [OF assms(1)] show ?thesis
    by (intro exI [of _ ?u] exI [of _ t'] exI [of _ "?ds @ es"] conjI) simp_all
qed

theorem addNeeded_witness:
  "\<exists>u' t' es'. addNeeded [str ''b'', str ''cd''] ex_elf =
      Inr ((put_copy (str ''.dynamic'') t' (put_copy (str ''.dynstr'') u' ex_elf))\<lparr>changed := True\<rparr>) \<and>
    dyn_table True t' 0 es' \<and> take 8 u' = [0, 97, 0, 47, 112, 58, 113, 0] \<and>
    needed_names True u' es' = [Some (str ''b''), Some (str ''cd''), Some (str ''a'')] \<and>
    others True es' = drop 1 ex_dyns"
proof -
  let ?u = "[0, 97, 0, 47, 112, 58, 113, 0] :: bstring" and ?t = "chunk 64 32 (contents ex_elf)"
  have facts: "elf_width TYPE(32)" "map_inv (replacedSections ex_elf)"
    "dynamic_hdr ex_elf = Inr (shdrs ex_elf ! 3)" "dynstr_hdr ex_elf = Inr (shdrs ex_elf ! 2)"
    "current ex_elf (str ''.dynstr'') = Inr ?u" "length ?u = rdn ex_elf (sh_size (shdrs ex_elf ! 2))"
    "current ex_elf (str ''.dynamic'') = Inr ?t" "length ?t \<le> rdn ex_elf (sh_size (shdrs ex_elf ! 3))"
    "dyn_table (littleEndian ex_elf) ?t 0 ex_dyns" "sizeof_Dyn TYPE(32) * (length ex_dyns + 1) \<le> rdn ex_elf (sh_size (shdrs ex_elf ! 3))"
    "None \<notin> set (needed_names (littleEndian ex_elf) ?u ex_dyns)"
    by code_simp+
  have nums: "rdn ex_elf (sh_size (shdrs ex_elf ! 3)) = 32" "sizeof_Dyn TYPE(32) = 8" "littleEndian ex_elf = True"
    "length (names [str ''b'', str ''cd'']) = 5" "\<forall>l \<in> set [str ''b'', str ''cd'']. 0 \<notin> set l"
    "needed_names True ?u ex_dyns = [Some (str ''a'')]" "others True ex_dyns = drop 1 ex_dyns" by code_simp+
  have small: "length ?u + length (names [str ''b'', str ''cd'']) + 1 < 2 ^ 32"
    "rdn ex_elf (sh_size (shdrs ex_elf ! 3)) + sizeof_Dyn TYPE(32) * length [str ''b'', str ''cd''] < 2 ^ 32"
    by (simp_all add: nums)
  have ne: "[str ''b'', str ''cd''] \<noteq> []" and sizes: "length ?u = 8"
    "map Some [str ''b'', str ''cd''] @ [Some (str ''a'')] = [Some (str ''b''), Some (str ''cd''), Some (str ''a'')]" by simp_all
  show ?thesis using addNeeded_refines [OF facts small ne nums(5)] unfolding nums(3,6,7) sizes .
qed

section \<open>A full dynamic section\<close>

lemma current_put: "map_inv (replacedSections s) \<Longrightarrow> current (put_copy nm t s) nm = Inr t"
  by (simp add: current_def map_of_copy)

lemma resize_same: "resize (length t) t = t"
  by (simp add: resize_def)

text \<open>
  Property C28. A dynamic section with no spare entries takes one new entry in a run, not two. The
  first is put in front of the table; the second call computes the size of the copy from the
  section header, which still has the old size, and ends in the assertion of \<open>setSubstr\<close>.
\<close>

theorem second_entry_fails:
  fixes s :: "'a::len ElfFile" and es :: "'a Elf_Dyn list"
  assumes "elf_width TYPE('a)" and "map_inv (replacedSections s)"
    and "current s (str ''.dynamic'') = Inr t" and "length t = rdn s (sh_size dynsh)"
    and "dyn_table (littleEndian s) t 0 es" and "rdn s (sh_size dynsh) = sizeof_Dyn TYPE('a) * (length es + 1)"
    and "sizeof_Dyn TYPE('a) * (length es + 2) < 2 ^ 32"
    and "rdi (littleEndian s) (d_tag d) \<noteq> 0" and "rdi (littleEndian s) (d_tag d') \<noteq> 0"
  shows "\<exists>t'. add_dyn d dynsh s = Inr (put_copy (str ''.dynamic'') t' s) \<and>
    dyn_table (littleEndian s) t' 0 (d # es) \<and>
    add_dyn d' dynsh (put_copy (str ''.dynamic'') t' s) = Inl AssertFailed"
proof -
  let ?N = "rdn s (sh_size dynsh) + sizeof_Dyn TYPE('a)"
  have z: "0 < sizeof_Dyn TYPE('a)" using assms(1) by (auto simp: sizeof_Dyn_def wsize_elf_width)
  have N: "?N < 2 ^ 32" using assms(6,7) by (simp add: algebra_simps)
  have tab: "dyn_table (littleEndian s) (resize ?N t) 0 es"
    using dyn_table_append [OF assms(5)] assms(4) by (simp add: resize_prefix)
  obtain t' where first: "add_dyn d dynsh s = Inr (put_copy (str ''.dynamic'') t' s)" "length t' = ?N"
      "dyn_table (littleEndian s) t' 0 (d # es)"
    using add_dyn_spec(1) [OF assms(1-3) refl N tab assms(8)] assms(6) by auto
  let ?s = "put_copy (str ''.dynamic'') t' s"
  have "add_dyn d' dynsh ?s = Inl AssertFailed"
  proof (rule add_dyn_spec(2) [OF assms(1)])
    show "map_inv (replacedSections ?s)" using assms(2) by simp
    show "current ?s (str ''.dynamic'') = Inr t'" by (rule current_put [OF assms(2)])
    show "dyn_table (littleEndian ?s) (resize ?N t') 0 (d # es)"
      using first(3) resize_same [of t'] by (simp add: first(2))
  qed (use N assms(6,9) z in simp_all)
  with first show ?thesis by blast
qed

theorem second_entry_witness:
  "\<exists>t'. add_dyn \<lparr>d_tag = DT_SONAME, d_un = 3\<rparr> (shdrs ex_elf ! 3) ex_elf = Inr (put_copy (str ''.dynamic'') t' ex_elf) \<and>
    dyn_table (littleEndian ex_elf) t' 0 (\<lparr>d_tag = DT_SONAME, d_un = 3\<rparr> # ex_dyns) \<and>
    add_dyn \<lparr>d_tag = DT_RUNPATH, d_un = 1\<rparr> (shdrs ex_elf ! 3) (put_copy (str ''.dynamic'') t' ex_elf) = Inl AssertFailed"
proof (rule second_entry_fails [where t = "chunk 64 32 (contents ex_elf)"])
  show "sizeof_Dyn TYPE(32) * (length ex_dyns + 2) < 2 ^ 32" by (simp add: sizeof_Dyn_def ex_dyns_def)
qed code_simp+

end
