(* ===== verification/ElfSearchProps.thy ===== *)
theory ElfSearchProps
  imports ElfSearch ElfGrowProps
begin

text \<open>
  Setting the search path. Whether it is changed in place, put into a longer string table or given by a new
  entry: in the sections that are written, the search path is the new one.
\<close>

section \<open>Entries that are updated\<close>

lemma tags_update: "tags le (es[k := d]) = (tags le es)[k := rdi le (d_tag d)]"
  by (simp add: tags_def map_update)

lemma last_idx_update: "x \<notin> set ts \<Longrightarrow> k < length ts \<Longrightarrow> last_idx x (ts[k := x]) = Some k"
proof (induction ts arbitrary: k)
  case (Cons t ts)
  then show ?case by (cases k) (auto simp: last_idx_None split: option.split)
qed simp

definition is_path :: "bool \<Rightarrow> 'a::len Elf_Dyn \<Rightarrow> bool" where
  "is_path le d \<longleftrightarrow> rdi le (d_tag d) = DT_RPATH \<or> rdi le (d_tag d) = DT_RUNPATH"

lemma filter_update: "k < length xs \<Longrightarrow> \<not> P (xs ! k) \<Longrightarrow> \<not> P y \<Longrightarrow> filter P (xs[k := y]) = filter P xs"
proof (induction xs arbitrary: k)
  case (Cons x xs)
  then show ?case by (cases k) auto
qed simp

lemma is_path_last: "last_idx DT_RPATH (tags le es) = Some k \<or> last_idx DT_RUNPATH (tags le es) = Some k \<Longrightarrow>
    k < length es \<and> is_path le (es ! k)"
  by (auto dest!: last_idx_Some simp: is_path_def tags_nth)

lemma is_path_tags: "tags le es' = tags le es \<Longrightarrow> k < length es \<Longrightarrow> is_path le (es' ! k) = is_path le (es ! k)"
  unfolding is_path_def by (metis tags_simps(3) tags_nth)

text \<open>The conversion of the tag keeps the entry that counts.\<close>

lemma convert_path:
  fixes s :: "'a::len ElfFile" and es :: "'a Elf_Dyn list"
  assumes w: "elf_width TYPE('a)" and at: "sections_at s dyn dsz strTab u es"
    and r: "dynRPath r = entry_at TYPE('a) dyn (last_idx DT_RPATH (tags (littleEndian s) es)) None"
      "dynRunPath r = entry_at TYPE('a) dyn (last_idx DT_RUNPATH (tags (littleEndian s) es)) None"
    and k: "path_idx (tags (littleEndian s) es) = Some k"
    and le: "littleEndian s \<or> DT_RPATH \<notin> set (tags (littleEndian s) es)"
    and force: "\<not> forceRPath s \<or> DT_RUNPATH \<notin> set (tags (littleEndian s) es)"
  shows "\<exists>c es' i j. convert_rpath r s = Inr (s\<lparr>contents := c\<rparr>, entry_at TYPE('a) dyn i None, entry_at TYPE('a) dyn j None) \<and>
    hdr (s\<lparr>contents := c\<rparr>) = hdr s \<and> sections_at (s\<lparr>contents := c\<rparr>) dyn dsz strTab u es' \<and>
    path_idx (tags (littleEndian s) es') = Some k \<and> d_un (es' ! k) = d_un (es ! k) \<and>
    filter (\<lambda>d. \<not> is_path (littleEndian s) d) es' = filter (\<lambda>d. \<not> is_path (littleEndian s) d) es \<and>
    (i = Some k \<or> j = Some k) \<and> (\<forall>m. i = Some m \<or> j = Some m \<longrightarrow> m < length es' \<and> is_path (littleEndian s) (es' ! m))"
proof (cases "\<not> forceRPath s \<and> last_idx DT_RUNPATH (tags (littleEndian s) es) = None")
  case True
  let ?le = "littleEndian s"
  have A: "last_idx DT_RPATH (tags ?le es) = Some k" using k True by (simp add: path_idx_def)
  have kl: "k < length es" "is_path ?le (es ! k)" using is_path_last A by blast+
  have noB: "DT_RUNPATH \<notin> set (tags ?le es)" using True by (simp add: last_idx_None)
  have "DT_RPATH \<in> set (tags ?le es)" using A last_idx_None [of DT_RPATH "tags ?le es"] by auto
  then have little: "?le" using le by blast
  then have rdi: "rdi ?le (DT_RUNPATH :: 'a word) = DT_RUNPATH" by (simp add: elf_width_dvd [OF w])
  have tag: "rdi ?le (DT_RUNPATH :: 'a word) \<noteq> 0" using small_tags(5) [OF w] by (simp only: rdi) simp
  obtain c where c: "wr s (dyn + k * sizeof_Dyn TYPE('a)) (wbytes (DT_RUNPATH :: 'a word)) = Inr (s\<lparr>contents := c\<rparr>)"
      "hdr (s\<lparr>contents := c\<rparr>) = hdr s" "sections_at (s\<lparr>contents := c\<rparr>) dyn dsz strTab u (es[k := (es ! k)\<lparr>d_tag := DT_RUNPATH\<rparr>])"
    using set_tag [OF at kl(1) tag] by blast
  let ?es = "es[k := (es ! k)\<lparr>d_tag := DT_RUNPATH\<rparr>]"
  have run: "convert_rpath r s = Inr (s\<lparr>contents := c\<rparr>, entry_at TYPE('a) dyn None None, entry_at TYPE('a) dyn (Some k) None)"
    using True by (simp add: convert_rpath_def r A entry_at_def c(1))
  have "path_idx (tags ?le ?es) = Some k"
    using last_idx_update [OF noB, of k] kl(1) by (simp add: path_idx_def tags_update rdi)
  moreover have "is_path ?le ((es ! k)\<lparr>d_tag := DT_RUNPATH\<rparr>)" by (simp add: is_path_def rdi)
  moreover from this have "filter (\<lambda>d. \<not> is_path ?le d) ?es = filter (\<lambda>d. \<not> is_path ?le d) es"
    using kl by (intro filter_update) simp_all
  ultimately show ?thesis using run c(2,3) kl by (intro exI [of _ c] exI [of _ ?es] exI [of _ None] exI [of _ "Some k"]) auto
next
  case False
  let ?le = "littleEndian s"
  let ?A = "last_idx DT_RPATH (tags ?le es)" and ?B = "last_idx DT_RUNPATH (tags ?le es)"
  have "\<not> forceRPath s \<or> ?B = None" using force by (simp add: last_idx_None)
  then have "convert_rpath r s = Inr (s, entry_at TYPE('a) dyn ?A None, entry_at TYPE('a) dyn ?B None)"
    using False by (auto simp: convert_rpath_def r entry_at_def split: option.split)
  moreover have "s\<lparr>contents := contents s\<rparr> = s" by simp
  moreover have "?A = Some k \<or> ?B = Some k" using k by (auto simp: path_idx_def split: option.splits)
  moreover have "m < length es \<and> is_path ?le (es ! m)" if "?A = Some m \<or> ?B = Some m" for m using is_path_last that by blast
  ultimately show ?thesis using k at
    by (intro exI [of _ "contents s"] exI [of _ es] exI [of _ ?A] exI [of _ ?B]) auto
qed

text \<open>Storing a value in the entries.\<close>

lemma set_path_value:
  fixes s :: "'a::len ElfFile" and es :: "'a Elf_Dyn list"
  assumes at: "sections_at s dyn dsz strTab u es" and i: "\<forall>m. i = Some m \<longrightarrow> m < length es \<and> is_path (littleEndian s) (es ! m)"
  shows "\<exists>c es'. (case entry_at TYPE('a) dyn i None of None \<Rightarrow> Inr s | Some q \<Rightarrow> set_d_un q v s) = Inr (s\<lparr>contents := c\<rparr>) \<and>
    hdr (s\<lparr>contents := c\<rparr>) = hdr s \<and> sections_at (s\<lparr>contents := c\<rparr>) dyn dsz strTab u es' \<and>
    tags (littleEndian s) es' = tags (littleEndian s) es \<and>
    (\<forall>k < length es. d_un (es' ! k) = (if i = Some k then v else d_un (es ! k))) \<and>
    filter (\<lambda>d. \<not> is_path (littleEndian s) d) es' = filter (\<lambda>d. \<not> is_path (littleEndian s) d) es"
proof (cases i)
  case None
  have "s\<lparr>contents := contents s\<rparr> = s" by simp
  with None at show ?thesis by (intro exI [of _ "contents s"] exI [of _ es]) (simp add: entry_at_def)
next
  case (Some m)
  with i have m: "m < length es" "is_path (littleEndian s) (es ! m)" by simp_all
  let ?es = "es[m := (es ! m)\<lparr>d_un := v\<rparr>]"
  have t: "tags (littleEndian s) ?es = tags (littleEndian s) es"
    using m(1) by (simp add: tags_update) (metis list_update_id tags_nth)
  have f: "filter (\<lambda>d. \<not> is_path (littleEndian s) d) ?es = filter (\<lambda>d. \<not> is_path (littleEndian s) d) es"
    using m by (intro filter_update) (simp_all add: is_path_def)
  have v: "\<forall>k < length es. d_un (?es ! k) = (if i = Some k then v else d_un (es ! k))"
    by (simp add: Some nth_list_update)
  obtain c where c: "set_d_un (dyn + m * sizeof_Dyn TYPE('a)) v s = Inr (s\<lparr>contents := c\<rparr>)" "hdr (s\<lparr>contents := c\<rparr>) = hdr s"
      "sections_at (s\<lparr>contents := c\<rparr>) dyn dsz strTab u ?es" using set_value [OF at m(1), of v] by blast
  have run: "(case entry_at TYPE('a) dyn i None of None \<Rightarrow> Inr s | Some q \<Rightarrow> set_d_un q v s) = Inr (s\<lparr>contents := c\<rparr>)"
    by (simp add: entry_at_def Some c(1))
  show ?thesis by (intro exI conjI) (rule run c(2,3) t v f)+
qed

lemma name_view_contents: "hdr (s\<lparr>contents := c\<rparr>) = hdr s \<Longrightarrow> name_view (s\<lparr>contents := c\<rparr>) = name_view s"
  by (simp add: name_view_def shnum_def rdn_def)

lemma section_hdr_view: "name_view s' = name_view s \<Longrightarrow> shdrs s' = shdrs s \<Longrightarrow> section_hdr s' nm = section_hdr s nm"
  using findSection_view(3) [of s' s nm] by (simp add: section_hdr_def)

text \<open>The contents of a section that has no copy.\<close>

lemma current_in_file:
  fixes s :: "'a::len ElfFile"
  assumes "sections_at s dyn dsz strTab u es" and "map_of (replacedSections s) nm = None" and "section_hdr s nm = Inr sh"
  shows "rdn s (sh_offset sh) = strTab \<Longrightarrow> rdn s (sh_size sh) = length u \<Longrightarrow> current s nm = Inr u"
    and "rdn s (sh_offset sh) = dyn \<Longrightarrow> rdn s (sh_size sh) = dsz \<Longrightarrow>
      \<exists>t. current s nm = Inr t \<and> length t = dsz \<and> dyn_table (littleEndian s) t 0 es"
proof -
  show "current s nm = Inr u" if "rdn s (sh_offset sh) = strTab" "rdn s (sh_size sh) = length u"
    using assms that by (simp add: current_def rd_Inr) (simp add: sections_at_def)
  show "\<exists>t. current s nm = Inr t \<and> length t = dsz \<and> dyn_table (littleEndian s) t 0 es"
    if "rdn s (sh_offset sh) = dyn" "rdn s (sh_size sh) = dsz"
  proof (intro exI conjI)
    have b: "dyn + dsz \<le> fileSize s" "length es * sizeof_Dyn TYPE('a) + wsize TYPE('a) \<le> dsz"
      and tab: "dyn_table (littleEndian s) (contents s) dyn es" using assms(1) by (simp_all add: sections_at_def)
    show "current s nm = Inr (chunk dyn dsz (contents s))" using assms(2,3) that b(1) by (simp add: current_def rd_Inr)
    show "length (chunk dyn dsz (contents s)) = dsz" using b(1) by (simp add: fileSize_def)
    show "dyn_table (littleEndian s) (chunk dyn dsz (contents s)) 0 es"
      using b by (intro dyn_table_chunks [OF tab]) (simp_all add: fileSize_def chunk_chunk del: chunk_0_eq_take)
  qed
qed

section \<open>The sections that will be written\<close>

text \<open>
  In the dynamic section and the string table that are written, copies where there are copies, the search path is
  \<open>path\<close> and the entries that do not belong to it are \<open>rest\<close>.
\<close>

definition search_path_is :: "'a::len ElfFile \<Rightarrow> bstring \<Rightarrow> 'a Elf_Dyn list \<Rightarrow> bool" where
  "search_path_is s path rest \<longleftrightarrow>
     (\<exists>t u es. current s (str ''.dynamic'') = Inr t \<and> current s (str ''.dynstr'') = Inr u \<and>
        dyn_table (littleEndian s) t 0 es \<and> search_string (littleEndian s) u es = Some path \<and>
        filter (\<lambda>d. \<not> is_path (littleEndian s) d) es = rest)"

text \<open>The string is put behind \<open>u\<close>, over what the copy has there.\<close>

lemma add_string_over:
  assumes "current s (str ''.dynstr'') = Inr (u @ r)" and "length u = rdn s (sh_size strsh)" and "map_inv (replacedSections s)"
    and small: "length u + length p + 1 < 2 ^ 32"
  shows "add_string p strsh s = Inr (put_copy (str ''.dynstr'') (u @ p @ [0]) s)"
proof -
  have w: "unat (of_nat (length u + length p + 1) :: 32 word) = length u + length p + 1"
    "unat (of_nat (length u) :: 32 word) = length u"
    by (rule of_nat_unat32; use small in simp)+
  define x where "x = resize (length p + 1) r"
  have x: "length x = length p + 1" by (simp add: x_def)
  have r: "resize (length u + length p + 1) (u @ r) = u @ x" by (simp add: resize_def x_def)
  have o: "overwrite (length u) (p @ [0]) (u @ x) = u @ p @ [0]" using x by (simp add: overwrite_def)
  show ?thesis unfolding add_string_def replaceSection_current assms(1) assms(2) [symmetric] ebind_Inr w(1) r put_copy_fields
    using set_replaced_copy [OF assms(3), of "str ''.dynstr''" "of_nat (length u)" "p @ [0]" "u @ x"]
    by (simp only: w(2) o assms(2) [symmetric]) (simp add: x)
qed

lemma add_string_spec:
  assumes "current s (str ''.dynstr'') = Inr u" and "length u = rdn s (sh_size strsh)" and "map_inv (replacedSections s)"
    and "length u + length p + 1 < 2 ^ 32"
  shows "add_string p strsh s = Inr (put_copy (str ''.dynstr'') (u @ p @ [0]) s)"
  by (rule add_string_over [of _ _ "[]", OF _ assms(2-4)]) (simp add: assms(1) del: str_simps)

text \<open>What a step that only changes the contents keeps.\<close>

lemma edit_frame:
  assumes "hdr (s\<lparr>contents := c\<rparr>) = hdr s"
  shows "name_view (s\<lparr>contents := c\<rparr>) = name_view s" and "section_hdr (s\<lparr>contents := c\<rparr>) nm = section_hdr s nm"
    and "rdn (s\<lparr>contents := c\<rparr>) n = rdn s n"
  using name_view_contents [OF assms] section_hdr_view [OF name_view_contents [OF assms]] by (simp_all add: rdn_def)

lemma search_path_isI:
  assumes "current s (str ''.dynamic'') = Inr t" and "current s (str ''.dynstr'') = Inr u" and "dyn_table (littleEndian s) t 0 es"
    and "path_idx (tags (littleEndian s) es) = Some k" and "cstr (drop (rdn s (d_un (es ! k))) u) = Some path"
    and "filter (\<lambda>d. \<not> is_path (littleEndian s) d) es = rest"
  shows "search_path_is s path rest"
  unfolding search_path_is_def search_string_def using assms by (intro exI [of _ t] exI [of _ u] exI [of _ es]) (simp add: rdn_def)

lemma search_path_unchanged:
  fixes s :: "'a::len ElfFile" and es :: "'a Elf_Dyn list"
  assumes at: "sections_at s dyn dsz strTab u es"
    and fresh: "map_of (replacedSections s) (str ''.dynamic'') = None" "map_of (replacedSections s) (str ''.dynstr'') = None"
    and hs: "section_hdr s (str ''.dynamic'') = Inr dynsh" "section_hdr s (str ''.dynstr'') = Inr strsh"
    and offs: "rdn s (sh_offset dynsh) = dyn" "rdn s (sh_size dynsh) = dsz" "rdn s (sh_offset strsh) = strTab" "rdn s (sh_size strsh) = length u"
    and k: "path_idx (tags (littleEndian s) es) = Some k" "cstr (drop (rdn s (d_un (es ! k))) u) = Some path"
  shows "search_path_is s path (filter (\<lambda>d. \<not> is_path (littleEndian s) d) es)"
proof -
  obtain t where "current s (str ''.dynamic'') = Inr t" "dyn_table (littleEndian s) t 0 es"
    using current_in_file(2) [OF at fresh(1) hs(1)] offs by auto
  moreover have "current s (str ''.dynstr'') = Inr u" using current_in_file(1) [OF at fresh(2) hs(2)] offs by simp
  ultimately show ?thesis using k by (intro search_path_isI [of s t u es k]) simp_all
qed

text \<open>A path that fits is written over the old one.\<close>

lemma write_path_in_place:
  fixes s :: "'a::len ElfFile" and es :: "'a Elf_Dyn list"
  assumes at: "sections_at s dyn dsz strTab u es"
    and fresh: "map_of (replacedSections s) (str ''.dynamic'') = None" "map_of (replacedSections s) (str ''.dynstr'') = None"
    and hs: "section_hdr s (str ''.dynamic'') = Inr dynsh" "section_hdr s (str ''.dynstr'') = Inr strsh"
    and offs: "rdn s (sh_offset dynsh) = dyn" "rdn s (sh_size dynsh) = dsz" "rdn s (sh_offset strsh) = strTab" "rdn s (sh_size strsh) = length u"
    and k: "path_idx (tags (littleEndian s) es) = Some k" and new: "0 \<notin> set new"
    and v: "v = rdn s (d_un (es ! k))" and fits: "v + length new < length u"
  shows "\<exists>s'. wr s (strTab + v) (new @ [0]) = Inr s' \<and> littleEndian s' = littleEndian s \<and>
    search_path_is s' new (filter (\<lambda>d. \<not> is_path (littleEndian s) d) es)"
proof -
  let ?u = "overwrite v (new @ [0]) u"
  obtain c where c: "wr s (strTab + v) (new @ [0]) = Inr (s\<lparr>contents := c\<rparr>)" "hdr (s\<lparr>contents := c\<rparr>) = hdr s"
      "sections_at (s\<lparr>contents := c\<rparr>) dyn dsz strTab ?u es"
    using set_string [OF at, of v "new @ [0]"] fits by auto
  define s' where "s' = s\<lparr>contents := c\<rparr>"
  have s': "littleEndian s' = littleEndian s" "replacedSections s' = replacedSections s" by (simp_all add: s'_def)
  have rd: "rdn s' w = rdn s w" for w :: "'b::len word" by (simp add: rdn_def s')
  have hs': "section_hdr s' nm = section_hdr s nm" for nm unfolding s'_def by (rule edit_frame(2) [OF c(2)])
  have "drop v ?u = new @ 0 # drop (v + length new + 1) u" using fits by (simp add: overwrite_def)
  then have "search_path_is s' new (filter (\<lambda>d. \<not> is_path (littleEndian s') d) es)"
    using fits offs k new v
    by (intro search_path_unchanged [OF c(3) [folded s'_def] fresh [folded s'(2)] hs [folded hs'], of k]) (simp_all add: rd s' cstr_append)
  then show ?thesis using c(1) s' by (simp flip: s'_def)
qed

text \<open>
  A longer one goes to the end of the string table, where the section header says that it is, over what
  a copy may have there, and the entries get its offset.
\<close>

lemma write_path_longer:
  fixes s :: "'a::len ElfFile" and es :: "'a Elf_Dyn list"
  assumes at: "sections_at s dyn dsz strTab u es"
    and fresh: "map_of (replacedSections s) (str ''.dynamic'') = None" and hs: "section_hdr s (str ''.dynamic'') = Inr dynsh"
    and str: "current s (str ''.dynstr'') = Inr (u' @ x)"
    and offs: "rdn s (sh_offset dynsh) = dyn" "rdn s (sh_size dynsh) = dsz" "rdn s (sh_size strsh) = length u'"
    and k: "path_idx (tags (littleEndian s) es) = Some k" and new: "0 \<notin> set new"
    and inv: "map_inv (replacedSections s)" and small: "length u' + length new + 1 < 2 ^ 32"
    and ij: "i = Some k \<or> j = Some k" "\<forall>m. i = Some m \<or> j = Some m \<longrightarrow> m < length es \<and> is_path (littleEndian s) (es ! m)"
  shows "\<exists>s'. ebind (add_string new strsh s) (\<lambda>s.
      ebind (case entry_at TYPE('a) dyn j None of None \<Rightarrow> Inr s | Some q \<Rightarrow> set_d_un q (sh_size strsh) s) (\<lambda>s.
      case entry_at TYPE('a) dyn i None of None \<Rightarrow> Inr s | Some p \<Rightarrow> set_d_un p (sh_size strsh) s)) = Inr s' \<and>
    littleEndian s' = littleEndian s \<and> search_path_is s' new (filter (\<lambda>d. \<not> is_path (littleEndian s) d) es) \<and>
    current s' (str ''.dynstr'') = Inr (u' @ new @ [0])"
proof -
  let ?v = "sh_size strsh" and ?u = "u' @ new @ [0]" and ?le = "littleEndian s"
  define s4 where "s4 = put_copy (str ''.dynstr'') ?u s"
  have add: "add_string new strsh s = Inr s4"
    unfolding s4_def using small offs(3) by (intro add_string_over [OF str _ inv]) simp_all
  have s4: "littleEndian s4 = ?le" "map_of (replacedSections s4) = (map_of (replacedSections s))(str ''.dynstr'' \<mapsto> ?u)"
    using map_of_copy [OF inv, of "str ''.dynstr''" ?u] by (simp_all add: s4_def del: str_simps)
  have at4: "sections_at s4 dyn dsz strTab u es" using at sections_at_cong [of s4 s dyn dsz strTab u es] by (simp add: s4_def)
  obtain c5 es5 where c5: "(case entry_at TYPE('a) dyn j None of None \<Rightarrow> Inr s4 | Some q \<Rightarrow> set_d_un q ?v s4) = Inr (s4\<lparr>contents := c5\<rparr>)"
      "hdr (s4\<lparr>contents := c5\<rparr>) = hdr s4" "sections_at (s4\<lparr>contents := c5\<rparr>) dyn dsz strTab u es5"
    and es5: "tags ?le es5 = tags ?le es" "\<forall>k < length es. d_un (es5 ! k) = (if j = Some k then ?v else d_un (es ! k))"
      "filter (\<lambda>d. \<not> is_path ?le d) es5 = filter (\<lambda>d. \<not> is_path ?le d) es"
    using set_path_value [OF at4, of j ?v] ij(2) unfolding s4(1) by blast
  define s5 where "s5 = s4\<lparr>contents := c5\<rparr>"
  have len5: "length es5 = length es" using arg_cong [OF es5(1), of length] by simp
  have ip5: "\<forall>m. i = Some m \<longrightarrow> m < length es5 \<and> is_path (littleEndian s5) (es5 ! m)"
    using ij(2) len5 es5(1) is_path_tags [OF es5(1)] by (simp add: s5_def s4(1))
  obtain c6 es6 where c6: "(case entry_at TYPE('a) dyn i None of None \<Rightarrow> Inr s5 | Some q \<Rightarrow> set_d_un q ?v s5) = Inr (s5\<lparr>contents := c6\<rparr>)"
      "hdr (s5\<lparr>contents := c6\<rparr>) = hdr s5" "sections_at (s5\<lparr>contents := c6\<rparr>) dyn dsz strTab u es6"
    and es6: "tags (littleEndian s5) es6 = tags (littleEndian s5) es5" "\<forall>k < length es5. d_un (es6 ! k) = (if i = Some k then ?v else d_un (es5 ! k))"
      "filter (\<lambda>d. \<not> is_path (littleEndian s5) d) es6 = filter (\<lambda>d. \<not> is_path (littleEndian s5) d) es5"
    using set_path_value [OF c5(3) [folded s5_def] ip5, of ?v] by blast
  define s6 where "s6 = s5\<lparr>contents := c6\<rparr>"
  have le5: "littleEndian s5 = ?le" "littleEndian s6 = ?le" by (simp_all add: s6_def s5_def s4(1))
  have rep6: "map_of (replacedSections s6) = (map_of (replacedSections s))(str ''.dynstr'' \<mapsto> ?u)" by (simp add: s6_def s5_def s4(2) del: str_simps)
  have rd6: "rdn s6 w = rdn s w" for w :: "'b::len word" by (simp add: rdn_def le5)
  have view4: "section_hdr s4 nm = section_hdr s nm" for nm
    using section_hdr_view [of s4 s nm] by (simp add: s4_def del: str_simps)
  have hs6: "section_hdr s6 nm = section_hdr s nm" for nm
    using edit_frame(2) [OF c6(2), of nm] edit_frame(2) [OF c5(2), of nm] view4 [of nm] by (simp add: s6_def s5_def)
  have "map_of (replacedSections s6) (str ''.dynamic'') = None" using fresh by (simp add: rep6)
  from current_in_file(2) [OF c6(3) [folded s6_def] this hs [folded hs6]] obtain t
    where t: "current s6 (str ''.dynamic'') = Inr t" "dyn_table (littleEndian s6) t 0 es6" using offs by (auto simp: rd6)
  have u6: "current s6 (str ''.dynstr'') = Inr ?u" by (simp add: current_def rep6)
  have "d_un (es6 ! k) = ?v" using ij(1) path_idx_Some [OF k] es5(2) es6(2) by (auto simp: len5)
  then have "cstr (drop (rdn s6 (d_un (es6 ! k))) ?u) = Some new" using new by (simp add: rd6 offs(3) cstr_append)
  then have "search_path_is s6 new (filter (\<lambda>d. \<not> is_path ?le d) es)"
    using t u6 k es5 es6 by (intro search_path_isI [of s6 t ?u es6 k]) (simp_all add: le5)
  then show ?thesis using le5(2) u6 unfolding add ebind_Inr c5(1) s5_def [symmetric] c6(1) s6_def [symmetric] by blast
qed

text \<open>The first half of \<open>set_rpath\<close> on a file with a search path: the old string is crossed out, and the tag converted.\<close>

lemma set_rpath_begins:
  fixes s :: "'a::len ElfFile" and es :: "'a Elf_Dyn list"
  assumes w: "elf_width TYPE('a)" and at: "sections_at s dyn dsz strTab u es"
    and r: "dynRPath r = entry_at TYPE('a) dyn (last_idx DT_RPATH (tags (littleEndian s) es)) None"
      "dynRunPath r = entry_at TYPE('a) dyn (last_idx DT_RUNPATH (tags (littleEndian s) es)) None"
      "rpath_pos r = Some (strTab + v)"
    and k: "path_idx (tags (littleEndian s) es) = Some k"
    and le: "littleEndian s \<or> DT_RPATH \<notin> set (tags (littleEndian s) es)"
    and force: "\<not> forceRPath s \<or> DT_RUNPATH \<notin> set (tags (littleEndian s) es)"
    and old: "cstr (drop v u) = Some old"
  obtains s3 u2 es2 i j where "set_rpath new old r dynsh strsh s =
      (if length new \<le> length old then wr s3 (strTab + v) (new @ [0])
       else ebind (add_string new strsh s3) (\<lambda>s.
            ebind (case entry_at TYPE('a) dyn j None of None \<Rightarrow> Inr s | Some q \<Rightarrow> set_d_un q (sh_size strsh) s) (\<lambda>s.
            case entry_at TYPE('a) dyn i None of None \<Rightarrow> Inr s | Some p \<Rightarrow> set_d_un p (sh_size strsh) s)))"
    and "littleEndian s3 = littleEndian s" and "replacedSections s3 = replacedSections s"
    and "\<And>nm. section_hdr s3 nm = section_hdr s nm" and "length u2 = length u" and "sections_at s3 dyn dsz strTab u2 es2"
    and "path_idx (tags (littleEndian s) es2) = Some k" and "d_un (es2 ! k) = d_un (es ! k)"
    and "filter (\<lambda>d. \<not> is_path (littleEndian s) d) es2 = filter (\<lambda>d. \<not> is_path (littleEndian s) d) es"
    and "i = Some k \<or> j = Some k" and "\<forall>m. i = Some m \<or> j = Some m \<longrightarrow> m < length es2 \<and> is_path (littleEndian s) (es2 ! m)"
proof -
  let ?le = "littleEndian s" and ?rest = "filter (\<lambda>d. \<not> is_path (littleEndian s) d) es"
  have vold: "v + length old < length u" using cstr_length [OF old] by simp
  define s1 where "s1 = s\<lparr>changed := True\<rparr>"
  have at1: "sections_at s1 dyn dsz strTab u es" using at by (simp add: s1_def sections_at_cong [of "s\<lparr>changed := True\<rparr>" s])
  obtain c1 where c1: "wr s1 (strTab + v) (replicate (length old) 88) = Inr (s1\<lparr>contents := c1\<rparr>)" "hdr (s1\<lparr>contents := c1\<rparr>) = hdr s1"
      "sections_at (s1\<lparr>contents := c1\<rparr>) dyn dsz strTab (overwrite v (replicate (length old) 88) u) es"
    using set_string [OF at1, of v "replicate (length old) 88"] vold by auto
  define s2 where "s2 = s1\<lparr>contents := c1\<rparr>"
  define u2 where "u2 = overwrite v (replicate (length old) 88) u"
  have u2: "length u2 = length u" using vold by (simp add: u2_def)
  have s2: "littleEndian s2 = ?le" "forceRPath s2 = forceRPath s" by (simp_all add: s2_def s1_def)
  obtain c2 es2 i j where conv: "convert_rpath r s2 = Inr (s2\<lparr>contents := c2\<rparr>, entry_at TYPE('a) dyn i None, entry_at TYPE('a) dyn j None)"
      and c2: "hdr (s2\<lparr>contents := c2\<rparr>) = hdr s2" "sections_at (s2\<lparr>contents := c2\<rparr>) dyn dsz strTab u2 es2"
      and es2: "path_idx (tags ?le es2) = Some k" "d_un (es2 ! k) = d_un (es ! k)"
        "filter (\<lambda>d. \<not> is_path ?le d) es2 = ?rest"
      and ij: "i = Some k \<or> j = Some k" "\<forall>m. i = Some m \<or> j = Some m \<longrightarrow> m < length es2 \<and> is_path ?le (es2 ! m)"
    using convert_path [OF w c1(3) [folded s2_def u2_def] r(1,2) [folded s2(1)] k [folded s2(1)]] le force unfolding s2 by blast
  define s3 where "s3 = s2\<lparr>contents := c2\<rparr>"
  have s3: "littleEndian s3 = ?le" "replacedSections s3 = replacedSections s" by (simp_all add: s3_def s2_def s1_def)
  have hs3: "section_hdr s3 nm = section_hdr s nm" for nm
    using edit_frame(2) [OF c2(1), of nm] edit_frame(2) [OF c1(2), of nm] section_hdr_view [of s1 s nm]
    by (simp add: s3_def s2_def s1_def name_view_def shnum_def rdn_def)
  have run: "set_rpath new old r dynsh strsh s =
      (if length new \<le> length old then wr s3 (strTab + v) (new @ [0])
       else ebind (add_string new strsh s3) (\<lambda>s.
            ebind (case entry_at TYPE('a) dyn j None of None \<Rightarrow> Inr s | Some q \<Rightarrow> set_d_un q (sh_size strsh) s) (\<lambda>s.
            case entry_at TYPE('a) dyn i None of None \<Rightarrow> Inr s | Some p \<Rightarrow> set_d_un p (sh_size strsh) s)))"
    unfolding set_rpath_def Let_def r(3) option.case s1_def [symmetric] c1(1) s2_def [symmetric] ebind_Inr conv s3_def [symmetric] prod.case ..
  show ?thesis using that [OF run s3 hs3 u2 c2(2) [folded s3_def] es2 ij] by blast
qed

text \<open>A longer path, where the string table may already have a copy, longer than the section.\<close>

lemma set_rpath_longer:
  fixes s :: "'a::len ElfFile" and es :: "'a Elf_Dyn list"
  assumes w: "elf_width TYPE('a)" and inv: "map_inv (replacedSections s)" and at: "sections_at s dyn dsz strTab u es"
    and fresh: "map_of (replacedSections s) (str ''.dynamic'') = None" and hs: "section_hdr s (str ''.dynamic'') = Inr dynsh"
    and copy: "map_of (replacedSections s) (str ''.dynstr'') = Some (u' @ x)"
    and offs: "rdn s (sh_offset dynsh) = dyn" "rdn s (sh_size dynsh) = dsz" "rdn s (sh_size strsh) = length u'"
    and r: "dynRPath r = entry_at TYPE('a) dyn (last_idx DT_RPATH (tags (littleEndian s) es)) None"
      "dynRunPath r = entry_at TYPE('a) dyn (last_idx DT_RUNPATH (tags (littleEndian s) es)) None"
      "rpath_pos r = Some (strTab + v)"
    and k: "path_idx (tags (littleEndian s) es) = Some k"
    and le: "littleEndian s \<or> DT_RPATH \<notin> set (tags (littleEndian s) es)"
    and force: "\<not> forceRPath s \<or> DT_RUNPATH \<notin> set (tags (littleEndian s) es)"
    and old: "cstr (drop v u) = Some old" and new: "0 \<notin> set new" "length old < length new" and small: "length u' + length new + 1 < 2 ^ 32"
  shows "\<exists>s'. set_rpath new old r dynsh strsh s = Inr s' \<and> littleEndian s' = littleEndian s \<and>
    search_path_is s' new (filter (\<lambda>d. \<not> is_path (littleEndian s) d) es) \<and> current s' (str ''.dynstr'') = Inr (u' @ new @ [0])"
proof -
  obtain s3 u2 es2 i j where run: "set_rpath new old r dynsh strsh s =
      (if length new \<le> length old then wr s3 (strTab + v) (new @ [0])
       else ebind (add_string new strsh s3) (\<lambda>s.
            ebind (case entry_at TYPE('a) dyn j None of None \<Rightarrow> Inr s | Some q \<Rightarrow> set_d_un q (sh_size strsh) s) (\<lambda>s.
            case entry_at TYPE('a) dyn i None of None \<Rightarrow> Inr s | Some p \<Rightarrow> set_d_un p (sh_size strsh) s)))"
    and s3: "littleEndian s3 = littleEndian s" "replacedSections s3 = replacedSections s"
    and hs3: "\<And>nm. section_hdr s3 nm = section_hdr s nm" and at3: "sections_at s3 dyn dsz strTab u2 es2"
    and es2: "path_idx (tags (littleEndian s) es2) = Some k"
      "filter (\<lambda>d. \<not> is_path (littleEndian s) d) es2 = filter (\<lambda>d. \<not> is_path (littleEndian s) d) es"
    and ij: "i = Some k \<or> j = Some k" "\<forall>m. i = Some m \<or> j = Some m \<longrightarrow> m < length es2 \<and> is_path (littleEndian s) (es2 ! m)"
    by (rule set_rpath_begins [OF w at r k le force old]) blast
  have rd3: "rdn s3 w = rdn s w" for w :: "'b::len word" by (simp add: rdn_def s3)
  have str3: "current s3 (str ''.dynstr'') = Inr (u' @ x)" by (simp add: current_def s3 copy del: str_simps)
  have "\<exists>s'. ebind (add_string new strsh s3) (\<lambda>s.
        ebind (case entry_at TYPE('a) dyn j None of None \<Rightarrow> Inr s | Some q \<Rightarrow> set_d_un q (sh_size strsh) s) (\<lambda>s.
        case entry_at TYPE('a) dyn i None of None \<Rightarrow> Inr s | Some p \<Rightarrow> set_d_un p (sh_size strsh) s)) = Inr s' \<and>
        littleEndian s' = littleEndian s3 \<and> search_path_is s' new (filter (\<lambda>d. \<not> is_path (littleEndian s3) d) es2) \<and>
        current s' (str ''.dynstr'') = Inr (u' @ new @ [0])"
    by (rule write_path_longer [OF at3 fresh [folded s3(2)] hs [folded hs3] str3 _ _ _ es2(1) [folded s3(1)] new(1) _ small ij(1)])
      (use offs inv ij(2) in \<open>simp_all add: rd3 s3\<close>)
  with run new(2) es2(2) show ?thesis by (simp add: s3)
qed

lemma set_rpath_existing:
  fixes s :: "'a::len ElfFile" and es :: "'a Elf_Dyn list"
  assumes w: "elf_width TYPE('a)" and inv: "map_inv (replacedSections s)" and at: "sections_at s dyn dsz strTab u es"
    and fresh: "map_of (replacedSections s) (str ''.dynamic'') = None" "map_of (replacedSections s) (str ''.dynstr'') = None"
    and hs: "section_hdr s (str ''.dynamic'') = Inr dynsh" "section_hdr s (str ''.dynstr'') = Inr strsh"
    and offs: "rdn s (sh_offset dynsh) = dyn" "rdn s (sh_size dynsh) = dsz" "rdn s (sh_offset strsh) = strTab" "rdn s (sh_size strsh) = length u"
    and r: "dynRPath r = entry_at TYPE('a) dyn (last_idx DT_RPATH (tags (littleEndian s) es)) None"
      "dynRunPath r = entry_at TYPE('a) dyn (last_idx DT_RUNPATH (tags (littleEndian s) es)) None"
      "rpath_pos r = Some (strTab + v)"
    and k: "path_idx (tags (littleEndian s) es) = Some k" "v = rdn s (d_un (es ! k))"
    and le: "littleEndian s \<or> DT_RPATH \<notin> set (tags (littleEndian s) es)"
    and force: "\<not> forceRPath s \<or> DT_RUNPATH \<notin> set (tags (littleEndian s) es)"
    and old: "cstr (drop v u) = Some old" and new: "0 \<notin> set new" and small: "length u + length new + 1 < 2 ^ 32"
  shows "\<exists>s'. set_rpath new old r dynsh strsh s = Inr s' \<and>
    littleEndian s' = littleEndian s \<and> search_path_is s' new (filter (\<lambda>d. \<not> is_path (littleEndian s) d) es)"
proof -
  obtain s3 u2 es2 i j where run: "set_rpath new old r dynsh strsh s =
      (if length new \<le> length old then wr s3 (strTab + v) (new @ [0])
       else ebind (add_string new strsh s3) (\<lambda>s.
            ebind (case entry_at TYPE('a) dyn j None of None \<Rightarrow> Inr s | Some q \<Rightarrow> set_d_un q (sh_size strsh) s) (\<lambda>s.
            case entry_at TYPE('a) dyn i None of None \<Rightarrow> Inr s | Some p \<Rightarrow> set_d_un p (sh_size strsh) s)))"
    and s3: "littleEndian s3 = littleEndian s" "replacedSections s3 = replacedSections s"
    and hs3: "\<And>nm. section_hdr s3 nm = section_hdr s nm" and u2: "length u2 = length u" and at3: "sections_at s3 dyn dsz strTab u2 es2"
    and es2: "path_idx (tags (littleEndian s) es2) = Some k" "d_un (es2 ! k) = d_un (es ! k)"
      "filter (\<lambda>d. \<not> is_path (littleEndian s) d) es2 = filter (\<lambda>d. \<not> is_path (littleEndian s) d) es"
    and ij: "i = Some k \<or> j = Some k" "\<forall>m. i = Some m \<or> j = Some m \<longrightarrow> m < length es2 \<and> is_path (littleEndian s) (es2 ! m)"
    by (rule set_rpath_begins [OF w at r k(1) le force old]) blast
  have vold: "v + length old < length u" using cstr_length [OF old] by simp
  have rd3: "rdn s3 w = rdn s w" for w :: "'b::len word" by (simp add: rdn_def s3)
  have k3: "path_idx (tags (littleEndian s3) es2) = Some k" by (simp add: s3 es2(1))
  note base = at3 fresh [folded s3(2)] hs [folded hs3]
  have str3: "current s3 (str ''.dynstr'') = Inr (u2 @ [])"
    using current_in_file(1) [OF at3 base(3,5)] offs u2 by (simp add: rd3)
  show ?thesis
  proof (cases "length new \<le> length old")
    case True
    have "\<exists>s'. wr s3 (strTab + v) (new @ [0]) = Inr s' \<and> littleEndian s' = littleEndian s3 \<and>
        search_path_is s' new (filter (\<lambda>d. \<not> is_path (littleEndian s3) d) es2)"
      by (rule write_path_in_place [OF base _ _ _ _ k3 new]) (use offs u2 vold True k(2) es2(2) in \<open>simp_all add: rd3\<close>)
    with run True es2(3) show ?thesis by (simp add: s3)
  next
    case False
    have "\<exists>s'. ebind (add_string new strsh s3) (\<lambda>s.
        ebind (case entry_at TYPE('a) dyn j None of None \<Rightarrow> Inr s | Some q \<Rightarrow> set_d_un q (sh_size strsh) s) (\<lambda>s.
        case entry_at TYPE('a) dyn i None of None \<Rightarrow> Inr s | Some p \<Rightarrow> set_d_un p (sh_size strsh) s)) = Inr s' \<and>
        littleEndian s' = littleEndian s3 \<and> search_path_is s' new (filter (\<lambda>d. \<not> is_path (littleEndian s3) d) es2) \<and>
        current s' (str ''.dynstr'') = Inr (u2 @ new @ [0])"
      by (rule write_path_longer [OF at3 base(2,4) str3 _ _ _ k3 new _ _ ij(1)]) (use offs u2 small inv ij(2) in \<open>simp_all add: rd3 s3\<close>)
    with run False es2(3) show ?thesis by (auto simp: s3)
  qed
qed

text \<open>A file without a search path gets a new entry.\<close>

lemma path_idx_new:
  assumes "elf_width TYPE('a::len)" and "path_idx ts = None" and "t = DT_RPATH \<or> t = DT_RUNPATH"
  shows "path_idx ((t :: 'a word) # ts) = Some 0"
  using assms(2,3) small_tags(1,2) [OF assms(1)] by (auto simp: path_idx_def split: option.splits)

lemma set_rpath_new:
  fixes s :: "'a::len ElfFile" and es :: "'a Elf_Dyn list"
  assumes w: "elf_width TYPE('a)" and inv: "map_inv (replacedSections s)" and at: "sections_at s dyn dsz strTab u es"
    and fresh: "map_of (replacedSections s) (str ''.dynamic'') = None" "map_of (replacedSections s) (str ''.dynstr'') = None"
    and hs: "section_hdr s (str ''.dynamic'') = Inr dynsh" "section_hdr s (str ''.dynstr'') = Inr strsh"
    and offs: "rdn s (sh_offset dynsh) = dyn" "rdn s (sh_size dynsh) = dsz" "rdn s (sh_offset strsh) = strTab" "rdn s (sh_size strsh) = length u"
    and r: "dynRPath r = None" "dynRunPath r = None" "rpath_pos r = None"
    and none: "path_idx (tags (littleEndian s) es) = None"
    and new: "0 \<notin> set new" and small: "length u + length new + 1 < 2 ^ 32" "dsz + sizeof_Dyn TYPE('a) < 2 ^ 32"
    and room: "sizeof_Dyn TYPE('a) * (length es + 1) \<le> dsz"
  shows "\<exists>s'. set_rpath new [] r dynsh strsh s = Inr s' \<and>
    littleEndian s' = littleEndian s \<and> search_path_is s' new (filter (\<lambda>d. \<not> is_path (littleEndian s) d) es)"
proof -
  let ?le = "littleEndian s" and ?u = "u @ new @ [0]"
  define s1 where "s1 = s\<lparr>changed := True\<rparr>"
  have s1: "littleEndian s1 = ?le" "replacedSections s1 = replacedSections s" "map_inv (replacedSections s1)"
    using inv by (simp_all add: s1_def)
  have rd1: "rdn s1 w = rdn s w" for w :: "'b::len word" by (simp add: rdn_def s1)
  have hs1: "section_hdr s1 nm = section_hdr s nm" for nm
    by (rule section_hdr_view) (simp_all add: s1_def name_view_def shnum_def rdn_def)
  have rdc: "rd s1 a n = rd s a n" for a n by (simp add: s1_def rd_def)
  have cur: "current s1 nm = current s nm" for nm unfolding current_def hs1 s1(2) rd1 rdc ..
  have str: "current s1 (str ''.dynstr'') = Inr u" using current_in_file(1) [OF at fresh(2) hs(2)] offs cur by simp
  obtain t where t: "current s1 (str ''.dynamic'') = Inr t" "length t = dsz" "dyn_table ?le t 0 es"
    using current_in_file(2) [OF at fresh(1) hs(1)] offs cur by auto
  define s2 where "s2 = put_copy (str ''.dynstr'') ?u s1"
  have add: "add_string new strsh s1 = Inr s2"
    unfolding s2_def using small(1) offs(4) by (intro add_string_spec [OF str _ s1(3)]) (simp_all add: rd1)
  have s2: "littleEndian s2 = ?le" "map_inv (replacedSections s2)" using s1 by (simp_all add: s2_def)
  define d :: "'a Elf_Dyn" where "d = \<lparr>d_tag = wri ?le (if forceRPath s2 then DT_RPATH else DT_RUNPATH :: 'a word), d_un = sh_size strsh\<rparr>"
  have dt: "rdi ?le (d_tag d) = (if forceRPath s2 then DT_RPATH else DT_RUNPATH)" by (simp add: d_def elf_width_dvd [OF w])
  let ?N = "rdn s2 (sh_size dynsh) + sizeof_Dyn TYPE('a)"
  have N: "?N = dsz + sizeof_Dyn TYPE('a)" by (simp add: rdn_def s2(1)) (simp add: offs(2) flip: rdn_def)
  have cur2: "current s2 (str ''.dynamic'') = Inr t" unfolding s2_def using t(1) by (subst current_copy_other [OF s1(3)]) simp_all
  have tab: "dyn_table (littleEndian s2) (resize ?N t) 0 es"
    using dyn_table_append [OF t(3)] t(2) by (simp add: resize_prefix N s2(1))
  have dnz: "rdi (littleEndian s2) (d_tag d) \<noteq> 0" unfolding s2(1) dt using small_tags(5,6) [OF w] by (cases "forceRPath s2") (simp_all only: if_True if_False simp_thms)
  obtain t' where t': "add_dyn d dynsh s2 = Inr (put_copy (str ''.dynamic'') t' s2)" "dyn_table (littleEndian s2) t' 0 (d # es)"
    using add_dyn_spec(1) [OF w s2(2) cur2 refl _ tab dnz] room small(2) N by auto
  define s3 where "s3 = put_copy (str ''.dynamic'') t' s2"
  have s3: "littleEndian s3 = ?le" by (simp add: s3_def s2(1))
  have "current s3 (str ''.dynamic'') = Inr t'" unfolding s3_def by (rule current_put [OF s2(2)])
  moreover have "current s2 (str ''.dynstr'') = Inr ?u" unfolding s2_def by (rule current_put [OF s1(3)])
  then have "current s3 (str ''.dynstr'') = Inr ?u" unfolding s3_def by (subst current_copy_other [OF s2(2)]) simp_all
  moreover have "dyn_table (littleEndian s3) t' 0 (d # es)" using t'(2) by (simp add: s2(1) s3)
  moreover have "path_idx (tags (littleEndian s3) (d # es)) = Some 0" using path_idx_new [OF w none] by (simp add: s3 dt)
  moreover have "cstr (drop (rdn s3 (d_un ((d # es) ! 0))) ?u) = Some new"
    using new offs(4) by (simp add: d_def rdn_def s3 cstr_append)
  moreover have "filter (\<lambda>d. \<not> is_path (littleEndian s3) d) (d # es) = filter (\<lambda>d. \<not> is_path ?le d) es" by (simp add: s3 is_path_def dt)
  ultimately have "search_path_is s3 new (filter (\<lambda>d. \<not> is_path ?le d) es)" by (rule search_path_isI)
  moreover have "set_rpath new [] r dynsh strsh s = Inr s3"
    by (simp add: set_rpath_def r convert_rpath_def add t'(1) s3_def s2(1) flip: s1_def d_def)
  ultimately show ?thesis using s3 by blast
qed

section \<open>Setting the search path\<close>

text \<open>The first loop of \<open>modifyRPath\<close>: the last entries of both kinds, and the string of the one that counts.\<close>

lemma rpath_scanned:
  fixes s :: "'a::len ElfFile" and es :: "'a Elf_Dyn list"
  assumes w: "elf_width TYPE('a)" and at: "sections_at s dyn dsz strTab u es" and names: "None \<notin> set (needed_names (littleEndian s) u es)"
  defines "ts \<equiv> tags (littleEndian s) es"
  shows "\<exists>r. dyn_scan s (rpath_step s strTab) dyn \<lparr>dynRPath = None, dynRunPath = None, rpath_pos = None, needed = libs\<rparr> = Inr r \<and>
    dynRPath r = entry_at TYPE('a) dyn (last_idx DT_RPATH ts) None \<and> dynRunPath r = entry_at TYPE('a) dyn (last_idx DT_RUNPATH ts) None \<and>
    rpath_pos r = string_at s strTab es (last_idx DT_RUNPATH ts) (string_at s strTab es (last_idx DT_RPATH ts) None)"
proof -
  let ?le = "littleEndian s"
  have dtab: "dyn_table ?le (contents s) dyn es" using at unfolding sections_at_def by blast
  have needed: "\<forall>d \<in> set es. rdi ?le (d_tag d) = DT_NEEDED \<longrightarrow> \<not> isl (cstr_at s (strTab + rdn s (d_un d)))"
  proof (intro ballI impI)
    fix d assume "d \<in> set es" "rdi ?le (d_tag d) = DT_NEEDED"
    with names have "cstr (drop (rdn s (d_un d)) u) \<noteq> None" by (force simp: needed_names_def rdn_def)
    then obtain t where "cstr (drop (rdn s (d_un d)) u) = Some t" by blast
    from string_in_table [OF at this] show "\<not> isl (cstr_at s (strTab + rdn s (d_un d)))" by simp
  qed
  show ?thesis
    using rpath_fold [OF w dtab needed, of "\<lparr>dynRPath = None, dynRunPath = None, rpath_pos = None, needed = libs\<rparr>"]
    unfolding dyn_scan_table [OF w dtab] ts_def by auto
qed

text \<open>
  Property C4. Setting the search path sets it. In a file whose two sections have not been replaced yet, with a dynamic section that has
  room for its end mark, \<open>modifyRPath\<close> with \<open>rpSet\<close> succeeds, and in the sections that will be written the
  search path, as the dynamic linker picks it, is the new one, whether it was changed in place, put at the end of a
  longer string table or given by a new entry; all other entries stay as they are. The conversion of the tag asks for
  a little-endian file, and with \<open>--force-rpath\<close> there must be no \<open>DT_RUNPATH\<close> entry.
\<close>

theorem setting_sets_search_path:
  fixes s :: "'a::len ElfFile" and es :: "'a Elf_Dyn list"
  assumes w: "elf_width TYPE('a)" and inv: "map_inv (replacedSections s)"
    and fresh: "map_of (replacedSections s) (str ''.dynamic'') = None" "map_of (replacedSections s) (str ''.dynstr'') = None"
    and hs: "dynamic_hdr s = Inr dynsh" "dynstr_hdr s = Inr strsh"
    and at: "sections_at s (rdn s (sh_offset dynsh)) (rdn s (sh_size dynsh)) (rdn s (sh_offset strsh)) u es"
    and size: "rdn s (sh_size strsh) = length u"
    and tab: "check_strtab s (rdn s (sh_offset dynsh)) strsh = Inr ()"
    and names: "None \<notin> set (needed_names (littleEndian s) u es)"
    and path: "path_idx (tags (littleEndian s) es) = None \<or> search_string (littleEndian s) u es \<noteq> None"
    and le: "littleEndian s \<or> DT_RPATH \<notin> set (tags (littleEndian s) es)"
    and force: "\<not> forceRPath s \<or> DT_RUNPATH \<notin> set (tags (littleEndian s) es)"
    and new: "new \<noteq> []" "0 \<notin> set new"
    and small: "length u + length new + 1 < 2 ^ 32" "rdn s (sh_size dynsh) + sizeof_Dyn TYPE('a) < 2 ^ 32"
    and room: "sizeof_Dyn TYPE('a) * (length es + 1) \<le> rdn s (sh_size dynsh)"
  shows "\<exists>s'. modifyRPath ex rpSet new s = Inr s' \<and> littleEndian s' = littleEndian s \<and>
    search_path_is s' new (filter (\<lambda>d. \<not> is_path (littleEndian s) d) es)"
proof -
  let ?dyn = "rdn s (sh_offset dynsh)" and ?strTab = "rdn s (sh_offset strsh)" and ?le = "littleEndian s"
  note str = string_in_table [OF at]
  define A :: "nat option" where "A = last_idx DT_RPATH (tags ?le es)"
  define B :: "nat option" where "B = last_idx DT_RUNPATH (tags ?le es)"
  have idx: "path_idx (tags ?le es) = (case B of None \<Rightarrow> A | r \<Rightarrow> r)" unfolding path_idx_def A_def B_def ..
  obtain r where scan: "dyn_scan s (rpath_step s ?strTab) ?dyn \<lparr>dynRPath = None, dynRunPath = None, rpath_pos = None, needed = rpathLibs s\<rparr> = Inr r"
      and r: "dynRPath r = entry_at TYPE('a) ?dyn A None" "dynRunPath r = entry_at TYPE('a) ?dyn B None"
        "rpath_pos r = string_at s ?strTab es B (string_at s ?strTab es A None)"
    using rpath_scanned [OF w at names] unfolding A_def B_def by blast
  define s0 where "s0 = s\<lparr>rpathLibs := needed r\<rparr>"
  have s0: "littleEndian s0 = ?le" "replacedSections s0 = replacedSections s" "forceRPath s0 = forceRPath s" "contents s0 = contents s"
    by (simp_all add: s0_def)
  have rd0: "rdn s0 n = rdn s n" for n :: "'b::len word" by (simp add: rdn_def s0)
  have "section_hdr s0 nm = section_hdr s nm" for nm
    by (rule section_hdr_view) (simp_all add: s0_def name_view_def shnum_def rdn_def hdr_def)
  then have hs0: "section_hdr s0 (str ''.dynamic'') = Inr dynsh" "section_hdr s0 (str ''.dynstr'') = Inr strsh"
    using hs by (simp_all only: dynamic_hdr_def dynstr_hdr_def)
  have at0: "sections_at s0 ?dyn (rdn s (sh_size dynsh)) ?strTab u es" using at sections_at_cong [of s0 s] s0 by simp
  have inv0: "map_inv (replacedSections s0)" using inv by (simp add: s0)
  note fresh0 = fresh [folded s0(2)]
  have run: "modifyRPath ex rpSet new s =
      ebind (case rpath_pos r of None \<Rightarrow> Inr [] | Some pos \<Rightarrow> cstr_at s0 pos) (\<lambda>rpath.
        if rpath = new then Inr s0 else set_rpath new rpath r dynsh strsh s0)"
    by (simp add: modifyRPath_def hs tab scan flip: s0_def)
  show ?thesis
  proof (cases "path_idx (tags ?le es)")
    case None
    then have AB: "A = None" "B = None" by (auto simp: idx split: option.splits)
    obtain s' where "set_rpath new [] r dynsh strsh s0 = Inr s'" "littleEndian s' = ?le"
        "search_path_is s' new (filter (\<lambda>d. \<not> is_path ?le d) es)"
      using set_rpath_new [OF w inv0 at0 fresh0 hs0 _ _ _ _ _ _ _ _ new(2) small room, of r] None r AB size
      by (auto simp: rd0 s0 entry_at_def string_at_def)
    with run new(1) r(3) AB show ?thesis by (simp add: string_at_def)
  next
    case (Some k)
    then have pos: "rpath_pos r = Some (?strTab + rdn s (d_un (es ! k)))" by (auto simp: idx r(3) string_at_def split: option.splits)
    from path Some obtain old where old: "cstr (drop (rdn s (d_un (es ! k))) u) = Some old" by (auto simp: search_string_def rdn_def)
    have "cstr_at s0 (?strTab + rdn s (d_un (es ! k))) = Inr old" using str [OF old] by (simp add: cstr_at_def s0)
    then have run': "modifyRPath ex rpSet new s = (if old = new then Inr s0 else set_rpath new old r dynsh strsh s0)" by (simp add: run pos)
    show ?thesis
    proof (cases "old = new")
      case True
      have "search_path_is s0 new (filter (\<lambda>d. \<not> is_path (littleEndian s0) d) es)"
        using search_path_unchanged [OF at0 fresh0 hs0, of k new] size Some old True by (simp add: rd0 s0)
      with run' True show ?thesis by (simp add: s0)
    next
      case False
      have "\<exists>s'. set_rpath new old r dynsh strsh s0 = Inr s' \<and> littleEndian s' = littleEndian s0 \<and>
          search_path_is s' new (filter (\<lambda>d. \<not> is_path (littleEndian s0) d) es)"
        by (rule set_rpath_existing [OF w inv0 at0 fresh0 hs0 _ _ _ _ _ _ pos _ _ _ _ old new(2) small(1)])
          (use Some le force size r in \<open>simp_all add: rd0 s0 A_def B_def\<close>)
      with run' False show ?thesis by (simp add: s0)
    qed
  qed
qed

theorem setting_search_path_witness:
  "\<exists>s'. modifyRPath (\<lambda>_. False) rpSet (str ''/lib/new'') ex_elf = Inr s' \<and> littleEndian s' = littleEndian ex_elf \<and>
     search_path_is s' (str ''/lib/new'') (filter (\<lambda>d. \<not> is_path (littleEndian ex_elf) d) ex_dyns)"
proof (rule setting_sets_search_path [where u = "[0, 97, 0, 47, 112, 58, 113, 0]"])
  show "dynamic_hdr ex_elf = Inr (shdrs ex_elf ! 3)" "dynstr_hdr ex_elf = Inr (shdrs ex_elf ! 2)" by code_simp+
  have sizes: "rdn ex_elf (sh_size (shdrs ex_elf ! 3)) = 32" "length (str ''/lib/new'') = 8" "sizeof_Dyn TYPE(32) = 8" by code_simp+
  show "length [0, 97, 0, 47, 112, 58, 113, 0 :: byte] + length (str ''/lib/new'') + 1 < 2 ^ 32"
    "rdn ex_elf (sh_size (shdrs ex_elf ! 3)) + sizeof_Dyn TYPE(32) < 2 ^ 32" unfolding sizes by simp_all
qed code_simp+

section \<open>Removing the search path\<close>

lemma compact_rpath:
  fixes s :: "'a::len ElfFile" and es :: "'a Elf_Dyn list"
  assumes w: "elf_width TYPE('a)" and tab: "dyn_table (littleEndian s) (contents s) dyn es"
  defines "kept \<equiv> filter (\<lambda>d. \<not> is_path (littleEndian s) d) es"
  defines "c \<equiv> overwrite dyn (concat (map enc_Dyn kept) @ replicate ((length es - length kept) * sizeof_Dyn TYPE('a)) 0) (contents s)"
  shows "compact_dynamic is_rpath dyn s = Inr (s\<lparr>contents := c, changed := changed s \<or> kept \<noteq> es\<rparr>)"
    and "dyn_table (littleEndian s) c dyn kept" and "kept = es \<Longrightarrow> c = contents s"
proof -
  have run: "compact_dynamic is_rpath dyn s =
      Inr (s\<lparr>contents := c, changed := changed s \<or> (\<exists>d \<in> set es. is_path (littleEndian s) d)\<rparr>)"
    unfolding c_def kept_def by (rule compact_dynamic_table [OF w tab]) (simp add: is_rpath_def is_path_def)
  have "(\<exists>d \<in> set es. is_path (littleEndian s) d) \<longleftrightarrow> kept \<noteq> es" by (auto simp: kept_def filter_id_conv)
  with run show "compact_dynamic is_rpath dyn s = Inr (s\<lparr>contents := c, changed := changed s \<or> kept \<noteq> es\<rparr>)" by simp
  have "length kept = length es \<Longrightarrow> kept = es"
    by (simp add: kept_def) (metis (no_types, lifting) filter_True length_filter_less order_less_irrefl)
  then show "dyn_table (littleEndian s) c dyn kept"
    unfolding c_def by (intro dyn_table_kept [OF w tab]) (auto simp: kept_def)
  show "c = contents s" if "kept = es"
  proof -
    have "concat (map enc_Dyn es) = chunk dyn (length es * sizeof_Dyn TYPE('a)) (contents s)"
      "dyn + length es * sizeof_Dyn TYPE('a) \<le> length (contents s)" using tab by (simp_all add: dyn_table_def)
    then show ?thesis unfolding c_def that by (simp add: overwrite_id)
  qed
qed

lemma string_at_None [simp]: "string_at s strTab es None x = x"
  by (simp add: string_at_def)

lemma no_path_entries: "path_idx (tags le es) = None \<Longrightarrow> filter (\<lambda>d. \<not> is_path le d) es = es"
  by (auto simp: path_idx_def last_idx_None is_path_def tags_def filter_id_conv split: option.splits)

text \<open>
  Property C14. \<open>--remove-rpath\<close> takes every \<open>DT_RPATH\<close> and \<open>DT_RUNPATH\<close> entry out of the dynamic section,
  keeps the others in their order, fills up with zeros, and changes nothing else in the file; the file is flagged as
  changed exactly if there was such an entry.
\<close>

theorem remove_rpath_filters:
  fixes s :: "'a::len ElfFile" and es :: "'a Elf_Dyn list"
  assumes w: "elf_width TYPE('a)" and hs: "dynamic_hdr s = Inr dynsh" "dynstr_hdr s = Inr strsh" and dyn: "dyn = rdn s (sh_offset dynsh)"
    and tab: "dyn_table (littleEndian s) (contents s) dyn es" and strtab: "check_strtab s dyn strsh = Inr ()"
    and names: "\<forall>d \<in> set es. rdi (littleEndian s) (d_tag d) = DT_NEEDED \<longrightarrow>
      \<not> isl (cstr_at s (rdn s (sh_offset strsh) + rdn s (d_un d)))"
  defines "kept \<equiv> filter (\<lambda>d. \<not> is_path (littleEndian s) d) es"
  shows "\<exists>s'. modifyRPath ex rpRemove nw s = Inr s' \<and> dyn_table (littleEndian s) (contents s') dyn kept \<and>
    s' = s\<lparr>contents := overwrite dyn (concat (map enc_Dyn kept) @
             replicate ((length es - length kept) * sizeof_Dyn TYPE('a)) 0) (contents s),
           changed := changed s \<or> kept \<noteq> es, rpathLibs := rpathLibs s'\<rparr>"
proof -
  let ?strTab = "rdn s (sh_offset strsh)"
  obtain r where scan: "dyn_scan s (rpath_step s ?strTab) dyn \<lparr>dynRPath = None, dynRunPath = None, rpath_pos = None, needed = rpathLibs s\<rparr> = Inr r"
      and pos: "rpath_pos r = string_at s ?strTab es (last_idx DT_RUNPATH (tags (littleEndian s) es))
        (string_at s ?strTab es (last_idx DT_RPATH (tags (littleEndian s) es)) None)"
    using rpath_fold [OF w tab names, of "\<lparr>dynRPath = None, dynRunPath = None, rpath_pos = None, needed = rpathLibs s\<rparr>"]
    unfolding dyn_scan_table [OF w tab] by auto
  have none: "rpath_pos r = None \<longleftrightarrow> path_idx (tags (littleEndian s) es) = None"
    unfolding pos path_idx_def string_at_def by (simp split: option.split)
  define s0 where "s0 = s\<lparr>rpathLibs := needed r\<rparr>"
  have s0: "littleEndian s0 = littleEndian s" "contents s0 = contents s" "changed s0 = changed s" by (simp_all add: s0_def)
  have run: "modifyRPath ex rpRemove nw s = (if rpath_pos r = None then Inr s0 else compact_dynamic is_rpath dyn s0)"
    by (simp add: modifyRPath_def hs dyn [symmetric] strtab scan flip: s0_def)
  note compact = compact_rpath [OF w, of s0 dyn es, unfolded s0, OF tab, folded kept_def]
  show ?thesis
  proof (cases "rpath_pos r = None")
    case True
    then have "kept = es" using none no_path_entries by (simp add: kept_def)
    with run True compact(2,3) tab show ?thesis by (intro exI [of _ s0]) (simp add: s0_def)
  next
    case False
    with run compact(1,2) show ?thesis by (simp add: s0_def)
  qed
qed

theorem remove_rpath_witness:
  "\<exists>s'. modifyRPath (\<lambda>_. False) rpRemove [] ex_elf = Inr s' \<and> dyn_table True (contents s') 64 [ex_dyns ! 0, ex_dyns ! 2]"
proof -
  have facts: "elf_width TYPE(32)" "dynamic_hdr ex_elf = Inr (shdrs ex_elf ! 3)" "dynstr_hdr ex_elf = Inr (shdrs ex_elf ! 2)"
    "64 = rdn ex_elf (sh_offset (shdrs ex_elf ! 3))" "dyn_table (littleEndian ex_elf) (contents ex_elf) 64 ex_dyns"
    "check_strtab ex_elf 64 (shdrs ex_elf ! 2) = Inr ()"
    "\<forall>d \<in> set ex_dyns. rdi (littleEndian ex_elf) (d_tag d) = DT_NEEDED \<longrightarrow>
      \<not> isl (cstr_at ex_elf (rdn ex_elf (sh_offset (shdrs ex_elf ! 2)) + rdn ex_elf (d_un d)))" by code_simp+
  have kept: "filter (\<lambda>d. \<not> is_path True d) ex_dyns = [ex_dyns ! 0, ex_dyns ! 2]" "littleEndian ex_elf = True" by code_simp+
  from remove_rpath_filters [OF facts, of "\<lambda>_. False" "[]"] show ?thesis unfolding kept by blast
qed

end
