(* ===== verification/ElfLoopProps.thy ===== *)
theory ElfLoopProps
  imports ElfSearchProps
begin

text \<open>
  Walks over the dynamic section: when they end, what \<open>--print-needed\<close> prints, and what \<open>--no-default-lib\<close> sets.
\<close>

section \<open>The end of a walk\<close>

lemma dyn_count_less:
  assumes "elf_width TYPE('a::len)"
  shows "k < dyn_count TYPE('a) c off \<longleftrightarrow> off + k * sizeof_Dyn TYPE('a) + wsize TYPE('a) \<le> length c"
proof -
  let ?w = "wsize TYPE('a)"
  have w: "0 < ?w" using assms by (auto simp: wsize_elf_width)
  have "k < (length c - off + ?w) div (2 * ?w) \<longleftrightarrow> (k + 1) * (2 * ?w) \<le> length c - off + ?w"
    using w by (simp add: less_eq_div_iff_mult_less_eq Suc_le_eq [symmetric])
  also have "\<dots> \<longleftrightarrow> k * (2 * ?w) + ?w \<le> length c - off" by (simp add: algebra_simps)
  also have "\<dots> \<longleftrightarrow> off + k * (2 * ?w) + ?w \<le> length c" using w by arith
  finally show ?thesis by (simp add: dyn_count_def sizeof_Dyn_def)
qed

lemma dyn_for_end:
  fixes c :: bstring
  assumes "\<forall>p t r. \<not> isl (body p t r)"
  shows "if \<exists>k < n. dyn_tag le c (off + k * sizeof_Dyn TYPE('a)) = (0 :: 'a::len word)
    then \<not> isl (dyn_for le (\<lambda>t :: 'a word. t) (\<lambda>_. c) body off n r)
    else dyn_for le (\<lambda>t :: 'a word. t) (\<lambda>_. c) body off n r = Inl OutOfBounds"
proof (induction n arbitrary: off r)
  case 0
  then show ?case by simp
next
  case (Suc n)
  let ?z = "sizeof_Dyn TYPE('a)"
  let ?tag = "dyn_tag le c off :: 'a word"
  show ?case
  proof (cases "?tag = 0")
    case True
    then show ?thesis by (auto intro!: exI [of _ 0])
  next
    case False
    obtain r' where r': "body off ?tag r = Inr r'" using assms not_isl by blast
    have "(\<exists>k < Suc n. dyn_tag le c (off + k * ?z) = (0 :: 'a word)) \<longleftrightarrow> (\<exists>k < n. dyn_tag le c (off + ?z + k * ?z) = (0 :: 'a word))"
      using False by (auto simp: Ex_less_Suc2 add.assoc)
    with Suc [of "off + ?z" r'] False r' show ?thesis by simp
  qed
qed

text \<open>
  Property C34. A walk over the dynamic section ends. If some entry whose tag lies in the file has the tag \<open>DT_NULL\<close>, every walk
  whose body cannot fail returns; if none has, it runs past the end of the file, which is the error
  of the model, and it never runs on for any other reason.
\<close>

theorem walk_ends:
  fixes s :: "'a::len ElfFile"
  assumes "elf_width TYPE('a)" and "\<forall>p t r. \<not> isl (body p t r)"
  shows "if \<exists>k. off + k * sizeof_Dyn TYPE('a) + wsize TYPE('a) \<le> fileSize s \<and>
      dyn_tag (littleEndian s) (contents s) (off + k * sizeof_Dyn TYPE('a)) = (0 :: 'a word)
    then \<exists>r'. dyn_scan s body off r = Inr r' else dyn_scan s body off r = Inl OutOfBounds"
proof -
  let ?z = "sizeof_Dyn TYPE('a)"
  have "(\<exists>k. off + k * ?z + wsize TYPE('a) \<le> fileSize s \<and> dyn_tag (littleEndian s) (contents s) (off + k * ?z) = (0 :: 'a word)) \<longleftrightarrow>
      (\<exists>k < dyn_count TYPE('a) (contents s) off. dyn_tag (littleEndian s) (contents s) (off + k * ?z) = (0 :: 'a word))"
    by (auto simp: dyn_count_less [OF assms(1)] fileSize_def)
  then show ?thesis
    using dyn_for_end [OF assms(2), of "dyn_count TYPE('a) (contents s) off" "littleEndian s" "contents s" off r]
    by (auto simp: dyn_scan_def dest!: not_isl split: if_splits)
qed

theorem walk_ends_witness:
  "(\<exists>r'. dyn_scan ex_elf (\<lambda>p t r. Inr (r + 1)) 64 (0 :: nat) = Inr r') \<and>
   dyn_scan (ex_elf\<lparr>contents := take 88 (contents ex_elf)\<rparr>) (\<lambda>p t r. Inr (r + 1)) 64 (0 :: nat) = Inl OutOfBounds"
proof
  let ?body = "\<lambda>p t r. Inr (r + 1) :: elf_error + nat" and ?cut = "ex_elf\<lparr>contents := take 88 (contents ex_elf)\<rparr>"
  have body: "\<forall>p t r. \<not> isl (?body p t r)" by simp
  have "64 + 3 * sizeof_Dyn TYPE(32) + wsize TYPE(32) \<le> fileSize ex_elf"
    "dyn_tag (littleEndian ex_elf) (contents ex_elf) (64 + 3 * sizeof_Dyn TYPE(32)) = (0 :: 32 word)" by code_simp+
  then have "\<exists>k. 64 + k * sizeof_Dyn TYPE(32) + wsize TYPE(32) \<le> fileSize ex_elf \<and>
      dyn_tag (littleEndian ex_elf) (contents ex_elf) (64 + k * sizeof_Dyn TYPE(32)) = (0 :: 32 word)" by blast
  with walk_ends [OF elf_width_32 body, of 64 ex_elf 0] show "\<exists>r'. dyn_scan ex_elf ?body 64 (0 :: nat) = Inr r'" by simp
  have sizes: "sizeof_Dyn TYPE(32) = 8" "wsize TYPE(32) = 4" "fileSize ?cut = 88" by code_simp+
  have "dyn_tag (littleEndian ?cut) (contents ?cut) (64 + k * 8) \<noteq> (0 :: 32 word)" if "64 + k * 8 + 4 \<le> 88" for k :: nat
  proof -
    have "k = 0 \<or> k = 1 \<or> k = 2" using that by linarith
    then show ?thesis by (elim disjE) (simp only:, code_simp)+
  qed
  then have "\<nexists>k. 64 + k * sizeof_Dyn TYPE(32) + wsize TYPE(32) \<le> fileSize ?cut \<and>
      dyn_tag (littleEndian ?cut) (contents ?cut) (64 + k * sizeof_Dyn TYPE(32)) = (0 :: 32 word)" unfolding sizes by blast
  with walk_ends [OF elf_width_32 body, of 64 ?cut 0] show "dyn_scan ?cut ?body 64 (0 :: nat) = Inl OutOfBounds" by (simp only: if_False)
qed

section \<open>Printing the needed libraries\<close>

lemma print_loop:
  fixes s :: "'a::len ElfFile" and es :: "'a Elf_Dyn list"
  assumes w: "elf_width TYPE('a)" and "dyn_table (littleEndian s) (contents s) off es" and "length es < n"
    and "\<forall>d \<in> set es. rdi (littleEndian s) (d_tag d) = DT_NEEDED \<longrightarrow> cstr_at s (strTab + rdn s (d_un d)) = Inr (nm d)"
  shows "dyn_for (littleEndian s) (\<lambda>t :: 'a word. t) contents (print_step strTab) off n s =
    Inr (off + length es * sizeof_Dyn TYPE('a),
         s\<lparr>stdout := stdout s @ map nm (filter (\<lambda>d. rdi (littleEndian s) (d_tag d) = DT_NEEDED) es)\<rparr>)"
  using assms(2-)
proof (induction es arbitrary: s off n)
  case Nil
  then show ?case using dyn_for_Nil [of "littleEndian s" contents s off n "print_step strTab"] by simp
next
  case (Cons d es)
  let ?le = "littleEndian s" and ?need = "rdi (littleEndian s) (d_tag d) = DT_NEEDED"
  define s1 where "s1 = (if ?need then print_line (nm d) s else s)"
  have s1: "littleEndian s1 = ?le" "contents s1 = contents s" "stdout s1 = stdout s @ (if ?need then [nm d] else [])"
    "s1\<lparr>stdout := x\<rparr> = s\<lparr>stdout := x\<rparr>" for x by (simp_all add: s1_def print_line_def)
  have e: "off + sizeof_Dyn TYPE('a) \<le> fileSize s" "chunk off (sizeof_Dyn TYPE('a)) (contents s) = enc_Dyn d"
    and t: "dyn_table ?le (contents s) (off + sizeof_Dyn TYPE('a)) es"
    using Cons.prems(1) by (auto simp: dyn_table_Cons fileSize_def)
  have step: "print_step strTab off (rdi ?le (d_tag d)) s = Inr s1"
    using Cons.prems(3) by (simp add: print_step_def s1_def dyn_str_def dyn_str_pos_def d_un_entry [OF w e])
  have n: "0 < n" "length es < n - 1" using Cons.prems(2) by auto
  have names: "\<forall>d \<in> set es. rdi (littleEndian s1) (d_tag d) = DT_NEEDED \<longrightarrow> cstr_at s1 (strTab + rdn s1 (d_un d)) = Inr (nm d)"
    using Cons.prems(3) by (simp add: s1 cstr_at_def rdn_def)
  have tab1: "dyn_table (littleEndian s1) (contents s1) (off + sizeof_Dyn TYPE('a)) es" using t by (simp add: s1)
  from dyn_for_Cons [where img = contents and st = s and body = "print_step strTab" and n = n, OF w Cons.prems(1) n(1)]
  show ?case using Cons.IH [OF tab1 n(2) names] by (simp add: step s1 add.assoc)
qed

text \<open>
  Property C35. \<open>--print-needed\<close> prints the name of every \<open>DT_NEEDED\<close> entry, one line each, in the order of the
  entries, and changes nothing but the output.
\<close>

theorem printNeededLibs_prints_names:
  fixes s :: "'a::len ElfFile" and es :: "'a Elf_Dyn list"
  assumes "elf_width TYPE('a)" and "dynamic_hdr s = Inr dynsh" and "dynstr_hdr s = Inr strsh"
    and "dyn_table (littleEndian s) (contents s) (rdn s (sh_offset dynsh)) es"
    and "\<forall>d \<in> set es. rdi (littleEndian s) (d_tag d) = DT_NEEDED \<longrightarrow>
      cstr_at s (rdn s (sh_offset strsh) + rdn s (d_un d)) = Inr (nm d)"
  shows "printNeededLibs s = Inr (s\<lparr>stdout := stdout s @ map nm (filter (\<lambda>d. rdi (littleEndian s) (d_tag d) = DT_NEEDED) es)\<rparr>)"
  using print_loop [OF assms(1,4) dyn_count_table [OF assms(1,4)] assms(5)] assms(2,3)
  by (simp add: printNeededLibs_def dyn_loop_def)

theorem printNeededLibs_witness:
  "printNeededLibs ex_elf = Inr (ex_elf\<lparr>stdout := [str ''a'']\<rparr>)"
proof -
  have facts: "dynamic_hdr ex_elf = Inr (shdrs ex_elf ! 3)" "dynstr_hdr ex_elf = Inr (shdrs ex_elf ! 2)"
    "dyn_table (littleEndian ex_elf) (contents ex_elf) (rdn ex_elf (sh_offset (shdrs ex_elf ! 3))) ex_dyns"
    "\<forall>d \<in> set ex_dyns. rdi (littleEndian ex_elf) (d_tag d) = DT_NEEDED \<longrightarrow>
      cstr_at ex_elf (rdn ex_elf (sh_offset (shdrs ex_elf ! 2)) + rdn ex_elf (d_un d)) = Inr ((\<lambda>_. str ''a'') d)" by code_simp+
  have "map (\<lambda>_. str ''a'') (filter (\<lambda>d. rdi (littleEndian ex_elf) (d_tag d) = DT_NEEDED) ex_dyns) = [str ''a'']"
    "stdout ex_elf = []" by code_simp+
  with printNeededLibs_prints_names [OF elf_width_32 facts] show ?thesis by simp
qed

section \<open>Default libraries\<close>

fun first_idx :: "('x \<Rightarrow> bool) \<Rightarrow> 'x list \<Rightarrow> nat option" where
  "first_idx P [] = None"
| "first_idx P (x # xs) = (if P x then Some 0 else map_option Suc (first_idx P xs))"

lemma first_idx_find: "find P xs = map_option (\<lambda>k. xs ! k) (first_idx P xs)"
  by (induction xs) (auto simp: option.map_comp o_def)

lemma first_idx_Some: "first_idx P xs = Some k \<Longrightarrow> k < length xs \<and> P (xs ! k)"
  by (induction xs arbitrary: k) (auto split: if_splits)

lemma find_update: "first_idx P xs = Some k \<Longrightarrow> P y \<Longrightarrow> find P (xs[k := y]) = Some y"
  by (induction xs arbitrary: k) (auto split: if_splits)

lemma dyn_find_table:
  fixes es :: "'a::len Elf_Dyn list"
  assumes w: "elf_width TYPE('a)" and "dyn_table le c off es" and "length es < n"
  shows "dyn_find le (wanted :: 'a word) c off n =
    Inr (map_option (\<lambda>k. off + k * sizeof_Dyn TYPE('a)) (first_idx (\<lambda>d. rdi le (d_tag d) = wanted) es))"
  using assms(2,3)
proof (induction es arbitrary: off n)
  case Nil
  then show ?case by (cases n) (simp_all add: dyn_table_def)
next
  case (Cons d es)
  then obtain m where n: "n = Suc m" "length es < m" by (cases n) auto
  have e: "chunk off (sizeof_Dyn TYPE('a)) c = enc_Dyn d" "rdi le (d_tag d) \<noteq> 0"
    and t: "dyn_table le c (off + sizeof_Dyn TYPE('a)) es" using Cons.prems(1) by (auto simp: dyn_table_Cons)
  note tag = dyn_tag_entry [OF w e(1), of le]
  show ?case using e(2) Cons.IH [OF t n(2)] by (simp add: n(1) tag Let_def option.map_comp o_def add.assoc)
qed

lemma NODEFLIB_bit: "elf_width TYPE('a::len) \<Longrightarrow> (w :: 'a word) AND DF_1_NODEFLIB = 0 \<longleftrightarrow> \<not> bit w 11"
  using and_exp_eq_0_iff_not_bit [of w 11] by simp

lemma NODEFLIB_swapped:
  assumes "elf_width TYPE('a::len)"
  shows "bit (rdi le (w OR DF_1_NODEFLIB :: 'a word)) 11 \<longleftrightarrow> le \<or> bit (rdi le w) 11"
proof -
  note d = elf_width_dvd [OF assms]
  have n: "bit (DF_1_NODEFLIB :: 'a word) k \<longleftrightarrow> k = 11" if "k < LENGTH('a)" for k
    using that bit_exp_iff [where 'a = "'a word", of 11 k] by simp
  have s: "11 < LENGTH('a)" "8 * (wsize TYPE('a) - 1 - 11 div 8) + 11 mod 8 < LENGTH('a)"
    "8 * (wsize TYPE('a) - 1 - 11 div 8) + 11 mod 8 \<noteq> (11 :: nat)"
    using assms by (auto simp: elf_width_def wsize_def)
  show ?thesis by (simp only: bit_rdi [OF d] bit_or_iff) (use n [OF s(1)] n [OF s(2)] s in auto)
qed

lemma or_NODEFLIB_id: "elf_width TYPE('a::len) \<Longrightarrow> (w :: 'a word) AND DF_1_NODEFLIB \<noteq> 0 \<Longrightarrow> w OR DF_1_NODEFLIB = w"
proof (rule bit_word_eqI)
  fix k
  assume w: "elf_width TYPE('a)" "w AND DF_1_NODEFLIB \<noteq> 0" and k: "k < LENGTH('a)"
  from w have "bit w 11" by (simp only: NODEFLIB_bit not_not)
  moreover have "bit (DF_1_NODEFLIB :: 'a word) k \<longleftrightarrow> k = 11" using k bit_exp_iff [where 'a = "'a word", of 11 k] by simp
  ultimately show "bit (w OR DF_1_NODEFLIB) k = bit w k" by (auto simp only: bit_or_iff)
qed

definition is_flags :: "bool \<Rightarrow> 'a::len Elf_Dyn \<Rightarrow> bool" where
  "is_flags le d \<longleftrightarrow> rdi le (d_tag d) = DT_FLAGS_1"

text \<open>The flags of a dynamic section as they are stored: those of its first \<open>DT_FLAGS_1\<close> entry, or none.\<close>

definition flags_of :: "bool \<Rightarrow> 'a::len Elf_Dyn list \<Rightarrow> 'a word" where
  "flags_of le es = (case find (is_flags le) es of Some d \<Rightarrow> d_un d | None \<Rightarrow> 0)"

lemma current_dynamic:
  fixes s :: "'a::len ElfFile"
  assumes "sections_at s dyn dsz strTab u es" and "map_of (replacedSections s) (str ''.dynamic'') = None"
    and "section_hdr s (str ''.dynamic'') = Inr dynsh" and "dyn = rdn s (sh_offset dynsh)" and "dsz = rdn s (sh_size dynsh)"
  shows "\<exists>t. current s (str ''.dynamic'') = Inr t \<and> length t = dsz \<and> dyn_table (littleEndian s) t 0 es"
  using current_in_file(2) [OF assms(1-3)] assms(4,5) by simp

text \<open>The section gets a new entry, or the first entry of the tag another value.\<close>

lemma noDefaultLib_new:
  fixes s :: "'a::len ElfFile" and es :: "'a Elf_Dyn list"
  assumes w: "elf_width TYPE('a)" and inv: "map_inv (replacedSections s)" and hs: "dynamic_hdr s = Inr dynsh"
    and t: "current s (str ''.dynamic'') = Inr t" "length t = rdn s (sh_size dynsh)" "dyn_table (littleEndian s) t 0 es"
    and none: "first_idx (is_flags (littleEndian s)) es = None"
    and found: "dyn_find (littleEndian s) (DT_FLAGS_1 :: 'a word) (contents s) (rdn s (sh_offset dynsh))
      (dyn_count TYPE('a) (contents s) (rdn s (sh_offset dynsh))) = Inr None"
    and room: "sizeof_Dyn TYPE('a) * (length es + 1) \<le> rdn s (sh_size dynsh)"
    and small: "rdn s (sh_size dynsh) + sizeof_Dyn TYPE('a) < 2 ^ 32"
  defines "P \<equiv> is_flags (littleEndian s)"
  shows "\<exists>s' t es'. noDefaultLib s = Inr s' \<and> current s' (str ''.dynamic'') = Inr t \<and> dyn_table (littleEndian s) t 0 es' \<and>
    flags_of (littleEndian s) es' = flags_of (littleEndian s) es OR DF_1_NODEFLIB \<and> filter (\<lambda>d. \<not> P d) es' = filter (\<lambda>d. \<not> P d) es"
proof -
  let ?le = "littleEndian s" and ?z = "sizeof_Dyn TYPE('a)"
  have old: "flags_of ?le es = 0" using none by (simp add: flags_of_def first_idx_find)
  define d :: "'a Elf_Dyn" where "d = \<lparr>d_tag = wri ?le (DT_FLAGS_1 :: 'a word), d_un = DF_1_NODEFLIB\<rparr>"
  have d: "rdi ?le (d_tag d) = DT_FLAGS_1" "d_un d = DF_1_NODEFLIB" "is_flags ?le d" by (simp_all add: d_def is_flags_def elf_width_dvd [OF w])
  have nz: "rdi ?le (d_tag d) \<noteq> 0" unfolding d(1) using w by (auto simp: elf_width_def word_uint_eq_iff)
  have tab: "dyn_table ?le (resize (rdn s (sh_size dynsh) + ?z) t) 0 es" using dyn_table_append [OF t(3)] t(2) by (simp add: resize_prefix)
  obtain t' where t': "add_dyn d dynsh s = Inr (put_copy (str ''.dynamic'') t' s)" "dyn_table ?le t' 0 (d # es)"
    using add_dyn_spec(1) [OF w inv t(1) refl small tab nz room] by blast
  have "noDefaultLib s = Inr ((put_copy (str ''.dynamic'') t' s)\<lparr>changed := True\<rparr>)"
    by (simp add: noDefaultLib_def hs found t'(1) del: str_simps flip: d_def)
  moreover have "current ((put_copy (str ''.dynamic'') t' s)\<lparr>changed := True\<rparr>) (str ''.dynamic'') = Inr t'"
    using current_put [OF inv] by (simp add: current_def map_of_copy [OF inv] del: str_simps)
  moreover have "flags_of ?le (d # es) = flags_of ?le es OR DF_1_NODEFLIB" by (simp add: old) (simp add: flags_of_def d)
  moreover have "filter (\<lambda>d. \<not> P d) (d # es) = filter (\<lambda>d. \<not> P d) es" by (simp add: d P_def)
  ultimately show ?thesis using t'(2) by blast
qed

lemma noDefaultLib_existing:
  fixes s :: "'a::len ElfFile" and es :: "'a Elf_Dyn list"
  assumes w: "elf_width TYPE('a)" and fresh: "map_of (replacedSections s) (str ''.dynamic'') = None" and hs: "dynamic_hdr s = Inr dynsh"
    and at: "sections_at s (rdn s (sh_offset dynsh)) (rdn s (sh_size dynsh)) strTab u es"
    and first: "first_idx (is_flags (littleEndian s)) es = Some k"
    and found: "dyn_find (littleEndian s) (DT_FLAGS_1 :: 'a word) (contents s) (rdn s (sh_offset dynsh))
      (dyn_count TYPE('a) (contents s) (rdn s (sh_offset dynsh))) = Inr (Some (rdn s (sh_offset dynsh) + k * sizeof_Dyn TYPE('a)))"
  defines "P \<equiv> is_flags (littleEndian s)"
  shows "\<exists>s' t es'. noDefaultLib s = Inr s' \<and> current s' (str ''.dynamic'') = Inr t \<and> dyn_table (littleEndian s) t 0 es' \<and>
    flags_of (littleEndian s) es' = flags_of (littleEndian s) es OR DF_1_NODEFLIB \<and> filter (\<lambda>d. \<not> P d) es' = filter (\<lambda>d. \<not> P d) es"
proof -
  let ?le = "littleEndian s" and ?dyn = "rdn s (sh_offset dynsh)" and ?z = "sizeof_Dyn TYPE('a)"
  let ?v = "d_un (es ! k) OR DF_1_NODEFLIB"
  let ?es = "es[k := (es ! k)\<lparr>d_un := ?v\<rparr>]"
  have k: "k < length es" "P (es ! k)" using first_idx_Some [OF first] by (simp_all add: P_def)
  have sh: "section_hdr s (str ''.dynamic'') = Inr dynsh" using hs by (simp add: dynamic_hdr_def)
  have dtab: "dyn_table ?le (contents s) ?dyn es" using at by (simp add: sections_at_def)
  have old: "flags_of ?le es = d_un (es ! k)" by (simp add: flags_of_def first_idx_find first)
  have un: "d_un_at s (?dyn + k * ?z) = Inr (d_un (es ! k))"
    using dyn_table_nth [OF dtab k(1)] by (intro d_un_entry [OF w]) (simp_all add: fileSize_def)
  obtain c where c: "set_d_un (?dyn + k * ?z) ?v s = Inr (s\<lparr>contents := c\<rparr>)" "hdr (s\<lparr>contents := c\<rparr>) = hdr s"
      "sections_at (s\<lparr>contents := c\<rparr>) ?dyn (rdn s (sh_size dynsh)) strTab u ?es" using set_value [OF at k(1)] by blast
  have P: "P ((es ! k)\<lparr>d_un := ?v\<rparr>)" using k(2) by (simp add: P_def is_flags_def)
  have new: "flags_of ?le ?es = ?v" using find_update [OF first P [unfolded P_def]] by (simp add: flags_of_def)
  have rest: "filter (\<lambda>d. \<not> P d) ?es = filter (\<lambda>d. \<not> P d) es" using k P by (intro filter_update) simp_all
  show ?thesis
  proof (cases "d_un (es ! k) AND DF_1_NODEFLIB = 0")
    case True
    define s' where "s' = s\<lparr>contents := c, changed := True\<rparr>"
    have "noDefaultLib s = Inr s'" by (simp add: noDefaultLib_def hs found un True c(1) s'_def)
    moreover have "section_hdr s' (str ''.dynamic'') = Inr dynsh"
      using edit_frame(2) [OF c(2), of "str ''.dynamic''"] section_hdr_view [of s' "s\<lparr>contents := c\<rparr>" "str ''.dynamic''"] sh
      by (simp add: s'_def name_view_def shnum_def rdn_def)
    moreover have "sections_at s' ?dyn (rdn s (sh_size dynsh)) strTab u ?es"
      using c(3) sections_at_cong [of s' "s\<lparr>contents := c\<rparr>"] by (simp add: s'_def)
    ultimately show ?thesis
      using current_dynamic [of s' ?dyn "rdn s (sh_size dynsh)" strTab u ?es dynsh] fresh new old rest by (force simp: s'_def rdn_def)
  next
    case False
    then have "?v = d_un (es ! k)" by (rule or_NODEFLIB_id [OF w])
    moreover have "noDefaultLib s = Inr s" using False by (simp add: noDefaultLib_def hs found un)
    ultimately show ?thesis using current_dynamic [OF at fresh sh refl refl] old by auto
  qed
qed

text \<open>
  Property C12. \<open>--no-default-lib\<close> sets one bit of the flags and changes no other entry. In the dynamic section that will be
  written the flags are the old ones, or none, with \<open>DF_1_NODEFLIB\<close> set in the stored value; the flag itself, in the byte order of the
  file, is set in a little-endian file, and in a big-endian file it is only set if it was set before.
\<close>

theorem noDefaultLib_sets_flag:
  fixes s :: "'a::len ElfFile" and es :: "'a Elf_Dyn list"
  assumes w: "elf_width TYPE('a)" and inv: "map_inv (replacedSections s)"
    and fresh: "map_of (replacedSections s) (str ''.dynamic'') = None" and hs: "dynamic_hdr s = Inr dynsh"
    and at: "sections_at s (rdn s (sh_offset dynsh)) (rdn s (sh_size dynsh)) strTab u es"
    and room: "sizeof_Dyn TYPE('a) * (length es + 1) \<le> rdn s (sh_size dynsh)"
    and small: "rdn s (sh_size dynsh) + sizeof_Dyn TYPE('a) < 2 ^ 32"
  shows "\<exists>s' t es'. noDefaultLib s = Inr s' \<and> current s' (str ''.dynamic'') = Inr t \<and> dyn_table (littleEndian s) t 0 es' \<and>
    flags_of (littleEndian s) es' = flags_of (littleEndian s) es OR DF_1_NODEFLIB \<and>
    (rdi (littleEndian s) (flags_of (littleEndian s) es') AND DF_1_NODEFLIB \<noteq> 0 \<longleftrightarrow>
      littleEndian s \<or> rdi (littleEndian s) (flags_of (littleEndian s) es) AND DF_1_NODEFLIB \<noteq> 0) \<and>
    filter (\<lambda>d. \<not> is_flags (littleEndian s) d) es' = filter (\<lambda>d. \<not> is_flags (littleEndian s) d) es"
proof -
  let ?le = "littleEndian s" and ?dyn = "rdn s (sh_offset dynsh)" and ?z = "sizeof_Dyn TYPE('a)"
  let ?P = "is_flags ?le :: 'a Elf_Dyn \<Rightarrow> bool" and ?sh = "section_hdr s (str ''.dynamic'') = Inr dynsh"
  have sh: ?sh using hs by (simp add: dynamic_hdr_def)
  have dtab: "dyn_table ?le (contents s) ?dyn es" using at by (simp add: sections_at_def)
  have bit: "(rdi ?le (f OR DF_1_NODEFLIB :: 'a word) AND DF_1_NODEFLIB \<noteq> 0) = (?le \<or> rdi ?le f AND DF_1_NODEFLIB \<noteq> 0)" for f
    using NODEFLIB_swapped [OF w] by (simp only: NODEFLIB_bit [OF w]) simp
  have found: "dyn_find ?le (DT_FLAGS_1 :: 'a word) (contents s) ?dyn (dyn_count TYPE('a) (contents s) ?dyn) =
      Inr (map_option (\<lambda>k. ?dyn + k * ?z) (first_idx ?P es))"
    by (simp add: dyn_find_table [OF w dtab dyn_count_table [OF w dtab]] is_flags_def [abs_def])
  have "\<exists>s' t es'. noDefaultLib s = Inr s' \<and> current s' (str ''.dynamic'') = Inr t \<and> dyn_table ?le t 0 es' \<and>
      flags_of ?le es' = flags_of ?le es OR DF_1_NODEFLIB \<and> filter (\<lambda>d. \<not> ?P d) es' = filter (\<lambda>d. \<not> ?P d) es"
  proof (cases "first_idx ?P es")
    case None
    obtain t where "current s (str ''.dynamic'') = Inr t" "length t = rdn s (sh_size dynsh)" "dyn_table ?le t 0 es"
      using current_dynamic [OF at fresh sh refl refl] by blast
    then show ?thesis using None found by (intro noDefaultLib_new [OF w inv hs _ _ _ _ _ room small]) simp_all
  next
    case (Some k)
    with found show ?thesis by (intro noDefaultLib_existing [OF w fresh hs at Some]) simp
  qed
  then show ?thesis using bit by metis
qed

theorem noDefaultLib_witness:
  "(\<exists>s' t es'. noDefaultLib ex_elf = Inr s' \<and> current s' (str ''.dynamic'') = Inr t \<and> dyn_table True t 0 es' \<and>
      (flags_of True es' :: 32 word) AND DF_1_NODEFLIB \<noteq> 0) \<and>
   (\<exists>s' t es'. noDefaultLib ex_big = Inr s' \<and> current s' (str ''.dynamic'') = Inr t \<and> dyn_table False t 0 es' \<and>
      rdi False (flags_of False es' :: 32 word) AND DF_1_NODEFLIB = 0)"
proof
  have facts: "elf_width TYPE(32)" "map_inv (replacedSections ex_elf)" "map_of (replacedSections ex_elf) (str ''.dynamic'') = None"
    "dynamic_hdr ex_elf = Inr (shdrs ex_elf ! 3)"
    "sections_at ex_elf (rdn ex_elf (sh_offset (shdrs ex_elf ! 3))) (rdn ex_elf (sh_size (shdrs ex_elf ! 3))) 52 [47, 108, 0] ex_dyns"
    "sizeof_Dyn TYPE(32) * (length ex_dyns + 1) \<le> rdn ex_elf (sh_size (shdrs ex_elf ! 3))" by code_simp+
  have nums: "rdn ex_elf (sh_size (shdrs ex_elf ! 3)) = 32" "sizeof_Dyn TYPE(32) = 8" "littleEndian ex_elf = True" by code_simp+
  have small: "rdn ex_elf (sh_size (shdrs ex_elf ! 3)) + sizeof_Dyn TYPE(32) < 2 ^ 32" by (simp add: nums)
  show "\<exists>s' t es'. noDefaultLib ex_elf = Inr s' \<and> current s' (str ''.dynamic'') = Inr t \<and> dyn_table True t 0 es' \<and>
      (flags_of True es' :: 32 word) AND DF_1_NODEFLIB \<noteq> 0"
  proof -
    obtain s' t es' where r: "noDefaultLib ex_elf = Inr s'" "current s' (str ''.dynamic'') = Inr t" "dyn_table True t 0 es'"
        "rdi True (flags_of True es' :: 32 word) AND DF_1_NODEFLIB \<noteq> 0"
      using noDefaultLib_sets_flag [OF facts small] unfolding nums(3) by blast
    have "flags_of True es' AND DF_1_NODEFLIB \<noteq> 0" using r(4) by simp
    with r(1-3) show ?thesis by (intro exI conjI)
  qed
next
  let ?es = "[\<lparr>d_tag = 0x01000000, d_un = 0x01000000\<rparr>, \<lparr>d_tag = 0x0f000000, d_un = 0x03000000\<rparr>, \<lparr>d_tag = 0x05000000, d_un = 0x37000000\<rparr>] :: 32 Elf_Dyn list"
  have facts: "elf_width TYPE(32)" "map_inv (replacedSections ex_big)" "map_of (replacedSections ex_big) (str ''.dynamic'') = None"
    "dynamic_hdr ex_big = Inr (shdrs ex_big ! 3)"
    "sections_at ex_big (rdn ex_big (sh_offset (shdrs ex_big ! 3))) (rdn ex_big (sh_size (shdrs ex_big ! 3))) 52 [47, 108, 0] ?es"
    "sizeof_Dyn TYPE(32) * (length ?es + 1) \<le> rdn ex_big (sh_size (shdrs ex_big ! 3))" by code_simp+
  have nums: "rdn ex_big (sh_size (shdrs ex_big ! 3)) = 32" "sizeof_Dyn TYPE(32) = 8" "littleEndian ex_big = False"
    "rdi False (flags_of False ?es :: 32 word) AND DF_1_NODEFLIB = 0" by code_simp+
  have small: "rdn ex_big (sh_size (shdrs ex_big ! 3)) + sizeof_Dyn TYPE(32) < 2 ^ 32" by (simp add: nums)
  show "\<exists>s' t es'. noDefaultLib ex_big = Inr s' \<and> current s' (str ''.dynamic'') = Inr t \<and> dyn_table False t 0 es' \<and>
      rdi False (flags_of False es' :: 32 word) AND DF_1_NODEFLIB = 0"
  proof -
    obtain s' t es' where r: "noDefaultLib ex_big = Inr s'" "current s' (str ''.dynamic'') = Inr t" "dyn_table False t 0 es'"
        "(rdi False (flags_of False es' :: 32 word) AND DF_1_NODEFLIB \<noteq> 0) = (False \<or> rdi False (flags_of False ?es) AND DF_1_NODEFLIB \<noteq> 0)"
      using noDefaultLib_sets_flag [OF facts small] unfolding nums(3) by blast
    from r(4) have "rdi False (flags_of False es' :: 32 word) AND DF_1_NODEFLIB = 0" by (simp only: nums(4) simp_thms)
    with r(1-3) show ?thesis by (intro exI conjI)
  qed
qed

end
