(* ===== verification/ElfReplaceProps.thy ===== *)
theory ElfReplaceProps
  imports ElfSearchProps
begin

text \<open>
  Replacing needed libraries refines a map over the list of their names: the loop of \<open>replaceNeeded\<close> over the
  entries, which stores the new names behind the string table and redirects the entries to them.
\<close>

section \<open>The abstract operation\<close>

definition renamed :: "(bstring \<times> bstring) list \<Rightarrow> bstring \<Rightarrow> bstring" where
  "renamed libs n = (case map_of libs n of None \<Rightarrow> n | Some r \<Rightarrow> r)"

text \<open>The bytes that the new names need.\<close>

definition added_bytes :: "(bstring \<times> bstring) list \<Rightarrow> bstring option list \<Rightarrow> nat" where
  "added_bytes libs ns =
     sum_list (map (\<lambda>n. case n of None \<Rightarrow> 0 | Some n \<Rightarrow> (case map_of libs n of None \<Rightarrow> 0 | Some r \<Rightarrow> length r + 1)) ns)"

lemma added_bytes_simps [simp]:
  "added_bytes libs [] = 0" "added_bytes libs (n # ns) =
     (case n of None \<Rightarrow> 0 | Some n \<Rightarrow> (case map_of libs n of None \<Rightarrow> 0 | Some r \<Rightarrow> length r + 1)) + added_bytes libs ns"
  by (simp_all add: added_bytes_def)

lemma needed_names_Cons: "needed_names le u (d # es) =
    (if rdi le (d_tag d) = DT_NEEDED then cstr (drop (unat (rdi le (d_un d))) u) # needed_names le u es else needed_names le u es)"
  by (simp add: needed_names_def)

section \<open>The copy of the string table\<close>

text \<open>The string table with \<open>strs\<close> behind it is in a copy, unless nothing was added yet.\<close>

definition dynstr_is :: "'a::len ElfFile \<Rightarrow> bstring \<Rightarrow> bstring \<Rightarrow> bool" where
  "dynstr_is s u strs \<longleftrightarrow>
     (if strs = [] then map_of (replacedSections s) (str ''.dynstr'') = None
      else map_of (replacedSections s) (str ''.dynstr'') = Some (u @ strs))"

lemma add_name:
  assumes "current s (str ''.dynstr'') = Inr (u @ strs)" and "map_inv (replacedSections s)"
    and small: "length u + length strs + length p + 1 < 2 ^ 32"
  shows "ebind (replaceSection (str ''.dynstr'') (of_nat (length u + length p + 1) + of_nat (length strs)) s)
      (set_replaced (str ''.dynstr'') (of_nat (length u) + of_nat (length strs)) (p @ [0])) =
    Inr (put_copy (str ''.dynstr'') (u @ strs @ p @ [0]) s)"
proof -
  let ?n = "length u + length strs"
  have w: "unat (of_nat (?n + length p + 1) :: 32 word) = ?n + length p + 1" "unat (of_nat ?n :: 32 word) = ?n"
    by (rule of_nat_unat32; use small in simp)+
  have sums: "of_nat (length u + length p + 1) + of_nat (length strs) = (of_nat (?n + length p + 1) :: 32 word)"
    "of_nat (length u) + of_nat (length strs) = (of_nat ?n :: 32 word)" by simp_all
  have r: "resize (?n + length p + 1) (u @ strs) = u @ strs @ replicate (length p) 0 @ [0]"
    by (simp add: resize_def replicate_append_same flip: replicate_Suc)
  have o: "overwrite ?n (p @ [0]) (u @ strs @ replicate (length p) 0 @ [0]) = u @ strs @ p @ [0]" by (simp add: overwrite_def)
  show ?thesis unfolding sums replaceSection_current assms(1) ebind_Inr w(1) r
    using set_replaced_copy [OF assms(2), of "str ''.dynstr''" "of_nat ?n" "p @ [0]" "u @ strs @ replicate (length p) 0 @ [0]"]
    by (simp only: w(2) o) simp
qed

lemma current_dynstr:
  assumes "sections_at s dyn dsz strTab u es" and "section_hdr s (str ''.dynstr'') = Inr strsh"
    and "rdn s (sh_offset strsh) = strTab" "rdn s (sh_size strsh) = length u" and "dynstr_is s u strs"
  shows "current s (str ''.dynstr'') = Inr (u @ strs)"
proof (cases "strs = []")
  case True
  with assms(5) have "map_of (replacedSections s) (str ''.dynstr'') = None" by (simp only: dynstr_is_def if_True)
  from current_in_file(1) [OF assms(1) this assms(2-4)] True show ?thesis by simp
next
  case False
  with assms(5) show ?thesis by (simp add: dynstr_is_def current_def del: str_simps)
qed

section \<open>One entry\<close>

text \<open>What a step of the loop keeps of the rest of the state.\<close>

definition same_names :: "'a::len ElfFile \<Rightarrow> 'a ElfFile \<Rightarrow> bool" where
  "same_names s t \<longleftrightarrow> littleEndian t = littleEndian s \<and> (\<forall>nm. section_hdr t nm = section_hdr s nm) \<and>
     map_inv (replacedSections t) \<and> map_of (replacedSections t) (str ''.dynamic'') = map_of (replacedSections s) (str ''.dynamic'')"

lemma same_names_rdn: "same_names s t \<Longrightarrow> rdn t w = rdn s w"
  by (simp add: same_names_def rdn_def)

lemma same_names_trans: "same_names s t \<Longrightarrow> same_names t u \<Longrightarrow> same_names s u"
  by (simp add: same_names_def)

lemma replace_entry:
  fixes s :: "'a::len ElfFile" and es :: "'a Elf_Dyn list"
  assumes w: "elf_width TYPE('a)" and le: "littleEndian s" and inv: "map_inv (replacedSections s)"
    and at: "sections_at s dyn dsz strTab u es" and hs: "section_hdr s (str ''.dynstr'') = Inr strsh"
    and offs: "rdn s (sh_offset strsh) = strTab" "rdn s (sh_size strsh) = length u"
    and copy: "dynstr_is s u strs" and k: "k < length es" and need: "rdi True (d_tag (es ! k)) = DT_NEEDED"
    and nm: "cstr (drop (unat (rdi True (d_un (es ! k)))) u) = Some nm" and new: "map_of libs nm = Some p"
    and small: "length u + length strs + length p + 1 < 2 ^ 32"
  shows "\<exists>t d. replace_step libs strsh (dyn + k * sizeof_Dyn TYPE('a)) DT_NEEDED (s, of_nat (length strs)) =
      Inr (t, of_nat (length (strs @ p @ [0]))) \<and> same_names s t \<and> dynstr_is t u (strs @ p @ [0]) \<and>
    sections_at t dyn dsz strTab u (es[k := d]) \<and> d_tag d = d_tag (es ! k) \<and> unat (rdi True (d_un d)) = length u + length strs"
proof -
  let ?off = "dyn + k * sizeof_Dyn TYPE('a)" and ?u = "u @ strs @ p @ [0]"
  have tab: "dyn_table (littleEndian s) (contents s) dyn es" using at by (simp add: sections_at_def)
  have un: "d_un_at s ?off = Inr (d_un (es ! k))"
    using dyn_table_nth [OF tab k] by (intro d_un_entry [OF w]) (simp_all add: fileSize_def)
  have str: "dyn_str s strTab ?off = Inr nm"
    using string_in_table [OF at nm] le by (simp add: dyn_str_def dyn_str_pos_def un rdn_def)
  define s1 where "s1 = put_copy (str ''.dynstr'') ?u s"
  note name = add_name [OF current_dynstr [OF at hs offs copy] inv small, folded s1_def]
  have s1: "hdr s1 = hdr s" "littleEndian s1 = littleEndian s" "map_inv (replacedSections s1)"
    "map_of (replacedSections s1) = (map_of (replacedSections s))(str ''.dynstr'' \<mapsto> ?u)" "name_view s1 = name_view s" "shdrs s1 = shdrs s"
    using inv map_of_copy [OF inv, of "str ''.dynstr''" ?u] by (simp_all add: s1_def del: str_simps)
  have at1: "sections_at s1 dyn dsz strTab u es" using at sections_at_cong [of s1 s dyn dsz strTab u es] by (simp add: s1_def)
  define v :: "'a word" where "v = sh_size strsh + ucast (of_nat (length strs) :: 32 word)"
  obtain c where c: "set_d_un ?off v s1 = Inr (s1\<lparr>contents := c\<rparr>)" "hdr (s1\<lparr>contents := c\<rparr>) = hdr s1"
      "sections_at (s1\<lparr>contents := c\<rparr>) dyn dsz strTab u (es[k := (es ! k)\<lparr>d_un := v\<rparr>])" using set_value [OF at1 k] by blast
  define t where "t = s1\<lparr>contents := c, changed := True\<rparr>"
  have len: "of_nat (length strs) + of_nat (length p + 1) = (of_nat (length (strs @ p @ [0])) :: 32 word)" by simp
  have sz: "rdn s1 (sh_size strsh) = length u" using offs(2) by (simp add: rdn_def s1(2))
  have "replace_step libs strsh ?off DT_NEEDED (s, of_nat (length strs)) =
      ebind (ebind (replaceSection (str ''.dynstr'') (of_nat (length u + length p + 1) + of_nat (length strs)) s)
        (set_replaced (str ''.dynstr'') (of_nat (length u) + of_nat (length strs)) (p @ [0])))
      (\<lambda>s. ebind (set_d_un ?off v s) (\<lambda>s. Inr (s\<lparr>changed := True\<rparr>, of_nat (length strs) + of_nat (length p + 1))))"
    unfolding replace_step_def prod.case if_P [OF refl] offs str ebind_Inr new option.case Let_def ebind_assoc v_def ..
  then have run: "replace_step libs strsh ?off DT_NEEDED (s, of_nat (length strs)) = Inr (t, of_nat (length (strs @ p @ [0])))"
    unfolding name ebind_Inr c(1) len by (simp only: t_def)
  have view: "name_view t = name_view s" using c(2) s1 by (simp add: t_def name_view_def shnum_def rdn_def)
  have "section_hdr t nm = section_hdr s nm" for nm by (rule section_hdr_view [OF view]) (simp add: t_def s1)
  then have names: "same_names s t" using s1 by (simp add: same_names_def t_def)
  have cop: "dynstr_is t u (strs @ p @ [0])" by (simp add: dynstr_is_def t_def s1(4) del: str_simps)
  have att: "sections_at t dyn dsz strTab u (es[k := (es ! k)\<lparr>d_un := v\<rparr>])"
    using c(3) sections_at_cong [of t "s1\<lparr>contents := c\<rparr>"] by (simp add: t_def)
  have w32: "32 \<le> LENGTH('a)" using w by (auto simp: elf_width_def)
  have usz: "unat (sh_size strsh) = length u" using offs(2) le by (simp add: rdn_def elf_width_dvd [OF w])
  have n: "length u + length strs < 2 ^ 32" using small by simp
  then have "v = of_nat (length u + length strs)"
    using string_offset [where 'b = 'a, of "sh_size strsh" "length strs"] w32 by (simp add: v_def usz)
  moreover have "length u + length strs < 2 ^ LENGTH('a)" using n power_increasing [OF w32, of "2::nat"] by simp
  ultimately have "unat (rdi True v) = length u + length strs"
    using elf_width_dvd [OF w] by (simp only: rdi_little unat_of_nat mod_less)
  then show ?thesis
    by (intro exI [of _ t] exI [of _ "(es ! k)\<lparr>d_un := v\<rparr>"] conjI run names cop att) simp_all
qed

section \<open>The loop\<close>

lemma replace_other:
  assumes "d_un_at s off = Inr (d_un d)" and "tag = DT_NEEDED \<Longrightarrow> cstr_at s (rdn s (sh_offset strsh) + rdn s (d_un d)) = Inr nm"
    and "tag = DT_NEEDED \<Longrightarrow> map_of libs nm = None"
  shows "replace_step libs strsh off tag (s, added) = Inr (s, added)"
  using assms by (simp add: replace_step_def dyn_str_def dyn_str_pos_def)

lemma replace_loop:
  fixes es :: "'a::len Elf_Dyn list"
  assumes w: "elf_width TYPE('a)" and nul: "\<forall>r \<in> ran (map_of libs). 0 \<notin> set r"
  shows "littleEndian s \<Longrightarrow> map_inv (replacedSections s) \<Longrightarrow> sections_at s dyn dsz strTab u (pre @ es) \<Longrightarrow>
    section_hdr s (str ''.dynstr'') = Inr strsh \<Longrightarrow> rdn s (sh_offset strsh) = strTab \<Longrightarrow> rdn s (sh_size strsh) = length u \<Longrightarrow>
    dynstr_is s u strs \<Longrightarrow> None \<notin> set (needed_names True u es) \<Longrightarrow>
    length u + length strs + added_bytes libs (needed_names True u es) < 2 ^ 32 \<Longrightarrow> length es < n \<Longrightarrow>
    \<exists>t es' ext. dyn_for True (\<lambda>t. t) (\<lambda>p. contents (fst p)) (replace_step libs strsh) (dyn + length pre * sizeof_Dyn TYPE('a)) n (s, of_nat (length strs)) =
        Inr (dyn + length (pre @ es) * sizeof_Dyn TYPE('a), t, of_nat (length (strs @ ext))) \<and>
      same_names s t \<and> sections_at t dyn dsz strTab u (pre @ es') \<and> dynstr_is t u (strs @ ext) \<and>
      needed_names True (u @ strs @ ext) es' = map (map_option (renamed libs)) (needed_names True u es) \<and> others True es' = others True es"
proof (induction es arbitrary: s pre strs n)
  case Nil
  have tab: "dyn_table True (contents s) (dyn + length pre * sizeof_Dyn TYPE('a)) ([] :: 'a Elf_Dyn list)"
    using dyn_table_suffix [of True "contents s" dyn pre "[]"] Nil.prems(1,3) by (simp add: sections_at_def)
  have "same_names s s" using Nil.prems(2) by (simp add: same_names_def)
  then show ?case
    using dyn_for_Nil [of True "\<lambda>p. contents (fst p)" "(s, of_nat (length strs))" "dyn + length pre * sizeof_Dyn TYPE('a)" n "replace_step libs strsh"] tab Nil.prems
    by (intro exI [of _ s] exI [of _ "[]"] exI [of _ "[]"]) (simp add: needed_names_def)
next
  case (Cons d es)
  let ?z = "sizeof_Dyn TYPE('a)"
  let ?off = "dyn + length pre * ?z" and ?tag = "rdi True (d_tag d)"
  have tab: "dyn_table True (contents s) ?off (d # es)"
    using dyn_table_suffix [of True "contents s" dyn pre "d # es"] Cons.prems(1,3) by (simp add: sections_at_def)
  have n: "0 < n" "length es < n - 1" using Cons.prems(10) by auto
  have next_off: "?off + ?z = dyn + length (pre @ [e]) * ?z" for e :: "'a Elf_Dyn" by (simp add: add.assoc)
  note unfold = dyn_for_Cons [where img = "\<lambda>p. contents (fst p)" and st = "(s, of_nat (length strs))" and body = "replace_step libs strsh" and n = n,
      OF w _ n(1), simplified fst_conv, OF tab]
  have un: "d_un_at s ?off = Inr (d_un d)" using tab by (intro d_un_entry [OF w]) (auto simp: dyn_table_Cons fileSize_def)
  have readable: "\<exists>nm. cstr (drop (unat (rdi True (d_un d))) u) = Some nm" if "?tag = DT_NEEDED"
    using Cons.prems(8) that by (cases "cstr (drop (unat (rdi True (d_un d))) u)") (simp_all add: needed_names_Cons)
  have rest: "None \<notin> set (needed_names True u es)" using Cons.prems(8) by (auto simp: needed_names_Cons split: if_splits)
  show ?case
  proof (cases "?tag = DT_NEEDED \<and> (\<exists>nm p. cstr (drop (unat (rdi True (d_un d))) u) = Some nm \<and> map_of libs nm = Some p)")
    case False
    have keep: "replace_step libs strsh ?off ?tag (s, of_nat (length strs)) = Inr (s, of_nat (length strs))"
    proof (cases "?tag = DT_NEEDED")
      case True
      then obtain nm where nm: "cstr (drop (unat (rdi True (d_un d))) u) = Some nm" using readable by blast
      have "cstr_at s (rdn s (sh_offset strsh) + rdn s (d_un d)) = Inr nm"
        using string_in_table [OF Cons.prems(3) nm] Cons.prems(1,5) by (simp add: rdn_def)
      with True nm False show ?thesis by (intro replace_other [OF un, where nm = nm]) auto
    qed (simp add: replace_step_def)
    have small: "length u + length strs + added_bytes libs (needed_names True u es) < 2 ^ 32"
      using Cons.prems(9) by (simp add: needed_names_Cons split: if_splits)
    obtain t es' ext where t: "dyn_for True (\<lambda>t. t) (\<lambda>p. contents (fst p)) (replace_step libs strsh) (?off + ?z) (n - 1) (s, of_nat (length strs)) =
          Inr (dyn + length (pre @ d # es) * ?z, t, of_nat (length (strs @ ext)))" "same_names s t"
        "sections_at t dyn dsz strTab u (pre @ d # es')" "dynstr_is t u (strs @ ext)" "others True es' = others True es"
        "needed_names True (u @ strs @ ext) es' = map (map_option (renamed libs)) (needed_names True u es)"
      using Cons.IH [of s "pre @ [d]" strs "n - 1", OF Cons.prems(1,2) _ Cons.prems(4-7) rest small n(2)] Cons.prems(3)
      unfolding next_off [of d] by auto
    have "needed_names True (u @ strs @ ext) (d # es') = map (map_option (renamed libs)) (needed_names True u (d # es))"
    proof (cases "?tag = DT_NEEDED")
      case True
      then obtain nm where nm: "cstr (drop (unat (rdi True (d_un d))) u) = Some nm" using readable by blast
      with True False have "renamed libs nm = nm" by (auto simp: renamed_def split: option.split)
      moreover have "cstr (drop (unat (rdi True (d_un d))) (u @ strs @ ext)) = Some nm"
        using cstr_prefix [OF nm] cstr_length [OF nm] by simp
      ultimately show ?thesis using True nm t(6) by (simp add: needed_names_Cons)
    qed (simp add: needed_names_Cons t(6))
    moreover have "others True (d # es') = others True (d # es)" using t(5) by (simp add: others_def)
    ultimately show ?thesis unfolding unfold keep ebind_Inr using t by (intro exI [of _ t] exI [of _ "d # es'"] exI [of _ ext] conjI) auto
  next
    case True
    then obtain nm p where need: "?tag = DT_NEEDED" and nm: "cstr (drop (unat (rdi True (d_un d))) u) = Some nm"
      and new: "map_of libs nm = Some p" by blast
    have small: "length u + length (strs @ p @ [0]) + added_bytes libs (needed_names True u es) < 2 ^ 32"
      using Cons.prems(9) need nm new by (simp add: needed_names_Cons)
    then have room: "length u + length strs + length p + 1 < 2 ^ 32" by simp
    obtain s1 d' where s1: "replace_step libs strsh ?off DT_NEEDED (s, of_nat (length strs)) = Inr (s1, of_nat (length (strs @ p @ [0])))"
        "same_names s s1" "dynstr_is s1 u (strs @ p @ [0])" "sections_at s1 dyn dsz strTab u ((pre @ [d']) @ es)"
      and d': "d_tag d' = d_tag d" "unat (rdi True (d_un d')) = length u + length strs"
      using replace_entry [where k = "length pre" and nm = nm and p = p and libs = libs, OF w Cons.prems(1-7)] need nm new room by auto
    have le1: "littleEndian s1" "map_inv (replacedSections s1)" "section_hdr s1 (str ''.dynstr'') = Inr strsh"
      using s1(2) Cons.prems(1,4) by (simp_all add: same_names_def del: str_simps)
    have offs1: "rdn s1 (sh_offset strsh) = strTab" "rdn s1 (sh_size strsh) = length u"
      using Cons.prems(5,6) by (simp_all only: same_names_rdn [OF s1(2)])
    obtain t es' ext where t: "dyn_for True (\<lambda>t. t) (\<lambda>p. contents (fst p)) (replace_step libs strsh) (?off + ?z) (n - 1)
          (s1, of_nat (length (strs @ p @ [0]))) = Inr (dyn + length ((pre @ [d']) @ es) * ?z, t, of_nat (length ((strs @ p @ [0]) @ ext)))"
        "same_names s1 t" "sections_at t dyn dsz strTab u ((pre @ [d']) @ es')" "dynstr_is t u ((strs @ p @ [0]) @ ext)"
        "needed_names True (u @ (strs @ p @ [0]) @ ext) es' = map (map_option (renamed libs)) (needed_names True u es)"
        "others True es' = others True es"
      using Cons.IH [OF le1(1,2) s1(4) le1(3) offs1 s1(3) rest small n(2)] unfolding next_off [of d'] by blast
    have "cstr (drop (length u + length strs) (u @ (strs @ p @ [0]) @ ext)) = Some p"
      using nul new cstr_append [of p ext] by (auto simp: ran_def)
    then have "needed_names True (u @ (strs @ p @ [0]) @ ext) (d' # es') = map (map_option (renamed libs)) (needed_names True u (d # es))"
      using need nm new d' t(5) by (simp add: needed_names_Cons renamed_def)
    moreover have "others True (d' # es') = others True (d # es)" using t(6) need d' by (simp add: others_def)
    moreover have "dyn_for True (\<lambda>t. t) (\<lambda>p. contents (fst p)) (replace_step libs strsh) ?off n (s, of_nat (length strs)) =
        Inr (dyn + length (pre @ d # es) * ?z, t, of_nat (length (strs @ p @ [0] @ ext)))"
      unfolding unfold need s1(1) ebind_Inr t(1) by simp
    ultimately show ?thesis using t(2-4) same_names_trans [OF s1(2)]
      by (intro exI [of _ t] exI [of _ "d' # es'"] exI [of _ "p @ [0] @ ext"]) simp
  qed
qed

section \<open>The operation\<close>

lemma renamed_Nil: "renamed [] = id"
  by (simp add: fun_eq_iff renamed_def)

text \<open>
  Property C6. Replacing libraries refines a map over the list of their names. In a little-endian file whose two sections have not been
  replaced yet, in which every \<open>DT_NEEDED\<close> entry refers to a string \<open>u\<close> of the string table,
  \<open>replaceNeeded\<close> succeeds; in the sections to be written the libraries named are the old ones, in their order, each
  replaced by the name that the list of options gives for it, if it gives one; the other entries are those
  of the file, and the strings they refer to are still there.
\<close>

theorem replaceNeeded_refines:
  fixes s :: "'a::len ElfFile" and es :: "'a Elf_Dyn list"
  assumes w: "elf_width TYPE('a)" and le: "littleEndian s" and inv: "map_inv (replacedSections s)"
    and fresh: "map_of (replacedSections s) (str ''.dynstr'') = None" "map_of (replacedSections s) (str ''.dynamic'') = None"
    and hs: "dynamic_hdr s = Inr dynsh" "dynstr_hdr s = Inr strsh"
    and at: "sections_at s (rdn s (sh_offset dynsh)) (rdn s (sh_size dynsh)) (rdn s (sh_offset strsh)) u es"
    and u: "rdn s (sh_size strsh) = length u" and readable: "None \<notin> set (needed_names True u es)"
    and nul: "\<forall>r \<in> ran (map_of libs). 0 \<notin> set r"
    and small: "length u + added_bytes libs (needed_names True u es) < 2 ^ 32"
  shows "\<exists>s' u' t' es'. replaceNeeded libs s = Inr s' \<and> current s' (str ''.dynstr'') = Inr u' \<and> take (length u) u' = u \<and>
    current s' (str ''.dynamic'') = Inr t' \<and> dyn_table True t' 0 es' \<and>
    needed_names True u' es' = map (map_option (renamed libs)) (needed_names True u es) \<and> others True es' = others True es"
proof -
  have sh: "section_hdr s (str ''.dynamic'') = Inr dynsh" "section_hdr s (str ''.dynstr'') = Inr strsh"
    using hs by (simp_all add: dynamic_hdr_def dynstr_hdr_def)
  have start: "dynstr_is s u []" using fresh(1) by (simp add: dynstr_is_def del: str_simps)
  have tab: "dyn_table True (contents s) (rdn s (sh_offset dynsh)) es" using at le by (simp add: sections_at_def)
  obtain t es' ext where t: "dyn_for True (\<lambda>t. t) (\<lambda>p. contents (fst p)) (replace_step libs strsh) (rdn s (sh_offset dynsh))
        (dyn_count TYPE('a) (contents s) (rdn s (sh_offset dynsh))) (s, 0) =
        Inr (rdn s (sh_offset dynsh) + length es * sizeof_Dyn TYPE('a), t, of_nat (length ext))"
      "same_names s t" "sections_at t (rdn s (sh_offset dynsh)) (rdn s (sh_size dynsh)) (rdn s (sh_offset strsh)) u es'" "dynstr_is t u ext"
      "needed_names True (u @ ext) es' = map (map_option (renamed libs)) (needed_names True u es)" "others True es' = others True es"
    using replace_loop [where pre = "[]" and strs = "[]" and dyn = "rdn s (sh_offset dynsh)" and dsz = "rdn s (sh_size dynsh)", OF w nul le inv _ sh(2) refl u start readable _ dyn_count_table [OF w tab]] at small
    by auto
  have le': "littleEndian t" and sh': "section_hdr t (str ''.dynamic'') = Inr dynsh" "section_hdr t (str ''.dynstr'') = Inr strsh"
    and fresh': "map_of (replacedSections t) (str ''.dynamic'') = None"
    using t(2) le sh fresh(2) by (simp_all add: same_names_def del: str_simps)
  have offs: "rdn t (sh_offset dynsh) = rdn s (sh_offset dynsh)" "rdn t (sh_size dynsh) = rdn s (sh_size dynsh)"
    "rdn t (sh_offset strsh) = rdn s (sh_offset strsh)" "rdn t (sh_size strsh) = length u"
    using u by (simp_all only: same_names_rdn [OF t(2)])
  have run: "replaceNeeded libs s = Inr (if libs = [] then s else t)"
    using le by (simp add: replaceNeeded_def hs t(1))
  obtain c where c: "current t (str ''.dynamic'') = Inr c" "dyn_table True c 0 es'"
    using current_in_file(2) [OF t(3) fresh' sh'(1) offs(1,2)] le' by auto
  have strs: "current t (str ''.dynstr'') = Inr (u @ ext)" by (rule current_dynstr [OF t(3) sh'(2) offs(3,4) t(4)])
  show ?thesis
  proof (cases "libs = []")
    case True
    obtain c where "current s (str ''.dynamic'') = Inr c" "dyn_table True c 0 es"
      using current_in_file(2) [OF at fresh(2) sh(1) refl refl] le by auto
    moreover have "current s (str ''.dynstr'') = Inr u" using current_dynstr [OF at sh(2) refl u start] by simp
    ultimately show ?thesis using run True by (intro exI conjI) (auto simp: renamed_Nil option.map_id0)
  next
    case False
    with run c strs t(5,6) show ?thesis by (intro exI [of _ t] exI [of _ "u @ ext"] exI [of _ c] exI [of _ es'] conjI) simp_all
  qed
qed

theorem replaceNeeded_witness:
  "\<exists>s' u' t' es'. replaceNeeded [(str ''a'', str ''bcd''), (str ''x'', str ''y'')] ex_elf = Inr s' \<and>
    current s' (str ''.dynstr'') = Inr u' \<and> take 8 u' = [0, 97, 0, 47, 112, 58, 113, 0] \<and>
    current s' (str ''.dynamic'') = Inr t' \<and> dyn_table True t' 0 es' \<and>
    needed_names True u' es' = [Some (str ''bcd'')] \<and> others True es' = drop 1 ex_dyns"
proof -
  let ?u = "[0, 97, 0, 47, 112, 58, 113, 0] :: bstring" and ?libs = "[(str ''a'', str ''bcd''), (str ''x'', str ''y'')]"
  have facts: "elf_width TYPE(32)" "littleEndian ex_elf" "map_inv (replacedSections ex_elf)"
    "map_of (replacedSections ex_elf) (str ''.dynstr'') = None" "map_of (replacedSections ex_elf) (str ''.dynamic'') = None"
    "dynamic_hdr ex_elf = Inr (shdrs ex_elf ! 3)" "dynstr_hdr ex_elf = Inr (shdrs ex_elf ! 2)"
    "sections_at ex_elf (rdn ex_elf (sh_offset (shdrs ex_elf ! 3))) (rdn ex_elf (sh_size (shdrs ex_elf ! 3)))
      (rdn ex_elf (sh_offset (shdrs ex_elf ! 2))) ?u ex_dyns"
    "rdn ex_elf (sh_size (shdrs ex_elf ! 2)) = length ?u" "None \<notin> set (needed_names True ?u ex_dyns)" by code_simp+
  have nul: "\<forall>r \<in> ran (map_of ?libs). 0 \<notin> set r" by (auto simp: ran_def split: if_splits)
  have nums: "added_bytes ?libs (needed_names True ?u ex_dyns) = 4" "length ?u = 8" "others True ex_dyns = drop 1 ex_dyns"
    "map (map_option (renamed ?libs)) (needed_names True ?u ex_dyns) = [Some (str ''bcd'')]" by code_simp+
  have small: "length ?u + added_bytes ?libs (needed_names True ?u ex_dyns) < 2 ^ 32" by (simp only: nums) simp
  show ?thesis using replaceNeeded_refines [OF facts nul small] unfolding nums .
qed

end
