(* ===== verification/ElfRefreshProps.thy ===== *)
theory ElfRefreshProps
  imports ElfSearchProps
begin

text \<open>
  The end of the rewriting: the entries of the dynamic section that hold the address or the size of another section are
  set to where that section is now.
\<close>

section \<open>The sections that entries refer to\<close>

definition present :: "'a::len ElfFile \<Rightarrow> char list \<Rightarrow> bool" where
  "present s nm \<longleftrightarrow> (case findSection2 s (str nm) of Inr (Some i) \<Rightarrow> True | _ \<Rightarrow> False)"

definition header_of :: "'a::len ElfFile \<Rightarrow> char list \<Rightarrow> 'a Elf_Shdr" where
  "header_of s nm = (case findSection2 s (str nm) of Inr (Some i) \<Rightarrow> shdrs s ! i)"

text \<open>For each tag: whether the section must exist, the field that is meant, and the names tried.\<close>

definition tag_sections :: "('a::len word \<times> bool \<times> ('a Elf_Shdr \<Rightarrow> 'a word) \<times> char list list) list" where
  "tag_sections =
     [(DT_STRTAB, True, sh_addr, [''.dynstr'']), (DT_STRSZ, True, sh_size, [''.dynstr'']),
      (DT_SYMTAB, True, sh_addr, [''.dynsym'']), (DT_HASH, True, sh_addr, [''.hash'']),
      (DT_GNU_HASH, True, sh_addr, [''.gnu.hash'']),
      (DT_JMPREL, True, sh_addr, [''.rel.plt'', ''.rela.plt'', ''.rela.IA_64.pltoff'']),
      (DT_REL, False, sh_addr, [''.rel.dyn'', ''.rel.got'']), (DT_RELA, False, sh_addr, [''.rela.dyn'']),
      (DT_VERNEED, True, sh_addr, [''.gnu.version_r'']), (DT_VERSYM, True, sh_addr, [''.gnu.version''])]"

definition exist_in :: "('a::len word \<times> bool \<times> ('a Elf_Shdr \<Rightarrow> 'a word) \<times> char list list) list \<Rightarrow> 'a ElfFile \<Rightarrow> 'a word \<Rightarrow> bool" where
  "exist_in tab s tag \<longleftrightarrow>
     (case map_of tab tag of Some (required, f, nms) \<Rightarrow> required \<longrightarrow> find (present s) nms \<noteq> None | None \<Rightarrow> True)"

definition value_in :: "('a::len word \<times> bool \<times> ('a Elf_Shdr \<Rightarrow> 'a word) \<times> char list list) list \<Rightarrow> 'a ElfFile \<Rightarrow> 'a word \<Rightarrow> 'a word option" where
  "value_in tab s tag = (case map_of tab tag of None \<Rightarrow> None
     | Some (required, f, nms) \<Rightarrow> map_option (\<lambda>nm. f (header_of s nm)) (find (present s) nms))"

definition refreshed :: "'a::len ElfFile \<Rightarrow> 'a Elf_Dyn \<Rightarrow> 'a Elf_Dyn" where
  "refreshed s d = (case value_in tag_sections s (rdi (littleEndian s) (d_tag d)) of None \<Rightarrow> d | Some v \<Rightarrow> d\<lparr>d_un := v\<rparr>)"

lemma found_hdr:
  assumes "present s nm"
  shows "section_hdr s (str nm) = Inr (header_of s nm)"
proof -
  from assms obtain i where i: "findSection2 s (str nm) = Inr (Some i)"
    by (auto simp: present_def split: sum.splits option.splits)
  then have "findSection s (str nm) = Inr i" by (simp add: findSection_def)
  with findSection_Inr(3) [OF this] i show ?thesis by (simp add: section_hdr_Inr header_of_def)
qed

lemma found_first:
  assumes "\<forall>nm. \<not> isl (findSection2 s nm)"
  shows "ebind (find_first s (map str nms)) (addr_of s) = Inr (map_option (\<lambda>nm. sh_addr (header_of s nm)) (find (present s) nms))"
    and "find_first s (map str nms) = Inr None \<longleftrightarrow> find (present s) nms = None"
proof (induction nms)
  case (Cons nm nms)
  obtain r where r: "findSection2 s (str nm) = Inr r" using assms not_isl by blast
  { case 1
    show ?case
    proof (cases r)
      case (Some i)
      then have "findSection s (str nm) = Inr i" using r by (simp add: findSection_def)
      with findSection_Inr(3) [OF this] r Some show ?thesis by (simp add: addr_of_def at_def present_def header_of_def)
    qed (use Cons(1) r in \<open>simp add: present_def\<close>) }
  { case 2
    show ?case using Cons(2) r by (cases r) (simp_all add: present_def) }
qed (simp_all add: addr_of_def)

lemma found_field:
  "find (present s) [nm] \<noteq> None \<Longrightarrow>
    ebind (section_hdr s (str nm)) (\<lambda>sh. Inr (Some (f sh))) = Inr (map_option (\<lambda>nm. f (header_of s nm)) (find (present s) [nm]))"
  by (simp add: found_hdr del: str_simps split: if_splits)

text \<open>One line of the table against one branch of the code.\<close>

lemma table_step:
  assumes "exist_in ((k, required, f, nms) # tab) s x"
    and "(required \<longrightarrow> find (present s) nms \<noteq> None) \<Longrightarrow> A = Inr (map_option (\<lambda>nm. f (header_of s nm)) (find (present s) nms))"
    and "exist_in tab s x \<Longrightarrow> B = Inr (value_in tab s x)"
  shows "(if x = k then A else B) = Inr (value_in ((k, required, f, nms) # tab) s x)"
  using assms by (auto simp: exist_in_def value_in_def)

lemma dyn_value_eq:
  assumes all: "\<forall>nm. \<not> isl (findSection2 s nm)" and ex: "exist_in tag_sections s x"
  shows "dyn_value s x = Inr (value_in tag_sections s x)"
proof -
  note first = found_first [OF all]
  let ?plt = "[''.rel.plt'', ''.rela.plt'', ''.rela.IA_64.pltoff'']"
  have jmprel: "ebind (find_first s (map str ?plt)) (\<lambda>r. if r = None then Inl e else addr_of s r) =
      Inr (map_option (\<lambda>nm. sh_addr (header_of s nm)) (find (present s) ?plt))"
    if "True \<longrightarrow> find (present s) ?plt \<noteq> None" for e
    using first(1) [of ?plt] first(2) [of ?plt] that by (cases "find_first s (map str ?plt)") (auto simp del: str_simps)
  have opt: "ebind (find_first s (map str nms)) (addr_of s) = Inr (map_option (\<lambda>nm. sh_addr (header_of s nm)) (find (present s) nms))"
    for nms by (rule first)
  note leaf = found_field jmprel [unfolded list.map] opt [of "[_]", unfolded list.map] opt [of "[_, _]", unfolded list.map]
  show ?thesis using ex unfolding dyn_value_def tag_sections_def Let_def
    apply -
    apply (rule table_step, assumption, rule leaf, blast)+
    apply (rule table_step, assumption, rule leaf)
    apply (rule table_step, assumption, rule leaf)
    apply (rule table_step, assumption, rule leaf, blast)+
    apply (simp add: value_in_def)
    done
qed

section \<open>The loop\<close>

lemma dyn_value_view:
  assumes "name_view t = name_view s" and "shdrs t = shdrs s"
  shows "dyn_value t x = dyn_value s x"
proof -
  note views = section_hdr_view [OF assms] findSection_view(2) [OF assms(1)]
  have "find_first t nms = find_first s nms" for nms by (induction nms) (simp_all add: views)
  moreover have "addr_of t = addr_of s" by (simp add: fun_eq_iff addr_of_def assms(2) split: option.split)
  ultimately show ?thesis by (simp only: dyn_value_def views)
qed

lemma fix_loop:
  fixes es :: "'a::len Elf_Dyn list"
  assumes w: "elf_width TYPE('a)"
  shows "sections_at s dyn dsz strTab u (pre @ es) \<Longrightarrow> \<forall>d \<in> set es. dyn_value s (rdi (littleEndian s) (d_tag d)) = Inr (val (rdi (littleEndian s) (d_tag d))) \<Longrightarrow>
    \<forall>d \<in> set es. conv (rdi (littleEndian s) (d_tag d)) = rdi (littleEndian s) (d_tag d) \<Longrightarrow> conv 0 = 0 \<Longrightarrow> length es < n \<Longrightarrow>
    \<exists>c. dyn_for (littleEndian s) conv contents fix_dyn (dyn + length pre * sizeof_Dyn TYPE('a)) n s =
        Inr (dyn + length (pre @ es) * sizeof_Dyn TYPE('a), s\<lparr>contents := c\<rparr>) \<and> hdr (s\<lparr>contents := c\<rparr>) = hdr s \<and>
      sections_at (s\<lparr>contents := c\<rparr>) dyn dsz strTab u
        (pre @ map (\<lambda>d. case val (rdi (littleEndian s) (d_tag d)) of None \<Rightarrow> d | Some v \<Rightarrow> d\<lparr>d_un := v\<rparr>) es)"
proof (induction es arbitrary: s pre n)
  case Nil
  then obtain m where n: "n = Suc m" by (cases n) auto
  have "dyn_table (littleEndian s) (contents s) (dyn + length pre * sizeof_Dyn TYPE('a)) ([] :: 'a Elf_Dyn list)"
    using dyn_table_suffix [of "littleEndian s" "contents s" dyn pre "[]"] Nil.prems(1) by (simp add: sections_at_def)
  then have "dyn_tag (littleEndian s) (contents s) (dyn + length pre * sizeof_Dyn TYPE('a)) = (0 :: 'a word)" by (simp add: dyn_table_def)
  with Nil show ?case by (intro exI [of _ "contents s"]) (simp add: n)
next
  case (Cons d es)
  let ?z = "sizeof_Dyn TYPE('a)" and ?le = "littleEndian s"
  let ?off = "dyn + length pre * ?z" and ?tag = "rdi ?le (d_tag d)"
  let ?d = "case val ?tag of None \<Rightarrow> d | Some v \<Rightarrow> d\<lparr>d_un := v\<rparr>"
  from Cons.prems(5) obtain m where n: "n = Suc m" "length es < m" by (cases n) auto
  have tab: "dyn_table ?le (contents s) ?off (d # es)"
    using dyn_table_suffix [of ?le "contents s" dyn pre "d # es"] Cons.prems(1) by (simp add: sections_at_def)
  then have tag: "dyn_tag ?le (contents s) ?off = ?tag" "?tag \<noteq> 0" using dyn_tag_entry [OF w] by (auto simp: dyn_table_Cons)
  obtain c where c: "fix_dyn ?off ?tag s = Inr (s\<lparr>contents := c\<rparr>)" "hdr (s\<lparr>contents := c\<rparr>) = hdr s"
      "sections_at (s\<lparr>contents := c\<rparr>) dyn dsz strTab u ((pre @ [?d]) @ es)"
  proof (cases "val ?tag")
    case None
    with Cons.prems(1,2) that [of "contents s"] show ?thesis by (simp add: fix_dyn_def)
  next
    case (Some v)
    with set_value [OF Cons.prems(1), of "length pre" v] Cons.prems(2) that show ?thesis by (auto simp: fix_dyn_def)
  qed
  let ?s = "s\<lparr>contents := c\<rparr>"
  have view: "name_view ?s = name_view s" by (rule name_view_contents [OF c(2)])
  have vals: "\<forall>d \<in> set es. dyn_value ?s (rdi (littleEndian ?s) (d_tag d)) = Inr (val (rdi (littleEndian ?s) (d_tag d)))"
    "\<forall>d \<in> set es. conv (rdi (littleEndian ?s) (d_tag d)) = rdi (littleEndian ?s) (d_tag d)"
    using Cons.prems(2,3) dyn_value_view [OF view] by simp_all
  have next_off: "dyn + length (pre @ [?d]) * ?z = ?off + ?z" by (simp add: add.assoc)
  obtain c' where c': "dyn_for ?le conv contents fix_dyn (?off + ?z) m ?s = Inr (dyn + length ((pre @ [?d]) @ es) * ?z, s\<lparr>contents := c'\<rparr>)"
      "hdr (s\<lparr>contents := c'\<rparr>) = hdr ?s"
      "sections_at (s\<lparr>contents := c'\<rparr>) dyn dsz strTab u
        ((pre @ [?d]) @ map (\<lambda>d. case val (rdi ?le (d_tag d)) of None \<Rightarrow> d | Some v \<Rightarrow> d\<lparr>d_un := v\<rparr>) es)"
    using Cons.IH [OF c(3) vals Cons.prems(4) n(2)] unfolding next_off by auto
  have "dyn_for ?le conv contents fix_dyn ?off n s = Inr (dyn + length (pre @ d # es) * ?z, s\<lparr>contents := c'\<rparr>)"
    using c'(1) Cons.prems(3) by (simp add: n(1) tag c(1))
  with c' c(2) show ?case by (intro exI [of _ c']) simp
qed

lemma names_readable:
  assumes "\<forall>i \<in> {1..<shnum s}. \<not> isl (sectionName s i)"
  shows "\<not> isl (findSection2 s nm)"
proof -
  have "\<not> isl (find_index s nm is)" if "set is \<subseteq> {1..<shnum s}" for "is"
    using that
  proof (induction "is")
    case (Cons i "is")
    then have "\<not> isl (sectionName s i)" using assms by simp
    then obtain n where "sectionName s i = Inr n" using not_isl by blast
    with Cons show ?case by simp
  qed simp
  then have "\<not> isl (findSection3 s nm)" unfolding findSection3_def by simp
  then obtain j where "findSection3 s nm = Inr j" using not_isl by blast
  then show ?thesis by (simp add: findSection2_def)
qed

lemma narrow_tag:
  fixes x :: "'a::len word"
  assumes "unat x < 2 ^ 32"
  shows "ucast (ucast x :: 32 word) = x"
  using assms by (simp add: word_unat_eq_iff unsigned_ucast_eq unsigned_take_bit_eq take_bit_nat_eq_self)

text \<open>
  Property C3. The entries of the dynamic section follow the sections. If every section that an entry of the table stands for exists, and the tags
  have at most 32 bits, \<open>rewrite_dynamic\<close> succeeds and sets the entries for the string table,
  the symbol table, the hash tables, the relocations and the versions to the address that the section
  has now, and \<open>DT_STRSZ\<close> to the size of the string table; all other
  entries, the string table in the file, the ELF header and the rest of the state are as before.
\<close>

theorem rewrite_dynamic_follows_sections:
  fixes s :: "'a::len ElfFile" and es :: "'a Elf_Dyn list"
  assumes w: "elf_width TYPE('a)" and hs: "dynamic_hdr s = Inr dynsh"
    and at: "sections_at s (rdn s (sh_offset dynsh)) dsz strTab u es"
    and names: "\<forall>i \<in> {1..<shnum s}. \<not> isl (sectionName s i)"
    and narrow: "\<forall>d \<in> set es. unat (rdi (littleEndian s) (d_tag d)) < 2 ^ 32"
    and exist: "\<forall>d \<in> set es. exist_in tag_sections s (rdi (littleEndian s) (d_tag d))"
  shows "\<exists>c. rewrite_dynamic s = Inr (s\<lparr>contents := c\<rparr>) \<and> hdr (s\<lparr>contents := c\<rparr>) = hdr s \<and>
    sections_at (s\<lparr>contents := c\<rparr>) (rdn s (sh_offset dynsh)) dsz strTab u (map (refreshed s) es)"
proof -
  let ?dyn = "rdn s (sh_offset dynsh)" and ?le = "littleEndian s" and ?conv = "\<lambda>t. ucast (ucast t :: 32 word) :: 'a word"
  obtain i where i: "findSection s (str ''.dynamic'') = Inr i" "i < length (shdrs s)" "dynsh = shdrs s ! i"
    using hs by (auto simp: dynamic_hdr_def section_hdr_Inr)
  then have two: "findSection2 s (str ''.dynamic'') = Inr (Some i)"
    by (auto simp: findSection_def ebind_simps split: option.splits)
  have tab: "dyn_table ?le (contents s) ?dyn es" using at by (simp add: sections_at_def)
  have all: "\<forall>nm. \<not> isl (findSection2 s nm)" using names_readable [OF names] by blast
  have vals: "\<forall>d \<in> set es. dyn_value s (rdi ?le (d_tag d)) = Inr (value_in tag_sections s (rdi ?le (d_tag d)))"
    using dyn_value_eq [OF all] exist by blast
  have same: "\<forall>d \<in> set es. ?conv (rdi ?le (d_tag d)) = rdi ?le (d_tag d)" using narrow narrow_tag by blast
  obtain c where c: "dyn_for ?le ?conv contents fix_dyn ?dyn (dyn_count TYPE('a) (contents s) ?dyn) s =
        Inr (?dyn + length es * sizeof_Dyn TYPE('a), s\<lparr>contents := c\<rparr>)" "hdr (s\<lparr>contents := c\<rparr>) = hdr s"
      "sections_at (s\<lparr>contents := c\<rparr>) ?dyn dsz strTab u
        (map (\<lambda>d. case value_in tag_sections s (rdi ?le (d_tag d)) of None \<Rightarrow> d | Some v \<Rightarrow> d\<lparr>d_un := v\<rparr>) es)"
    using fix_loop [where pre = "[]" and conv = ?conv and dyn = ?dyn and dsz = dsz and strTab = strTab and u = u, OF w _ vals same _ dyn_count_table [OF w tab]] at by auto
  have "rewrite_dynamic s = Inr (s\<lparr>contents := c\<rparr>)"
    using c(1) i(2) by (simp add: rewrite_dynamic_def two at_def i(3) [symmetric] del: str_simps)
  with c(2,3) show ?thesis by (auto simp: refreshed_def [abs_def])
qed

definition ex_moved :: "32 ElfFile" where
  "ex_moved = ex_elf\<lparr>shdrs := (shdrs ex_elf)[2 := (shdrs ex_elf ! 2)\<lparr>sh_addr := 8247\<rparr>]\<rparr>"

theorem rewrite_dynamic_witness:
  "\<exists>c. rewrite_dynamic ex_moved = Inr (ex_moved\<lparr>contents := c\<rparr>) \<and>
     dyn_table True c 64 [\<lparr>d_tag = 1, d_un = 1\<rparr>, \<lparr>d_tag = 15, d_un = 3\<rparr>, \<lparr>d_tag = 5, d_un = 8247 :: 32 word\<rparr>]"
proof -
  have facts: "elf_width TYPE(32)" "dynamic_hdr ex_moved = Inr (shdrs ex_elf ! 3)"
    "sections_at ex_moved (rdn ex_moved (sh_offset (shdrs ex_elf ! 3))) 32 52 [47, 108, 0] ex_dyns"
    "\<forall>i \<in> {1..<shnum ex_moved}. \<not> isl (sectionName ex_moved i)"
    by code_simp+
  have nums: "rdn ex_moved (sh_offset (shdrs ex_elf ! 3)) = 64" "littleEndian ex_moved = True" 
    "map (refreshed ex_moved) ex_dyns = [\<lparr>d_tag = 1, d_un = 1\<rparr>, \<lparr>d_tag = 15, d_un = 3\<rparr>, \<lparr>d_tag = 5, d_un = 8247\<rparr>]"
    "\<forall>d \<in> set ex_dyns. exist_in tag_sections ex_moved (rdi (littleEndian ex_moved) (d_tag d))"
    by code_simp+
  have narrow: "\<forall>d \<in> set ex_dyns. unat (rdi (littleEndian ex_moved) (d_tag d)) < 2 ^ 32"
    using unsigned_less [where 'b = 32 and 'a = nat] by simp
  show ?thesis using rewrite_dynamic_follows_sections [OF facts narrow nums(4)] unfolding nums(1,3)
    by (auto simp: sections_at_def nums(2))
qed

end
