(* ===== verification/ElfSymbolProps.thy ===== *)
theory ElfSymbolProps
  imports ElfRefreshProps
begin

text \<open>
  The symbol tables after the section headers were sorted: every symbol goes on to belong to the section it belonged to.
\<close>

section \<open>Symbols and their sections\<close>

text \<open>Where the symbols of the symbol tables of a file are.\<close>

definition table_positions :: "'a::len ElfFile \<Rightarrow> nat \<Rightarrow> nat list" where
  "table_positions s i =
     (let sh = shdrs s ! i in
      if is_symtab s sh
      then map (\<lambda>k. rdn s (sh_offset sh) + k * sizeof_Sym TYPE('a)) [0 ..< rdn s (sh_size sh) div sizeof_Sym TYPE('a)]
      else [])"

definition symbol_positions :: "'a::len ElfFile \<Rightarrow> nat list" where
  "symbol_positions s = concat (map (table_positions s) [1 ..< shnum s])"

definition symbol_at :: "bstring \<Rightarrow> nat \<Rightarrow> 'a::len Elf_Sym" where
  "symbol_at c p = dec_Sym (chunk p (sizeof_Sym TYPE('a)) c)"

definition sym_section :: "'a::len ElfFile \<Rightarrow> 'a Elf_Sym \<Rightarrow> nat" where
  "sym_section s sy = unat (rdi (littleEndian s) (st_shndx sy))"

text \<open>The symbol belongs to a section of the file as it was read.\<close>

definition in_section :: "'a::len ElfFile \<Rightarrow> 'a Elf_Sym \<Rightarrow> bool" where
  "in_section s sy \<longleftrightarrow> 0 < sym_section s sy \<and> ucast (rdi (littleEndian s) (st_shndx sy)) < SHN_LORESERVE \<and>
     sym_section s sy < length (sectionsByOldIndex s)"

definition old_name :: "'a::len ElfFile \<Rightarrow> 'a Elf_Sym \<Rightarrow> bstring" where
  "old_name s sy = sectionsByOldIndex s ! sym_section s sy"

definition is_section_symbol :: "'a::len ElfFile \<Rightarrow> 'a Elf_Sym \<Rightarrow> bool" where
  "is_section_symbol s sy \<longleftrightarrow> ELF32_ST_TYPE (ucast (rdi (littleEndian s) (st_info sy))) = STT_SECTION"

text \<open>What becomes of a symbol: its section now has the name that its section had.\<close>

definition follows :: "'a::len ElfFile \<Rightarrow> 'a Elf_Sym \<Rightarrow> 'a Elf_Sym \<Rightarrow> bool" where
  "follows s sy sy' \<longleftrightarrow>
     (if in_section s sy then
        sectionName s (sym_section s sy') = Inr (old_name s sy) \<and>
        st_value sy' = (if is_section_symbol s sy then sh_addr (shdrs s ! sym_section s sy') else st_value sy) \<and>
        sy'\<lparr>st_shndx := st_shndx sy, st_value := st_value sy\<rparr> = sy
      else sy' = sy)"

section \<open>One symbol\<close>

definition patch_symbol :: "'a::len ElfFile \<Rightarrow> 'a Elf_Sym \<Rightarrow> 'a Elf_Sym" where
  "patch_symbol s sy =
     (if in_section s sy then
        (case findSection3 s (old_name s sy) of Inr j \<Rightarrow>
           sy\<lparr>st_shndx := wrn s j, st_value := (if is_section_symbol s sy then sh_addr (shdrs s ! j) else st_value sy)\<rparr>)
      else sy)"

definition patch :: "'a::len ElfFile \<Rightarrow> bstring \<Rightarrow> nat \<Rightarrow> bstring" where
  "patch s c p = overwrite p (enc_Sym (patch_symbol s (symbol_at c p))) c"

definition movable :: "'a::len ElfFile \<Rightarrow> 'a Elf_Sym \<Rightarrow> bool" where
  "movable s sy \<longleftrightarrow> (in_section s sy \<longrightarrow> old_name s sy \<noteq> [] \<and> (\<exists>j. findSection s (old_name s sy) = Inr j))"

lemma fix_sym_patch:
  fixes s :: "'a::len ElfFile"
  assumes w: "elf_width TYPE('a)" and lo: "sizeof_Ehdr TYPE('a) \<le> tab + k * sizeof_Sym TYPE('a)"
    and hi: "tab + k * sizeof_Sym TYPE('a) + sizeof_Sym TYPE('a) \<le> fileSize s"
    and mv: "movable s (symbol_at (contents s) (tab + k * sizeof_Sym TYPE('a)))"
  shows "fix_sym tab s k = Inr (s\<lparr>contents := patch s (contents s) (tab + k * sizeof_Sym TYPE('a))\<rparr>)"
proof -
  let ?z = "sizeof_Sym TYPE('a)" and ?le = "littleEndian s"
  let ?p = "tab + k * ?z"
  define sy :: "'a Elf_Sym" where "sy = symbol_at (contents s) ?p"
  note d = elf_width_dvd [OF w]
  have rd: "rd s ?p ?z = Inr (chunk ?p ?z (contents s))" using hi by (simp add: rd_Inr)
  have dec: "dec_Sym (chunk ?p ?z (contents s)) = sy" by (simp add: sy_def symbol_at_def)
  have x: "rdi ?le (st_shndx sy) \<noteq> 0 \<and> ucast (rdi ?le (st_shndx sy)) < SHN_LORESERVE \<longleftrightarrow>
      0 < sym_section s sy \<and> ucast (rdi ?le (st_shndx sy)) < SHN_LORESERVE"
    by (simp add: sym_section_def unat_gt_0)
  show ?thesis
  proof (cases "in_section s sy")
    case False
    have "enc_Sym sy = chunk ?p ?z (contents s)"
      using layout.enc_dec [OF layout_Sym [OF w], of "chunk ?p ?z (contents s)"] hi by (simp add: sy_def symbol_at_def fileSize_def)
    then have "patch s (contents s) ?p = contents s"
      using False overwrite_id [of ?p ?z "contents s"] hi by (simp add: patch_def patch_symbol_def fileSize_def flip: sy_def)
    moreover have "fix_sym tab s k = Inr s"
      using False unfolding fix_sym_def Let_def rd ebind_Inr dec x by (auto simp: in_section_def sym_section_def)
    ultimately show ?thesis by simp
  next
    case True
    with mv obtain j where j: "findSection s (old_name s sy) = Inr j" and nm: "old_name s sy \<noteq> []"
      by (auto simp: movable_def simp flip: sy_def)
    then have j3: "findSection3 s (old_name s sy) = Inr j" and "j < length (shdrs s)"
      using findSection_Inr(3) [OF j] by (auto simp: findSection_def findSection2_def ebind_simps split: option.splits if_splits)
    have big: "\<not> length (sectionsByOldIndex s) \<le> unat (rdi ?le (st_shndx sy))" and idx: "0 < sym_section s sy \<and> ucast (rdi ?le (st_shndx sy)) < SHN_LORESERVE"
      using True by (simp_all add: in_section_def sym_section_def)
    have old: "sectionsByOldIndex s ! unat (rdi ?le (st_shndx sy)) = old_name s sy" by (simp add: old_name_def sym_section_def)
    have len: "length (enc_Sym (y :: 'a Elf_Sym)) = ?z" for y using layout.length_enc [OF layout_Sym [OF w]] by blast
    have at: "at (shdrs s) j = Inr (shdrs s ! j)" using \<open>j < length (shdrs s)\<close> by (simp add: at_def)
    show ?thesis
      using True hi unfolding fix_sym_def Let_def rd ebind_Inr dec x if_P [OF idx] if_not_P [OF big] patch_def sy_def [symmetric] patch_symbol_def
      by (simp add: old j3 at nm wr_Inr len d is_section_symbol_def wri_def)
  qed
qed

section \<open>All symbols\<close>

definition apart :: "nat \<Rightarrow> nat \<Rightarrow> nat \<Rightarrow> bool" where
  "apart z p q \<longleftrightarrow> p + z \<le> q \<or> q + z \<le> p"

lemma length_enc_Sym: "elf_width TYPE('a::len) \<Longrightarrow> length (enc_Sym (y :: 'a Elf_Sym)) = sizeof_Sym TYPE('a)"
  using layout.length_enc [OF layout_Sym] by blast

lemma length_patch:
  "elf_width TYPE('a::len) \<Longrightarrow> p + sizeof_Sym TYPE('a) \<le> length c \<Longrightarrow> length (patch (s :: 'a ElfFile) c p) = length c"
  by (simp add: patch_def length_enc_Sym)

lemma chunk_patch:
  fixes s :: "'a::len ElfFile"
  assumes w: "elf_width TYPE('a)" and "p + sizeof_Sym TYPE('a) \<le> length c" and "a + n \<le> p \<or> p + sizeof_Sym TYPE('a) \<le> a"
  shows "chunk a n (patch s c p) = chunk a n c"
  unfolding patch_def by (rule chunk_overwrite_disjoint) (use assms in \<open>simp_all add: length_enc_Sym\<close>)

lemma patches:
  fixes s :: "'a::len ElfFile"
  assumes w: "elf_width TYPE('a)"
  shows "\<forall>p \<in> set ps. p + sizeof_Sym TYPE('a) \<le> length c \<Longrightarrow> sorted_wrt (apart (sizeof_Sym TYPE('a))) ps \<Longrightarrow>
    length (foldl (patch s) c ps) = length c \<and>
    (\<forall>a n. (\<forall>p \<in> set ps. a + n \<le> p \<or> p + sizeof_Sym TYPE('a) \<le> a) \<longrightarrow> chunk a n (foldl (patch s) c ps) = chunk a n c) \<and>
    (\<forall>p \<in> set ps. symbol_at (foldl (patch s) c ps) p = patch_symbol s (symbol_at c p))"
proof (induction ps arbitrary: c)
  case (Cons p ps)
  let ?z = "sizeof_Sym TYPE('a)" and ?c = "patch s c p"
  have len: "length ?c = length c" using length_patch [OF w] Cons.prems(1) by simp
  have ap: "\<forall>q \<in> set ps. apart ?z p q" using Cons.prems(2) by simp
  have IH: "length (foldl (patch s) ?c ps) = length ?c"
    "\<forall>a n. (\<forall>q \<in> set ps. a + n \<le> q \<or> q + ?z \<le> a) \<longrightarrow> chunk a n (foldl (patch s) ?c ps) = chunk a n ?c"
    "\<forall>q \<in> set ps. symbol_at (foldl (patch s) ?c ps) q = patch_symbol s (symbol_at ?c q)"
    using Cons.IH [of ?c] Cons.prems len by auto
  have step: "chunk a n ?c = chunk a n c" if "a + n \<le> p \<or> p + ?z \<le> a" for a n
    using chunk_patch [OF w _ that] Cons.prems(1) by simp
  have here: "symbol_at (foldl (patch s) ?c ps) p = patch_symbol s (symbol_at c p)"
  proof -
    have "chunk p ?z (foldl (patch s) ?c ps) = chunk p ?z ?c" using IH(2) ap by (simp add: apart_def)
    also have "\<dots> = enc_Sym (patch_symbol s (symbol_at c p))"
      using chunk_overwrite_same [of p "enc_Sym (patch_symbol s (symbol_at c p))" c] Cons.prems(1)
      by (simp add: patch_def length_enc_Sym [OF w])
    finally show ?thesis using layout.dec_enc [OF layout_Sym [OF w], of _ "[]"] by (simp add: symbol_at_def)
  qed
  have there: "symbol_at ?c q = (symbol_at c q :: 'a Elf_Sym)" if "q \<in> set ps" for q
    using ap that step [of q ?z] by (auto simp: symbol_at_def apart_def)
  show ?case using IH len here there step by (auto simp: foldl_Cons)
qed simp

text \<open>The symbols are treated one after the other.\<close>

lemma same_symbols:
  fixes s :: "'a::len ElfFile"
  assumes "hdr (s\<lparr>contents := c\<rparr>) = hdr s"
  shows "patch (s\<lparr>contents := c\<rparr>) = patch s" and "movable (s\<lparr>contents := c\<rparr>) = movable s"
proof -
  let ?t = "s\<lparr>contents := c\<rparr>"
  have find: "findSection3 ?t = findSection3 s" "findSection ?t = findSection s"
    using findSection_view [OF name_view_contents [OF assms]] by (simp_all add: fun_eq_iff)
  have sec: "in_section ?t = in_section s" "old_name ?t = old_name s" "is_section_symbol ?t = is_section_symbol s"
    by (simp_all add: fun_eq_iff in_section_def old_name_def sym_section_def is_section_symbol_def)
  have eq: "wrn ?t = (wrn s :: nat \<Rightarrow> 'x::len word)" "shdrs ?t = shdrs s" by (simp_all add: fun_eq_iff wrn_def)
  show "patch ?t = patch s" unfolding fun_eq_iff patch_def patch_symbol_def find sec eq by blast
  show "movable ?t = movable s" unfolding fun_eq_iff movable_def find sec by blast
qed

lemma patch_step:
  fixes s :: "'a::len ElfFile"
  assumes w: "elf_width TYPE('a)" and "sizeof_Ehdr TYPE('a) \<le> p" and "p + sizeof_Sym TYPE('a) \<le> length c"
  shows "hdr (s\<lparr>contents := patch s c p\<rparr>) = hdr (s\<lparr>contents := c\<rparr>)"
  using hdr_overwrite [of p "enc_Sym (patch_symbol s (symbol_at c p))" "s\<lparr>contents := c\<rparr>"] assms(2,3)
  by (simp add: patch_def length_enc_Sym [OF w] fileSize_def)

lemma fix_syms:
  fixes s :: "'a::len ElfFile"
  assumes w: "elf_width TYPE('a)"
  defines "z \<equiv> sizeof_Sym TYPE('a)"
  shows "hdr (s\<lparr>contents := c\<rparr>) = hdr s \<Longrightarrow> \<forall>k \<in> set ks. sizeof_Ehdr TYPE('a) \<le> tab + k * z \<and> tab + k * z + z \<le> length c \<Longrightarrow>
    sorted_wrt (apart z) (map (\<lambda>k. tab + k * z) ks) \<Longrightarrow> \<forall>k \<in> set ks. movable s (symbol_at c (tab + k * z)) \<Longrightarrow>
    efold (fix_sym tab) (s\<lparr>contents := c\<rparr>) ks = Inr (s\<lparr>contents := foldl (patch s) c (map (\<lambda>k. tab + k * z) ks)\<rparr>) \<and>
    hdr (s\<lparr>contents := foldl (patch s) c (map (\<lambda>k. tab + k * z) ks)\<rparr>) = hdr s"
proof (induction ks arbitrary: c)
  case (Cons k ks)
  let ?p = "tab + k * z"
  let ?c = "patch s c ?p"
  have p: "sizeof_Ehdr TYPE('a) \<le> ?p" "?p + z \<le> length c" using Cons.prems(2) by simp_all
  have step: "fix_sym tab (s\<lparr>contents := c\<rparr>) k = Inr (s\<lparr>contents := ?c\<rparr>)"
    using fix_sym_patch [OF w, of tab k "s\<lparr>contents := c\<rparr>"] p Cons.prems(4) same_symbols [OF Cons.prems(1)]
    by (simp add: z_def fileSize_def)
  have len: "length ?c = length c" using length_patch [OF w] p by (simp add: z_def)
  have "symbol_at ?c (tab + j * z) = (symbol_at c (tab + j * z) :: 'a Elf_Sym)" if "j \<in> set ks" for j
    using Cons.prems(3) that chunk_patch [OF w, of ?p c "tab + j * z" z s] p(2) by (auto simp: symbol_at_def apart_def z_def)
  then have mv: "\<forall>j \<in> set ks. movable s (symbol_at ?c (tab + j * z))" using Cons.prems(4) by simp
  have h: "hdr (s\<lparr>contents := ?c\<rparr>) = hdr s" using patch_step [OF w, of ?p c s] p Cons.prems(1) by (simp add: z_def)
  show ?case using Cons.IH [OF h _ _ mv] Cons.prems(2,3) len by (simp add: step)
qed simp

lemma fix_tables:
  fixes s :: "'a::len ElfFile"
  assumes w: "elf_width TYPE('a)"
  defines "z \<equiv> sizeof_Sym TYPE('a)"
  shows "hdr (s\<lparr>contents := c\<rparr>) = hdr s \<Longrightarrow> \<forall>i \<in> set js. i < length (shdrs s) \<Longrightarrow>
    \<forall>p \<in> set (concat (map (table_positions s) js)). sizeof_Ehdr TYPE('a) \<le> p \<and> p + z \<le> length c \<and> movable s (symbol_at c p) \<Longrightarrow>
    sorted_wrt (apart z) (concat (map (table_positions s) js)) \<Longrightarrow>
    efold (\<lambda>s i. ebind (at (shdrs s) i) (\<lambda>sh.
       if is_symtab s sh then
         efold (fix_sym (rdn s (sh_offset sh))) s [0 ..< rdn s (sh_size sh) div sizeof_Sym TYPE('a)]
       else Inr s)) (s\<lparr>contents := c\<rparr>) js =
      Inr (s\<lparr>contents := foldl (patch s) c (concat (map (table_positions s) js))\<rparr>) \<and>
    hdr (s\<lparr>contents := foldl (patch s) c (concat (map (table_positions s) js))\<rparr>) = hdr s"
proof (induction js arbitrary: c)
  case (Cons i js)
  let ?ps = "table_positions s i" and ?rest = "concat (map (table_positions s) js)" and ?sh = "shdrs s ! i"
  let ?c = "foldl (patch s) c ?ps"
  have ps: "\<forall>p \<in> set ?ps. p + sizeof_Sym TYPE('a) \<le> length c" "sorted_wrt (apart (sizeof_Sym TYPE('a))) ?ps"
    using Cons.prems(3,4) by (auto simp: z_def sorted_wrt_append)
  note P = patches [OF w ps]
  have step: "efold (fix_sym (rdn s (sh_offset ?sh))) (s\<lparr>contents := c\<rparr>) [0 ..< rdn s (sh_size ?sh) div z] = Inr (s\<lparr>contents := ?c\<rparr>) \<and>
      hdr (s\<lparr>contents := ?c\<rparr>) = hdr s" if "is_symtab s ?sh"
  proof -
    have ks: "?ps = map (\<lambda>k. rdn s (sh_offset ?sh) + k * z) [0 ..< rdn s (sh_size ?sh) div z]"
      using that by (simp add: table_positions_def Let_def z_def)
    show ?thesis unfolding ks using Cons.prems(1,3,4)
      by (intro fix_syms [OF w, folded z_def]) (auto simp: ks sorted_wrt_append)
  qed
  have h: "hdr (s\<lparr>contents := ?c\<rparr>) = hdr s"
    using step Cons.prems(1) by (cases "is_symtab s ?sh") (simp_all add: table_positions_def)
  have "symbol_at ?c q = (symbol_at c q :: 'a Elf_Sym)" if "q \<in> set ?rest" for q
  proof -
    have "\<forall>p \<in> set ?ps. apart z p q" using Cons.prems(4) that by (auto simp: sorted_wrt_append)
    then have "\<forall>p \<in> set ?ps. q + z \<le> p \<or> p + z \<le> q" by (auto simp: apart_def)
    with P show ?thesis by (simp add: symbol_at_def z_def)
  qed
  with Cons.prems(3) P have rest: "\<forall>p \<in> set ?rest. sizeof_Ehdr TYPE('a) \<le> p \<and> p + z \<le> length ?c \<and> movable s (symbol_at ?c p)" by auto
  have at: "at (shdrs s) i = Inr ?sh" using Cons.prems(2) by (simp add: at_def)
  have here: "(if is_symtab (s\<lparr>contents := c\<rparr>) ?sh then efold (fix_sym (rdn (s\<lparr>contents := c\<rparr>) (sh_offset ?sh))) (s\<lparr>contents := c\<rparr>)
        [0 ..< rdn (s\<lparr>contents := c\<rparr>) (sh_size ?sh) div z] else Inr (s\<lparr>contents := c\<rparr>)) = Inr (s\<lparr>contents := ?c\<rparr>)"
    using step by (auto simp: is_symtab_def rdn_def table_positions_def)
  show ?case using Cons.IH [OF h _ rest] Cons.prems(2,4) here [unfolded z_def] by (simp add: at sorted_wrt_append z_def)
qed simp

section \<open>The property\<close>

lemma patched_follows:
  fixes s :: "'a::len ElfFile"
  assumes mv: "movable s sy"
  shows "follows s sy (patch_symbol s sy)"
proof (cases "in_section s sy")
  case False
  then show ?thesis by (simp add: follows_def patch_symbol_def)
next
  case True
  with mv obtain j where j: "findSection s (old_name s sy) = Inr j" by (auto simp: movable_def)
  then have j3: "findSection3 s (old_name s sy) = Inr j"
    by (auto simp: findSection_def findSection2_def ebind_simps split: option.splits if_splits)
  have "shnum s < 2 ^ 16" using unsigned_less [where 'b = 16 and 'a = nat] by (simp add: shnum_def rdn_def)
  then have "j < 2 ^ 16" using findSection_Inr(2) [OF j] by simp
  then have "rdn s (wrn s j :: 16 word) = j" by (intro rdn_wrn) simp_all
  with True findSection_Inr(4) [OF j] j3 show ?thesis
    by (auto simp: follows_def patch_symbol_def sym_section_def rdn_def)
qed

text \<open>
  Property C2. Symbols follow their sections. Let no two symbols of the symbol tables overlap each other or the ELF header,
  and let every symbol that is in a section be in one whose name is still the name of a section. Then
  \<open>rewrite_symbols\<close> succeeds; every symbol of every symbol table is in the section of the same name
  as before the headers were sorted, the symbols that stand for a section have its address, symbols that
  are in no section and all other fields are unchanged, and so is every byte outside the symbols.
\<close>

theorem symbols_follow_sections:
  fixes s :: "'a::len ElfFile"
  assumes w: "elf_width TYPE('a)" and n: "shnum s \<le> length (shdrs s)"
    and inside: "\<forall>p \<in> set (symbol_positions s). sizeof_Ehdr TYPE('a) \<le> p \<and> p + sizeof_Sym TYPE('a) \<le> fileSize s"
    and ap: "sorted_wrt (apart (sizeof_Sym TYPE('a))) (symbol_positions s)"
    and mv: "\<forall>p \<in> set (symbol_positions s). movable s (symbol_at (contents s) p)"
  shows "\<exists>c. rewrite_symbols s = Inr (s\<lparr>contents := c\<rparr>) \<and> hdr (s\<lparr>contents := c\<rparr>) = hdr s \<and> length c = fileSize s \<and>
    (\<forall>p \<in> set (symbol_positions s). follows s (symbol_at (contents s) p) (symbol_at c p)) \<and>
    (\<forall>a n. (\<forall>p \<in> set (symbol_positions s). a + n \<le> p \<or> p + sizeof_Sym TYPE('a) \<le> a) \<longrightarrow> chunk a n c = chunk a n (contents s))"
proof -
  let ?ps = "symbol_positions s"
  have ps: "\<forall>p \<in> set ?ps. p + sizeof_Sym TYPE('a) \<le> length (contents s)" using inside by (simp add: fileSize_def)
  have all: "concat (map (table_positions s) [1 ..< shnum s]) = ?ps" by (simp only: symbol_positions_def)
  have idx: "\<forall>i \<in> set [1 ..< shnum s]. i < length (shdrs s)" using n by simp
  have ok: "\<forall>p \<in> set ?ps. sizeof_Ehdr TYPE('a) \<le> p \<and> p + sizeof_Sym TYPE('a) \<le> length (contents s) \<and> movable s (symbol_at (contents s) p)"
    using inside mv by (simp add: fileSize_def)
  have "hdr (s\<lparr>contents := contents s\<rparr>) = hdr s" by simp
  from fix_tables [OF w this idx, unfolded all, OF ok ap]
  have "rewrite_symbols s = Inr (s\<lparr>contents := foldl (patch s) (contents s) ?ps\<rparr>)" "hdr (s\<lparr>contents := foldl (patch s) (contents s) ?ps\<rparr>) = hdr s"
    by (simp_all add: rewrite_symbols_def)
  moreover have "\<forall>p \<in> set ?ps. follows s (symbol_at (contents s) p) (patch_symbol s (symbol_at (contents s) p))"
    using patched_follows mv by blast
  ultimately show ?thesis using patches [OF w ps ap, of s]
    by (intro exI [of _ "foldl (patch s) (contents s) ?ps"]) (simp add: fileSize_def)
qed

text \<open>A file whose sections have been sorted and whose second symbol stands for \<open>.dynamic\<close>.\<close>

definition ex_symbols :: "32 ElfFile" where
  "ex_symbols = ex_elf\<lparr>
     contents := contents ex_elf @ replicate 16 0 @
       enc_Sym (\<lparr>st_name = 0, st_value = 0, st_size = 0, st_info = 3, st_other = 0, st_shndx = 1\<rparr> :: 32 Elf_Sym),
     shdrs := (shdrs ex_elf)[1 := (shdrs ex_elf ! 1)\<lparr>sh_type := SHT_SYMTAB, sh_offset := 96, sh_size := 32\<rparr>],
     sectionsByOldIndex := [[], str ''.dynamic'', str ''.interp'', str ''.dynstr'']\<rparr>"

theorem symbols_witness:
  "\<exists>c. rewrite_symbols ex_symbols = Inr (ex_symbols\<lparr>contents := c\<rparr>) \<and>
     sectionName ex_symbols (sym_section ex_symbols (symbol_at c 112)) = Inr (str ''.dynamic'') \<and>
     st_value (symbol_at c 112) = (64 :: 32 word)"
proof -
  have facts: "elf_width TYPE(32)" "shnum ex_symbols \<le> length (shdrs ex_symbols)"
    "\<forall>p \<in> set (symbol_positions ex_symbols). sizeof_Ehdr TYPE(32) \<le> p \<and> p + sizeof_Sym TYPE(32) \<le> fileSize ex_symbols"
    "sorted_wrt (apart (sizeof_Sym TYPE(32))) (symbol_positions ex_symbols)" by code_simp+
  have pos: "symbol_positions ex_symbols = [96, 112]" by code_simp
  have syms: "\<not> in_section ex_symbols (symbol_at (contents ex_symbols) 96)" "in_section ex_symbols (symbol_at (contents ex_symbols) 112)"
    "is_section_symbol ex_symbols (symbol_at (contents ex_symbols) 112)"
    "old_name ex_symbols (symbol_at (contents ex_symbols) 112) = str ''.dynamic''" "findSection ex_symbols (str ''.dynamic'') = Inr 3"
    "str ''.dynamic'' \<noteq> []" by code_simp+
  have addrs: "\<forall>j \<in> set [0..<4]. sectionName ex_symbols j = Inr (str ''.dynamic'') \<longrightarrow> sh_addr (shdrs ex_symbols ! j) = 64" by code_simp
  have mv: "\<forall>p \<in> set (symbol_positions ex_symbols). movable ex_symbols (symbol_at (contents ex_symbols) p)"
    unfolding pos using syms by (auto simp: movable_def simp del: str_simps)
  obtain c where c: "rewrite_symbols ex_symbols = Inr (ex_symbols\<lparr>contents := c\<rparr>)"
      "\<forall>p \<in> set (symbol_positions ex_symbols). follows ex_symbols (symbol_at (contents ex_symbols) p) (symbol_at c p)"
    using symbols_follow_sections [OF facts mv] by blast
  have "112 \<in> set (symbol_positions ex_symbols)" by (simp add: pos)
  with c(2) have fol: "follows ex_symbols (symbol_at (contents ex_symbols) 112) (symbol_at c 112)" by blast
  let ?j = "sym_section ex_symbols (symbol_at c 112)"
  have j: "sectionName ex_symbols ?j = Inr (str ''.dynamic'')" "st_value (symbol_at c 112) = sh_addr (shdrs ex_symbols ! ?j)"
    using fol syms by (simp_all add: follows_def del: str_simps)
  have "length (shdrs ex_symbols) = 4" by code_simp
  then have "?j < 4" using sectionName_Inr [OF j(1)] by simp
  with addrs j c(1) show ?thesis by auto
qed

end
