(* ===== verification/ElfWriteProps.thy ===== *)
theory ElfWriteProps
  imports ElfSearchProps
begin

text \<open>
  Writing the replaced sections completes when there is room for them, and what a section contains is afterwards in the file what
  it was before: in the copy, if it had been replaced.
\<close>

section \<open>Erasing and placing complete\<close>

text \<open>A section whose old contents lie in the file, after the ELF header.\<close>

definition erasable :: "'a::len ElfFile \<Rightarrow> bstring \<Rightarrow> bool" where
  "erasable s nm \<longleftrightarrow> (case section_hdr s nm of Inl e \<Rightarrow> False
     | Inr sh \<Rightarrow> sizeof_Ehdr TYPE('a) \<le> rdn s (sh_offset sh) \<and> rdn s (sh_offset sh) + rdn s (sh_size sh) \<le> fileSize s)"

lemma erasable_safe: "erasable s nm \<Longrightarrow> header_safe s nm"
  by (auto simp: erasable_def header_safe_def section_hdr_def at_def split: sum.splits if_splits)

lemma erase_returns:
  fixes s :: "'a::len ElfFile"
  assumes "\<forall>(nm, t) \<in> set rs. erasable s nm"
  shows "\<exists>s'. efold erase_section s rs = Inr s'"
  using assms
proof (induction rs arbitrary: s)
  case (Cons x rs)
  obtain nm t where x: "x = (nm, t)" by fastforce
  obtain sh where sh: "section_hdr s nm = Inr sh" "rdn s (sh_offset sh) + rdn s (sh_size sh) \<le> fileSize s"
    using Cons.prems by (auto simp: x erasable_def split: sum.splits)
  then obtain u where u: "erase_section s x = Inr u" by (simp add: x erase_section_def wr_Inr [THEN iffD2])
  have "u = s\<lparr>contents := contents u\<rparr> \<and> fileSize u = fileSize s \<and> hdr u = hdr s"
    by (rule erase_fold [of s "[x]"]) (use u Cons.prems erasable_safe in auto)
  then obtain c where c: "u = s\<lparr>contents := c\<rparr>" "hdr (s\<lparr>contents := c\<rparr>) = hdr s" "fileSize (s\<lparr>contents := c\<rparr>) = fileSize s" by metis
  have "erasable u nm = erasable s nm" for nm
    using section_hdr_view [OF name_view_contents [OF c(2)], of nm] c(3) by (simp add: c(1) erasable_def rdn_def split: sum.split)
  with Cons.IH [of u] Cons.prems have "\<exists>s'. efold erase_section u rs = Inr s'" by simp
  with u show ?case by simp
qed simp

lemma place_returns:
  fixes s :: "'a::len ElfFile"
  assumes w: "elf_width TYPE('a)"
  shows "\<forall>(nm, t) \<in> set rs. (\<exists>i. findSection s nm = Inr i) \<and> length t + 8 \<le> 2 ^ 32 \<Longrightarrow> sizeof_Ehdr TYPE('a) \<le> unat cur \<Longrightarrow>
    unat cur + space TYPE('a) rs \<le> fileSize s \<Longrightarrow> fileSize s < 2 ^ LENGTH('a) \<Longrightarrow>
    \<exists>r. efold (place_section sa so) (s, cur) rs = Inr r"
proof (induction rs arbitrary: s cur)
  case (Cons x rs)
  obtain nm t where x: "x = (nm, t)" by fastforce
  obtain i where i: "findSection s nm = Inr i" and len: "length t + 8 \<le> 2 ^ 32" using Cons.prems(1) by (auto simp: x)
  have fits: "unat cur + length t \<le> fileSize s" "unat cur + slot TYPE('a) t < 2 ^ LENGTH('a)"
    using Cons.prems(3,4) slot_bounds(1) [OF w len] by (simp_all add: x)
  have "wr s (unat cur) t = Inr (s\<lparr>contents := overwrite (unat cur) t (contents s)\<rparr>)" using fits by (simp add: wr_Inr)
  then have "\<not> isl (place_section sa so (s, cur) (nm, t))"
    using i findSection_Inr(3) [OF i] by (simp add: place_section_def upd_at_def Let_def)
  then obtain u c where step: "place_section sa so (s, cur) (nm, t) = Inr (u, c)" by (metis not_isl surj_pair)
  have u: "name_view u = name_view s" "unat c = unat cur + slot TYPE('a) t" "contents u = overwrite (unat cur) t (contents s)"
    by (rule place_step [OF w step Cons.prems(2) fits(2) len], blast)+
  have size: "fileSize u = fileSize s" using u(3) fits(1) by (simp add: fileSize_def)
  have "\<exists>r. efold (place_section sa so) (u, c) rs = Inr r"
    by (rule Cons.IH) (use Cons.prems u(2) size findSection_view(3) [OF u(1)] in \<open>auto simp: x\<close>)
  with step show ?case by (simp add: x)
qed simp

section \<open>What the sections contain\<close>

text \<open>A section that is not replaced and overlaps neither the area from \<open>lo\<close> to \<open>hi\<close> nor what is erased.\<close>

definition untouched :: "'a::len ElfFile \<Rightarrow> nat \<Rightarrow> nat \<Rightarrow> bstring \<Rightarrow> bool" where
  "untouched s lo hi nm \<longleftrightarrow> map_of (replacedSections s) nm = None \<and>
     (case section_hdr s nm of Inl e \<Rightarrow> True
      | Inr sh \<Rightarrow> (rdn s (sh_offset sh) + rdn s (sh_size sh) \<le> lo \<or> hi \<le> rdn s (sh_offset sh)) \<and>
          (\<forall>(nm', t) \<in> set (replacedSections s). outside s (rdn s (sh_offset sh)) (rdn s (sh_size sh)) nm'))"

lemma current_at:
  assumes "replacedSections s = []" and "findSection s nm = Inr i" and "section_at s i off t" and "off + length t \<le> fileSize s"
  shows "current s nm = Inr t"
  using assms findSection_Inr(3) [OF assms(2)]
  by (simp add: current_def section_hdr_def at_def section_at_def rd_Inr [THEN iffD2])

lemma current_same:
  assumes "replacedSections s' = []" and "map_of (replacedSections s) nm = None" and "littleEndian s' = littleEndian s"
    and "section_hdr s' nm = section_hdr s nm" and "fileSize s' = fileSize s"
    and "\<And>sh. section_hdr s nm = Inr sh \<Longrightarrow>
      chunk (rdn s (sh_offset sh)) (rdn s (sh_size sh)) (contents s') = chunk (rdn s (sh_offset sh)) (rdn s (sh_size sh)) (contents s)"
  shows "current s' nm = current s nm"
  using assms by (cases "section_hdr s nm") (auto simp: current_def rdn_def rd_def mem_read_def fileSize_def)

text \<open>
  Property C8. Writing the replaced sections completes, and no section changes what it contains. Let every replaced section exist, with
  its old contents in the file, and let the file have room for the new ones from \<open>curOff\<close> on. Then \<open>writeReplacedSections\<close> succeeds,
  uses exactly the space that \<open>neededSpace\<close> counts, leaves no section to be written, and every section, replaced or out of the way of the area and of
  the old contents, has in the file exactly the contents that it had before in its copy or in the file.
\<close>

theorem writing_completes:
  fixes s :: "'a::len ElfFile"
  assumes w: "elf_width TYPE('a)" and keys: "map_inv (replacedSections s)"
    and old: "\<forall>(nm, t) \<in> set (replacedSections s). erasable s nm \<and> length t + 8 \<le> 2 ^ 32"
    and lo: "sizeof_Ehdr TYPE('a) \<le> unat curOff" and room: "unat curOff + sections_space s \<le> fileSize s"
    and size: "fileSize s < 2 ^ LENGTH('a)"
  shows "\<exists>s' curOff'. writeReplacedSections curOff startAddr startOffset s = Inr (s', curOff') \<and>
    unat curOff' = unat curOff + sections_space s \<and> replacedSections s' = [] \<and>
    (\<forall>nm. map_of (replacedSections s) nm \<noteq> None \<or> untouched s (unat curOff) (unat curOff') nm \<longrightarrow> current s' nm = current s nm)"
proof -
  let ?rs = "replacedSections s"
  have safe: "\<forall>(nm, t) \<in> set ?rs. header_safe s nm" using old erasable_safe by blast
  have sp: "unat curOff + space TYPE('a) ?rs \<le> fileSize s" using room by (simp add: sections_space_eq)
  have "\<exists>i. findSection s nm = Inr i" if "erasable s nm" for nm
    using that by (cases "findSection s nm") (simp_all add: erasable_def section_hdr_def)
  with old have found: "\<forall>(nm, t) \<in> set ?rs. (\<exists>i. findSection s nm = Inr i) \<and> length t + 8 \<le> 2 ^ 32" by blast
  obtain u where e: "efold erase_section s ?rs = Inr u" using erase_returns [of ?rs s] old by blast
  have "u = s\<lparr>contents := contents u\<rparr> \<and> fileSize u = fileSize s \<and> hdr u = hdr s" by (rule erase_fold [OF e safe])
  then obtain c where u: "u = s\<lparr>contents := c\<rparr>" "fileSize u = fileSize s" "hdr u = hdr s" by metis
  have view: "name_view u = name_view s" using name_view_contents u by metis
  have same: "shdrs u = shdrs s" "littleEndian u = littleEndian s" "replacedSections u = ?rs" by (simp_all add: u(1))
  have "\<exists>r. efold (place_section startAddr startOffset) (u, curOff) ?rs = Inr r"
    by (rule place_returns [OF w]) (use found lo sp size u(2) findSection_view(3) [OF view] in auto)
  then obtain v curOff' where p: "efold (place_section startAddr startOffset) (u, curOff) ?rs = Inr (v, curOff')" by (metis surj_pair)
  define s' where "s' = v\<lparr>replacedSections := []\<rparr>"
  have run: "writeReplacedSections curOff startAddr startOffset s = Inr (s', curOff')"
    by (simp add: writeReplacedSections_def e same p s'_def)
  have hi: "unat curOff + space TYPE('a) ?rs < 2 ^ LENGTH('a)" using sp size by simp
  have lens: "\<forall>(nm, t) \<in> set ?rs. length t + 8 \<le> 2 ^ 32" using old by auto
  have d: "distinct (map fst ?rs)" by (rule std_map.keys_distinct [OF keys])
  have r: "unat curOff' = unat curOff + space TYPE('a) ?rs" "fileSize v = fileSize u" "name_view v = name_view u" "littleEndian v = littleEndian u"
    "\<forall>a n. a + n \<le> unat curOff \<or> unat curOff' \<le> a \<longrightarrow> chunk a n (contents v) = chunk a n (contents u)"
    "\<forall>j. (\<forall>nm \<in> fst ` set ?rs. findSection u nm \<noteq> Inr j) \<longrightarrow> shdrs v ! j = shdrs u ! j"
    "\<forall>(nm, t) \<in> set ?rs. \<exists>i off. findSection v nm = Inr i \<and> unat curOff \<le> off \<and> off + length t \<le> unat curOff' \<and> section_at v i off t \<and>
       rdi (littleEndian v) (sh_addr (shdrs v ! i)) = startAddr + (of_nat off - startOffset)"
    using place_fold [OF w p lo hi lens d] by blast+
  have "name_view s' = name_view v" by (simp add: s'_def name_view_def shnum_def rdn_def)
  with r(3) view have view': "name_view s' = name_view s" by simp
  have "current s' nm = current s nm" if "map_of ?rs nm \<noteq> None \<or> untouched s (unat curOff) (unat curOff') nm" for nm
  proof (cases "map_of ?rs nm")
    case (Some t)
    then obtain i off where "findSection v nm = Inr i" "off + length t \<le> unat curOff'" "section_at v i off t"
      using bspec [OF r(7) map_of_SomeD] by fastforce
    then have "current s' nm = Inr t"
      using r(1,2) u(2) sp findSection_view(3) [OF view'] findSection_view(3) [OF r(3)] findSection_view(3) [OF view]
      by (intro current_at [of s' nm i off]) (auto simp: s'_def section_at_def rdn_def fileSize_def)
    with Some show ?thesis by (simp add: current_def)
  next
    case None
    with that have un: "untouched s (unat curOff) (unat curOff') nm" by simp
    show ?thesis
    proof (rule current_same)
      show "section_hdr s' nm = section_hdr s nm"
      proof (cases "findSection s nm")
        case (Inr i)
        have "\<forall>nm' \<in> fst ` set ?rs. nm' \<noteq> nm" using None by (force simp: map_of_eq_None_iff)
        then have "\<forall>nm' \<in> fst ` set ?rs. findSection u nm' \<noteq> Inr i"
          using different_sections [OF _ Inr] findSection_view(3) [OF view] by metis
        then have "shdrs s' ! i = shdrs s ! i" using r(6) same by (simp add: s'_def)
        moreover have "length (shdrs s') = length (shdrs s)"
          using view' by (intro map_eq_imp_length_eq [of sh_name _ sh_name]) (simp add: name_view_def)
        ultimately show ?thesis using Inr findSection_view(3) [OF view'] by (simp add: section_hdr_def at_def)
      qed (simp add: section_hdr_def findSection_view(3) [OF view'])
      show "chunk (rdn s (sh_offset sh)) (rdn s (sh_size sh)) (contents s') = chunk (rdn s (sh_offset sh)) (rdn s (sh_size sh)) (contents s)"
        if sh: "section_hdr s nm = Inr sh" for sh
        using un sh r(5) erase_frame [OF e safe] by (auto simp: untouched_def s'_def)
    qed (use None r(2,4) u(2) same in \<open>simp_all add: s'_def\<close>)
  qed
  with run r(1) show ?thesis by (intro exI [of _ s'] exI [of _ curOff']) (simp add: sections_space_eq s'_def)
qed

theorem writing_witness:
  "\<exists>s' c. writeReplacedSections 96 0x1000 96 ex_replaced = Inr (s', c) \<and> unat c = 104 \<and>
     current s' (str ''.interp'') = Inr [47, 120, 121, 122, 0] \<and>
     current s' (str ''.dynstr'') = Inr [0, 97, 0, 47, 112, 58, 113, 0]"
proof -
  have nums: "sizeof_Ehdr TYPE(32) \<le> unat (96 :: 32 word)" "unat (96 :: 32 word) + sections_space ex_replaced = 104" "fileSize ex_replaced = 112"
    by code_simp+
  have vals: "section_hdr ex_replaced (str ''.dynstr'') = Inr (shdrs ex_elf ! 2)" "map_of (replacedSections ex_replaced) (str ''.dynstr'') = None"
    "rdn ex_replaced (sh_offset (shdrs ex_elf ! 2)) = 55" "rdn ex_replaced (sh_size (shdrs ex_elf ! 2)) = 8"
    "rdn ex_replaced (sh_offset (shdrs ex_replaced ! 1)) = 52" "rdn ex_replaced (sh_size (shdrs ex_replaced ! 1)) = 3" 
    "current ex_replaced (str ''.interp'') = Inr [47, 120, 121, 122, 0]" "current ex_replaced (str ''.dynstr'') = Inr [0, 97, 0, 47, 112, 58, 113, 0]"
    by code_simp+
  have inv: "map_inv (replacedSections ex_replaced)" "erasable ex_replaced (str ''.interp'')" by code_simp+
  have rs: "replacedSections ex_replaced = [(str ''.interp'', [47, 120, 121, 122, 0])]" by (simp add: ex_replaced_def)
  have "outside ex_replaced 55 8 (str ''.interp'')" by (simp add: outside_def ex_finds vals [unfolded One_nat_def] del: str_simps)
  then have un: "untouched ex_replaced 96 104 (str ''.dynstr'')" by (simp add: untouched_def vals rs del: str_simps)
  have old: "\<forall>(nm, t) \<in> set (replacedSections ex_replaced). erasable ex_replaced nm \<and> length t + 8 \<le> 2 ^ 32"
    using inv(2) by (simp add: rs del: str_simps)
  have room: "unat (96 :: 32 word) + sections_space ex_replaced \<le> fileSize ex_replaced" "fileSize ex_replaced < 2 ^ LENGTH(32)"
    unfolding nums by simp_all
  obtain s' c where r: "writeReplacedSections 96 0x1000 96 ex_replaced = Inr (s', c)" "unat c = 104"
      "\<forall>nm. map_of (replacedSections ex_replaced) nm \<noteq> None \<or> untouched ex_replaced (unat (96 :: 32 word)) (unat c) nm \<longrightarrow>
        current s' nm = current ex_replaced nm"
    using writing_completes [OF elf_width_32 inv(1) old nums(1) room, where startAddr = "0x1000" and startOffset = "96"] unfolding nums(2) by blast
  have "map_of (replacedSections ex_replaced) (str ''.interp'') \<noteq> None" by (simp add: rs del: str_simps)
  with r(3) have "current s' (str ''.interp'') = current ex_replaced (str ''.interp'')" by blast
  moreover have "current s' (str ''.dynstr'') = current ex_replaced (str ''.dynstr'')" using r(2,3) un by simp
  ultimately show ?thesis using r(1,2) vals(7,8) by (intro exI conjI) simp_all
qed

end
