(* ===== verification/ElfStringProps.thy ===== *)
theory ElfStringProps
  imports ElfSearchProps
begin

text \<open>
  Two operations of one run that both add a string to the string table: what the first leaves to the second, and
  what the entries refer to in the end.
\<close>

section \<open>Crossing out a string\<close>

lemma cstr_same_zeros:
  "list_all2 (\<lambda>a b. a = 0 \<longleftrightarrow> b = 0) xs ys \<Longrightarrow> cstr xs = Some t \<Longrightarrow> \<exists>t'. cstr ys = Some t' \<and> length t' = length t"
proof (induction arbitrary: t rule: list_all2_induct)
  case (Cons x xs y ys)
  then show ?case by (auto split: if_splits)
qed simp

text \<open>A string that is crossed out keeps its end, and so do the strings that share bytes with it.\<close>

lemma cstr_crossed_out:
  assumes old: "cstr (drop v u) = Some old" and t: "cstr (drop n u) = Some t"
  shows "\<exists>t'. cstr (drop n (overwrite v (replicate (length old) 88) u)) = Some t' \<and> length t' = length t"
proof (rule cstr_same_zeros [OF _ t], rule list_all2_dropI, rule list_all2_all_nthI)
  have l: "v + length old < length u" using cstr_length [OF old] by simp
  then show "length u = length (overwrite v (replicate (length old) 88) u)" by simp
  obtain r where "0 \<notin> set old" "drop v u = old @ 0 # r" using old by (auto simp: cstr_Some_iff)
  fix i
  assume i: "i < length u"
  show "u ! i = 0 \<longleftrightarrow> overwrite v (replicate (length old) 88) u ! i = 0"
  proof (cases "v \<le> i \<and> i < v + length old")
    case True
    then have less: "i - v < length old" by linarith
    have "u ! i = drop v u ! (i - v)" using l True by simp
    also have "\<dots> = old ! (i - v)" using less by (simp add: \<open>drop v u = _\<close> nth_append)
    finally have "u ! i \<noteq> 0" using nth_mem [OF less] \<open>0 \<notin> set old\<close> by metis
    moreover have "replicate (length old) (88 :: byte) ! (i - v) = 88" using less by (rule nth_replicate)
    ultimately show ?thesis using True l by (simp add: nth_overwrite)
  next
    case False
    with i l show ?thesis by (auto simp: nth_overwrite)
  qed
qed

section \<open>The name of a library\<close>

text \<open>The entry that counts is the last one.\<close>

definition soname_string :: "bool \<Rightarrow> bstring \<Rightarrow> 'a::len Elf_Dyn list \<Rightarrow> bstring option" where
  "soname_string le u es =
     (case last_idx DT_SONAME (tags le es) of None \<Rightarrow> None | Some k \<Rightarrow> cstr (drop (unat (rdi le (d_un (es ! k)))) u))"

definition soname_is :: "'a::len ElfFile \<Rightarrow> bstring \<Rightarrow> bool" where
  "soname_is s nm \<longleftrightarrow>
     (\<exists>t u (es :: 'a Elf_Dyn list). current s (str ''.dynamic'') = Inr t \<and> current s (str ''.dynstr'') = Inr u \<and>
        dyn_table (littleEndian s) t 0 es \<and> soname_string (littleEndian s) u es = Some nm)"

lemma find_append: "find P (xs @ ys) = (case find P xs of None \<Rightarrow> find P ys | r \<Rightarrow> r)"
  by (induction xs) auto

lemma last_idx_find:
  "find (\<lambda>d. rdi le (d_tag d) = x) (rev es) = map_option ((!) es) (last_idx x (tags le es))"
  by (induction es) (auto simp: find_append split: option.splits)

lemma soname_string_find:
  "soname_string le u es = (case find (\<lambda>d. rdi le (d_tag d) = DT_SONAME) (rev es) of None \<Rightarrow> None
     | Some d \<Rightarrow> cstr (drop (unat (rdi le (d_un d))) u))"
  by (simp add: soname_string_def last_idx_find split: option.split)

lemma find_in_filter: "(\<And>x. P x \<Longrightarrow> Q x) \<Longrightarrow> find P (filter Q xs) = find P xs"
  by (induction xs) auto

text \<open>The entries of the search path play no part.\<close>

lemma soname_string_rest:
  assumes "elf_width TYPE('a::len)"
  shows "soname_string le u (filter (\<lambda>d. \<not> is_path le d) es) = soname_string le u (es :: 'a Elf_Dyn list)"
proof -
  have "(DT_SONAME :: 'a word) \<noteq> DT_RPATH" "(DT_SONAME :: 'a word) \<noteq> DT_RUNPATH"
    using assms by (auto simp: elf_width_def word_uint_eq_iff)
  then have "rdi le (d_tag d) = DT_SONAME \<Longrightarrow> \<not> is_path le d" for d :: "'a Elf_Dyn" by (simp add: is_path_def)
  then show ?thesis unfolding soname_string_find rev_filter by (subst find_in_filter) simp_all
qed

text \<open>What the loop of \<open>modifySoname\<close> has found when it ends.\<close>

lemma soname_fold:
  fixes s :: "'a::len ElfFile" and es :: "'a Elf_Dyn list"
  assumes w: "elf_width TYPE('a)" and "dyn_table (littleEndian s) (contents s) off es"
    and "\<forall>d \<in> set es. rdi (littleEndian s) (d_tag d) = DT_INIT \<longrightarrow> \<not> isl (cstr_at s (strTab + rdn s (d_un d)))"
  shows "\<exists>libs'. efold (\<lambda>r (p, d). soname_step s strTab p (rdi (littleEndian s) (d_tag d)) r) (found, libs) (positions TYPE('a) off es) =
    Inr (case last_idx DT_SONAME (tags (littleEndian s) es) of None \<Rightarrow> found
         | Some k \<Rightarrow> Some (off + k * sizeof_Dyn TYPE('a), strTab + rdn s (d_un (es ! k))), libs')"
  using assms(2,3)
proof (induction es arbitrary: off found libs)
  case (Cons d es)
  let ?tag = "rdi (littleEndian s) (d_tag d)" and ?pos = "strTab + rdn s (d_un d)"
  have e: "off + sizeof_Dyn TYPE('a) \<le> fileSize s" "chunk off (sizeof_Dyn TYPE('a)) (contents s) = enc_Dyn d"
    and t: "dyn_table (littleEndian s) (contents s) (off + sizeof_Dyn TYPE('a)) es"
    using Cons.prems(1) by (auto simp: dyn_table_Cons fileSize_def)
  have pos: "dyn_str_pos s strTab off = Inr ?pos" by (simp add: dyn_str_pos_def d_un_entry [OF w e])
  have more: "\<forall>d \<in> set es. rdi (littleEndian s) (d_tag d) = DT_INIT \<longrightarrow> \<not> isl (cstr_at s (strTab + rdn s (d_un d)))"
    and str: "?tag = DT_INIT \<Longrightarrow> \<not> isl (dyn_str s strTab off)" using Cons.prems(2) by (simp_all add: dyn_str_def pos)
  have "\<exists>libs1. soname_step s strTab off ?tag (found, libs) = Inr (if ?tag = DT_SONAME then Some (off, ?pos) else found, libs1)"
  proof (cases "?tag = DT_SONAME")
    case True
    then show ?thesis by (simp add: soname_step_def pos)
  next
    case False
    then show ?thesis using str by (cases "dyn_str s strTab off") (auto simp: soname_step_def)
  qed
  then obtain libs1 where r1: "soname_step s strTab off ?tag (found, libs) = Inr (if ?tag = DT_SONAME then Some (off, ?pos) else found, libs1)" ..
  obtain libs' where r': "efold (\<lambda>r (p, d). soname_step s strTab p (rdi (littleEndian s) (d_tag d)) r)
      (if ?tag = DT_SONAME then Some (off, ?pos) else found, libs1) (positions TYPE('a) (off + sizeof_Dyn TYPE('a)) es) =
    Inr (case last_idx DT_SONAME (tags (littleEndian s) es) of None \<Rightarrow> if ?tag = DT_SONAME then Some (off, ?pos) else found
         | Some k \<Rightarrow> Some (off + sizeof_Dyn TYPE('a) + k * sizeof_Dyn TYPE('a), strTab + rdn s (d_un (es ! k))), libs')"
    using Cons.IH [OF t more] by blast
  show ?case
    by (intro exI [of _ libs']) (simp add: r1 r' split: option.split)
qed simp

text \<open>The check of the string table looks at the entries with its tag alone.\<close>

lemma strtab_fold:
  fixes s :: "'a::len ElfFile" and es :: "'a Elf_Dyn list"
  assumes w: "elf_width TYPE('a)" and "dyn_table (littleEndian s) (contents s) off es"
  shows "efold (\<lambda>r (p, d). if rdi (littleEndian s) (d_tag d) = DT_STRTAB
        then ebind (d_un_at s p) (\<lambda>w. Inr (rdi (littleEndian s) w)) else Inr r) r (positions TYPE('a) off es) =
    Inr (foldl (\<lambda>_ d. rdi (littleEndian s) (d_un d)) r (filter (\<lambda>d. rdi (littleEndian s) (d_tag d) = DT_STRTAB) es))"
  using assms(2)
proof (induction es arbitrary: off r)
  case (Cons d es)
  have e: "off + sizeof_Dyn TYPE('a) \<le> fileSize s" "chunk off (sizeof_Dyn TYPE('a)) (contents s) = enc_Dyn d"
    and t: "dyn_table (littleEndian s) (contents s) (off + sizeof_Dyn TYPE('a)) es"
    using Cons.prems by (auto simp: dyn_table_Cons fileSize_def)
  show ?case by (simp add: d_un_entry [OF w e] Cons.IH [OF t])
qed simp

lemma check_strtab_same:
  fixes s s' :: "'a::len ElfFile" and es es' :: "'a Elf_Dyn list"
  assumes w: "elf_width TYPE('a)" and tabs: "dyn_table (littleEndian s) (contents s) dyn es" "dyn_table (littleEndian s') (contents s') dyn es'"
    and le: "littleEndian s' = littleEndian s"
    and same: "filter (\<lambda>d. rdi (littleEndian s) (d_tag d) = DT_STRTAB) es' = filter (\<lambda>d. rdi (littleEndian s) (d_tag d) = DT_STRTAB) es"
  shows "check_strtab s' dyn strsh = check_strtab s dyn strsh"
  unfolding check_strtab_def dyn_scan_table [OF w tabs(1)] dyn_scan_table [OF w tabs(2)] strtab_fold [OF w tabs(1)] strtab_fold [OF w tabs(2)]
  by (simp add: le same)


section \<open>The two operations on existing entries\<close>

text \<open>\<open>modifySoname\<close> on a file with a name: the old one is crossed out, the new one goes to the end of a copy of the string table.\<close>

lemma set_soname_existing:
  fixes s :: "'a::len ElfFile" and es :: "'a Elf_Dyn list"
  assumes inv: "map_inv (replacedSections s)" and at: "sections_at s dyn dsz strTab u es"
    and fresh: "map_of (replacedSections s) (str ''.dynstr'') = None" and hs: "section_hdr s (str ''.dynstr'') = Inr strsh"
    and offs: "rdn s (sh_offset strsh) = strTab" "rdn s (sh_size strsh) = length u"
    and m: "m < length es" and old: "cstr (drop v u) = Some old" and small: "length u + length name + 1 < 2 ^ 32"
  defines "u1 \<equiv> overwrite v (replicate (length old) 88) u"
  obtains s1 where "set_soname name old (Some (dyn + m * sizeof_Dyn TYPE('a), strTab + v)) dynsh strsh s = Inr s1"
    and "littleEndian s1 = littleEndian s" and "forceRPath s1 = forceRPath s" and "\<And>nm. section_hdr s1 nm = section_hdr s nm"
    and "replacedSections s1 = map_put (str ''.dynstr'') (u1 @ name @ [0]) (replacedSections s)"
    and "sections_at s1 dyn dsz strTab u1 (es[m := (es ! m)\<lparr>d_un := sh_size strsh\<rparr>])"
proof -
  have vold: "v + length old < length u" using cstr_length [OF old] by simp
  obtain c1 where c1: "wr s (strTab + v) (replicate (length old) 88) = Inr (s\<lparr>contents := c1\<rparr>)" "hdr (s\<lparr>contents := c1\<rparr>) = hdr s"
      "sections_at (s\<lparr>contents := c1\<rparr>) dyn dsz strTab u1 es"
    using set_string [OF at, of v "replicate (length old) 88"] vold by (auto simp: u1_def)
  define s1 where "s1 = s\<lparr>contents := c1\<rparr>"
  have s1: "replacedSections s1 = replacedSections s" "map_inv (replacedSections s1)" using inv by (simp_all add: s1_def)
  have rd1: "rdn s1 w = rdn s w" for w :: "'b::len word" by (simp add: s1_def rdn_def)
  have hs1: "section_hdr s1 nm = section_hdr s nm" for nm unfolding s1_def by (rule edit_frame(2) [OF c1(2)])
  have len: "length u1 = length u" using vold by (simp add: u1_def)
  have cur: "current s1 (str ''.dynstr'') = Inr u1"
    using current_in_file(1) [OF c1(3) [folded s1_def] _ hs [folded hs1]] fresh offs len by (simp add: s1 rd1)
  define s2 where "s2 = put_copy (str ''.dynstr'') (u1 @ name @ [0]) s1"
  have add: "add_string name strsh s1 = Inr s2"
    unfolding s2_def using small offs len by (intro add_string_spec [OF cur _ s1(2)]) (simp_all add: rd1)
  have at2: "sections_at s2 dyn dsz strTab u1 es"
    using c1(3) sections_at_cong [of s2 "s\<lparr>contents := c1\<rparr>" dyn dsz strTab u1 es] by (simp add: s2_def s1_def)
  obtain c3 where c3: "set_d_un (dyn + m * sizeof_Dyn TYPE('a)) (sh_size strsh) s2 = Inr (s2\<lparr>contents := c3\<rparr>)"
      "hdr (s2\<lparr>contents := c3\<rparr>) = hdr s2" "sections_at (s2\<lparr>contents := c3\<rparr>) dyn dsz strTab u1 (es[m := (es ! m)\<lparr>d_un := sh_size strsh\<rparr>])"
    using set_value [OF at2 m, of "sh_size strsh"] by blast
  define s3 where "s3 = s2\<lparr>contents := c3, changed := True\<rparr>"
  have hs2: "section_hdr s2 nm = section_hdr s1 nm" for nm by (rule section_hdr_view) (simp_all add: s2_def)
  have "section_hdr s3 nm = section_hdr (s2\<lparr>contents := c3\<rparr>) nm" for nm
    by (rule section_hdr_view) (simp_all add: s3_def name_view_def shnum_def rdn_def hdr_def)
  then have hs3: "section_hdr s3 nm = section_hdr s nm" for nm using edit_frame(2) [OF c3(2), of nm] hs2 hs1 by simp
  show ?thesis
  proof (rule that [of s3])
    show "set_soname name old (Some (dyn + m * sizeof_Dyn TYPE('a), strTab + v)) dynsh strsh s = Inr s3"
      by (simp add: set_soname_def c1(1) add c3(1) s3_def flip: s1_def)
    show "sections_at s3 dyn dsz strTab u1 (es[m := (es ! m)\<lparr>d_un := sh_size strsh\<rparr>])"
      using c3(3) sections_at_cong [of s3 "s2\<lparr>contents := c3\<rparr>"] by (simp add: s3_def)
  qed (rule hs3 | simp add: s3_def s2_def s1_def put_copy_def del: str_simps)+
qed

lemma modifySoname_existing:
  fixes s :: "'a::len ElfFile" and es :: "'a Elf_Dyn list"
  assumes w: "elf_width TYPE('a)" and hs: "dynamic_hdr s = Inr dynsh" "dynstr_hdr s = Inr strsh"
    and at: "sections_at s (rdn s (sh_offset dynsh)) dsz (rdn s (sh_offset strsh)) u es"
    and type: "rdi (littleEndian s) (e_type (hdr s)) = ET_DYN" and tab: "check_strtab s (rdn s (sh_offset dynsh)) strsh = Inr ()"
    and inits: "\<forall>d \<in> set es. rdi (littleEndian s) (d_tag d) = DT_INIT \<longrightarrow> \<not> isl (cstr_at s (rdn s (sh_offset strsh) + rdn s (d_un d)))"
    and m: "last_idx DT_SONAME (tags (littleEndian s) es) = Some m" and old: "cstr (drop (rdn s (d_un (es ! m))) u) = Some old" "old \<noteq> name"
  obtains libs where "modifySoname replaceSoname name s =
    set_soname name old (Some (rdn s (sh_offset dynsh) + m * sizeof_Dyn TYPE('a), rdn s (sh_offset strsh) + rdn s (d_un (es ! m)))) dynsh strsh
      (s\<lparr>sonameLibs := libs\<rparr>)"
proof -
  let ?strTab = "rdn s (sh_offset strsh)" and ?dyn = "rdn s (sh_offset dynsh)"
  have dtab: "dyn_table (littleEndian s) (contents s) ?dyn es" using at by (simp add: sections_at_def)
  obtain libs where scan: "dyn_scan s (soname_step s ?strTab) ?dyn (None, sonameLibs s) =
      Inr (Some (?dyn + m * sizeof_Dyn TYPE('a), ?strTab + rdn s (d_un (es ! m))), libs)"
    using soname_fold [OF w dtab inits, of None "sonameLibs s"] unfolding dyn_scan_table [OF w dtab] m by auto
  have "cstr_at (s\<lparr>sonameLibs := libs\<rparr>) (?strTab + rdn s (d_un (es ! m))) = Inr old"
    using string_in_table [OF at old(1)] by (simp add: cstr_at_def)
  with that [of libs] old(2) show ?thesis by (simp add: modifySoname_def type hs tab scan)
qed

text \<open>So the name is set, in a file that has one, with everything the next operation needs to know of the state.\<close>

lemma modifySoname_sets:
  fixes s :: "'a::len ElfFile" and es :: "'a Elf_Dyn list"
  assumes w: "elf_width TYPE('a)" and inv: "map_inv (replacedSections s)"
    and fresh: "map_of (replacedSections s) (str ''.dynstr'') = None"
    and hs: "dynamic_hdr s = Inr dynsh" "dynstr_hdr s = Inr strsh"
    and at: "sections_at s (rdn s (sh_offset dynsh)) dsz (rdn s (sh_offset strsh)) u es" and size: "rdn s (sh_size strsh) = length u"
    and type: "rdi (littleEndian s) (e_type (hdr s)) = ET_DYN" and tab: "check_strtab s (rdn s (sh_offset dynsh)) strsh = Inr ()"
    and inits: "\<forall>d \<in> set es. rdi (littleEndian s) (d_tag d) = DT_INIT \<longrightarrow> \<not> isl (cstr_at s (rdn s (sh_offset strsh) + rdn s (d_un d)))"
    and m: "last_idx DT_SONAME (tags (littleEndian s) es) = Some m" "cstr (drop (rdn s (d_un (es ! m))) u) = Some old"
    and new: "old \<noteq> name" and small: "length u + length name + 1 < 2 ^ 32"
  defines "u1 \<equiv> overwrite (rdn s (d_un (es ! m))) (replicate (length old) 88) u" and "es1 \<equiv> es[m := (es ! m)\<lparr>d_un := sh_size strsh\<rparr>]"
  shows "\<exists>s1. modifySoname replaceSoname name s = Inr s1 \<and> littleEndian s1 = littleEndian s \<and> forceRPath s1 = forceRPath s \<and>
    (\<forall>nm. section_hdr s1 nm = section_hdr s nm) \<and> map_inv (replacedSections s1) \<and>
    map_of (replacedSections s1) = (map_of (replacedSections s))(str ''.dynstr'' \<mapsto> u1 @ name @ [0]) \<and>
    sections_at s1 (rdn s (sh_offset dynsh)) dsz (rdn s (sh_offset strsh)) u1 es1"
proof -
  let ?dyn = "rdn s (sh_offset dynsh)" and ?strTab = "rdn s (sh_offset strsh)"
  obtain libs where run: "modifySoname replaceSoname name s =
      set_soname name old (Some (?dyn + m * sizeof_Dyn TYPE('a), ?strTab + rdn s (d_un (es ! m)))) dynsh strsh (s\<lparr>sonameLibs := libs\<rparr>)"
    by (rule modifySoname_existing [OF w hs at type tab inits m new])
  define s0 where "s0 = s\<lparr>sonameLibs := libs\<rparr>"
  have s0: "littleEndian s0 = littleEndian s" "replacedSections s0 = replacedSections s" "forceRPath s0 = forceRPath s" "contents s0 = contents s"
    by (simp_all add: s0_def)
  have rd0: "rdn s0 n = rdn s n" for n :: "'b::len word" by (simp add: rdn_def s0)
  have hs0: "section_hdr s0 nm = section_hdr s nm" for nm
    by (rule section_hdr_view) (simp_all add: s0_def name_view_def shnum_def rdn_def hdr_def)
  have at0: "sections_at s0 ?dyn dsz ?strTab u es" using at sections_at_cong [of s0 s] s0 by simp
  have ml: "m < length es" using last_idx_Some [OF m(1)] by simp
  obtain s1 where "modifySoname replaceSoname name s = Inr s1" "littleEndian s1 = littleEndian s" "forceRPath s1 = forceRPath s"
    "\<And>nm. section_hdr s1 nm = section_hdr s nm" and rep: "replacedSections s1 = map_put (str ''.dynstr'') (u1 @ name @ [0]) (replacedSections s)"
    and "sections_at s1 ?dyn dsz ?strTab u1 es1"
    using set_soname_existing [OF inv [folded s0(2)] at0 fresh [folded s0(2)] _ _ _ ml m(2) small, of strsh dynsh thesis]
      hs(2) size run hs0 s0 unfolding u1_def es1_def by (simp add: dynstr_hdr_def rd0 flip: s0_def del: str_simps)
  moreover have "map_inv (replacedSections s1)" using inv by (simp add: rep map_inv_put)
  moreover have "map_of (replacedSections s1) = (map_of (replacedSections s))(str ''.dynstr'' \<mapsto> u1 @ name @ [0])"
    by (simp add: rep map_of_put [OF inv] del: str_simps)
  ultimately show ?thesis by blast
qed

lemma modifyRPath_existing:
  fixes s :: "'a::len ElfFile" and es :: "'a Elf_Dyn list"
  assumes w: "elf_width TYPE('a)" and hs: "dynamic_hdr s = Inr dynsh" "dynstr_hdr s = Inr strsh"
    and at: "sections_at s (rdn s (sh_offset dynsh)) dsz (rdn s (sh_offset strsh)) u es"
    and tab: "check_strtab s (rdn s (sh_offset dynsh)) strsh = Inr ()" and names: "None \<notin> set (needed_names (littleEndian s) u es)"
    and k: "path_idx (tags (littleEndian s) es) = Some k" and old: "cstr (drop (rdn s (d_un (es ! k))) u) = Some old" "old \<noteq> new"
  obtains r where "modifyRPath ex rpSet new s = set_rpath new old r dynsh strsh (s\<lparr>rpathLibs := needed r\<rparr>)"
    and "dynRPath r = entry_at TYPE('a) (rdn s (sh_offset dynsh)) (last_idx DT_RPATH (tags (littleEndian s) es)) None"
    and "dynRunPath r = entry_at TYPE('a) (rdn s (sh_offset dynsh)) (last_idx DT_RUNPATH (tags (littleEndian s) es)) None"
    and "rpath_pos r = Some (rdn s (sh_offset strsh) + rdn s (d_un (es ! k)))"
proof -
  let ?strTab = "rdn s (sh_offset strsh)" and ?dyn = "rdn s (sh_offset dynsh)" and ?ts = "tags (littleEndian s) es"
  obtain r where scan: "dyn_scan s (rpath_step s ?strTab) ?dyn \<lparr>dynRPath = None, dynRunPath = None, rpath_pos = None, needed = rpathLibs s\<rparr> = Inr r"
    and r: "dynRPath r = entry_at TYPE('a) ?dyn (last_idx DT_RPATH ?ts) None" "dynRunPath r = entry_at TYPE('a) ?dyn (last_idx DT_RUNPATH ?ts) None"
      "rpath_pos r = string_at s ?strTab es (last_idx DT_RUNPATH ?ts) (string_at s ?strTab es (last_idx DT_RPATH ?ts) None)"
    using rpath_scanned [OF w at names] by blast
  have pos: "rpath_pos r = Some (?strTab + rdn s (d_un (es ! k)))"
    using k by (auto simp: path_idx_def r(3) string_at_def split: option.splits)
  have "cstr_at (s\<lparr>rpathLibs := needed r\<rparr>) (?strTab + rdn s (d_un (es ! k))) = Inr old"
    using string_in_table [OF at old(1)] by (simp add: cstr_at_def)
  then have "modifyRPath ex rpSet new s = set_rpath new old r dynsh strsh (s\<lparr>rpathLibs := needed r\<rparr>)"
    using old(2) by (simp add: modifyRPath_def hs tab scan pos)
  with r(1,2) pos that show ?thesis by blast
qed


lemma modifyRPath_longer:
  fixes s :: "'a::len ElfFile" and es :: "'a Elf_Dyn list"
  assumes w: "elf_width TYPE('a)" and inv: "map_inv (replacedSections s)"
    and fresh: "map_of (replacedSections s) (str ''.dynamic'') = None" and copy: "map_of (replacedSections s) (str ''.dynstr'') = Some (u' @ x)"
    and hs: "dynamic_hdr s = Inr dynsh" "dynstr_hdr s = Inr strsh"
    and at: "sections_at s (rdn s (sh_offset dynsh)) (rdn s (sh_size dynsh)) (rdn s (sh_offset strsh)) u es"
    and size: "rdn s (sh_size strsh) = length u'"
    and tab: "check_strtab s (rdn s (sh_offset dynsh)) strsh = Inr ()" and names: "None \<notin> set (needed_names (littleEndian s) u es)"
    and path: "search_string (littleEndian s) u es = Some old" "length old < length new" "0 \<notin> set new"
    and le: "littleEndian s \<or> DT_RPATH \<notin> set (tags (littleEndian s) es)"
    and force: "\<not> forceRPath s \<or> DT_RUNPATH \<notin> set (tags (littleEndian s) es)"
    and small: "length u' + length new + 1 < 2 ^ 32"
  shows "\<exists>s'. modifyRPath ex rpSet new s = Inr s' \<and> littleEndian s' = littleEndian s \<and>
    search_path_is s' new (filter (\<lambda>d. \<not> is_path (littleEndian s) d) es) \<and> current s' (str ''.dynstr'') = Inr (u' @ new @ [0])"
proof -
  let ?dyn = "rdn s (sh_offset dynsh)" and ?strTab = "rdn s (sh_offset strsh)"
  obtain k where k: "path_idx (tags (littleEndian s) es) = Some k" "cstr (drop (rdn s (d_un (es ! k))) u) = Some old"
    using path(1) by (auto simp: search_string_def rdn_def split: option.splits)
  have "old \<noteq> new" using path(2) by auto
  then obtain r where run: "modifyRPath ex rpSet new s = set_rpath new old r dynsh strsh (s\<lparr>rpathLibs := needed r\<rparr>)"
    and r: "dynRPath r = entry_at TYPE('a) ?dyn (last_idx DT_RPATH (tags (littleEndian s) es)) None"
      "dynRunPath r = entry_at TYPE('a) ?dyn (last_idx DT_RUNPATH (tags (littleEndian s) es)) None"
      "rpath_pos r = Some (?strTab + rdn s (d_un (es ! k)))"
    using modifyRPath_existing [OF w hs at tab names k] by blast
  define s3 where "s3 = s\<lparr>rpathLibs := needed r\<rparr>"
  have s3: "littleEndian s3 = littleEndian s" "replacedSections s3 = replacedSections s" "forceRPath s3 = forceRPath s" "contents s3 = contents s"
    by (simp_all add: s3_def)
  have rd3: "rdn s3 n = rdn s n" for n :: "'b::len word" by (simp add: rdn_def s3)
  have "section_hdr s3 nm = section_hdr s nm" for nm
    by (rule section_hdr_view) (simp_all add: s3_def name_view_def shnum_def rdn_def hdr_def)
  then have hs3: "section_hdr s3 (str ''.dynamic'') = Inr dynsh" using hs(1) by (simp only: dynamic_hdr_def)
  have at3: "sections_at s3 ?dyn (rdn s (sh_size dynsh)) ?strTab u es" using at sections_at_cong [of s3 s] s3 by simp
  have "\<exists>s'. set_rpath new old r dynsh strsh s3 = Inr s' \<and> littleEndian s' = littleEndian s3 \<and>
      search_path_is s' new (filter (\<lambda>d. \<not> is_path (littleEndian s3) d) es) \<and> current s' (str ''.dynstr'') = Inr (u' @ new @ [0])"
    by (rule set_rpath_longer [OF w inv [folded s3(2)] at3 fresh [folded s3(2)] hs3 copy [folded s3(2)] _ _ _
          r [folded s3(1)] k(1) [folded s3(1)] _ _ k(2) path(3,2) small]) (use le force size in \<open>simp_all add: rd3 s3\<close>)
  then show ?thesis by (simp add: run s3 flip: s3_def)
qed

text \<open>What the first operation leaves to the second: a table with one value changed, and a string table with one string crossed out.\<close>

lemma renamed_table:
  fixes es :: "'a::len Elf_Dyn list" and val :: "'a word"
  assumes w: "elf_width TYPE('a)" and m: "last_idx DT_SONAME (tags le es) = Some m"
    and old: "cstr (drop v u) = Some old"
  defines "es1 \<equiv> es[m := (es ! m)\<lparr>d_un := val\<rparr>]" and "u1 \<equiv> overwrite v (replicate (length old) 88) u"
  shows "tags le es1 = tags le es" and "soname_string le x es1 = cstr (drop (unat (rdi le val)) x)"
    and "filter (\<lambda>d. rdi le (d_tag d) = DT_STRTAB) es1 = filter (\<lambda>d. rdi le (d_tag d) = DT_STRTAB) es"
    and "None \<notin> set (needed_names le u es) \<Longrightarrow> None \<notin> set (needed_names le u1 es1)"
    and "search_string le u es = Some path \<Longrightarrow> \<exists>path'. search_string le u1 es1 = Some path' \<and> length path' = length path"
proof -
  have ml: "m < length es" "rdi le (d_tag (es ! m)) = DT_SONAME" using last_idx_Some [OF m] tags_nth by fastforce+
  show tags1: "tags le es1 = tags le es"
    using ml(1) by (simp add: es1_def tags_update) (metis list_update_id tags_nth)
  show "soname_string le x es1 = cstr (drop (unat (rdi le val)) x)"
    using ml(1) by (simp add: soname_string_def tags1 m) (simp add: es1_def)
  have other: "filter (\<lambda>d. rdi le (d_tag d) = x) es1 = filter (\<lambda>d. rdi le (d_tag d) = x) es" if "x \<noteq> DT_SONAME" for x
    unfolding es1_def using ml that by (intro filter_update) simp_all
  have ne: "(DT_STRTAB :: 'a word) \<noteq> DT_SONAME" "(DT_NEEDED :: 'a word) \<noteq> DT_SONAME"
      "(DT_RPATH :: 'a word) \<noteq> DT_SONAME" "(DT_RUNPATH :: 'a word) \<noteq> DT_SONAME"
    using w by (auto simp: elf_width_def word_uint_eq_iff)
  show "filter (\<lambda>d. rdi le (d_tag d) = DT_STRTAB) es1 = filter (\<lambda>d. rdi le (d_tag d) = DT_STRTAB) es" by (rule other [OF ne(1)])
  note crossed = cstr_crossed_out [OF old, folded u1_def]
  show "None \<notin> set (needed_names le u1 es1)" if names: "None \<notin> set (needed_names le u es)"
  proof
    assume "None \<in> set (needed_names le u1 es1)"
    then obtain d where d: "d \<in> set (filter (\<lambda>d. rdi le (d_tag d) = DT_NEEDED) es)" "cstr (drop (unat (rdi le (d_un d))) u1) = None"
      unfolding needed_names_def other [OF ne(2)] by auto
    with names obtain t where "cstr (drop (unat (rdi le (d_un d))) u) = Some t"
      by (cases "cstr (drop (unat (rdi le (d_un d))) u)") (force simp: needed_names_def)+
    with crossed [OF this] d(2) show False by simp
  qed
  show "\<exists>path'. search_string le u1 es1 = Some path' \<and> length path' = length path" if path: "search_string le u es = Some path"
  proof -
    obtain k where k: "path_idx (tags le es) = Some k" "cstr (drop (unat (rdi le (d_un (es ! k)))) u) = Some path"
      using path by (auto simp: search_string_def split: option.splits)
    then have "last_idx DT_RPATH (tags le es) = Some k \<or> last_idx DT_RUNPATH (tags le es) = Some k"
      by (auto simp: path_idx_def split: option.splits)
    then have "is_path le (es ! k)" using is_path_last by blast
    moreover have "\<not> is_path le (es ! m)" unfolding is_path_def ml(2) using ne(3,4) by metis
    ultimately have "es1 ! k = es ! k" unfolding es1_def by (metis nth_list_update_neq)
    with crossed [OF k(2)] k(1) tags1 show ?thesis by (simp add: search_string_def)
  qed
qed

text \<open>The name in a state of which the search path and the entries besides it are known.\<close>

lemma soname_of_rest:
  fixes s :: "'a::len ElfFile" and es :: "'a Elf_Dyn list"
  assumes w: "elf_width TYPE('a)" and path: "search_path_is s path (filter (\<lambda>d. \<not> is_path (littleEndian s) d) es)"
    and u: "current s (str ''.dynstr'') = Inr u" and nm: "soname_string (littleEndian s) u es = Some nm"
  shows "soname_is s nm"
proof -
  obtain t es' where t: "current s (str ''.dynamic'') = Inr t" "dyn_table (littleEndian s) t 0 es'"
      "filter (\<lambda>d. \<not> is_path (littleEndian s) d) es' = filter (\<lambda>d. \<not> is_path (littleEndian s) d) es"
    using path unfolding search_path_is_def by blast
  have "soname_string (littleEndian s) u es' = Some nm"
    using soname_string_rest [OF w, of _ u es'] soname_string_rest [OF w, of _ u es] t(3) nm by metis
  with t(1,2) u show ?thesis unfolding soname_is_def by blast
qed

text \<open>
  Property C27. Of two strings that operations of one run add to the string table, only the later one is written, and the entry of the
  earlier operation then refers to it. In a library with a name and a search path, \<open>modifySoname\<close> sets the name, and so it would be
  written; after \<open>modifyRPath\<close> with a path that is longer than the old one, both the search path and the name of the library are, in
  the sections that will be written, the new search path. Both operations put their string where the header of the string table
  says that it ends, which no operation updates before the sections are rewritten.
\<close>

theorem later_string_overwrites:
  fixes s :: "'a::len ElfFile" and es :: "'a Elf_Dyn list"
  assumes w: "elf_width TYPE('a)" and inv: "map_inv (replacedSections s)"
    and fresh: "map_of (replacedSections s) (str ''.dynamic'') = None" "map_of (replacedSections s) (str ''.dynstr'') = None"
    and hs: "dynamic_hdr s = Inr dynsh" "dynstr_hdr s = Inr strsh"
    and at: "sections_at s (rdn s (sh_offset dynsh)) (rdn s (sh_size dynsh)) (rdn s (sh_offset strsh)) u es"
    and size: "rdn s (sh_size strsh) = length u"
    and type: "rdi (littleEndian s) (e_type (hdr s)) = ET_DYN" and tab: "check_strtab s (rdn s (sh_offset dynsh)) strsh = Inr ()"
    and names: "None \<notin> set (needed_names (littleEndian s) u es)"
    and inits: "\<forall>d \<in> set es. rdi (littleEndian s) (d_tag d) = DT_INIT \<longrightarrow> \<not> isl (cstr_at s (rdn s (sh_offset strsh) + rdn s (d_un d)))"
    and soname: "soname_string (littleEndian s) u es = Some oldname" "oldname \<noteq> name" "0 \<notin> set name"
    and path: "search_string (littleEndian s) u es = Some oldpath" "length oldpath < length path" "0 \<notin> set path"
    and le: "littleEndian s \<or> DT_RPATH \<notin> set (tags (littleEndian s) es)"
    and force: "\<not> forceRPath s \<or> DT_RUNPATH \<notin> set (tags (littleEndian s) es)"
    and small: "length u + length name + 1 < 2 ^ 32" "length u + length path + 1 < 2 ^ 32"
  shows "\<exists>s1 s2 rest. modifySoname replaceSoname name s = Inr s1 \<and> soname_is s1 name \<and>
    modifyRPath ex rpSet path s1 = Inr s2 \<and> search_path_is s2 path rest \<and> soname_is s2 path"
proof -
  let ?le = "littleEndian s" and ?dyn = "rdn s (sh_offset dynsh)" and ?strTab = "rdn s (sh_offset strsh)"
  let ?dsz = "rdn s (sh_size dynsh)" and ?v = "sh_size strsh"
  obtain m where m: "last_idx DT_SONAME (tags ?le es) = Some m" "cstr (drop (rdn s (d_un (es ! m))) u) = Some oldname"
    using soname(1) by (auto simp: soname_string_def rdn_def split: option.splits)
  define u1 where "u1 = overwrite (rdn s (d_un (es ! m))) (replicate (length oldname) 88) u"
  define es1 where "es1 = es[m := (es ! m)\<lparr>d_un := ?v\<rparr>]"
  note T = renamed_table [OF w m, where val = ?v, folded u1_def es1_def]
  obtain s1 where run1: "modifySoname replaceSoname name s = Inr s1" and s1: "littleEndian s1 = ?le" "forceRPath s1 = forceRPath s"
    and hs1: "\<And>nm. section_hdr s1 nm = section_hdr s nm"
    and map1: "map_inv (replacedSections s1)" "map_of (replacedSections s1) = (map_of (replacedSections s))(str ''.dynstr'' \<mapsto> u1 @ name @ [0])"
    and at1: "sections_at s1 ?dyn ?dsz ?strTab u1 es1"
    using modifySoname_sets [OF w inv fresh(2) hs at size type tab inits m soname(2) small(1)] unfolding u1_def es1_def by blast
  have fresh1: "map_of (replacedSections s1) (str ''.dynamic'') = None" using fresh(1) by (simp add: map1)
  have copy1: "map_of (replacedSections s1) (str ''.dynstr'') = Some (u1 @ name @ [0])" by (simp add: map1 del: str_simps)
  have rd1: "rdn s1 n = rdn s n" for n :: "'b::len word" by (simp add: rdn_def s1)
  have hdrs1: "dynamic_hdr s1 = Inr dynsh" "dynstr_hdr s1 = Inr strsh" using hs by (simp_all add: dynamic_hdr_def dynstr_hdr_def hs1)
  have len1: "length u1 = length u" using cstr_length [OF m(2)] by (simp add: u1_def)
  have soname_of: "soname_string ?le (u1 @ t @ [0]) es1 = Some t" if "0 \<notin> set t" for t
    using that size by (simp add: T(2) cstr_append len1 flip: rdn_def)
  obtain t1 where t1: "current s1 (str ''.dynamic'') = Inr t1" "dyn_table ?le t1 0 es1"
    using current_in_file(2) [OF at1 fresh1 hdrs1(1) [unfolded dynamic_hdr_def]] by (auto simp: rd1 s1)
  have first: "soname_is s1 name"
    unfolding soname_is_def s1(1) using t1 soname_of [OF soname(3)]
    by (intro exI [of _ t1] exI [of _ "u1 @ name @ [0]"] exI [of _ es1]) (simp add: current_def copy1 del: str_simps)
  have dtab: "dyn_table ?le (contents s) ?dyn es" "dyn_table (littleEndian s1) (contents s1) ?dyn es1"
    using at at1 by (simp_all add: sections_at_def)
  have tab1: "check_strtab s1 ?dyn strsh = Inr ()" using check_strtab_same [OF w dtab s1(1) T(3), of strsh] tab by simp
  obtain path1 where path1: "search_string ?le u1 es1 = Some path1" "length path1 = length oldpath" using T(5) [OF path(1)] by blast
  have "\<exists>s2. modifyRPath ex rpSet path s1 = Inr s2 \<and> littleEndian s2 = littleEndian s1 \<and>
      search_path_is s2 path (filter (\<lambda>d. \<not> is_path (littleEndian s1) d) es1) \<and> current s2 (str ''.dynstr'') = Inr (u1 @ path @ [0])"
    by (rule modifyRPath_longer [OF w map1(1) fresh1 copy1 hdrs1, of u1 es1 path1])
      (use at1 tab1 T(4) [OF names] path1 path(2,3) le force small(2) len1 size in \<open>simp_all add: rd1 s1 T(1)\<close>)
  then obtain s2 where s2: "modifyRPath ex rpSet path s1 = Inr s2" "littleEndian s2 = ?le"
      "search_path_is s2 path (filter (\<lambda>d. \<not> is_path ?le d) es1)" "current s2 (str ''.dynstr'') = Inr (u1 @ path @ [0])"
    by (auto simp: s1)
  have "soname_is s2 path" by (rule soname_of_rest [OF w s2(3) [folded s2(2)] s2(4)]) (simp only: s2(2) soname_of [OF path(3)])
  then show ?thesis using run1 first s2(1,3) by (intro exI conjI)
qed

definition ex_named :: "32 ElfFile" where
  "ex_named = ex_elf\<lparr>contents := (contents ex_elf)[64 := 14]\<rparr>"

theorem later_string_witness:
  "\<exists>s1 s2 rest. modifySoname replaceSoname (str ''me'') ex_named = Inr s1 \<and> soname_is s1 (str ''me'') \<and>
     modifyRPath (\<lambda>_. False) rpSet (str ''/lib/new'') s1 = Inr s2 \<and> search_path_is s2 (str ''/lib/new'') rest \<and>
     soname_is s2 (str ''/lib/new'')"
proof (rule later_string_overwrites [where u = "[0, 97, 0, 47, 112, 58, 113, 0]" and es = "\<lparr>d_tag = 14, d_un = 1\<rparr> # tl ex_dyns" and
      oldname = "[97]" and oldpath = "str ''/p:q''"])
  show "dynamic_hdr ex_named = Inr (shdrs ex_elf ! 3)" "dynstr_hdr ex_named = Inr (shdrs ex_elf ! 2)" by code_simp+
  have sizes: "length (str ''/lib/new'') = 8" "length (str ''me'') = 2" by code_simp+
  show "length [0, 97, 0, 47, 112, 58, 113, 0 :: byte] + length (str ''/lib/new'') + 1 < 2 ^ 32"
    "length [0, 97, 0, 47, 112, 58, 113, 0 :: byte] + length (str ''me'') + 1 < 2 ^ 32" unfolding sizes by simp_all
qed code_simp+

text \<open>
  A path that is not longer than the old one is written over it in the file. If an earlier operation has put the string table into a
  copy, the copy is what will be written, and it does not get the path.
\<close>

lemma short_path_misses_copy:
  assumes run: "set_rpath new old r dynsh strsh s = Inr s'" and "rpath_pos r = Some pos" and "length new \<le> length old"
    and "map_of (replacedSections s) (str ''.dynstr'') = Some t"
  shows "current s' (str ''.dynstr'') = Inr t"
proof -
  have same: "replacedSections u = replacedSections v" if "wr v p bs = Inr u" for u v :: "'a ElfFile" and p bs using that by (auto simp: wr_Inr)
  have conv: "replacedSections u = replacedSections v" if "convert_rpath r v = Inr (u, a, b)" for u v :: "'a ElfFile" and a b
    using that by (auto simp: convert_rpath_def ebind_eq_Inr split: option.splits if_splits dest!: same)
  have "replacedSections s' = replacedSections s"
    using run assms(2,3) by (auto simp: set_rpath_def ebind_eq_Inr Let_def dest!: same conv)
  with assms(4) show ?thesis by (simp add: current_def del: str_simps)
qed

end
