(* ===== verification/ElfTypeProps.thy ===== *)
theory ElfTypeProps
  imports ElfExample ElfRelocations
begin

text \<open>
  Properties of the data: the images of the structures, integers in the byte order of the file,
  packed fields, and the order of the program headers.
\<close>

section \<open>Structures and integers\<close>



lemma byte_of_rdi:
  fixes w :: "'a::len word"
  assumes "8 dvd LENGTH('a)" and "n < wsize TYPE('a)"
  shows "byte_of (rdi False w) n = byte_of w (wsize TYPE('a) - 1 - n)"
proof (rule bit_word_eqI)
  fix k
  assume "k < LENGTH(8)"
  then have k: "k < 8" by simp
  have "8 * n + k < 8 * wsize TYPE('a)" using assms(2) k by arith
  then have lt: "8 * n + k < LENGTH('a)" using assms(1) by (auto simp: wsize_def elim!: dvdE)
  have "(8 * n + k) div 8 = n" "(8 * n + k) mod 8 = k" using k by simp_all
  with lt k show "bit (byte_of (rdi False w) n) k = bit (byte_of w (wsize TYPE('a) - 1 - n)) k"
    by (simp add: bit_byte_of bit_rdi [OF assms(1)])
qed

text \<open>
  Property C37. Integers are stored in the byte order of the file: the value, cut to the width of the field, has its bytes in memory
  with the least significant one first in a little-endian file and with the most significant one first in a big-endian file, and
  \<open>rdi\<close> of the integer loaded from them is the value.
\<close>

theorem byte_order:
  fixes v :: "'b::len word"
  assumes "8 dvd LENGTH('a)"
  shows "wbytes (wri True v :: 'a::len word) = map (\<lambda>n. ucast (drop_bit (8 * n) (ucast v :: 'a word))) [0 ..< LENGTH('a) div 8] \<and>
    wbytes (wri False v :: 'a word) = map (\<lambda>n. ucast (drop_bit (8 * (LENGTH('a) div 8 - 1 - n)) (ucast v :: 'a word))) [0 ..< LENGTH('a) div 8] \<and>
    rdi le (bytesw (wbytes (wri le v :: 'a word))) = (ucast v :: 'a word)"
proof (intro conjI)
  show "wbytes (wri True v :: 'a word) = map (\<lambda>n. ucast (drop_bit (8 * n) (ucast v :: 'a word))) [0 ..< LENGTH('a) div 8]"
    using assms by (simp add: wbytes_def wri_def byte_of_def wsize_def)
  show "wbytes (wri False v :: 'a word) =
      map (\<lambda>n. ucast (drop_bit (8 * (LENGTH('a) div 8 - 1 - n)) (ucast v :: 'a word))) [0 ..< LENGTH('a) div 8]"
    using byte_of_rdi [OF assms, of _ "ucast v"] by (simp add: wbytes_def wri_def byte_of_def wsize_def)
qed (simp add: assms)

theorem byte_order_witness:
  "wbytes (wri True (0x1234 :: 16 word) :: 32 word) = [0x34, 0x12, 0, 0] \<and>
   wbytes (wri False (0x1234 :: 16 word) :: 32 word) = [0, 0, 0x12, 0x34] \<and>
   rdi False (bytesw [0, 0, 0x12, 0x34]) = (0x1234 :: 32 word)"
proof -
  have "8 dvd LENGTH(32)" by simp
  note order = byte_order [OF this, of "0x1234 :: 16 word" False]
  have upt: "[0 ..< LENGTH(32) div 8] = [0, 1, 2, 3]" by code_simp
  have bytes: "wbytes (wri True (0x1234 :: 16 word) :: 32 word) = [0x34, 0x12, 0, 0]"
      "wbytes (wri False (0x1234 :: 16 word) :: 32 word) = [0, 0, 0x12, 0x34]"
    using order unfolding upt by (simp_all add: drop_bit_eq_div)
  moreover have "rdi False (bytesw (wbytes (wri False (0x1234 :: 16 word) :: 32 word))) = (ucast (0x1234 :: 16 word) :: 32 word)"
    by (rule order [THEN conjunct2, THEN conjunct2])
  ultimately show ?thesis by simp
qed

section \<open>The order of the program headers\<close>

text \<open>
  The comparison of the code differs from the order of a key only on two \<open>PT_PHDR\<close> entries. The
  sort compares an element only with those before it in the table.
\<close>

lemma insert_back_cong: "\<forall>y \<in> set ys. lt x y = lt' x y \<Longrightarrow> insert_back lt x ys = insert_back lt' x ys"
  by (induction ys) auto

lemma std_insert_cong: "\<forall>y \<in> set ys. lt x y = lt' x y \<Longrightarrow> std_insert lt x ys = std_insert lt' x ys"
  using insert_back_cong [of "rev ys" lt x lt'] by (cases ys) (auto simp: std_insert_def)

lemma std_sort_cong: "sorted_wrt (\<lambda>y x. lt x y = lt' x y) xs \<Longrightarrow> std_sort lt xs = std_sort lt' xs"
proof -
  have "\<forall>y \<in> set ys. \<forall>x \<in> set xs. lt x y = lt' x y \<Longrightarrow> sorted_wrt (\<lambda>y x. lt x y = lt' x y) xs \<Longrightarrow>
      foldl (\<lambda>ys x. std_insert lt x ys) ys xs = foldl (\<lambda>ys x. std_insert lt' x ys) ys xs" for ys
  proof (induction xs arbitrary: ys)
    case (Cons x xs)
    have "std_insert lt x ys = std_insert lt' x ys" using Cons.prems(1) by (intro std_insert_cong) simp
    moreover have "set (std_insert lt' x ys) = insert x (set ys)"
      using mset_eq_setD [OF mset_std_insert [of lt' x ys, folded mset.simps(2)]] by simp
    ultimately show ?case using Cons.prems by (simp add: Cons.IH)
  qed simp
  then show "sorted_wrt (\<lambda>y x. lt x y = lt' x y) xs \<Longrightarrow> ?thesis" by (simp add: std_sort_def)
qed

definition phdr_key :: "bool \<Rightarrow> 'a::len Elf_Phdr \<Rightarrow> nat" where
  "phdr_key le p = (if p_type p = PT_PHDR then 0 else unat (rdi le (p_paddr p)) + 1)"

lemma CompPhdr_key: "p_type p \<noteq> PT_PHDR \<or> p_type q \<noteq> PT_PHDR \<Longrightarrow> CompPhdr le p q = key_less (phdr_key le) p q"
  by (auto simp: CompPhdr_def key_less_def phdr_key_def word_less_nat_alt)

lemma sort_phdrs_key:
  assumes "length (filter (\<lambda>p. p_type p = PT_PHDR) ps) \<le> 1"
  shows "std_sort (CompPhdr le) ps = std_sort (key_less (phdr_key le)) ps"
proof (rule std_sort_cong)
  show "sorted_wrt (\<lambda>q p. CompPhdr le p q = key_less (phdr_key le) p q) ps"
    using assms
  proof (induction ps)
    case (Cons p ps)
    then have "p_type p \<noteq> PT_PHDR \<or> (\<forall>q \<in> set ps. p_type q \<noteq> PT_PHDR)"
      by (auto simp: filter_empty_conv split: if_splits)
    with Cons show ?case by (auto intro!: CompPhdr_key split: if_splits)
  qed simp
qed

lemma phdr_order:
  assumes "sorted (map (phdr_key le) ps)" and "length (filter (\<lambda>p. p_type p = PT_PHDR) ps) \<le> 1"
  shows "sorted_wrt (\<lambda>p q. p_type q \<noteq> PT_PHDR \<and> (p_type p = PT_PHDR \<or> rdi le (p_paddr p) \<le> rdi le (p_paddr q))) ps"
  using assms
proof (induction ps)
  case (Cons p ps)
  have "p_type q \<noteq> PT_PHDR \<and> (p_type p = PT_PHDR \<or> rdi le (p_paddr p) \<le> rdi le (p_paddr q))" if q: "q \<in> set ps" for q
  proof (cases "p_type p = PT_PHDR")
    case True
    with Cons.prems(2) have "filter (\<lambda>p. p_type p = PT_PHDR) ps = []" by simp
    with q True show ?thesis by (auto simp: filter_empty_conv)
  next
    case False
    from Cons.prems(1) q have "phdr_key le p \<le> phdr_key le q" by simp
    with False show ?thesis by (auto simp: phdr_key_def word_le_nat_alt split: if_splits)
  qed
  with Cons show ?case by (auto split: if_splits)
qed simp

text \<open>In a big-endian file the \<open>PT_PHDR\<close> entry is not recognised: it is compared with a loadable segment by address.\<close>

lemma big_endian_PT_PHDR:
  assumes "rdi False (p_type x) = PT_PHDR" and "rdi False (p_type y) = PT_LOAD"
  shows "CompPhdr False x y \<longleftrightarrow> rdi False (p_paddr x) < rdi False (p_paddr y)"
proof -
  have "p_type x = rdi False PT_PHDR" "p_type y = rdi False PT_LOAD"
    using rdi_rdi [of False "p_type x"] rdi_rdi [of False "p_type y"] assms by simp_all
  moreover have "rdi False PT_PHDR \<noteq> PT_PHDR" "rdi False PT_LOAD \<noteq> PT_PHDR" by code_simp+
  ultimately show ?thesis by (simp add: CompPhdr_def)
qed

text \<open>Without a stored \<open>PT_PHDR\<close> the address alone decides.\<close>

lemma phdr_order_address:
  assumes "\<forall>p \<in> set ps. p_type p \<noteq> PT_PHDR"
  shows "sorted (map (\<lambda>p. rdi le (p_paddr p)) (std_sort (CompPhdr le) ps))"
proof -
  have none: "filter (\<lambda>p. p_type p = PT_PHDR) ps = []" using assms by (simp add: filter_empty_conv)
  have m: "mset (std_sort (CompPhdr le) ps) = mset ps" by (rule mset_std_sort)
  then have none': "\<forall>p \<in> set (std_sort (CompPhdr le) ps). p_type p \<noteq> PT_PHDR" using assms mset_eq_setD by blast
  have "sorted (map (phdr_key le) (std_sort (CompPhdr le) ps))"
    by (subst sort_phdrs_key) (simp_all add: none sorted_std_sort)
  then have "sorted_wrt (\<lambda>p q. p_type q \<noteq> PT_PHDR \<and> (p_type p = PT_PHDR \<or> rdi le (p_paddr p) \<le> rdi le (p_paddr q))) (std_sort (CompPhdr le) ps)"
    by (rule phdr_order) (use none' in \<open>simp add: filter_empty_conv\<close>)
  then show ?thesis unfolding sorted_map by (rule sorted_wrt_mono_rel [rotated]) (use none' in auto)
qed

text \<open>
  Property C38. \<open>sortPhdrs\<close> only rearranges the program headers, and the order is that of \<open>CompPhdr\<close>, by physical address, and
  not by offset, as the comment over the call at \<open>patchelf.cc:338\<close> has it. In a little-endian file with at most one
  \<open>PT_PHDR\<close> entry, which the ELF specification asks for and without which the comparison is no order, that entry comes first and the
  others follow by ascending physical address. In a big-endian file the test for \<open>PT_PHDR\<close> looks at the type as it is stored and
  does not recognise the entry: where no entry has the type \<open>0x06000000\<close>, which is stored as \<open>PT_PHDR\<close> is on the host, all
  entries, this one included, are ordered by ascending physical address.
\<close>

theorem sortPhdrs_sorted:
  defines "kind \<equiv> \<lambda>s p. rdi (littleEndian s) (p_type p)" and "addr \<equiv> \<lambda>s p. rdi (littleEndian s) (p_paddr p)"
  shows "mset (phdrs (sortPhdrs s)) = mset (phdrs s) \<and> sortPhdrs s = s\<lparr>phdrs := phdrs (sortPhdrs s)\<rparr> \<and>
    (littleEndian s \<and> length (filter (\<lambda>p. kind s p = PT_PHDR) (phdrs s)) \<le> 1 \<longrightarrow>
       sorted_wrt (\<lambda>p q. kind s q \<noteq> PT_PHDR \<and> (kind s p = PT_PHDR \<or> addr s p \<le> addr s q)) (phdrs (sortPhdrs s))) \<and>
    (\<not> littleEndian s \<and> (\<forall>p \<in> set (phdrs s). kind s p \<noteq> 0x06000000) \<longrightarrow> sorted (map (addr s) (phdrs (sortPhdrs s))))"
proof (intro conjI impI)
  let ?ps = "phdrs (sortPhdrs s)" and ?key = "phdr_key (littleEndian s)"
  show m: "mset ?ps = mset (phdrs s)" by (simp add: sortPhdrs_def mset_std_sort)
  show "sortPhdrs s = s\<lparr>phdrs := ?ps\<rparr>" by (simp add: sortPhdrs_def)
  show "sorted_wrt (\<lambda>p q. kind s q \<noteq> PT_PHDR \<and> (kind s p = PT_PHDR \<or> addr s p \<le> addr s q)) ?ps"
    if "littleEndian s \<and> length (filter (\<lambda>p. kind s p = PT_PHDR) (phdrs s)) \<le> 1"
  proof -
    have kind: "kind s = p_type" using that by (simp add: kind_def fun_eq_iff)
    have old: "length (filter (\<lambda>p. p_type p = PT_PHDR) (phdrs s)) \<le> 1" using that by (simp add: kind)
    have "mset (filter (\<lambda>p. p_type p = PT_PHDR) ?ps) = mset (filter (\<lambda>p. p_type p = PT_PHDR) (phdrs s))"
      by (simp add: mset_filter m)
    then have one: "length (filter (\<lambda>p. p_type p = PT_PHDR) ?ps) \<le> 1" using old by (metis size_mset)
    have "sorted (map ?key ?ps)" by (simp add: sortPhdrs_def sort_phdrs_key [OF old] sorted_std_sort)
    from phdr_order [OF this one] show ?thesis unfolding kind addr_def .
  qed
  show "sorted (map (addr s) ?ps)" if "\<not> littleEndian s \<and> (\<forall>p \<in> set (phdrs s). kind s p \<noteq> 0x06000000)"
  proof -
    have "rdi False (PT_PHDR :: 32 word) = 0x06000000" by code_simp
    with that have "\<forall>p \<in> set (phdrs s). p_type p \<noteq> PT_PHDR" by (auto simp: kind_def)
    from phdr_order_address [OF this, of "littleEndian s"] show ?thesis by (simp add: sortPhdrs_def addr_def)
  qed
qed

definition ex_phdrs :: "32 Elf_Phdr list" where
  "ex_phdrs = map (\<lambda>(t, a). \<lparr>p_type = t, p_offset = 0, p_vaddr = a, p_paddr = a, p_filesz = 0, p_memsz = 0, p_flags = 0, p_align = 1\<rparr>)
     [(PT_LOAD, 8192), (PT_DYNAMIC, 4096), (PT_PHDR, 12288), (PT_LOAD, 0)]"

definition ex_big_phdrs :: "32 Elf_Phdr list" where
  "ex_big_phdrs = map (\<lambda>p. p\<lparr>p_type := rdi False (p_type p), p_paddr := rdi False (p_paddr p)\<rparr>) ex_phdrs"

theorem sortPhdrs_sorted_witness:
  "sorted_wrt (\<lambda>p q. p_type q \<noteq> PT_PHDR \<and> (p_type p = PT_PHDR \<or> p_paddr p \<le> p_paddr q)) (phdrs (sortPhdrs (ex_elf\<lparr>phdrs := ex_phdrs\<rparr>))) \<and>
   map p_paddr (phdrs (sortPhdrs (ex_elf\<lparr>phdrs := ex_phdrs\<rparr>))) = [12288, 0, 4096, 8192] \<and>
   sorted (map (\<lambda>p. rdi False (p_paddr p)) (phdrs (sortPhdrs (ex_big\<lparr>phdrs := ex_big_phdrs\<rparr>)))) \<and>
   map (\<lambda>p. rdi False (p_paddr p)) (phdrs (sortPhdrs (ex_big\<lparr>phdrs := ex_big_phdrs\<rparr>))) = [0, 4096, 8192, 12288]"
proof (intro conjI)
  have le: "littleEndian (ex_elf\<lparr>phdrs := ex_phdrs\<rparr>)" "\<not> littleEndian (ex_big\<lparr>phdrs := ex_big_phdrs\<rparr>)"
    by (simp_all add: ex_elf_def ex_big_def)
  have one: "length (filter (\<lambda>p. rdi (littleEndian (ex_elf\<lparr>phdrs := ex_phdrs\<rparr>)) (p_type p) = PT_PHDR) (phdrs (ex_elf\<lparr>phdrs := ex_phdrs\<rparr>))) \<le> 1"
    by code_simp
  show "sorted_wrt (\<lambda>p q. p_type q \<noteq> PT_PHDR \<and> (p_type p = PT_PHDR \<or> p_paddr p \<le> p_paddr q)) (phdrs (sortPhdrs (ex_elf\<lparr>phdrs := ex_phdrs\<rparr>)))"
    using sortPhdrs_sorted [of "ex_elf\<lparr>phdrs := ex_phdrs\<rparr>"] le(1) one by simp
  have "\<forall>p \<in> set (phdrs (ex_big\<lparr>phdrs := ex_big_phdrs\<rparr>)). rdi (littleEndian (ex_big\<lparr>phdrs := ex_big_phdrs\<rparr>)) (p_type p) \<noteq> 0x06000000"
    by code_simp
  then show "sorted (map (\<lambda>p. rdi False (p_paddr p)) (phdrs (sortPhdrs (ex_big\<lparr>phdrs := ex_big_phdrs\<rparr>))))"
    using sortPhdrs_sorted [of "ex_big\<lparr>phdrs := ex_big_phdrs\<rparr>"] le(2) by simp
qed code_simp+

section \<open>Packed fields\<close>

lemma low_nibble: "(0xf :: 32 word) = mask 4"
  by (simp add: mask_eq_exp_minus_1)

lemma ELF32_ST_INFO_or: "ELF32_ST_INFO b t = push_bit 4 b OR (t AND mask 4)"
  unfolding ELF32_ST_INFO_def low_nibble by (rule disjunctive_add) (auto simp: bit_simps)

lemma ELF32_M_INFO_or: "ELF32_M_INFO sy sz = push_bit 8 sy OR ucast (ucast sz :: byte)"
  unfolding ELF32_M_INFO_def by (rule disjunctive_add) (auto simp: bit_simps)

text \<open>
  Property C39. The packed fields of \<open>elf.h\<close> are taken apart by the macros into what was put in: the
  binding and the type of a symbol, of four bits each, and the symbol and the size of a move record, where the
  symbol has to leave eight bits free and the size is cut to a byte.
\<close>

theorem packed_fields_roundtrip:
  fixes sy :: "'a::len word"
  assumes "unat b < 2 ^ 4" and "unat t < 2 ^ 4" and "8 < LENGTH('a)" and "unat sy < 2 ^ (LENGTH('a) - 8)"
  shows "ELF32_ST_BIND (ELF32_ST_INFO b t) = b \<and> ELF32_ST_TYPE (ELF32_ST_INFO b t) = t \<and>
    ELF32_M_SYM (ELF32_M_INFO sy sz) = sy \<and> ELF32_M_SIZE (ELF32_M_INFO sy sz) = ucast sz"
proof (intro conjI)
  note b = small_bits(2) [OF assms(1)] and t = small_bits(2) [OF assms(2)] and sy = small_bits(2) [OF assms(4)]
  show "ELF32_ST_BIND (ELF32_ST_INFO b t) = b"
    unfolding ELF32_ST_BIND_def ELF32_ST_INFO_or by (rule bit_word_eqI) (auto simp: bit_simps dest: b)
  show "ELF32_ST_TYPE (ELF32_ST_INFO b t) = t"
    unfolding ELF32_ST_TYPE_def ELF32_ST_INFO_or low_nibble by (rule bit_word_eqI) (auto simp: bit_simps dest: t)
  show "ELF32_M_SYM (ELF32_M_INFO sy sz) = sy"
    unfolding ELF32_M_SYM_def ELF32_M_INFO_or by (rule bit_word_eqI) (use assms(3) in \<open>auto simp: bit_simps dest: sy\<close>)
  show "ELF32_M_SIZE (ELF32_M_INFO sy sz) = ucast sz"
    unfolding ELF32_M_SIZE_def ELF32_M_INFO_or by (rule bit_word_eqI) (use assms(3) in \<open>auto simp: bit_simps\<close>)
qed

theorem packed_fields_witness:
  "ELF32_ST_BIND (ELF32_ST_INFO 2 10) = 2 \<and> ELF32_ST_TYPE (ELF32_ST_INFO 2 10) = 10 \<and>
   ELF32_M_SYM (ELF32_M_INFO (77 :: 64 word) 300) = 77 \<and> ELF32_M_SIZE (ELF32_M_INFO (77 :: 64 word) 300) = 44"
  using packed_fields_roundtrip [of 2 10 "77 :: 64 word" 300] by simp

end
