(* ===== verification/Spec2Isabelle.thy ===== *)
theory Spec2Isabelle
  imports SltarProps ElfPlaceProps ElfOpsProps ElfSortProps ElfRelocations ElfStateProps ElfPathProps ElfArgProps ElfHeaders ElfLayoutProps ElfLoopProps ElfReplaceProps ElfSymbolProps ElfWriteProps ElfStringProps ElfTypeProps
begin

text \<open>
  A verification library for the C and C++ programs of the repository. Both are tools that the
  build of the bitcoin-core image uses: \<open>sltar\<close> (\<open>bitcoin-core/sltar.c\<close>) reads and writes tar
  archives, \<open>patchelf\<close> (\<open>bitcoin-core/patchelf-0.9/src/patchelf.cc\<close> with \<open>elf.h\<close>) changes the
  interpreter, the search path and the needed libraries of ELF executables and libraries. They
  share no code; the two halves of the development share the prelude.

  Shared theories

  \<^item> \<open>Prelude\<close>: bytes and C strings, results with an error value (\<open>ebind\<close>, \<open>efold\<close>), an image of bytes
    that is read and written at offsets with the bounds checked (locale \<open>byte_store\<close>).
  \<^item> \<open>Octal\<close>: \<open>snprintf\<close> of octal numbers, \<open>strtol\<close> and \<open>strtoul\<close> (locale \<open>numeric_field\<close>).
  \<^item> \<open>StdContainers\<close>: \<open>std::map\<close> and \<open>std::set\<close> as ascending lists (locale \<open>ordered_map\<close>) and
    \<open>std::sort\<close> (locale \<open>sorting\<close>). \<open>std_sort\<close> is the insertion sort that libstdc++ runs on up to 16 elements; for
    longer ranges libstdc++ may order elements with equal keys in another way. The properties use a
    rearrangement in ascending order, not the order of equal keys.

  sltar

  \<^item> \<open>SltarHeader\<close>: the device number macros, \<open>enum Header\<close> (\<open>off\<close>), \<open>enum Type\<close> (\<open>typeflag\<close>), \<open>chksum\<close> and the header
    block that \<open>c_file\<close> fills in (\<open>header_base\<close>, \<open>header_typed\<close>, \<open>header_block\<close>).
  \<^item> \<open>Sltar\<close>: \<open>c_file\<close>, \<open>c\<close> (\<open>c_op\<close>), \<open>x\<close> (\<open>x_op\<close>), \<open>t\<close> (\<open>t_op\<close>), \<open>tar\<close> and \<open>main\<close> (\<open>sltar_main\<close>). Standard
    input is the list of bytes still to be read. Every call to the system is an event of a trace, and a parameter says
    how the system answers a call, given the trace before it. A \<open>char\<close> is signed, \<open>int\<close> has 32 and \<open>long\<close> 64 bits.
  \<^item> \<open>SltarFacts\<close>, \<open>SltarRun\<close>: fields of a header as the reader finds them, the data loops, whole runs; \<open>replay\<close> is the
    abstract meaning of a trace, the files that exist after it.
  \<^item> \<open>SltarProps\<close>: what is archived is extracted and listed again, checksums, bounds, and the cases in which the program fails.

  patchelf: the model

  \<^item> \<open>Endian\<close>: integers as bytes, \<open>rdi\<close>, \<open>wri\<close> and \<open>roundUp\<close>.
  \<^item> \<open>ElfTypes\<close>, \<open>ElfConstants\<close>, \<open>ElfProcessor\<close>, \<open>ElfRelocations\<close>: \<open>elf.h\<close>. One record stands for the 32-bit and the 64-bit version of a
    structure, over the width of an address; the locale \<open>layout\<close> is the contract between a structure and its image. The named
    numbers are tables from names to values, one for each field, and the names \<open>patchelf\<close> uses are abbreviations.
  \<^item> \<open>ElfState\<close>: the class \<open>ElfFile\<close> with the file image and the static variables (record \<open>ElfFile\<close>), \<open>growFile\<close>,
    \<open>readFile\<close>, \<open>checkPointer\<close>, \<open>parse\<close>, the lookups of sections, \<open>replaceSection\<close>, \<open>setSubstr\<close>. The ELF header is
    not a copy: as in the code it is the start of the image.
  \<^item> \<open>ElfRewrite\<close>: \<open>sortPhdrs\<close>, \<open>sortShdrs\<close>, \<open>shiftFile\<close>, \<open>writeReplacedSections\<close>, \<open>rewriteHeaders\<close>.
  \<^item> \<open>ElfLayout\<close>: \<open>rewriteSectionsLibrary\<close>, \<open>rewriteSectionsExecutable\<close>, \<open>rewriteSections\<close>.
  \<^item> \<open>ElfDynamic\<close>: the operations of the command line, from \<open>getInterpreter\<close> to \<open>noDefaultLib\<close>.
  \<^item> \<open>ElfMain\<close>: the option loop of \<open>main\<close> (\<open>parse_args\<close>), \<open>patchElf2\<close>, \<open>patchElf\<close>.

  A run is \<open>patchelf_main\<close>: it parses the options, reads the file, lets \<open>parse\<close> fill the state, applies the
  operations in the fixed order of \<open>patchElf2\<close> (\<open>apply_options\<close>), which change entries in place or put longer sections
  into \<open>replacedSections\<close>, and, when \<open>changed\<close> is set, lets \<open>rewriteSections\<close> place the replaced sections. The result is an error, or the
  lines printed and the new contents. A failed \<open>assert\<close>, a call of \<open>error\<close> and an access outside the image or a vector are
  three different errors; what the code would do after such an access is undefined and not modelled. Fields that the code stores without
  \<open>wri\<close> are stored so in the model.

  patchelf: the proofs

  \<^item> \<open>ElfTypeProps\<close>: images of structures, byte order, packed fields, order of the program headers.
  \<^item> \<open>ElfFacts\<close>, \<open>ElfOps\<close>, \<open>ElfOpsProps\<close>, \<open>ElfStateProps\<close>: accesses to the image, what every operation keeps, what \<open>parse\<close> establishes, the
    lookup of sections.
  \<^item> \<open>ElfTable\<close>, \<open>ElfGrow\<close>, \<open>ElfGrowProps\<close>: dynamic sections as lists of entries (\<open>dyn_table\<close>), removal in place, entries and
    strings added to copies; adding libraries refines an operation on lists of names.
  \<^item> \<open>ElfPlace\<close>, \<open>ElfPlaceProps\<close>, \<open>ElfLayoutProps\<close>, \<open>ElfHeaders\<close>: where replaced sections and the new segment go, which program
    headers follow them, and that the header tables in the file are those of the state afterwards.
  \<^item> \<open>ElfSort\<close>, \<open>ElfSortProps\<close>: sorting section headers keeps every reference between sections and changes nothing else.
  \<^item> \<open>ElfSearch\<close>, \<open>ElfSearchProps\<close>: the search path as the dynamic linker picks it; setting it by any of the three ways of
    \<open>modifyRPath\<close> and removing it.
  \<^item> \<open>ElfReplaceProps\<close>: replacing libraries refines a map over the list of their names.
  \<^item> \<open>ElfWriteProps\<close>: writing the replaced sections completes when there is room and changes the contents of no section.
  \<^item> \<open>ElfStringProps\<close>: of two strings added in one run the later one overwrites the earlier one: after a new name and a longer
    search path the name of the library is the search path.
  \<^item> \<open>ElfRefreshProps\<close>, \<open>ElfSymbolProps\<close>: after the sections have moved, the entries of the dynamic section have the new addresses
    (\<open>rewrite_dynamic\<close>) and the symbols are in the sections of the names they were in (\<open>rewrite_symbols\<close>).
  \<^item> \<open>ElfLoopProps\<close>: when a walk over the dynamic section ends, what \<open>printNeededLibs\<close> prints and \<open>noDefaultLib\<close> sets.
  \<^item> \<open>ElfPathProps\<close>, \<open>ElfArgProps\<close>: the shrunk search path finds the same libraries; every option has the effect that
    \<open>effect\<close> states for it, apart from the tables of the loop.
  \<^item> \<open>ElfExample\<close>: the small files and states of the witnesses.

  Bounds. A loop over a dynamic section ends at the tag \<open>DT_NULL\<close>; the model gives it as many steps as entries have their tag inside the
  image (\<open>dyn_count\<close>), so that a step more would read outside, which is the error the model gives. \<open>growFile\<close> fails
  beyond \<open>maxSize\<close>, as the code does. All other loops are over lists or descend in a length. The
  loops of \<open>rewriteHeaders\<close> and \<open>shiftFile\<close> over the header tables take \<open>e_phnum\<close> and \<open>e_shnum\<close> once, where the code reads them
  from the image in every round; the two differ only if a table overlaps the ELF header. Properties about sizes ask for
  sums below 4 GiB where the code computes them in 32 bits.

  Not modelled. \<open>debug\<close>, \<open>showHelp\<close>, the wording that \<open>error\<close> adds from \<open>errno\<close>, and the system calls of \<open>readFile\<close>
  and \<open>writeFile\<close>: they only move bytes to and from the outside. The programs and scripts of the test suite and the build files of
  \<open>patchelf\<close>, the Python hub, the Go proxy and tests, and the Docker files are glue in other languages
  or input of tools without logic of their own in C.
\<close>

end
